(* ===== verification/Prelude.thy ===== *)
theory Prelude
  imports Main "HOL-Library.AList" "HOL-Library.Multiset" "HOL-Library.Sublist"
begin

text \<open>
  Shared vocabulary of the development.

  \<^item> \<open>('e,'a) res\<close>: the outcome of a Go call: a value, an error value, or a
    run-time panic (nil dereference, index out of range, comparison of
    uncomparable values).
  \<^item> \<open>('w,'e,'a) op\<close>: a call that reads and changes a state \<open>'w\<close>.  Effects made
    before an error are kept, as in the code: nothing is rolled back implicitly.
  \<^item> \<open>bnd\<close> is the sequence ``if err != nil return err'', \<open>handle\<close> is a call whose
    error is inspected, \<open>foldE\<close> and \<open>forE\<close> are loops that return early on error.
  \<^item> the string functions of the Go library that the sources use.
  \<^item> \<open>along R m\<close>: the operation \<open>m\<close> relates each state to its successor by \<open>R\<close> on
    every path, error and panic paths included; the locale \<open>step_rel\<close> gives the
    composition rules once for every reflexive and transitive \<open>R\<close>.
\<close>

named_theorems op_simps "unfolding of the sequencing operators on a state"
named_theorems along_intros "compositional rules for along"

section \<open>Outcomes and operations\<close>

datatype ('e, 'a) res = Ok 'a | Err 'e | Panic

type_synonym ('w, 'e, 'a) op = "'w \<Rightarrow> ('e, 'a) res \<times> 'w"

definition ret :: "'a \<Rightarrow> ('w, 'e, 'a) op" where
  "ret x = (\<lambda>w. (Ok x, w))"

definition fail :: "'e \<Rightarrow> ('w, 'e, 'a) op" where
  "fail e = (\<lambda>w. (Err e, w))"

definition panic :: "('w, 'e, 'a) op" where
  "panic = (\<lambda>w. (Panic, w))"

definition bnd :: "('w, 'e, 'a) op \<Rightarrow> ('a \<Rightarrow> ('w, 'e, 'b) op) \<Rightarrow> ('w, 'e, 'b) op" where
  "bnd m f = (\<lambda>w. case m w of
      (Ok x, w') \<Rightarrow> f x w'
    | (Err e, w') \<Rightarrow> (Err e, w')
    | (Panic, w') \<Rightarrow> (Panic, w'))"

definition handle :: "('w, 'e, 'a) op \<Rightarrow> ('e \<Rightarrow> ('w, 'e, 'b) op) \<Rightarrow> ('a \<Rightarrow> ('w, 'e, 'b) op)
    \<Rightarrow> ('w, 'e, 'b) op" where
  "handle m h f = (\<lambda>w. case m w of
      (Ok x, w') \<Rightarrow> f x w'
    | (Err e, w') \<Rightarrow> h e w'
    | (Panic, w') \<Rightarrow> (Panic, w'))"

definition lift_res :: "('e, 'a) res \<Rightarrow> ('w, 'e, 'a) op" where
  "lift_res r = (\<lambda>w. (r, w))"

definition asks :: "('w \<Rightarrow> 'a) \<Rightarrow> ('w, 'e, 'a) op" where
  "asks f = (\<lambda>w. (Ok (f w), w))"

definition modify :: "('w \<Rightarrow> 'w) \<Rightarrow> ('w, 'e, unit) op" where
  "modify f = (\<lambda>w. (Ok (), f w))"

definition whenE :: "bool \<Rightarrow> ('w, 'e, unit) op \<Rightarrow> ('w, 'e, unit) op" where
  "whenE b m = (if b then m else ret ())"

fun foldE :: "('b \<Rightarrow> 'a \<Rightarrow> ('w, 'e, 'b) op) \<Rightarrow> 'b \<Rightarrow> 'a list \<Rightarrow> ('w, 'e, 'b) op" where
  "foldE f acc [] = ret acc"
| "foldE f acc (x # xs) = bnd (f acc x) (\<lambda>acc'. foldE f acc' xs)"

fun forE :: "('a \<Rightarrow> ('w, 'e, unit) op) \<Rightarrow> 'a list \<Rightarrow> ('w, 'e, unit) op" where
  "forE f [] = ret ()"
| "forE f (x # xs) = bnd (f x) (\<lambda>_. forE f xs)"

lemma ret_apply [simp, op_simps]: "ret x w = (Ok x, w)" by (simp add: ret_def)
lemma fail_apply [simp, op_simps]: "fail e w = (Err e, w)" by (simp add: fail_def)
lemma panic_apply [simp, op_simps]: "panic w = (Panic, w)" by (simp add: panic_def)
lemma lift_res_apply [simp, op_simps]: "lift_res r w = (r, w)" by (simp add: lift_res_def)
lemma asks_apply [simp, op_simps]: "asks f w = (Ok (f w), w)" by (simp add: asks_def)
lemma modify_apply [simp, op_simps]: "modify f w = (Ok (), f w)" by (simp add: modify_def)

lemma bnd_apply [op_simps]:
  "bnd m f w = (case m w of (Ok x, w') \<Rightarrow> f x w' | (Err e, w') \<Rightarrow> (Err e, w')
     | (Panic, w') \<Rightarrow> (Panic, w'))"
  by (simp add: bnd_def)

lemma handle_apply [op_simps]:
  "handle m h f w = (case m w of (Ok x, w') \<Rightarrow> f x w' | (Err e, w') \<Rightarrow> h e w'
     | (Panic, w') \<Rightarrow> (Panic, w'))"
  by (simp add: handle_def)

lemma whenE_simps [simp, op_simps]: "whenE True m = m" "whenE False m = ret ()"
  by (simp_all add: whenE_def)

lemma bnd_Ok [simp]: "m w = (Ok x, w') \<Longrightarrow> bnd m f w = f x w'" by (simp add: bnd_apply)
lemma bnd_Err [simp]: "m w = (Err e, w') \<Longrightarrow> bnd m f w = (Err e, w')" by (simp add: bnd_apply)
lemma bnd_Panic [simp]: "m w = (Panic, w') \<Longrightarrow> bnd m f w = (Panic, w')" by (simp add: bnd_apply)
lemma handle_Ok [simp]: "m w = (Ok x, w') \<Longrightarrow> handle m h f w = f x w'" by (simp add: handle_apply)
lemma handle_Err [simp]: "m w = (Err e, w') \<Longrightarrow> handle m h f w = h e w'" by (simp add: handle_apply)
lemma handle_Panic [simp]: "m w = (Panic, w') \<Longrightarrow> handle m h f w = (Panic, w')"
  by (simp add: handle_apply)

text \<open>The sequencing laws: \<open>ret\<close> is neutral and \<open>bnd\<close> is associative.\<close>

lemma ret_bnd [simp]: "bnd (ret x) f = f x" by (simp add: fun_eq_iff bnd_apply)
lemma bnd_ret [simp]: "bnd m ret = m"
  by (auto simp: fun_eq_iff bnd_apply split: prod.splits res.splits)
lemma bnd_assoc: "bnd (bnd m f) g = bnd m (\<lambda>x. bnd (f x) g)"
  by (auto simp: fun_eq_iff bnd_apply split: prod.splits res.splits)
lemma fail_bnd [simp]: "bnd (fail e) f = fail e" by (simp add: fun_eq_iff bnd_apply)
lemma panic_bnd [simp]: "bnd panic f = panic" by (simp add: fun_eq_iff bnd_apply)

lemma bnd_OkE:
  assumes "bnd m f w = (Ok y, w')"
  obtains x w1 where "m w = (Ok x, w1)" "f x w1 = (Ok y, w')"
  using assms by (auto simp: bnd_apply split: prod.splits res.splits)

lemma foldE_append: "foldE f acc (xs @ ys) = bnd (foldE f acc xs) (\<lambda>a. foldE f a ys)"
  by (induction xs arbitrary: acc) (simp_all add: bnd_assoc)

lemma forE_append: "forE f (xs @ ys) = bnd (forE f xs) (\<lambda>_. forE f ys)"
  by (induction xs) (simp_all add: bnd_assoc)

section \<open>State relations kept by operations\<close>

definition along :: "('w \<Rightarrow> 'w \<Rightarrow> bool) \<Rightarrow> ('w, 'e, 'a) op \<Rightarrow> bool" where
  "along R m \<longleftrightarrow> (\<forall>w. R w (snd (m w)))"

lemma alongI: "(\<And>w. R w (snd (m w))) \<Longrightarrow> along R m" by (simp add: along_def)

lemma alongD: "along R m \<Longrightarrow> m w = (r, w') \<Longrightarrow> R w w'" by (metis along_def snd_conv)

locale step_rel =
  fixes R :: "'w \<Rightarrow> 'w \<Rightarrow> bool"
  assumes rel_refl: "R w w"
    and rel_trans: "R a b \<Longrightarrow> R b c \<Longrightarrow> R a c"
begin

lemma along_ret [along_intros]: "along R (ret x)" by (simp add: along_def rel_refl)
lemma along_fail [along_intros]: "along R (fail e)" by (simp add: along_def rel_refl)
lemma along_panic [along_intros]: "along R panic" by (simp add: along_def rel_refl)
lemma along_lift [along_intros]: "along R (lift_res r)" by (simp add: along_def rel_refl)
lemma along_asks [along_intros]: "along R (asks f)" by (simp add: along_def rel_refl)

lemma along_bnd [along_intros]:
  assumes "along R m" "\<And>x. along R (f x)" shows "along R (bnd m f)"
proof (rule alongI)
  fix w
  obtain r w1 where m: "m w = (r, w1)" by fastforce
  have 1: "R w w1" using assms(1) m by (rule alongD)
  have 2: "R w1 (snd (f x w1))" for x using assms(2) by (simp add: along_def)
  show "R w (snd (bnd m f w))"
    using m 1 2 rel_trans by (cases r) (auto simp: bnd_apply)
qed

lemma along_handle [along_intros]:
  assumes "along R m" "\<And>e. along R (h e)" "\<And>x. along R (f x)" shows "along R (handle m h f)"
proof (rule alongI)
  fix w
  obtain r w1 where m: "m w = (r, w1)" by fastforce
  have 1: "R w w1" using assms(1) m by (rule alongD)
  have 2: "R w1 (snd (f x w1))" for x using assms(3) by (simp add: along_def)
  have 3: "R w1 (snd (h e w1))" for e using assms(2) by (simp add: along_def)
  show "R w (snd (handle m h f w))"
    using m 1 2 3 rel_trans by (cases r) (auto simp: handle_apply)
qed

lemma along_when [along_intros]: "(b \<Longrightarrow> along R m) \<Longrightarrow> along R (whenE b m)"
  by (cases b) (auto intro: along_ret)

lemma along_foldE [along_intros]: "(\<And>a x. along R (f a x)) \<Longrightarrow> along R (foldE f acc xs)"
  by (induction xs arbitrary: acc) (auto intro: along_ret along_bnd)

lemma along_forE [along_intros]: "(\<And>x. along R (f x)) \<Longrightarrow> along R (forE f xs)"
  by (induction xs) (auto intro: along_ret along_bnd)

end

text \<open>An invariant of the state is the relation ``if it held before, it holds after''.\<close>

interpretation keeps: step_rel "\<lambda>a b. I a \<longrightarrow> I b" for I
  by unfold_locales auto

text \<open>A component of the state that an operation does not change.\<close>

interpretation fixed: step_rel "\<lambda>a b. f b = f a" for f
  by unfold_locales auto

text \<open>A list-valued component that only grows at its end (an append-only log).\<close>

interpretation grows: step_rel "\<lambda>a b. prefix (f a) (f b)" for f
  by unfold_locales auto

section \<open>Strings of the Go library\<close>

fun Join :: "string \<Rightarrow> string list \<Rightarrow> string" where
  "Join sep [] = []"
| "Join sep [x] = x"
| "Join sep (x # y # ys) = x @ sep @ Join sep (y # ys)"

definition HasPrefix :: "string \<Rightarrow> string \<Rightarrow> bool" where
  "HasPrefix s p \<longleftrightarrow> take (length p) s = p"

definition HasSuffix :: "string \<Rightarrow> string \<Rightarrow> bool" where
  "HasSuffix s p \<longleftrightarrow> length p \<le> length s \<and> drop (length s - length p) s = p"

definition TrimPrefix :: "string \<Rightarrow> string \<Rightarrow> string" where
  "TrimPrefix s p = (if HasPrefix s p then drop (length p) s else s)"

fun ContainsS :: "string \<Rightarrow> string \<Rightarrow> bool" where
  "ContainsS [] p = (p = [])"
| "ContainsS (c # s) p = (HasPrefix (c # s) p \<or> ContainsS s p)"

fun SplitChar :: "char \<Rightarrow> string \<Rightarrow> string list" where
  "SplitChar c [] = [[]]"
| "SplitChar c (d # s) =
     (if d = c then [] # SplitChar c s
      else case SplitChar c s of [] \<Rightarrow> [[d]] | x # xs \<Rightarrow> (d # x) # xs)"

lemma HasPrefix_iff: "HasPrefix s p \<longleftrightarrow> prefix p s"
  unfolding HasPrefix_def by (metis append_eq_conv_conj prefix_def take_is_prefix)

lemma HasPrefix_append [simp]: "HasPrefix (p @ s) p" by (simp add: HasPrefix_def)

lemma HasSuffix_iff: "HasSuffix s p \<longleftrightarrow> suffix p s"
proof
  assume "HasSuffix s p"
  then show "suffix p s" unfolding HasSuffix_def by (metis suffix_drop)
next
  assume "suffix p s"
  then show "HasSuffix s p" by (auto simp: HasSuffix_def suffix_def)
qed

lemma SplitChar_ne [simp]: "SplitChar c s \<noteq> []"
  by (induction s) (auto split: list.splits)

lemma SplitChar_free: "c \<notin> set s \<Longrightarrow> SplitChar c s = [s]"
  by (induction s) auto

lemma SplitChar_append:
  "c \<notin> set s \<Longrightarrow> SplitChar c (s @ c # t) = s # SplitChar c t"
  by (induction s) auto

text \<open>Joining components that do not contain the separator loses nothing.\<close>

lemma Split_Join:
  assumes "xs \<noteq> []" "\<And>x. x \<in> set xs \<Longrightarrow> c \<notin> set x"
  shows "SplitChar c (Join [c] xs) = xs"
  using assms
proof (induction xs rule: induct_list012)
  case (3 x y zs)
  then show ?case by (simp add: SplitChar_append)
qed (auto simp: SplitChar_free)

lemma Join_inj:
  assumes "xs \<noteq> []" "ys \<noteq> []" "\<And>x. x \<in> set xs \<union> set ys \<Longrightarrow> c \<notin> set x"
    and "Join [c] xs = Join [c] ys"
  shows "xs = ys"
proof -
  have "SplitChar c (Join [c] xs) = xs" by (rule Split_Join) (use assms in blast)+
  moreover have "SplitChar c (Join [c] ys) = ys" by (rule Split_Join) (use assms in blast)+
  ultimately show ?thesis using assms(4) by metis
qed

section \<open>Decimal numerals\<close>

definition digit_char :: "nat \<Rightarrow> char" where
  "digit_char n = char_of (48 + n)"

definition char_digit :: "char \<Rightarrow> nat option" where
  "char_digit c = (let n = of_char c :: nat in if 48 \<le> n \<and> n \<le> 57 then Some (n - 48) else None)"

fun show_nat :: "nat \<Rightarrow> string" where
  "show_nat n = (if n < 10 then [digit_char n] else show_nat (n div 10) @ [digit_char (n mod 10)])"

declare show_nat.simps [simp del]

fun read_digits :: "nat \<Rightarrow> string \<Rightarrow> nat option" where
  "read_digits acc [] = Some acc"
| "read_digits acc (c # cs) =
     (case char_digit c of None \<Rightarrow> None | Some d \<Rightarrow> read_digits (10 * acc + d) cs)"

definition Itoa :: "int \<Rightarrow> string" where
  "Itoa n = (if n < 0 then CHR ''-'' # show_nat (nat (- n)) else show_nat (nat n))"

lemma char_digit_char [simp]: "n < 10 \<Longrightarrow> char_digit (digit_char n) = Some n"
  by (simp add: char_digit_def digit_char_def)

lemma read_digits_append:
  "read_digits acc (xs @ ys) = (case read_digits acc xs of None \<Rightarrow> None | Some a \<Rightarrow> read_digits a ys)"
  by (induction xs arbitrary: acc) (auto split: option.splits)

lemma show_nat_ne [simp]: "show_nat n \<noteq> []"
  by (subst show_nat.simps) simp

lemma read_show_nat [simp]: "read_digits 0 (show_nat n) = Some n"
proof (induction n rule: show_nat.induct)
  case (1 n)
  show ?case
  proof (cases "n < 10")
    case True
    then show ?thesis by (subst show_nat.simps) simp
  next
    case False
    then show ?thesis using 1
      by (subst show_nat.simps) (simp add: read_digits_append)
  qed
qed

lemma show_nat_inj: "show_nat a = show_nat b \<Longrightarrow> a = b"
  by (metis option.inject read_show_nat)

lemma show_nat_digits: "c \<in> set (show_nat n) \<Longrightarrow> \<exists>d<10. c = digit_char d"
proof (induction n rule: show_nat.induct)
  case (1 n)
  then show ?case
    by (cases "n < 10") (subst (asm) (2) show_nat.simps; force simp: show_nat.simps [of n])+
qed

section \<open>Association lists\<close>

text \<open>Go maps are association lists with distinct keys; ranging over one visits its
  keys in an order the language does not fix.\<close>

definition alist_get :: "('k \<times> 'v) list \<Rightarrow> 'v \<Rightarrow> 'k \<Rightarrow> 'v" where
  "alist_get m d k = (case map_of m k of Some v \<Rightarrow> v | None \<Rightarrow> d)"

lemma map_of_update [simp]: "map_of (AList.update k v al) = (map_of al)(k \<mapsto> v)"
  by (rule update_conv')

lemma map_of_delete [simp]: "map_of (AList.delete k al) = (map_of al)(k := None)"
  by (rule delete_conv')

lemma alist_get_update [simp]:
  "alist_get (AList.update k v m) d k' = (if k' = k then v else alist_get m d k')"
  by (simp add: alist_get_def)

lemma dom_map_of: "dom (map_of al) = set (map fst al)"
  by (simp add: dom_map_of_conv_image_fst)

end
