(* ===== verification/Model_Types.thy ===== *)
theory Model_Types
  imports Prelude
begin

text \<open>
  The data of the engine: the messages of \<open>proto/shar-workflow/models.proto\<close> as
  records and datatypes, the helpers of \<open>common/id.go\<close>, \<open>common/elementutil.go\<close>,
  \<open>common/state.go\<close> and \<open>common/subj/subj.go\<close>, and the error values of
  \<open>server/errors/errors.go\<close>.

  A protobuf \<open>optional\<close> field and a message-typed field (a Go pointer) are an
  \<open>option\<close>; a \<open>repeated\<close> field is a list, a \<open>map\<close> an association list with distinct
  keys; \<open>bytes\<close> are char lists.  The element and process messages refer to each
  other, so the fields of an element other than its sub-process are the record
  \<open>elem_data\<close> and the tree is the datatype \<open>element\<close>.
\<close>

type_synonym bytes = string

section \<open>Workflow definitions\<close>

datatype gateway_type = exclusive | inclusive | parallel

datatype gateway_direction = divergent | convergent

record gateway_spec =
  gw_Type :: gateway_type
  gw_Direction :: gateway_direction
  gw_ReciprocalId :: string
  gw_FixedExpectations :: "string list"

record target =
  tg_Id :: string
  tg_Conditions :: "string list"
  tg_Target :: string

record targets =
  tgs_Target :: "target list"
  tgs_DefaultTarget :: int

record wf_error =
  er_Id :: string
  er_Name :: string
  er_Code :: string

record catch_error =
  ce_Id :: string
  ce_ErrorId :: string
  ce_Target :: string
  ce_OutputTransform :: "(string \<times> string) list"

record boundary_timer =
  bt_Id :: string
  bt_Duration :: string
  bt_Target :: string
  bt_OutputTransform :: "(string \<times> string) list"

datatype workflow_timer_type = timer_duration | timer_fixed

record workflow_timer_definition =
  wtd_Type :: workflow_timer_type
  wtd_Value :: int
  wtd_Repeat :: int
  wtd_DropEvents :: bool

datatype retry_strategy = Linear | Exponential

datatype retry_error_action = PauseWorkflow | ThrowWorkflowError | SetVariableValue | FailWorkflow

record retry_exceeded =
  rx_Action :: retry_error_action
  rx_Variable :: string
  rx_VariableType :: string
  rx_VariableValue :: string
  rx_ErrorCode :: string

record task_retry =
  rt_Number :: nat
  rt_Strategy :: retry_strategy
  rt_InitMilli :: int
  rt_IntervalMilli :: int
  rt_MaxMilli :: int
  rt_DefaultExceeded :: "retry_exceeded option"

datatype threading_type = Sequential | ParallelThreads

record iteration =
  it_Collection :: string
  it_Iterator :: string
  it_CollateAs :: string
  it_CollateFrom :: string
  it_Until :: "string option"
  it_Execute :: threading_type

record elem_data =
  el_Id :: string
  el_Name :: string
  el_Type :: string
  el_Documentation :: string
  el_Execute :: string
  el_Outbound :: "targets option"
  el_CompensateWith :: "string option"
  el_Msg :: string
  el_Candidates :: string
  el_CandidateGroups :: string
  el_Errors :: "catch_error list"
  el_Error :: "wf_error option"
  el_InputTransform :: "(string \<times> string) list"
  el_OutputTransform :: "(string \<times> string) list"
  el_Timer :: "workflow_timer_definition option"
  el_BoundaryTimer :: "boundary_timer list"
  el_Gateway :: "gateway_spec option"
  el_Iteration :: "iteration option"
  el_Version :: "string option"
  el_RetryBehaviour :: "task_retry option"
  el_IsForCompensation :: bool

datatype element = Elem (el_data: elem_data) (el_Process: "process option")
and process = Proc (pr_Elements: "element list") (pr_Id: string) (pr_TimedStart: "bool option")

record participant =
  pt_Id :: string
  pt_ProcessId :: string

record message_receiver =
  mr_Id :: string
  mr_ProcessIdToStart :: string

record message_receivers =
  mrs_MessageReceiver :: "message_receiver list"
  mrs_AssociatedWorkflowName :: string

record workflow =
  wf_Name :: string
  wf_Process :: "(string \<times> process) list"
  wf_Messages :: "elem_data list"
  wf_Errors :: "wf_error list"
  wf_GzipSource :: bytes
  wf_Collaboration :: "participant list option"
  wf_MessageReceivers :: "(string \<times> message_receivers) list"
  wf_AutoLaunchHeaders :: bytes

record workflow_version =
  wv_Id :: string
  wv_Sha256 :: bytes
  wv_Number :: int

record workflow_versions =
  wvs_Version :: "workflow_version list"
  wvs_IsExecutionDisabled :: bool

section \<open>Run-time state\<close>

datatype cancellation_state = executing | completed | terminated | errored | obsolete | compensating

record compensation =
  cp_Step :: int
  cp_TotalSteps :: int
  cp_ForTrackingId :: string

record workflow_timer =
  wt_LastFired :: int
  wt_Count :: int

record workflow_state =
  ws_WorkflowId :: string
  ws_ExecutionId :: string
  ws_ElementId :: string
  ws_ElementType :: string
  ws_Id :: "string list"
  ws_ExecuteVersion :: string
  ws_Execute :: "string option"
  ws_State :: cancellation_state
  ws_Condition :: "string option"
  ws_UnixTimeNano :: int
  ws_Vars :: bytes
  ws_Owners :: "string list"
  ws_Groups :: "string list"
  ws_Error :: "wf_error option"
  ws_Timer :: "workflow_timer option"
  ws_WorkflowName :: string
  ws_ProcessId :: string
  ws_ProcessInstanceId :: string
  ws_SatisfiesGatewayExpectation :: "(string \<times> string list) list"
  ws_GatewayExpectations :: "(string \<times> string list) list"
  ws_TraceParent :: string
  ws_Compensation :: "compensation option"
  ws_ElementName :: string
  ws_PreviousActivity :: string
  ws_PreviousElement :: string

text \<open>The zero value of \<open>model.WorkflowState\<close>: what \<open>&model.WorkflowState{}\<close> holds.\<close>

definition empty_state :: workflow_state where
  "empty_state = \<lparr> ws_WorkflowId = [], ws_ExecutionId = [], ws_ElementId = [], ws_ElementType = [],
     ws_Id = [], ws_ExecuteVersion = [], ws_Execute = None, ws_State = executing,
     ws_Condition = None, ws_UnixTimeNano = 0, ws_Vars = [], ws_Owners = [], ws_Groups = [],
     ws_Error = None, ws_Timer = None, ws_WorkflowName = [], ws_ProcessId = [],
     ws_ProcessInstanceId = [], ws_SatisfiesGatewayExpectation = [], ws_GatewayExpectations = [],
     ws_TraceParent = [], ws_Compensation = None, ws_ElementName = [], ws_PreviousActivity = [],
     ws_PreviousElement = [] \<rparr>"

record execution =
  ex_ExecutionId :: string
  ex_WorkflowId :: string
  ex_WorkflowName :: string
  ex_ProcessInstanceId :: "string list"

record process_instance =
  pi_ProcessInstanceId :: string
  pi_ExecutionId :: string
  pi_ParentProcessId :: "string option"
  pi_ParentElementId :: "string option"
  pi_WorkflowId :: string
  pi_WorkflowName :: string
  pi_ProcessId :: string
  pi_GatewayComplete :: "(string \<times> bool) list"
  pi_Headers :: bytes

record gateway =
  gt_MetExpectations :: "(string \<times> string) list"
  gt_Vars :: "bytes list"
  gt_Visits :: int

datatype history_type = processExecute | activityExecute | activityComplete | processSpawnSync
  | processComplete | processAbort | activityAbort | jobAbort | jobExecute | jobComplete
  | compensationCheckpoint

text \<open>The number protobuf gives each history type.\<close>

fun history_num :: "history_type \<Rightarrow> nat" where
  "history_num processExecute = 0"
| "history_num activityExecute = 1"
| "history_num activityComplete = 2"
| "history_num processSpawnSync = 3"
| "history_num processComplete = 4"
| "history_num processAbort = 5"
| "history_num activityAbort = 6"
| "history_num jobAbort = 7"
| "history_num jobExecute = 8"
| "history_num jobComplete = 9"
| "history_num compensationCheckpoint = 10"

record history_entry =
  he_ItemType :: history_type
  he_WorkflowId :: "string option"
  he_ExecutionId :: "string option"
  he_ElementId :: "string option"
  he_ElementName :: "string option"
  he_ProcessInstanceId :: "string option"
  he_CancellationState :: "cancellation_state option"
  he_Vars :: bytes
  he_Timer :: "workflow_timer option"
  he_Error :: "wf_error option"
  he_UnixTimeNano :: int
  he_Execute :: "string option"
  he_Id :: "string list"
  he_Compensating :: bool
  he_ProcessId :: string
  he_SatisfiesGatewayExpectation :: "(string \<times> string list) list"
  he_GatewayExpectations :: "(string \<times> string list) list"
  he_WorkflowName :: string
  he_PreviousActivity :: string
  he_PreviousElement :: string

record message_instance =
  mi_Name :: string
  mi_CorrelationKey :: string
  mi_Vars :: bytes

record sender =
  sn_Vars :: bytes
  sn_CorrelationKey :: string

record receiver =
  rc_Id :: string
  rc_CorrelationKey :: string

record exchange =
  xc_Sender :: "sender option"
  xc_Receivers :: "(string \<times> receiver) list"

datatype handling_strategy = Pause | TearDown

record fatal_error =
  fe_HandlingStrategy :: handling_strategy
  fe_WorkflowState :: workflow_state

section \<open>Task specifications\<close>

record parameter =
  pa_Name :: string
  pa_Type :: string
  pa_Collection :: bool
  pa_Mandatory :: bool
  pa_ValidateExpr :: string
  pa_Example :: string

record task_error =
  te_Name :: string
  te_Code :: string

record task_behaviour =
  tb_DefaultRetry :: "task_retry option"
  tb_EstimatedMaxDuration :: nat
  tb_Unsafe :: bool
  tb_Mock :: bool
  tb_Deprecated :: bool
  tb_MockBehaviour :: "(string \<times> string) option"

record task_metadata =
  tm_Uid :: string
  tm_Type :: string
  tm_Version :: string
  tm_Short :: string
  tm_Description :: string

record task_parameters =
  tp_Input :: "parameter list"
  tp_Output :: "parameter list"

record task_spec =
  ts_Version :: string
  ts_Kind :: string
  ts_Metadata :: "task_metadata option"
  ts_Behaviour :: "task_behaviour option"
  ts_Parameters :: "task_parameters option"
  ts_Events :: "task_error list option"

text \<open>What a client reports of itself, and what it logs.\<close>

record heartbeat_request =
  hb_Host :: string
  hb_Id :: string
  hb_Time :: int

record log_request =
  lr_Hostname :: string
  lr_ClientId :: string
  lr_TrackingId :: bytes
  lr_Level :: int
  lr_Time :: int
  lr_Source :: int
  lr_Message :: string
  lr_Attributes :: "(string \<times> string) list"

section \<open>Element types: \<open>common/element/element.go\<close>\<close>

definition CallActivity :: string where "CallActivity = ''callActivity''"
definition EndEvent :: string where "EndEvent = ''endEvent''"
definition CompensateEndEvent :: string where "CompensateEndEvent = ''compensateEndEvent''"
definition Gateway :: string where "Gateway = ''Gateway''"
definition LinkIntermediateCatchEvent :: string where "LinkIntermediateCatchEvent = ''intermediateLinkCatchEvent''"
definition LinkIntermediateThrowEvent :: string where "LinkIntermediateThrowEvent = ''intermediateLinkThrowEvent''"
definition ManualTask :: string where "ManualTask = ''manualTask''"
definition MessageIntermediateCatchEvent :: string where "MessageIntermediateCatchEvent = ''messageIntermediateCatchEvent''"
definition MessageIntermediateThrowEvent :: string where "MessageIntermediateThrowEvent = ''intermediateMessageThrowEvent''"
definition ServiceTask :: string where "ServiceTask = ''serviceTask''"
definition StartEvent :: string where "StartEvent = ''startEvent''"
definition TimedStartEvent :: string where "TimedStartEvent = ''timedStartEvent''"
definition TimerIntermediateCatchEvent :: string where "TimerIntermediateCatchEvent = ''timerIntermediateCatchEvent''"
definition UserTask :: string where "UserTask = ''userTask''"

lemmas element_type_defs = CallActivity_def
  EndEvent_def
  CompensateEndEvent_def
  Gateway_def
  LinkIntermediateCatchEvent_def
  LinkIntermediateThrowEvent_def
  ManualTask_def
  MessageIntermediateCatchEvent_def
  MessageIntermediateThrowEvent_def
  ServiceTask_def
  StartEvent_def
  TimedStartEvent_def
  TimerIntermediateCatchEvent_def
  UserTask_def

section \<open>Tracking ids: \<open>common/id.go\<close>\<close>

type_synonym tracking_id = "string list"

definition Ancestor :: "tracking_id \<Rightarrow> int \<Rightarrow> string" where
  "Ancestor t gen =
     (if 0 < length t \<and> int (length t) - 1 - gen \<ge> 0 then t ! nat (int (length t) - 1 - gen) else [])"

definition TID :: "tracking_id \<Rightarrow> string" where
  "TID t = (let gen = length t in if gen > 0 then t ! (gen - 1) else [])"

definition ParentID :: "tracking_id \<Rightarrow> string" where
  "ParentID t = Ancestor t 1"

definition Pop :: "tracking_id \<Rightarrow> tracking_id" where
  "Pop t = (if int (length t) - 1 \<ge> 0 then take (length t - 1) t else t)"

definition Push :: "tracking_id \<Rightarrow> string \<Rightarrow> tracking_id" where
  "Push t i = t @ [i]"

section \<open>Element index: \<open>common/elementutil.go\<close>\<close>

text \<open>Ranging over a Go map: \<open>ord\<close> arranges the keys.\<close>

definition rangeMap :: "(string list \<Rightarrow> string list) \<Rightarrow> (string \<times> 'v) list \<Rightarrow> (string \<times> 'v) list" where
  "rangeMap ord m = List.map_filter (\<lambda>k. map_option (Pair k) (map_of m k)) (ord (map fst m))"

fun IndexProcessElements :: "element list \<Rightarrow> (string \<times> element) list \<Rightarrow> (string \<times> element) list" where
  "IndexProcessElements [] el = el"
| "IndexProcessElements (Elem d None # is) el =
     IndexProcessElements is (AList.update (el_Id d) (Elem d None) el)"
| "IndexProcessElements (Elem d (Some (Proc es i m)) # is) el =
     IndexProcessElements is
       (IndexProcessElements es (AList.update (el_Id d) (Elem d (Some (Proc es i m))) el))"

definition ElementTable :: "(string list \<Rightarrow> string list) \<Rightarrow> workflow \<Rightarrow> (string \<times> element) list" where
  "ElementTable ord wkf =
     fold (\<lambda>(k, p) el. IndexProcessElements (pr_Elements p) el) (rangeMap ord (wf_Process wkf)) []"

section \<open>State helpers: \<open>common/state.go\<close>, \<open>common/subj/subj.go\<close>\<close>

definition DropStateParams :: "workflow_state \<Rightarrow> workflow_state" where
  "DropStateParams state = state\<lparr> ws_Execute := Some [], ws_ExecuteVersion := [],
     ws_Condition := Some [], ws_Owners := [], ws_Groups := [] \<rparr>"

text \<open>\<open>NS\<close> formats a subject that has the placeholder.  The subjects of
  \<open>server/messages/messages.go\<close> have it at most once and no other verb, so formatting
  is the replacement of its first occurrence.\<close>

fun fmt_s :: "string \<Rightarrow> string \<Rightarrow> string" where
  "fmt_s [] ns = []"
| "fmt_s [c] ns = [c]"
| "fmt_s (c # d # s) ns =
     (if c = CHR ''%'' \<and> d = CHR ''s'' then ns @ s else c # fmt_s (d # s) ns)"

definition NS :: "string \<Rightarrow> string \<Rightarrow> string" where
  "NS subj ns = (if ContainsS subj ''%s'' then fmt_s subj ns else subj)"

section \<open>Errors: \<open>server/errors/errors.go\<close>\<close>

text \<open>
  An error value is identified by the sentinel it wraps: \<open>fmt.Errorf\<close> with \<open>%w\<close> keeps
  what \<open>errors.Is\<close> and \<open>errors.As\<close> find, so wrapping is not represented and
  \<open>errors.Is(err, X)\<close> is \<open>err = X\<close>.  \<open>ErrWorkflowFatal\<close> has no \<open>Unwrap\<close> method: the error
  inside it is not seen by \<open>errors.Is\<close>.  \<open>ErrOther\<close> stands for an error made in place
  without \<open>%w\<close> or returned by a library, \<open>ErrTransport\<close> for a failed call to the NATS
  server.  \<open>WorkflowError\<close> is a value of \<open>workflow.Error\<close> and \<open>WorkflowErrorRef\<close> a pointer to
  one, which \<open>errors.As\<close> tells apart; \<open>ApiError\<close> is the \<open>*api.Error\<close> of a client call.
\<close>

datatype goerr =
    ErrKeyNotFound | ErrNoKeysFound | ErrKeyExists | ErrWrongLastSequence
  | ErrConsumerNotFound | ErrStreamNotFound | ErrObjectNotFound | ErrMsgNotFound
  | ErrClosing | ErrExecutionNotFound | ErrProcessInstanceNotFound | ErrWorkflowNotFound
  | ErrWorkflowVersionNotFound | ErrElementNotFound | ErrStateNotFound | ErrJobNotFound
  | ErrMissingCorrelation | ErrWorkflowErrorNotFound | ErrUndefinedVariable
  | ErrMissingErrorCode | ErrBadlyQuotedIdentifier | ErrServiceTaskAlreadyRegistered
  | ErrFailedToParseISO8601 | ErrBadTimerEventDefinition | ErrBadTimeCycle
  | ErrCorrelationFail | ErrMissingID | ErrMissingServiceTaskDefinition | ErrExtractingVar
  | ErrExpectedVar | ErrCancelFailed | ErrInvalidState | ErrApiAuthZFail | ErrApiAuthNFail
  | ErrLint | ErrGatewayInstanceNotFound | ErrProcessNotFound | ErrDeprecateServiceTaskInUse
  | ErrUnhandledWorkflowError | ErrVarNotFound
  | ErrWorkflowFatal goerr "workflow_state option"
  | WorkflowError string
  | WorkflowErrorRef string
  | ApiError nat
  | ErrTransport string
  | ErrOther string

fun IsWorkflowFatal :: "goerr \<Rightarrow> bool" where
  "IsWorkflowFatal (ErrWorkflowFatal e s) = True"
| "IsWorkflowFatal _ = False"

definition integrityErrors :: "goerr list" where
  "integrityErrors = [ErrKeyNotFound, ErrNoKeysFound, ErrConsumerNotFound, ErrStreamNotFound,
     ErrObjectNotFound, ErrMsgNotFound, ErrElementNotFound, ErrJobNotFound, ErrExecutionNotFound,
     ErrProcessNotFound, ErrProcessInstanceNotFound, ErrStateNotFound, ErrWorkflowNotFound,
     ErrGatewayInstanceNotFound, ErrWorkflowVersionNotFound, ErrWorkflowErrorNotFound]"

definition IsNotFound :: "goerr \<Rightarrow> bool" where
  "IsNotFound err \<longleftrightarrow> list_ex (\<lambda>e. err = e) integrityErrors"

definition CheckIfFatal :: "goerr \<Rightarrow> goerr" where
  "CheckIfFatal err =
     (if IsWorkflowFatal err then err
      else if IsNotFound err then ErrWorkflowFatal err None
      else err)"

definition Errorf :: "goerr \<Rightarrow> goerr" where
  "Errorf err = CheckIfFatal err"

section \<open>Laws of the tracking id stack\<close>

text \<open>A call stack of ids: what the engine relies on when it pushes a new activity or job
  id and later pops it to address the caller.\<close>

locale id_stack =
  fixes push :: "'t \<Rightarrow> string \<Rightarrow> 't"
    and pop :: "'t \<Rightarrow> 't"
    and top :: "'t \<Rightarrow> string"
    and parent :: "'t \<Rightarrow> string"
  assumes top_push: "top (push t i) = i"
    and pop_push: "pop (push t i) = t"
    and parent_push: "parent (push t i) = top t"
begin

lemma parent_push_push: "parent (push (push t a) b) = a"
  by (simp add: parent_push top_push)

lemma pop_push_list: "(pop ^^ length is) (fold (\<lambda>i s. push s i) is t) = t"
  by (induction "is" arbitrary: t) (simp_all add: pop_push funpow_swap1)

lemma push_inj: "push t i = push u j \<Longrightarrow> t = u \<and> i = j"
  by (metis pop_push top_push)

end

lemma nat_int_pred: "nat (int n - 1) = n - 1" by arith

interpretation tid: id_stack Push Pop TID ParentID
proof
  fix t :: "string list" and i :: string
  show "TID (Push t i) = i" by (simp add: TID_def Push_def)
  show "Pop (Push t i) = t" by (simp add: Pop_def Push_def)
  show "ParentID (Push t i) = TID t"
    by (cases "t = []") (simp_all add: ParentID_def Ancestor_def TID_def Push_def nat_int_pred nth_append)
qed

lemmas tid_simps [simp] = tid.top_push tid.pop_push tid.parent_push

lemma Push_ne [simp]: "Push t i \<noteq> []" by (simp add: Push_def)

lemma length_Pop: "length (Pop t) = length t - 1" by (auto simp: Pop_def)

lemma Push_Pop: "t \<noteq> [] \<Longrightarrow> Push (Pop t) (TID t) = t"
  by (cases t rule: rev_exhaust) (auto simp: Push_def Pop_def TID_def)

section \<open>Laws of the element index\<close>

text \<open>All the elements below a list of elements, sub-processes included.\<close>

fun flatten_elements :: "element list \<Rightarrow> element list" where
  "flatten_elements [] = []"
| "flatten_elements (Elem d None # is) = Elem d None # flatten_elements is"
| "flatten_elements (Elem d (Some (Proc es i m)) # is) =
     Elem d (Some (Proc es i m)) # flatten_elements es @ flatten_elements is"

definition element_id :: "element \<Rightarrow> string" where
  "element_id e = el_Id (el_data e)"

definition workflow_elements :: "workflow \<Rightarrow> element list" where
  "workflow_elements wkf = concat (map (\<lambda>(k, p). flatten_elements (pr_Elements p)) (wf_Process wkf))"

abbreviation keyed :: "element list \<Rightarrow> (string \<times> element) list" where
  "keyed es \<equiv> map (\<lambda>e. (element_id e, e)) es"

lemma map_of_Index:
  "map_of (IndexProcessElements es el) = map_of (rev (keyed (flatten_elements es)) @ el)"
  by (induction es el rule: IndexProcessElements.induct)
     (auto simp: element_id_def fun_eq_iff map_add_def split: option.splits)

lemma set_rangeMap:
  assumes "mset (ord (map fst m)) = mset (map fst m)" "distinct (map fst m)"
  shows "set (rangeMap ord m) = set m"
proof -
  have "set (ord (map fst m)) = fst ` set m" using assms(1) by (metis set_map set_mset_mset)
  then show ?thesis using assms(2)
    by (force simp: rangeMap_def map_filter_def image_iff map_of_eq_Some_iff)
qed

lemma map_of_fold_Index:
  "map_of (fold (\<lambda>(k, p) el. IndexProcessElements (pr_Elements p) el) ps el) =
     map_of (rev (keyed (concat (map (\<lambda>(k, p). flatten_elements (pr_Elements p)) ps))) @ el)"
  by (induction ps arbitrary: el) (auto simp: map_of_Index)

lemma map_of_keyed_rev:
  assumes "\<And>a b. a \<in> set es \<Longrightarrow> b \<in> set es \<Longrightarrow> element_id a = element_id b \<Longrightarrow> a = b"
  shows "map_of (rev (keyed es)) i = Some e \<longleftrightarrow> e \<in> set es \<and> element_id e = i"
proof
  assume "map_of (rev (keyed es)) i = Some e"
  then show "e \<in> set es \<and> element_id e = i" by (auto dest: map_of_SomeD)
next
  assume e: "e \<in> set es \<and> element_id e = i"
  then have "(i, e) \<in> set (rev (keyed es))" by auto
  then have "map_of (rev (keyed es)) i \<noteq> None" 
    by (metis (no_types, lifting) map_of_eq_None_iff fst_conv image_eqI)
  then obtain e' where e': "map_of (rev (keyed es)) i = Some e'" by auto
  then have "e' \<in> set es" "element_id e' = i" by (auto dest: map_of_SomeD)
  with e assms e' show "map_of (rev (keyed es)) i = Some e" by metis
qed

lemma map_of_ElementTable:
  assumes "mset (ord (map fst (wf_Process wkf))) = mset (map fst (wf_Process wkf))"
    and "distinct (map fst (wf_Process wkf))"
    and "\<And>a b. a \<in> set (workflow_elements wkf) \<Longrightarrow> b \<in> set (workflow_elements wkf)
           \<Longrightarrow> element_id a = element_id b \<Longrightarrow> a = b"
  shows "map_of (ElementTable ord wkf) i = Some e \<longleftrightarrow>
           e \<in> set (workflow_elements wkf) \<and> element_id e = i"
proof -
  let ?es = "concat (map (\<lambda>(k, p). flatten_elements (pr_Elements p)) (rangeMap ord (wf_Process wkf)))"
  have s: "set ?es = set (workflow_elements wkf)"
    using set_rangeMap [where ord = ord and m = "wf_Process wkf"] assms(1,2) by (simp add: workflow_elements_def)
  have "map_of (ElementTable ord wkf) i = Some e \<longleftrightarrow> e \<in> set ?es \<and> element_id e = i"
    unfolding ElementTable_def map_of_fold_Index append_Nil2
    by (rule map_of_keyed_rev) (use s assms(3) in blast)
  then show ?thesis unfolding s .
qed

section \<open>Laws of subjects and errors\<close>

lemma NS_idem:
  assumes "\<not> ContainsS (NS subj ns) ''%s''" shows "NS (NS subj ns) ns' = NS subj ns"
  using assms by (simp add: NS_def)

lemma IsNotFound_not_fatal: "IsNotFound e \<Longrightarrow> \<not> IsWorkflowFatal e"
  by (cases e) (auto simp: IsNotFound_def integrityErrors_def)

lemma CheckIfFatal_idem: "CheckIfFatal (CheckIfFatal e) = CheckIfFatal e"
  by (simp add: CheckIfFatal_def)

lemma Errorf_fatal_iff: "IsWorkflowFatal (Errorf e) \<longleftrightarrow> IsWorkflowFatal e \<or> IsNotFound e"
  by (simp add: CheckIfFatal_def Errorf_def)

end
