(* ===== verification/KV_Store.thy ===== *)
theory KV_Store
  imports Model_Types
begin

text \<open>
  The key-value buckets the engine keeps its state in, and the compare-and-swap loop
  \<open>updateKV\<close> and the locks of \<open>common/natsutil.go\<close>.

  A bucket is the state the JetStream key-value interface documents: for every key ever
  written, the revision of its last operation and the value, or a delete marker.  A
  bucket numbers its operations, \<open>Create\<close> refuses a live key, \<open>Update\<close> refuses a stale
  revision, \<open>Delete\<close> of any key succeeds and leaves a marker, and the subjects of the
  bucket's stream include deleted keys.  The locale \<open>kv_contract\<close> names the laws the
  engine relies on; \<open>bkt\<close> is its interpretation on the bucket.
\<close>

record 'v bucket =
  b_seq :: nat
  b_ents :: "(string \<times> (nat \<times> 'v option)) list"

definition empty_bucket :: "'v bucket" where
  "empty_bucket = \<lparr> b_seq = 0, b_ents = [] \<rparr>"

definition kv_get :: "'v bucket \<Rightarrow> string \<Rightarrow> 'v option" where
  "kv_get b k = (case map_of (b_ents b) k of Some (r, v) \<Rightarrow> v | None \<Rightarrow> None)"

definition kv_rev :: "'v bucket \<Rightarrow> string \<Rightarrow> nat" where
  "kv_rev b k = (case map_of (b_ents b) k of Some (r, v) \<Rightarrow> r | None \<Rightarrow> 0)"

definition kv_write :: "string \<Rightarrow> 'v option \<Rightarrow> 'v bucket \<Rightarrow> 'v bucket" where
  "kv_write k v b = \<lparr> b_seq = Suc (b_seq b), b_ents = AList.update k (Suc (b_seq b), v) (b_ents b) \<rparr>"

definition kv_put :: "string \<Rightarrow> 'v \<Rightarrow> 'v bucket \<Rightarrow> 'v bucket" where
  "kv_put k v = kv_write k (Some v)"

definition kv_delete :: "string \<Rightarrow> 'v bucket \<Rightarrow> 'v bucket" where
  "kv_delete k = kv_write k None"

definition kv_create :: "string \<Rightarrow> 'v \<Rightarrow> 'v bucket \<Rightarrow> (goerr, unit) res \<times> 'v bucket" where
  "kv_create k v b =
     (case kv_get b k of Some _ \<Rightarrow> (Err ErrKeyExists, b) | None \<Rightarrow> (Ok (), kv_put k v b))"

definition kv_update :: "string \<Rightarrow> 'v \<Rightarrow> nat \<Rightarrow> 'v bucket \<Rightarrow> (goerr, unit) res \<times> 'v bucket" where
  "kv_update k v rv b =
     (if kv_rev b k = rv then (Ok (), kv_put k v b) else (Err ErrWrongLastSequence, b))"

text \<open>\<open>Keys\<close> lists the live keys; the stream's subjects include the deleted ones.\<close>

definition kv_keys :: "'v bucket \<Rightarrow> string list" where
  "kv_keys b = filter (\<lambda>k. kv_get b k \<noteq> None) (map fst (b_ents b))"

definition kv_subjects :: "'v bucket \<Rightarrow> string list" where
  "kv_subjects b = map fst (b_ents b)"

text \<open>A bucket made by operations lists a key once and has no revision above its counter.\<close>

definition bucket_ok :: "'v bucket \<Rightarrow> bool" where
  "bucket_ok b \<longleftrightarrow> distinct (map fst (b_ents b)) \<and> (\<forall>(k, r, v) \<in> set (b_ents b). 0 < r \<and> r \<le> b_seq b)"

section \<open>The contract\<close>

locale kv_contract =
  fixes get :: "'b \<Rightarrow> string \<Rightarrow> 'v option"
    and put :: "string \<Rightarrow> 'v \<Rightarrow> 'b \<Rightarrow> 'b"
    and del :: "string \<Rightarrow> 'b \<Rightarrow> 'b"
  assumes get_put: "get (put k v b) k' = (if k' = k then Some v else get b k')"
    and get_del: "get (del k b) k' = (if k' = k then None else get b k')"
begin

lemma put_put: "get (put k v (put k u b)) = get (put k v b)"
  by (simp add: fun_eq_iff get_put)

lemma put_comm: "k \<noteq> l \<Longrightarrow> get (put k v (put l u b)) = get (put l u (put k v b))"
  by (simp add: fun_eq_iff get_put)

lemma del_put: "get (del k (put k v b)) = get (del k b)"
  by (simp add: fun_eq_iff get_put get_del)

lemma get_put_list:
  "distinct (map fst kvs) \<Longrightarrow>
     get (fold (\<lambda>(k, v). put k v) kvs b) k = (case map_of kvs k of Some v \<Rightarrow> Some v | None \<Rightarrow> get b k)"
proof (induction kvs arbitrary: b)
  case (Cons kv kvs)
  obtain l v where kv: "kv = (l, v)" by fastforce
  show ?case
  proof (cases "l = k")
    case True
    then have "map_of kvs k = None" using Cons.prems kv by (simp add: map_of_eq_None_iff)
    then show ?thesis using Cons kv True by (simp add: get_put)
  next
    case False
    then show ?thesis using Cons kv by (auto simp: get_put split: option.splits)
  qed
qed simp

lemma get_del_list: "get (fold del ks b) k = (if k \<in> set ks then None else get b k)"
  by (induction ks arbitrary: b) (auto simp: get_del)

end

interpretation bkt: kv_contract kv_get kv_put kv_delete
  by unfold_locales (auto simp: kv_get_def kv_put_def kv_delete_def kv_write_def)

lemmas kv_simps [simp] = bkt.get_put bkt.get_del

lemma kv_get_empty [simp]: "kv_get empty_bucket k = None"
  by (simp add: kv_get_def empty_bucket_def)

lemma kv_rev_put: "kv_rev (kv_put k v b) k' = (if k' = k then Suc (b_seq b) else kv_rev b k')"
  by (simp add: kv_rev_def kv_put_def kv_write_def)

lemma in_kv_keys: "k \<in> set (kv_keys b) \<longleftrightarrow> kv_get b k \<noteq> None"
proof -
  have "kv_get b k \<noteq> None \<Longrightarrow> k \<in> fst ` set (b_ents b)"
    by (metis kv_get_def map_of_eq_None_iff option.simps(4))
  then show ?thesis by (auto simp: kv_keys_def)
qed

lemma kv_keys_sub: "set (kv_keys b) \<subseteq> set (kv_subjects b)"
  by (auto simp: kv_keys_def kv_subjects_def)

lemma in_kv_subjects_write [simp]:
  "set (kv_subjects (kv_put k v b)) = insert k (set (kv_subjects b))"
  "set (kv_subjects (kv_delete k b)) = insert k (set (kv_subjects b))"
  by (simp_all add: kv_subjects_def kv_put_def kv_delete_def kv_write_def dom_update)

lemma bucket_ok_empty [simp]: "bucket_ok empty_bucket"
  by (simp add: bucket_ok_def empty_bucket_def)

lemma bucket_ok_write:
  assumes "bucket_ok b" shows "bucket_ok (kv_write k v b)"
proof -
  have d: "distinct (map fst (AList.update k (Suc (b_seq b), v) (b_ents b)))"
    using assms by (simp add: bucket_ok_def distinct_update)
  have "\<forall>(k', r, u) \<in> set (AList.update k (Suc (b_seq b), v) (b_ents b)). 0 < r \<and> r \<le> Suc (b_seq b)"
  proof clarify
    fix k' r u
    assume "(k', r, u) \<in> set (AList.update k (Suc (b_seq b), v) (b_ents b))"
    then have "map_of (AList.update k (Suc (b_seq b), v) (b_ents b)) k' = Some (r, u)"
      using d by (rule map_of_is_SomeI [rotated])
    then have "(k' = k \<and> r = Suc (b_seq b)) \<or> (k', r, u) \<in> set (b_ents b)"
      by (auto split: if_splits dest: map_of_SomeD)
    then show "0 < r \<and> r \<le> Suc (b_seq b)" using assms by (force simp: bucket_ok_def)
  qed
  with d show ?thesis by (simp add: bucket_ok_def kv_write_def)
qed

lemma bucket_ok_put [simp]: "bucket_ok b \<Longrightarrow> bucket_ok (kv_put k v b)"
  by (simp add: kv_put_def bucket_ok_write)

lemma bucket_ok_delete [simp]: "bucket_ok b \<Longrightarrow> bucket_ok (kv_delete k b)"
  by (simp add: kv_delete_def bucket_ok_write)

lemma kv_rev_le: "bucket_ok b \<Longrightarrow> kv_rev b k \<le> b_seq b"
  by (force simp: kv_rev_def bucket_ok_def split: option.splits dest: map_of_SomeD)

section \<open>The compare-and-swap loop \<open>updateKV\<close>\<close>

text \<open>
  \<open>others n\<close> is what the other clients of the bucket do between the read and the write
  of the \<open>n\<close>-th turn of the loop.  The loop may turn for ever when they keep writing the
  key, so it has fuel and \<open>None\<close> means that it is still turning.
\<close>

fun updateKV :: "nat \<Rightarrow> (nat \<Rightarrow> 'v bucket \<Rightarrow> 'v bucket) \<Rightarrow> nat \<Rightarrow> string \<Rightarrow>
    ('v \<Rightarrow> (goerr, 'v) res) \<Rightarrow> 'v bucket \<Rightarrow> ((goerr, 'v) res \<times> 'v bucket) option" where
  "updateKV 0 others n k updateFn b = None"
| "updateKV (Suc fuel) others n k updateFn b =
     (case kv_get b k of
        None \<Rightarrow> Some (Err ErrKeyNotFound, b)
      | Some entry \<Rightarrow>
          (case updateFn entry of
             Err e \<Rightarrow> Some (Err e, b)
           | Panic \<Rightarrow> Some (Panic, b)
           | Ok uv \<Rightarrow>
               (case kv_update k uv (kv_rev b k) (others n b) of
                  (Err e, b') \<Rightarrow>
                    (if e = ErrWrongLastSequence then updateKV fuel others (Suc n) k updateFn b'
                     else Some (Err e, b'))
                | (Panic, b') \<Rightarrow> Some (Panic, b')
                | (Ok _, b') \<Rightarrow> Some (Ok uv, b'))))"

text \<open>What the other clients may do: write keys.  Such a step never decreases the
  counter, and a key whose revision it keeps has kept its value.\<close>

inductive kv_steps :: "'v bucket \<Rightarrow> 'v bucket \<Rightarrow> bool" where
  kv_refl: "kv_steps b b"
| kv_step: "kv_steps b c \<Longrightarrow> kv_steps b (kv_write k v c)"

lemma kv_steps_ok: "kv_steps b c \<Longrightarrow> bucket_ok b \<Longrightarrow> bucket_ok c \<and> b_seq b \<le> b_seq c"
  by (induction rule: kv_steps.induct) (auto simp: bucket_ok_write, auto simp: kv_write_def)

lemma kv_steps_trans: "kv_steps b c \<Longrightarrow> kv_steps a b \<Longrightarrow> kv_steps a c"
  by (induction rule: kv_steps.induct) (auto intro: kv_steps.intros)

lemma kv_steps_same_rev:
  "kv_steps b c \<Longrightarrow> bucket_ok b \<Longrightarrow> kv_rev c k = kv_rev b k \<Longrightarrow> kv_get c k = kv_get b k"
proof (induction rule: kv_steps.induct)
  case (kv_step b c l v)
  show ?case
  proof (cases "l = k")
    case True
    have "kv_rev b k \<le> b_seq b" using kv_step.prems by (simp add: kv_rev_le)
    moreover have "b_seq b \<le> b_seq c" using kv_step kv_steps_ok by blast
    ultimately have False using kv_step.prems True by (simp add: kv_rev_def kv_write_def)
    then show ?thesis ..
  next
    case False
    then show ?thesis using kv_step by (simp add: kv_rev_def kv_write_def kv_get_def)
  qed
qed simp

lemma kv_update_cases:
  "kv_update k v rv b =
     (if kv_rev b k = rv then (Ok (), kv_put k v b) else (Err ErrWrongLastSequence, b))"
  by (rule kv_update_def)

text \<open>When the loop succeeds, what it wrote is the update of the value the key held at
  the moment of the write: the last write of no other client is lost.\<close>

text \<open>C26. A successful read-modify-write is atomic: whatever other writers do between the read and
  the write, the value written is the update function applied to the value that was current when
  it was written.\<close>

theorem updateKV_atomic:
  assumes "\<And>i c. kv_steps c (others i c)" "bucket_ok b"
    and "updateKV fuel others n k f b = Some (Ok uv, b')"
  shows "\<exists>c v. kv_steps b c \<and> kv_get c k = Some v \<and> f v = Ok uv \<and> b' = kv_put k uv c"
  using assms(2,3)
proof (induction fuel arbitrary: n b)
  case (Suc fuel)
  let ?c = "others n b"
  have st: "kv_steps b ?c" by (rule assms(1))
  obtain v where v: "kv_get b k = Some v" using Suc.prems by (auto split: option.splits)
  have f: "f v = Ok uv \<or> (\<exists>w. f v = Ok w)" using Suc.prems v by (auto split: res.splits)
  then obtain w where w: "f v = Ok w" by auto
  show ?case
  proof (cases "kv_rev ?c k = kv_rev b k")
    case True
    then have "kv_get ?c k = Some v" using kv_steps_same_rev [OF st Suc.prems(1)] v by simp
    moreover have "w = uv \<and> b' = kv_put k uv ?c"
      using Suc.prems(2) v w True by (auto simp: kv_update_cases)
    ultimately show ?thesis using st w by blast
  next
    case False
    then have "updateKV fuel others (Suc n) k f ?c = Some (Ok uv, b')"
      using Suc.prems(2) v w by (simp add: kv_update_cases)
    moreover have "bucket_ok ?c" using kv_steps_ok [OF st] Suc.prems(1) by blast
    ultimately obtain c u where "kv_steps ?c c \<and> kv_get c k = Some u \<and> f u = Ok uv \<and> b' = kv_put k uv c"
      using Suc.IH by blast
    then show ?thesis using st kv_steps_trans by blast
  qed
qed simp

text \<open>The loop returns as soon as one turn goes by in which nobody else writes the key.\<close>

text \<open>C27. The retry loop of a read-modify-write returns as soon as one of its attempts meets no write
  of another party to the key.\<close>

theorem updateKV_returns:
  assumes "m \<ge> n" "m < n + fuel" "\<And>c. kv_rev (others m c) k = kv_rev c k"
  shows "updateKV fuel others n k f b \<noteq> None"
  using assms
proof (induction fuel arbitrary: n b)
  case (Suc fuel)
  show ?case
  proof (cases "m = n")
    case True
    then show ?thesis using Suc.prems(3) [of b]
      by (auto simp: kv_update_cases split: option.splits res.splits prod.splits)
  next
    case False
    then have "updateKV fuel others (Suc n) k f c \<noteq> None" for c
      using Suc.IH [of "Suc n" c] Suc.prems by simp
    then show ?thesis
      by (auto simp: kv_update_cases split: option.splits res.splits prod.splits)
  qed
qed simp

text \<open>Undisturbed, the loop is one read, one update and one write.\<close>

definition updateKV_spec :: "string \<Rightarrow> ('v \<Rightarrow> (goerr, 'v) res) \<Rightarrow> 'v bucket \<Rightarrow> (goerr, 'v) res \<times> 'v bucket" where
  "updateKV_spec k f b =
     (case kv_get b k of
        None \<Rightarrow> (Err ErrKeyNotFound, b)
      | Some v \<Rightarrow> (case f v of Ok u \<Rightarrow> (Ok u, kv_put k u b) | Err e \<Rightarrow> (Err e, b) | Panic \<Rightarrow> (Panic, b)))"

lemma updateKV_undisturbed:
  "updateKV (Suc fuel) (\<lambda>_ c. c) n k f b = Some (updateKV_spec k f b)"
  by (auto simp: updateKV_spec_def kv_update_cases split: option.splits res.splits)

section \<open>Locks\<close>

definition Lock :: "string \<Rightarrow> unit bucket \<Rightarrow> (goerr, bool) res \<times> unit bucket" where
  "Lock lockID b =
     (case kv_create lockID () b of
        (Ok _, b') \<Rightarrow> (Ok True, b')
      | (Err e, b') \<Rightarrow> (if e = ErrKeyExists then (Ok False, b') else (Err e, b'))
      | (Panic, b') \<Rightarrow> (Panic, b'))"

definition UnLock :: "string \<Rightarrow> unit bucket \<Rightarrow> (goerr, unit) res \<times> unit bucket" where
  "UnLock lockID b =
     (case kv_get b lockID of
        None \<Rightarrow> (Err ErrKeyNotFound, b)
      | Some _ \<Rightarrow> (Ok (), kv_delete lockID b))"

text \<open>The contract of a lock: it is granted exactly when free, and held from then until it
  is released.\<close>

locale mutex =
  fixes acquire :: "'b \<Rightarrow> (goerr, bool) res \<times> 'b"
    and release :: "'b \<Rightarrow> (goerr, unit) res \<times> 'b"
    and held :: "'b \<Rightarrow> bool"
  assumes acquire_free: "\<not> held b \<Longrightarrow> \<exists>b'. acquire b = (Ok True, b') \<and> held b'"
    and acquire_held: "held b \<Longrightarrow> acquire b = (Ok False, b)"
    and release_held: "held b \<Longrightarrow> \<exists>b'. release b = (Ok (), b') \<and> \<not> held b'"
    and release_free: "\<not> held b \<Longrightarrow> release b = (Err ErrKeyNotFound, b)"
begin

lemma second_acquire_refused: "acquire b = (Ok True, b1) \<Longrightarrow> acquire b1 = (Ok False, b1)"
  using acquire_free [of b] acquire_held [of b] acquire_held [of b1] by force

lemma acquire_again: "acquire b = (Ok True, b1) \<Longrightarrow> release b1 = (r, b2) \<Longrightarrow> r = Ok () \<and> (\<exists>b3. acquire b2 = (Ok True, b3))"
  using acquire_free [of b] acquire_held [of b] release_held [of b1] acquire_free [of b2] by force

end

interpretation lck: mutex "Lock i" "UnLock i" "\<lambda>b. kv_get b i \<noteq> None" for i
  by unfold_locales (auto simp: Lock_def UnLock_def kv_create_def split: option.splits)

text \<open>Locks of different ids do not disturb each other.\<close>

lemma Lock_other: "i \<noteq> j \<Longrightarrow> Lock i b = (r, b') \<Longrightarrow> kv_get b' j = kv_get b j"
  by (auto simp: Lock_def kv_create_def split: option.splits)

lemma UnLock_other: "i \<noteq> j \<Longrightarrow> UnLock i b = (r, b') \<Longrightarrow> kv_get b' j = kv_get b j"
  by (auto simp: UnLock_def split: option.splits)


section \<open>Prefix search\<close>

text \<open>A subject filter of NATS on dot-separated tokens.\<close>

fun subject_matches :: "string list \<Rightarrow> string list \<Rightarrow> bool" where
  "subject_matches [] [] = True"
| "subject_matches [f] (t # ts) = (f = ''>'' \<or> ((f = ''*'' \<or> f = t) \<and> ts = []))"
| "subject_matches (f # g # fs) (t # ts) = ((f = ''*'' \<or> f = t) \<and> subject_matches (g # fs) ts)"
| "subject_matches _ _ = False"

definition prefix_filter :: "string \<Rightarrow> string list" where
  "prefix_filter pre = SplitChar (CHR ''.'') pre @ [''>'']"

end
