(* ===== verification/World.thy ===== *)
theory World
  imports KV_Store "HOL-Library.Word" "HOL-Library.List_Lexorder" "HOL-Library.Char_ord"
begin

text \<open>
  The state the server's operations read and change, the code they call outside the
  repository, and the storage helpers of \<open>common/natsutil.go\<close>.

  \<^item> \<open>world\<close>: the buckets of one namespace (\<open>natz.NamespaceKvs\<close>), the messages published so
    far, the consumers created and how much of a compensation plan each has acknowledged,
    the number of ids drawn and clock readings taken, and a script of transport
    failures: every call to the NATS server consumes one entry of \<open>faults\<close>, and an entry
    \<open>Some m\<close> makes the call fail without effect.
  \<^item> \<open>env\<close>: library code as functions, and the namespace and the trace parent of the
    request: the KSUID
    generator, the clock, the expression language, the msgpack codec, the JSON
    encoder, the SHA-256 digest, whether the cache keeps an entry, the order in which ranging over a Go
    map visits the keys (one order per loop of the source, by number), the decimal text of a
    floating point number, and the generator of trace ids.
  \<^item> a bucket of the world is a pair of a selector and an update, written \<open>JobB\<close>,
    \<open>ExecutionB\<close> and so on.
\<close>

section \<open>Workflow variables\<close>

datatype int_kind = KInt | KInt8 | KInt16 | KInt32 | KInt64 | KUint | KUint8 | KUint16 | KUint32 | KUint64

text \<open>A value of Go type \<open>any\<close> as the expression language and msgpack produce them.  A
  \<open>float64\<close> is its IEEE bit pattern.\<close>

datatype val =
    VNil
  | VBool bool
  | VInt int_kind int
  | VFloat "64 word"
  | VString string
  | VStrings "string list"
  | VSlice "val list"
  | VMap "(string \<times> val) list"

type_synonym vmap = "(string \<times> val) list"

section \<open>The environment\<close>

record env =
  e_ns :: string
  e_trace :: string
  ksuid :: "nat \<Rightarrow> string"
  clock :: "nat \<Rightarrow> int"
  expr_compile :: "string \<Rightarrow> goerr option"
  expr_run :: "string \<Rightarrow> vmap \<Rightarrow> (goerr, val) res"
  expr_idents :: "string \<Rightarrow> (goerr, string list) res"
  mp_marshal :: "vmap \<Rightarrow> (goerr, bytes) res"
  mp_unmarshal :: "bytes \<Rightarrow> (goerr, vmap) res"
  mp_wire :: "val \<Rightarrow> val"
  json_workflow :: "workflow \<Rightarrow> (goerr, bytes) res"
  sha256 :: "bytes \<Rightarrow> bytes"
  cache_admits :: "string \<Rightarrow> bool"
  map_order :: "nat \<Rightarrow> string list \<Rightarrow> string list"
  fmt_float :: "64 word \<Rightarrow> string"
  trace_id :: "nat \<Rightarrow> string"

text \<open>The assumptions on the environment that theorems name.\<close>

definition fresh_ids :: "env \<Rightarrow> bool" where
  "fresh_ids E \<longleftrightarrow> (\<forall>m n. ksuid E m = ksuid E n \<longrightarrow> m = n)"

definition ranges_ok :: "env \<Rightarrow> bool" where
  "ranges_ok E \<longleftrightarrow> (\<forall>i ks. mset (map_order E i ks) = mset ks)"

text \<open>Decoding what was encoded gives a map with the same keys, in any order, and each value as
  it is represented on the wire (an \<open>int\<close> may come back with another width).\<close>

definition codec_ok :: "env \<Rightarrow> bool" where
  "codec_ok E \<longleftrightarrow> (\<forall>m b. distinct (map fst m) \<longrightarrow> mp_marshal E m = Ok b \<longrightarrow> b \<noteq> [] \<and>
     (\<exists>m'. mp_unmarshal E b = Ok m' \<and> distinct (map fst m') \<and>
        (\<forall>k. map_of m' k = map_option (mp_wire E) (map_of m k))))"

section \<open>The world\<close>

datatype payload =
    PState workflow_state
  | PFatal fatal_error
  | PMessage message_instance
  | PTask task_spec
  | PDisabled string
  | PHistory history_entry
  | PText string
  | PLog log_request

record pubmsg =
  pm_Subject :: string
  pm_ID :: string
  pm_Embargo :: int
  pm_Headers :: "(string \<times> string) list"
  pm_Payload :: payload

record world =
  kvJob :: "workflow_state bucket"
  kvVersion :: "workflow_versions bucket"
  kvDefinition :: "workflow bucket"
  kvTracking :: "workflow_state bucket"
  kvExecution :: "execution bucket"
  kvProcessInstance :: "process_instance bucket"
  kvGateway :: "gateway bucket"
  kvHistory :: "history_entry bucket"
  kvMessages :: "exchange bucket"
  kvMsgTypes :: "message_receivers bucket"
  kvTaskSpec :: "task_spec bucket"
  kvTaskSpecVer :: "string list bucket"
  kvProcess :: "string bucket"
  kvClientTask :: "string bucket"
  kvUserTasks :: "string list bucket"
  kvOwnerID :: "string bucket"
  kvOwnerName :: "string bucket"
  kvFatalError :: "fatal_error bucket"
  kvLock :: "unit bucket"
  kvClients :: "heartbeat_request bucket"
  published :: "pubmsg list"
  consumers :: "string list"
  txBuckets :: "string list"
  planAcks :: "(string \<times> nat) list"
  sCache :: "(string \<times> workflow) list"
  nextId :: nat
  ticks :: nat
  faults :: "string option list"

definition empty_world :: world where
  "empty_world = \<lparr> kvJob = empty_bucket, kvVersion = empty_bucket, kvDefinition = empty_bucket,
     kvTracking = empty_bucket, kvExecution = empty_bucket, kvProcessInstance = empty_bucket,
     kvGateway = empty_bucket, kvHistory = empty_bucket, kvMessages = empty_bucket,
     kvMsgTypes = empty_bucket, kvTaskSpec = empty_bucket, kvTaskSpecVer = empty_bucket,
     kvProcess = empty_bucket, kvClientTask = empty_bucket, kvUserTasks = empty_bucket,
     kvOwnerID = empty_bucket, kvOwnerName = empty_bucket, kvFatalError = empty_bucket,
     kvLock = empty_bucket, kvClients = empty_bucket, published = [], consumers = [], txBuckets = [], planAcks = [], sCache = [], nextId = 0, ticks = 0, faults = [] \<rparr>"

type_synonym 'a act = "(world, goerr, 'a) op"

type_synonym 'v kvref = "(world \<Rightarrow> 'v bucket) \<times> (('v bucket \<Rightarrow> 'v bucket) \<Rightarrow> world \<Rightarrow> world)"

abbreviation JobB :: "workflow_state kvref" where "JobB \<equiv> (kvJob, kvJob_update)"
abbreviation VersionB :: "workflow_versions kvref" where "VersionB \<equiv> (kvVersion, kvVersion_update)"
abbreviation DefinitionB :: "workflow kvref" where "DefinitionB \<equiv> (kvDefinition, kvDefinition_update)"
abbreviation TrackingB :: "workflow_state kvref" where "TrackingB \<equiv> (kvTracking, kvTracking_update)"
abbreviation ExecutionB :: "execution kvref" where "ExecutionB \<equiv> (kvExecution, kvExecution_update)"
abbreviation ProcessInstanceB :: "process_instance kvref" where
  "ProcessInstanceB \<equiv> (kvProcessInstance, kvProcessInstance_update)"
abbreviation GatewayB :: "gateway kvref" where "GatewayB \<equiv> (kvGateway, kvGateway_update)"
abbreviation HistoryB :: "history_entry kvref" where "HistoryB \<equiv> (kvHistory, kvHistory_update)"
abbreviation MessagesB :: "exchange kvref" where "MessagesB \<equiv> (kvMessages, kvMessages_update)"
abbreviation MsgTypesB :: "message_receivers kvref" where "MsgTypesB \<equiv> (kvMsgTypes, kvMsgTypes_update)"
abbreviation TaskSpecB :: "task_spec kvref" where "TaskSpecB \<equiv> (kvTaskSpec, kvTaskSpec_update)"
abbreviation TaskSpecVerB :: "string list kvref" where
  "TaskSpecVerB \<equiv> (kvTaskSpecVer, kvTaskSpecVer_update)"
abbreviation ProcessB :: "string kvref" where "ProcessB \<equiv> (kvProcess, kvProcess_update)"
abbreviation ClientTaskB :: "string kvref" where "ClientTaskB \<equiv> (kvClientTask, kvClientTask_update)"
abbreviation UserTasksB :: "string list kvref" where "UserTasksB \<equiv> (kvUserTasks, kvUserTasks_update)"
abbreviation OwnerIDB :: "string kvref" where "OwnerIDB \<equiv> (kvOwnerID, kvOwnerID_update)"
abbreviation OwnerNameB :: "string kvref" where "OwnerNameB \<equiv> (kvOwnerName, kvOwnerName_update)"
abbreviation FatalErrorB :: "fatal_error kvref" where
  "FatalErrorB \<equiv> (kvFatalError, kvFatalError_update)"
abbreviation LockB :: "unit kvref" where "LockB \<equiv> (kvLock, kvLock_update)"
abbreviation ClientsB :: "heartbeat_request kvref" where "ClientsB \<equiv> (kvClients, kvClients_update)"

section \<open>Calls outside the process\<close>

text \<open>One call to the NATS server.\<close>

definition io :: "unit act" where
  "io = (\<lambda>w. case faults w of
       [] \<Rightarrow> (Ok (), w)
     | None # fs \<Rightarrow> (Ok (), w\<lparr> faults := fs \<rparr>)
     | Some m # fs \<Rightarrow> (Err (ErrTransport m), w\<lparr> faults := fs \<rparr>))"

definition newID :: "env \<Rightarrow> string act" where
  "newID E = (\<lambda>w. (Ok (ksuid E (nextId w)), w\<lparr> nextId := Suc (nextId w) \<rparr>))"

definition timeNow :: "env \<Rightarrow> int act" where
  "timeNow E = (\<lambda>w. (Ok (clock E (ticks w)), w\<lparr> ticks := Suc (ticks w) \<rparr>))"

text \<open>\<open>natz.KvsFor\<close> opens the buckets of the namespace and can fail.\<close>

definition KvsFor :: "unit act" where
  "KvsFor = io"

section \<open>Storage helpers: \<open>common/natsutil.go\<close>\<close>

definition LoadObj :: "'v kvref \<Rightarrow> string \<Rightarrow> 'v act" where
  "LoadObj B k = bnd io (\<lambda>_ w. case kv_get (fst B w) k of
       Some v \<Rightarrow> (Ok v, w) | None \<Rightarrow> (Err ErrKeyNotFound, w))"

definition SaveObj :: "'v kvref \<Rightarrow> string \<Rightarrow> 'v \<Rightarrow> unit act" where
  "SaveObj B k v = bnd io (\<lambda>_. modify (snd B (kv_put k v)))"

definition DeleteObj :: "'v kvref \<Rightarrow> string \<Rightarrow> unit act" where
  "DeleteObj B k = bnd io (\<lambda>_. modify (snd B (kv_delete k)))"

text \<open>\<open>UpdateObj\<close> gets the caller's message by reference.  \<open>UpdateObjA\<close> returns what that
  message holds at the end with the error, if any: the caller's value, the value that was
  stored, or the updated one.  Nobody else writes between the read and the write of one
  operation of this model, so the loop \<open>updateKV\<close> is its first turn
  (\<open>updateKV_undisturbed\<close>).\<close>

definition UpdateObjA :: "'v kvref \<Rightarrow> string \<Rightarrow> 'v \<Rightarrow> ('v \<Rightarrow> 'v act) \<Rightarrow> ('v \<times> goerr option) act" where
  "UpdateObjA B k msg updateFn =
     handle
       (handle (LoadObj B k)
          (\<lambda>e. if e = ErrKeyNotFound then SaveObj B k msg else ret ())
          (\<lambda>_. ret ()))
       (\<lambda>e. ret (msg, Some e))
       (\<lambda>_. handle (LoadObj B k)
          (\<lambda>e. ret (msg, Some e))
          (\<lambda>v. handle (updateFn v)
              (\<lambda>e. ret (v, Some e))
              (\<lambda>uv. handle (SaveObj B k uv) (\<lambda>e. ret (uv, Some e)) (\<lambda>_. ret (uv, None)))))"

definition UpdateObjM :: "'v kvref \<Rightarrow> string \<Rightarrow> 'v \<Rightarrow> ('v \<Rightarrow> (goerr, 'v) res) \<Rightarrow> ('v \<times> goerr option) act" where
  "UpdateObjM B k msg updateFn = UpdateObjA B k msg (\<lambda>v. lift_res (updateFn v))"

definition UpdateObj :: "'v kvref \<Rightarrow> string \<Rightarrow> 'v \<Rightarrow> ('v \<Rightarrow> (goerr, 'v) res) \<Rightarrow> 'v act" where
  "UpdateObj B k msg updateFn =
     bnd (UpdateObjM B k msg updateFn) (\<lambda>(m, err). case err of None \<Rightarrow> ret m | Some e \<Rightarrow> fail e)"

definition CreateObj :: "'v kvref \<Rightarrow> string \<Rightarrow> 'v \<Rightarrow> unit act" where
  "CreateObj B k v = bnd io (\<lambda>_ w. case kv_create k v (fst B w) of (r, b) \<Rightarrow> (r, snd B (\<lambda>_. b) w))"

definition KeysOf :: "'v kvref \<Rightarrow> string list act" where
  "KeysOf B = bnd io (\<lambda>_ w. let ks = kv_keys (fst B w) in
       if ks = [] then (Err ErrNoKeysFound, w) else (Ok ks, w))"

text \<open>The \<open>slices.DeleteFunc\<close> of a prefix search: a key that cannot be read is dropped, and
  a failure other than a missing key is remembered.\<close>

fun prune_deleted :: "'v kvref \<Rightarrow> string list \<Rightarrow> (string list \<times> goerr option) act" where
  "prune_deleted B [] = ret ([], None)"
| "prune_deleted B (k # ks) =
     handle (LoadObj B k)
       (\<lambda>e. bnd (prune_deleted B ks)
              (\<lambda>(r, fnErr). ret (r, if e = ErrKeyNotFound then fnErr
                                   else (case fnErr of None \<Rightarrow> Some e | Some e' \<Rightarrow> Some e'))))
       (\<lambda>_. bnd (prune_deleted B ks) (\<lambda>(r, fnErr). ret (k # r, fnErr)))"

definition KeyPrefixSearch :: "env \<Rightarrow> 'v kvref \<Rightarrow> string \<Rightarrow> bool \<Rightarrow> bool \<Rightarrow> string list act" where
  "KeyPrefixSearch E B pre srt excludeDeleted =
     bnd io (\<lambda>_. bnd io (\<lambda>_. bnd (asks (\<lambda>w. kv_subjects (fst B w))) (\<lambda>subjects.
       let found = filter (\<lambda>k. subject_matches (prefix_filter pre) (SplitChar (CHR ''.'') k))
                     (map_order E 0 subjects);
           found = (if srt then sort found else found)
       in if excludeDeleted
          then bnd (prune_deleted B found)
                 (\<lambda>(r, fnErr). case fnErr of None \<Rightarrow> ret r | Some e \<Rightarrow> fail e)
          else ret found)))"

text \<open>\<open>KeyPrefixSearchMap\<close> returns the keys as a set; a list without repetition here.\<close>

definition KeyPrefixSearchMap :: "env \<Rightarrow> 'v kvref \<Rightarrow> string \<Rightarrow> bool \<Rightarrow> bool \<Rightarrow> string list act" where
  "KeyPrefixSearchMap E B pre srt excludeDeleted =
     bnd io (\<lambda>_. bnd io (\<lambda>_. bnd (asks (\<lambda>w. kv_subjects (fst B w))) (\<lambda>subjects.
       let found = remdups (filter (\<lambda>k. subject_matches (prefix_filter pre) (SplitChar (CHR ''.'') k))
                     (map_order E 0 subjects))
       in if srt then fail (ErrOther ''sort specified on map result'')
          else if excludeDeleted
          then bnd (prune_deleted B found)
                 (\<lambda>(r, fnErr). case fnErr of None \<Rightarrow> ret r | Some e \<Rightarrow> fail e)
          else ret found)))"

section \<open>Behaviour of the storage helpers\<close>

text \<open>A world in which no call to the server fails.\<close>

abbreviation reliable :: "world \<Rightarrow> bool" where
  "reliable w \<equiv> faults w = []"

lemma io_reliable [simp]: "reliable w \<Longrightarrow> io w = (Ok (), w)" by (simp add: io_def)

lemma KvsFor_reliable [simp]: "reliable w \<Longrightarrow> KvsFor w = (Ok (), w)" by (simp add: KvsFor_def)

lemma newID_apply [simp]: "newID E w = (Ok (ksuid E (nextId w)), w\<lparr> nextId := Suc (nextId w) \<rparr>)"
  by (simp add: newID_def)

lemma timeNow_apply [simp]: "timeNow E w = (Ok (clock E (ticks w)), w\<lparr> ticks := Suc (ticks w) \<rparr>)"
  by (simp add: timeNow_def)

lemma LoadObj_reliable [simp]:
  "reliable w \<Longrightarrow> LoadObj B k w =
     (case kv_get (fst B w) k of Some v \<Rightarrow> (Ok v, w) | None \<Rightarrow> (Err ErrKeyNotFound, w))"
  by (simp add: LoadObj_def)

lemma SaveObj_reliable [simp]: "reliable w \<Longrightarrow> SaveObj B k v w = (Ok (), snd B (kv_put k v) w)"
  by (simp add: SaveObj_def)

lemma DeleteObj_reliable [simp]: "reliable w \<Longrightarrow> DeleteObj B k w = (Ok (), snd B (kv_delete k) w)"
  by (simp add: DeleteObj_def)

text \<open>What a bucket reference has to satisfy: reading after an update, and an update does
  not change the script of failures.  Every bucket of the world satisfies it.\<close>

locale kvref_laws =
  fixes g :: "world \<Rightarrow> 'v bucket" and u :: "('v bucket \<Rightarrow> 'v bucket) \<Rightarrow> world \<Rightarrow> world"
  assumes get_upd: "g (u f w) = f (g w)"
    and upd_upd: "u f (u h w) = u (\<lambda>b. f (h b)) w"
    and faults_upd: "faults (u f w) = faults w"
begin

lemma UpdateObj_reliable:
  assumes "reliable w"
  shows "UpdateObj (g, u) k msg fn w =
    (case kv_get (g w) k of
       Some v \<Rightarrow> (case fn v of Ok x \<Rightarrow> (Ok x, u (kv_put k x) w) | Err e \<Rightarrow> (Err e, w) | Panic \<Rightarrow> (Panic, w))
     | None \<Rightarrow> (case fn msg of
           Ok x \<Rightarrow> (Ok x, u (kv_put k x) (u (kv_put k msg) w))
         | Err e \<Rightarrow> (Err e, u (kv_put k msg) w)
         | Panic \<Rightarrow> (Panic, u (kv_put k msg) w)))"
  using assms by (auto simp: UpdateObj_def UpdateObjM_def UpdateObjA_def bnd_apply handle_apply get_upd faults_upd
      split: option.splits res.splits)

text \<open>What an update leaves in the bucket: the updated value of the key, and every other
  key as it was.\<close>

lemma UpdateObj_get:
  assumes "reliable w" "UpdateObj (g, u) k msg fn w = (Ok x, w')"
  shows "fn (case kv_get (g w) k of Some v \<Rightarrow> v | None \<Rightarrow> msg) = Ok x"
    and "kv_get (g w') l = (if l = k then Some x else kv_get (g w) l)"
  using assms by (auto simp: UpdateObj_reliable get_upd split: option.splits res.splits)

end

interpretation jobR: kvref_laws kvJob kvJob_update by unfold_locales auto
interpretation executionR: kvref_laws kvExecution kvExecution_update by unfold_locales auto
interpretation processInstanceR: kvref_laws kvProcessInstance kvProcessInstance_update
  by unfold_locales auto
interpretation gatewayR: kvref_laws kvGateway kvGateway_update by unfold_locales auto
interpretation historyR: kvref_laws kvHistory kvHistory_update by unfold_locales auto
interpretation messagesR: kvref_laws kvMessages kvMessages_update by unfold_locales auto
interpretation msgTypesR: kvref_laws kvMsgTypes kvMsgTypes_update by unfold_locales auto
interpretation versionR: kvref_laws kvVersion kvVersion_update by unfold_locales auto
interpretation userTasksR: kvref_laws kvUserTasks kvUserTasks_update by unfold_locales auto
interpretation taskSpecVerR: kvref_laws kvTaskSpecVer kvTaskSpecVer_update by unfold_locales auto

lemmas UpdateObj_simps [simp] =
  jobR.UpdateObj_reliable executionR.UpdateObj_reliable processInstanceR.UpdateObj_reliable
  gatewayR.UpdateObj_reliable historyR.UpdateObj_reliable messagesR.UpdateObj_reliable
  msgTypesR.UpdateObj_reliable versionR.UpdateObj_reliable userTasksR.UpdateObj_reliable
  taskSpecVerR.UpdateObj_reliable

end
