(* ===== verification/Vars.thy ===== *)
theory Vars
  imports World
begin

text \<open>
  Workflow variables and expressions: \<open>internal/model/servervars.go\<close>,
  \<open>common/expression/eval.go\<close>, \<open>common/expression/expr.go\<close> and \<open>server/vars/vars.go\<close>.

  The expression language and the msgpack codec are functions of the environment.  A
  protobuf map field without entries is nil after unmarshalling, so the test
  \<open>transform != nil\<close> is \<open>transform \<noteq> []\<close>.
\<close>

section \<open>Server variables\<close>

definition Encode :: "env \<Rightarrow> vmap \<Rightarrow> (goerr, bytes) res" where
  "Encode E vars = mp_marshal E vars"

text \<open>\<open>Decode\<close> unmarshals into the existing map: the decoded keys are set, the others kept.\<close>

definition Decode :: "env \<Rightarrow> vmap \<Rightarrow> bytes \<Rightarrow> (goerr, vmap) res" where
  "Decode E vars b =
     (if length b = 0 then Ok vars
      else case mp_unmarshal E b of
             Ok m \<Rightarrow> Ok (fold (\<lambda>(k, v). AList.update k v) m vars)
           | Err e \<Rightarrow> Err e
           | Panic \<Rightarrow> Panic)"

definition GetString :: "vmap \<Rightarrow> string \<Rightarrow> (goerr, string) res" where
  "GetString vars key =
     (case map_of vars key of
        None \<Rightarrow> Err (ErrOther ''workflow var found nil'')
      | Some VNil \<Rightarrow> Err (ErrOther ''workflow var found nil'')
      | Some (VString s) \<Rightarrow> Ok s
      | Some _ \<Rightarrow> Err ErrVarNotFound)"

definition GetBool :: "vmap \<Rightarrow> string \<Rightarrow> (goerr, bool) res" where
  "GetBool vars key =
     (case map_of vars key of
        None \<Rightarrow> Err (ErrOther ''workflow var found nil'')
      | Some VNil \<Rightarrow> Err (ErrOther ''workflow var found nil'')
      | Some (VBool b) \<Rightarrow> Ok b
      | Some _ \<Rightarrow> Err ErrVarNotFound)"

definition GetFloat64 :: "vmap \<Rightarrow> string \<Rightarrow> (goerr, 64 word) res" where
  "GetFloat64 vars key =
     (case map_of vars key of
        None \<Rightarrow> Err (ErrOther ''workflow var found nil'')
      | Some VNil \<Rightarrow> Err (ErrOther ''workflow var found nil'')
      | Some (VFloat x) \<Rightarrow> Ok x
      | Some _ \<Rightarrow> Err ErrVarNotFound)"

text \<open>The kinds listed in the switch of \<open>GetInt64\<close>; each fits in an \<open>int64\<close>.  For a nil value
  \<open>reflect.TypeOf\<close> is nil and the call of \<open>Name\<close> panics.\<close>

definition GetInt64 :: "vmap \<Rightarrow> string \<Rightarrow> (goerr, int) res" where
  "GetInt64 vars key =
     (case map_of vars key of
        None \<Rightarrow> Err ErrVarNotFound
      | Some (VInt k n) \<Rightarrow>
          (if k \<in> {KInt8, KInt16, KInt32, KInt64, KUint8, KUint16, KUint32} then Ok n
           else Err ErrVarNotFound)
      | Some VNil \<Rightarrow> Panic
      | Some _ \<Rightarrow> Err ErrVarNotFound)"

section \<open>Equality of interface values\<close>

definition float_nan :: "64 word \<Rightarrow> bool" where
  "float_nan x \<longleftrightarrow> (unat x mod 2 ^ 63) > 0x7FF0000000000000"

definition float_eq :: "64 word \<Rightarrow> 64 word \<Rightarrow> bool" where
  "float_eq x y \<longleftrightarrow> \<not> float_nan x \<and> \<not> float_nan y \<and>
     (x = y \<or> unat x mod 2 ^ 63 = 0 \<and> unat y mod 2 ^ 63 = 0)"

text \<open>Go's \<open>==\<close> on interface values: false for different dynamic types, a run-time panic
  (\<open>None\<close>) for equal types that are not comparable (slices and maps).\<close>

fun go_eq :: "val \<Rightarrow> val \<Rightarrow> bool option" where
  "go_eq VNil VNil = Some True"
| "go_eq (VBool a) (VBool b) = Some (a = b)"
| "go_eq (VInt k a) (VInt l b) = Some (k = l \<and> a = b)"
| "go_eq (VFloat a) (VFloat b) = Some (float_eq a b)"
| "go_eq (VString a) (VString b) = Some (a = b)"
| "go_eq (VStrings a) (VStrings b) = None"
| "go_eq (VSlice a) (VSlice b) = None"
| "go_eq (VMap a) (VMap b) = None"
| "go_eq _ _ = Some False"

section \<open>The expression engine\<close>

definition ExprEngine_Eval :: "env \<Rightarrow> string \<Rightarrow> vmap \<Rightarrow> (goerr, val) res" where
  "ExprEngine_Eval E exp vars =
     (if length exp = 0 then Ok VNil
      else let exp1 = (if exp ! 0 = CHR ''='' then drop 1 exp else exp);
               exp2 = TrimPrefix exp1 ''=''
           in case expr_compile E exp2 of
                Some err \<Rightarrow> Err (ErrWorkflowFatal err None)
              | None \<Rightarrow> expr_run E exp2 vars)"

definition EvalAny :: "env \<Rightarrow> string \<Rightarrow> vmap \<Rightarrow> (goerr, val) res" where
  "EvalAny E exp vars =
     (case ExprEngine_Eval E exp vars of
        Ok v \<Rightarrow> Ok v
      | Err e \<Rightarrow> Err e
      | Panic \<Rightarrow> Err (ErrWorkflowFatal (ErrOther ''panic: evaluate expression'') None))"

text \<open>The instances of the generic \<open>Eval\<close> that the engine uses.  A failed type assertion
  panics and the deferred function turns the panic into a fatal error.\<close>

definition Eval_bool :: "env \<Rightarrow> string \<Rightarrow> vmap \<Rightarrow> (goerr, bool) res" where
  "Eval_bool E exp vars =
     (case ExprEngine_Eval E exp vars of
        Ok (VBool b) \<Rightarrow> Ok b
      | Ok _ \<Rightarrow> Err (ErrWorkflowFatal (ErrOther ''interface conversion'') None)
      | Err e \<Rightarrow> Err e
      | Panic \<Rightarrow> Err (ErrWorkflowFatal (ErrOther ''panic: evaluate expression'') None))"

definition Eval_string :: "env \<Rightarrow> string \<Rightarrow> vmap \<Rightarrow> (goerr, string) res" where
  "Eval_string E exp vars =
     (case ExprEngine_Eval E exp vars of
        Ok (VString s) \<Rightarrow> Ok s
      | Ok _ \<Rightarrow> Err (ErrWorkflowFatal (ErrOther ''interface conversion'') None)
      | Err e \<Rightarrow> Err e
      | Panic \<Rightarrow> Err (ErrWorkflowFatal (ErrOther ''panic: evaluate expression'') None))"

definition is_space :: "char \<Rightarrow> bool" where
  "is_space c \<longleftrightarrow> c \<in> {CHR '' '', CHR 0x09, CHR 0x0A, CHR 0x0B, CHR 0x0C, CHR 0x0D}"

definition TrimSpace :: "string \<Rightarrow> string" where
  "TrimSpace s = rev (dropWhile is_space (rev (dropWhile is_space s)))"

definition GetVariables :: "env \<Rightarrow> string \<Rightarrow> (goerr, string list) res" where
  "GetVariables E exp =
     (let exp = TrimSpace exp
      in if length exp = 0 then Ok []
         else if exp ! 0 = CHR ''='' then expr_idents E (drop 1 exp)
         else Ok [])"

section \<open>Input, output and checked variables\<close>

fun eval_transform :: "env \<Rightarrow> vmap \<Rightarrow> (string \<times> string) list \<Rightarrow> vmap \<Rightarrow> (goerr, vmap) res" where
  "eval_transform E src [] acc = Ok acc"
| "eval_transform E src ((k, v) # ts) acc =
     (case EvalAny E v src of
        Ok r \<Rightarrow> eval_transform E src ts (AList.update k r acc)
      | Err e \<Rightarrow> Err e
      | Panic \<Rightarrow> Panic)"

text \<open>\<open>InputVars\<close> writes to \<open>*newVarsBin\<close>; its final content is returned.\<close>

definition InputVars :: "env \<Rightarrow> bytes \<Rightarrow> bytes \<Rightarrow> elem_data \<Rightarrow> (goerr, bytes) res" where
  "InputVars E oldVarsBin newVarsBin el =
     (if el_InputTransform el \<noteq> [] then
        (case Decode E [] oldVarsBin of
           Err e \<Rightarrow> Err e
         | Panic \<Rightarrow> Panic
         | Ok processVars \<Rightarrow>
             (case eval_transform E processVars (rangeMap (map_order E 1) (el_InputTransform el)) [] of
                Err e \<Rightarrow> Err e
              | Panic \<Rightarrow> Panic
              | Ok localVars \<Rightarrow> Encode E localVars))
      else Ok newVarsBin)"

definition OutputVars :: "env \<Rightarrow> bytes \<Rightarrow> bytes \<Rightarrow> (string \<times> string) list \<Rightarrow> (goerr, bytes) res" where
  "OutputVars E newVarsBin mergeVarsBin transform =
     (if transform \<noteq> [] then
        (case Decode E [] newVarsBin of
           Err e \<Rightarrow> Err e
         | Panic \<Rightarrow> Panic
         | Ok localVars \<Rightarrow>
             (case (if length mergeVarsBin > 0 then Decode E [] mergeVarsBin else Ok []) of
                Err e \<Rightarrow> Err e
              | Panic \<Rightarrow> Panic
              | Ok processVars \<Rightarrow>
                  (case eval_transform E localVars (rangeMap (map_order E 2) transform) processVars of
                     Err e \<Rightarrow> Err e
                   | Panic \<Rightarrow> Panic
                   | Ok vs \<Rightarrow> Encode E vs)))
      else Ok mergeVarsBin)"

fun check_transform :: "env \<Rightarrow> vmap \<Rightarrow> (string \<times> string) list \<Rightarrow> (goerr, unit) res" where
  "check_transform E vrs [] = Ok ()"
| "check_transform E vrs ((k, v) # ts) =
     (case GetVariables E v of
        Err e \<Rightarrow> Err e
      | Panic \<Rightarrow> Panic
      | Ok lst \<Rightarrow>
          (if list_all (\<lambda>i. map_of vrs i \<noteq> None) lst then check_transform E vrs ts
           else Err (ErrWorkflowFatal (ErrOther ''expected output variable missing'') None)))"

definition CheckVars :: "env \<Rightarrow> workflow_state \<Rightarrow> elem_data \<Rightarrow> (goerr, unit) res" where
  "CheckVars E state el =
     (if el_OutputTransform el \<noteq> [] then
        (case Decode E [] (ws_Vars state) of
           Err e \<Rightarrow> Err e
         | Panic \<Rightarrow> Panic
         | Ok vrs \<Rightarrow> check_transform E vrs (rangeMap (map_order E 3) (el_OutputTransform el)))
      else Ok ())"

section \<open>Properties of the variable functions\<close>

lemma map_of_fold_update: "map_of (fold (\<lambda>(k, v). AList.update k v) m vars) = map_of (rev m @ vars)"
  by (induction m arbitrary: vars) (auto simp: fun_eq_iff map_add_def split: option.splits)

lemma map_of_rev_distinct: "distinct (map fst m) \<Longrightarrow> map_of (rev m) = map_of m"
  by (subst map_of_inject_set) (auto simp: rev_map [symmetric])

lemma Decode_Encode:
  assumes "codec_ok E" "distinct (map fst m)" "Encode E m = Ok b"
  shows "\<exists>m'. Decode E [] b = Ok m' \<and> (\<forall>k. map_of m' k = map_option (mp_wire E) (map_of m k))"
proof -
  obtain m' where b: "b \<noteq> []" "mp_unmarshal E b = Ok m'" and d: "distinct (map fst m')"
    and m': "\<forall>k. map_of m' k = map_option (mp_wire E) (map_of m k)"
    using assms unfolding codec_ok_def Encode_def by metis
  have "Decode E [] b = Ok (fold (\<lambda>(k, v). AList.update k v) m' [])" using b by (simp add: Decode_def)
  moreover have "map_of (fold (\<lambda>(k, v). AList.update k v) m' []) = map_of m'"
    using d by (simp add: map_of_fold_update map_of_rev_distinct)
  ultimately show ?thesis using m' by auto
qed

text \<open>The value an expression of a transformation gives does not depend on the other
  entries, so the order in which the map is visited only matters for which error is met
  first.\<close>

lemma eval_transform_Ok:
  assumes "eval_transform E src ts acc = Ok r" "distinct (map fst ts)"
  shows "map_of r k = (case map_of ts k of Some e \<Rightarrow> (case EvalAny E e src of Ok v \<Rightarrow> Some v | _ \<Rightarrow> None)
           | None \<Rightarrow> map_of acc k)"
    and "\<forall>(k, e) \<in> set ts. \<exists>v. EvalAny E e src = Ok v"
  using assms
proof (induction ts arbitrary: acc)
  case (Cons t ts)
  obtain l e where t: "t = (l, e)" by fastforce
  {
    case 1
    then obtain v where v: "EvalAny E e src = Ok v" and rest: "eval_transform E src ts (AList.update l v acc) = Ok r"
      using t by (auto split: res.splits)
    have IH: "map_of r k = (case map_of ts k of Some e \<Rightarrow> (case EvalAny E e src of Ok v \<Rightarrow> Some v | _ \<Rightarrow> None)
           | None \<Rightarrow> map_of (AList.update l v acc) k)"
      using Cons.IH(1) [OF rest] 1(2) t by simp
    have "l = k \<Longrightarrow> map_of ts k = None" using 1(2) t by (simp add: map_of_eq_None_iff)
    then show ?case using IH t v by (auto split: option.splits)
  next
    case 2
    then show ?case using t Cons.IH(2) by (fastforce split: res.splits)
  }
qed auto

lemma eval_transform_distinct:
  "eval_transform E src ts acc = Ok r \<Longrightarrow> distinct (map fst acc) \<Longrightarrow> distinct (map fst r)"
  by (induction ts arbitrary: acc) (auto split: res.splits simp: distinct_update)

lemma map_fst_rangeMap:
  assumes "mset (ord (map fst m)) = mset (map fst m)"
  shows "map fst (rangeMap ord m) = ord (map fst m)"
proof -
  have s: "set (ord (map fst m)) = fst ` set m" using assms by (metis set_map set_mset_mset)
  have "\<And>k. k \<in> set (ord (map fst m)) \<Longrightarrow> map_of m k \<noteq> None" using s by (simp add: map_of_eq_None_iff)
  then have "map fst (List.map_filter (\<lambda>k. map_option (Pair k) (map_of m k)) ks) = ks"
    if "set ks \<subseteq> set (ord (map fst m))" for ks
    using that by (induction ks) (auto simp: map_filter_simps split: option.splits)
  then show ?thesis by (simp add: rangeMap_def)
qed

lemma distinct_rangeMap:
  assumes "mset (ord (map fst m)) = mset (map fst m)" "distinct (map fst m)"
  shows "distinct (map fst (rangeMap ord m))"
  using assms map_fst_rangeMap [of ord m] by (metis mset_eq_imp_distinct_iff)

lemma map_of_rangeMap:
  assumes "mset (ord (map fst m)) = mset (map fst m)" "distinct (map fst m)"
  shows "map_of (rangeMap ord m) = map_of m"
  using assms by (intro map_of_inject_set [THEN iffD2] distinct_rangeMap set_rangeMap) auto

lemma ranges_okD: "ranges_ok E \<Longrightarrow> mset (map_order E i ks) = mset ks"
  by (simp add: ranges_ok_def)

text \<open>The output of a transformation: the keys it names hold the values of their
  expressions, every other process variable keeps its value.\<close>

text \<open>C34. The output transformation gives exactly the variables it names, evaluated over the
  variables of the job, and every other variable of the process as it was, independently of the
  order in which the map of transformations is ranged over.\<close>

theorem OutputVars_spec:
  assumes "ranges_ok E" "codec_ok E" "distinct (map fst transform)" "transform \<noteq> []"
    and "Decode E [] newVars = Ok localVars" "Decode E [] mergeVars = Ok processVars"
    and "distinct (map fst processVars)"
    and "OutputVars E newVars mergeVars transform = Ok b"
  shows "\<exists>vs. Decode E [] b = Ok vs \<and> (\<forall>k. map_of vs k = map_option (mp_wire E)
      (case map_of transform k of
         Some e \<Rightarrow> (case EvalAny E e localVars of Ok v \<Rightarrow> Some v | _ \<Rightarrow> None)
       | None \<Rightarrow> map_of processVars k))"
proof -
  let ?ts = "rangeMap (map_order E 2) transform"
  have ord: "mset (map_order E 2 (map fst transform)) = mset (map fst transform)"
    using assms(1) by (rule ranges_okD)
  have m: "(if length mergeVars > 0 then Decode E [] mergeVars else Ok []) = Ok processVars"
    using assms(6) by (auto simp: Decode_def)
  obtain vs where vs: "eval_transform E localVars ?ts processVars = Ok vs" "Encode E vs = Ok b"
    using assms(4,5,8) m by (auto simp: OutputVars_def split: res.splits)
  have d: "distinct (map fst ?ts)" using ord assms(3) by (rule distinct_rangeMap)
  have mp: "map_of ?ts = map_of transform" using ord assms(3) by (rule map_of_rangeMap)
  have "distinct (map fst vs)" using vs(1) assms(7) by (rule eval_transform_distinct)
  then obtain vs' where "Decode E [] b = Ok vs'" "\<forall>k. map_of vs' k = map_option (mp_wire E) (map_of vs k)"
    using Decode_Encode [OF assms(2) _ vs(2)] by blast
  then show ?thesis using eval_transform_Ok(1) [OF vs(1) d] mp by auto
qed

text \<open>\<open>CheckVars\<close> passes exactly when every variable an output expression mentions is there.\<close>

lemma check_transform_Ok_iff:
  "check_transform E vrs ts = Ok () \<longleftrightarrow>
     (\<forall>(k, e) \<in> set ts. \<exists>vs. GetVariables E e = Ok vs \<and> (\<forall>x \<in> set vs. map_of vrs x \<noteq> None))"
  by (induction ts) (auto simp: list_all_iff split: res.splits if_splits)

theorem CheckVars_Ok_iff:
  assumes "ranges_ok E" "distinct (map fst (el_OutputTransform el))" "Decode E [] (ws_Vars state) = Ok vrs"
  shows "CheckVars E state el = Ok () \<longleftrightarrow>
     (\<forall>(k, e) \<in> set (el_OutputTransform el).
        \<exists>vs. GetVariables E e = Ok vs \<and> (\<forall>x \<in> set vs. map_of vrs x \<noteq> None))"
proof -
  have "set (rangeMap (map_order E 3) (el_OutputTransform el)) = set (el_OutputTransform el)"
    using assms(1,2) by (intro set_rangeMap) (auto simp: ranges_ok_def)
  then show ?thesis using assms(3) by (auto simp: CheckVars_def check_transform_Ok_iff)
qed

end
