(* ===== verification/Entities.thy ===== *)
theory Entities
  imports Vars
begin

text \<open>
  The records the server keeps and the messages it publishes: the part of
  \<open>internal/server/workflow/operations.go\<close> below the process logic.  Publishing of states
  and messages, workflow definitions and versions, executions, process instances, jobs,
  user tasks and owners.

  The lemmas give the effect of each operation when no call fails, the errors on missing
  records, and the invariant \<open>instances_linked\<close>: a process instance's execution exists and
  lists it.
\<close>

section \<open>Subjects: \<open>server/messages/messages.go\<close>\<close>

definition wsubj :: "string \<Rightarrow> string" where
  "wsubj s = ''WORKFLOW.%s'' @ s"

definition WorkflowActivityAbort :: string where "WorkflowActivityAbort = wsubj ''.State.Activity.Abort''"
definition WorkflowActivityComplete :: string where "WorkflowActivityComplete = wsubj ''.State.Activity.Complete''"
definition WorkflowActivityExecute :: string where "WorkflowActivityExecute = wsubj ''.State.Activity.Execute''"
definition WorkflowElementTimedExecute :: string where "WorkflowElementTimedExecute = wsubj ''.Timers.ElementExecute''"
definition WorkflowExecutionAbort :: string where "WorkflowExecutionAbort = wsubj ''.State.Execution.Abort''"
definition WorkflowExecutionComplete :: string where "WorkflowExecutionComplete = wsubj ''.State.Execution.Complete''"
definition WorkflowExecutionExecute :: string where "WorkflowExecutionExecute = wsubj ''.State.Execution.Execute''"
definition ExecutionTerminated :: string where "ExecutionTerminated = wsubj ''.State.Execution.Terminated''"
definition WorkflowJobAwaitMessageExecute :: string where "WorkflowJobAwaitMessageExecute = wsubj ''.State.Job.Execute.AwaitMessage''"
definition WorkflowJobAwaitMessageComplete :: string where "WorkflowJobAwaitMessageComplete = wsubj ''.State.Job.Complete.AwaitMessage''"
definition WorkflowJobLaunchComplete :: string where "WorkflowJobLaunchComplete = wsubj ''.State.Job.Complete.Launch''"
definition WorkflowJobLaunchExecute :: string where "WorkflowJobLaunchExecute = wsubj ''.State.Job.Execute.Launch''"
definition WorkflowJobManualTaskComplete :: string where "WorkflowJobManualTaskComplete = wsubj ''.State.Job.Complete.ManualTask''"
definition WorkflowJobManualTaskExecute :: string where "WorkflowJobManualTaskExecute = wsubj ''.State.Job.Execute.ManualTask''"
definition WorkflowJobSendMessageComplete :: string where "WorkflowJobSendMessageComplete = wsubj ''.State.Job.Complete.SendMessage''"
definition WorkflowJobSendMessageExecute :: string where "WorkflowJobSendMessageExecute = wsubj ''.State.Job.Execute.SendMessage''"
definition WorkflowJobServiceTaskAbort :: string where "WorkflowJobServiceTaskAbort = wsubj ''.State.Job.Abort.ServiceTask''"
definition WorkflowJobServiceTaskComplete :: string where "WorkflowJobServiceTaskComplete = wsubj ''.State.Job.Complete.ServiceTask''"
definition WorkflowJobServiceTaskExecute :: string where "WorkflowJobServiceTaskExecute = wsubj ''.State.Job.Execute.ServiceTask''"
definition WorkflowJobTimerTaskComplete :: string where "WorkflowJobTimerTaskComplete = wsubj ''.State.Job.Complete.Timer''"
definition WorkflowJobTimerTaskExecute :: string where "WorkflowJobTimerTaskExecute = wsubj ''.State.Job.Execute.Timer''"
definition WorkflowJobUserTaskComplete :: string where "WorkflowJobUserTaskComplete = wsubj ''.State.Job.Complete.UserTask''"
definition WorkflowJobUserTaskExecute :: string where "WorkflowJobUserTaskExecute = wsubj ''.State.Job.Execute.UserTask''"
definition WorkflowJobGatewayTaskComplete :: string where "WorkflowJobGatewayTaskComplete = wsubj ''.State.Job.Complete.Gateway''"
definition WorkflowJobGatewayTaskExecute :: string where "WorkflowJobGatewayTaskExecute = wsubj ''.State.Job.Execute.Gateway''"
definition WorkflowJobGatewayTaskActivate :: string where "WorkflowJobGatewayTaskActivate = wsubj ''.State.Job.Activate.Gateway''"
definition WorkflowJobGatewayTaskReEnter :: string where "WorkflowJobGatewayTaskReEnter = wsubj ''.State.Job.ReEnter.Gateway''"
definition WorkflowJobGatewayTaskAbort :: string where "WorkflowJobGatewayTaskAbort = wsubj ''.State.Job.Abort.Gateway''"
definition WorkflowJobGatewayTaskAwait :: string where "WorkflowJobGatewayTaskAwait = wsubj ''.State.Job.Await.Gateway''"
definition WorkflowJobRetry :: string where "WorkflowJobRetry = wsubj ''.State.Job.Retry''"
definition WorkflowMessage :: string where "WorkflowMessage = wsubj ''.Message''"
definition WorkflowProcessComplete :: string where "WorkflowProcessComplete = wsubj ''.State.Process.Complete''"
definition WorkflowProcessExecute :: string where "WorkflowProcessExecute = wsubj ''.State.Process.Execute''"
definition WorkflowProcessTerminated :: string where "WorkflowProcessTerminated = wsubj ''.State.Process.Terminated''"
definition WorkflowProcessCompensate :: string where "WorkflowProcessCompensate = wsubj ''.State.Process.Compensate''"
definition WorkflowTimedExecute :: string where "WorkflowTimedExecute = wsubj ''.Timers.WorkflowExecute''"
definition WorkflowTraversalComplete :: string where "WorkflowTraversalComplete = wsubj ''.State.Traversal.Complete''"
definition WorkflowTraversalExecute :: string where "WorkflowTraversalExecute = wsubj ''.State.Traversal.Execute''"
definition WorkflowSystemTaskCreate :: string where "WorkflowSystemTaskCreate = ''WORKFLOW.System.Task.Create''"
definition WorkflowSystemTaskUpdate :: string where "WorkflowSystemTaskUpdate = ''WORKFLOW.System.Task.Update''"
definition WorkflowSystemWorkflowDisableLaunchAttempted :: string where
  "WorkflowSystemWorkflowDisableLaunchAttempted = ''WORKFLOW.System.Workflow.DisableLaunchAttempted''"
definition WorkflowSystemProcessFatalError :: string where
  "WorkflowSystemProcessFatalError = wsubj ''.System.Process.FatalError''"

section \<open>Publishing\<close>

record pub_opts =
  po_Embargo :: int
  po_Headers :: "(string \<times> string) list"

definition no_opts :: pub_opts where
  "no_opts = \<lparr> po_Embargo = 0, po_Headers = [] \<rparr>"

definition WithEmbargo :: "int \<Rightarrow> pub_opts" where
  "WithEmbargo n = no_opts\<lparr> po_Embargo := n \<rparr>"

definition WithHeaders :: "(string \<times> string) list \<Rightarrow> pub_opts" where
  "WithHeaders hs = no_opts\<lparr> po_Headers := hs \<rparr>"

definition openUserTask :: "env \<Rightarrow> string \<Rightarrow> string \<Rightarrow> unit act" where
  "openUserTask E owner tid =
     bnd KvsFor (\<lambda>_. bnd (UpdateObj UserTasksB owner [] (\<lambda>ids. Ok (ids @ [tid]))) (\<lambda>_. ret ()))"

text \<open>\<open>PublishWorkflowState\<close> stamps the state it is given, so the state is returned with its
  new time.\<close>

definition PublishWorkflowState :: "env \<Rightarrow> string \<Rightarrow> workflow_state \<Rightarrow> pub_opts \<Rightarrow> workflow_state act" where
  "PublishWorkflowState E stateName state opts =
     bnd (timeNow E) (\<lambda>now.
       let state = state\<lparr> ws_UnixTimeNano := now \<rparr>
       in bnd (newID E) (\<lambda>mid.
          bnd io (\<lambda>_.
          bnd (modify (\<lambda>w. w\<lparr> published := published w @
                 [\<lparr> pm_Subject = NS stateName (e_ns E), pm_ID = mid, pm_Embargo = po_Embargo opts,
                    pm_Headers = po_Headers opts, pm_Payload = PState state \<rparr>] \<rparr>)) (\<lambda>_.
          bnd (if stateName = NS WorkflowJobUserTaskExecute (e_ns E)
               then forE (\<lambda>i. openUserTask E i (TID (ws_Id state))) (ws_Owners state @ ws_Groups state)
               else ret ()) (\<lambda>_. ret state)))))"

definition PublishMsg :: "env \<Rightarrow> string \<Rightarrow> payload \<Rightarrow> unit act" where
  "PublishMsg E subject sharMsg =
     bnd (newID E) (\<lambda>mid. bnd io (\<lambda>_.
       modify (\<lambda>w. w\<lparr> published := published w @
         [\<lparr> pm_Subject = subject, pm_ID = mid, pm_Embargo = 0, pm_Headers = [], pm_Payload = sharMsg \<rparr>] \<rparr>)))"

definition signaFatalError :: "env \<Rightarrow> workflow_state \<Rightarrow> handling_strategy \<Rightarrow> unit act" where
  "signaFatalError E state strategy =
     handle (PublishMsg E (NS WorkflowSystemProcessFatalError (e_ns E))
               (PFatal \<lparr> fe_HandlingStrategy = strategy, fe_WorkflowState = state \<rparr>))
       (\<lambda>_. ret ()) (\<lambda>_. ret ())"

definition SignalFatalErrorTeardown :: "env \<Rightarrow> workflow_state \<Rightarrow> unit act" where
  "SignalFatalErrorTeardown E state = signaFatalError E state TearDown"

definition SignalFatalErrorPause :: "env \<Rightarrow> workflow_state \<Rightarrow> unit act" where
  "SignalFatalErrorPause E state = signaFatalError E state Pause"

section \<open>Workflow definitions\<close>

definition Cacheable :: "env \<Rightarrow> string \<Rightarrow> workflow act \<Rightarrow> workflow act" where
  "Cacheable E key fn =
     bnd (asks (\<lambda>w. map_of (sCache w) key)) (\<lambda>hit.
       case hit of
         Some v \<Rightarrow> ret v
       | None \<Rightarrow> bnd fn (\<lambda>v.
           bnd (modify (\<lambda>w. if cache_admits E key then w\<lparr> sCache := AList.update key v (sCache w) \<rparr> else w))
             (\<lambda>_. ret v)))"

definition GetWorkflow :: "env \<Rightarrow> string \<Rightarrow> workflow act" where
  "GetWorkflow E workflowID =
     Cacheable E workflowID
       (bnd KvsFor (\<lambda>_. handle (LoadObj DefinitionB workflowID)
          (\<lambda>e. if e = ErrKeyNotFound then fail ErrWorkflowNotFound else fail e)
          ret))"

text \<open>The cache hands out pointers, so a handler that writes to a field of an element writes to the
  cached workflow, when there is one.  The ids of elements are unique in a workflow.\<close>

primrec mapElement :: "(elem_data \<Rightarrow> elem_data) \<Rightarrow> element \<Rightarrow> element"
  and mapProcess :: "(elem_data \<Rightarrow> elem_data) \<Rightarrow> process \<Rightarrow> process" where
  "mapElement f (Elem d p) = Elem (f d) (map_option (mapProcess f) p)"
| "mapProcess f (Proc es i t) = Proc (map (mapElement f) es) i t"

definition mapWorkflow :: "(elem_data \<Rightarrow> elem_data) \<Rightarrow> workflow \<Rightarrow> workflow" where
  "mapWorkflow f wkf = wkf\<lparr> wf_Process := map (\<lambda>(k, p). (k, mapProcess f p)) (wf_Process wkf) \<rparr>"

definition writeElement :: "string \<Rightarrow> elem_data \<Rightarrow> (elem_data \<Rightarrow> elem_data) \<Rightarrow> unit act" where
  "writeElement workflowID el f = modify (\<lambda>w. w\<lparr> sCache := map (\<lambda>(k, wkf).
     (k, if k = workflowID
         then mapWorkflow (\<lambda>d. if el_Id d = el_Id el \<and> el_Type d = el_Type el then f d else d) wkf else wkf)) (sCache w) \<rparr>)"

lemma map_of_cached: "map_of (map (\<lambda>(k, v). (k, if k = i then f v else v)) xs) k = map_option (\<lambda>v. if k = i then f v else v) (map_of xs k)"
  by (induction xs) auto

definition getWorkflowNameFor :: "string \<Rightarrow> string act" where
  "getWorkflowNameFor processId =
     bnd KvsFor (\<lambda>_. handle (LoadObj ProcessB processId)
       (\<lambda>e. if e = ErrKeyNotFound then fail ErrProcessNotFound else fail e)
       ret)"

definition getWorkflowVersions :: "string \<Rightarrow> workflow_versions act" where
  "getWorkflowVersions workflowName =
     bnd KvsFor (\<lambda>_. handle (LoadObj VersionB workflowName)
       (\<lambda>e. if e = ErrKeyNotFound then fail ErrWorkflowNotFound else fail e)
       ret)"

text \<open>The messages streamed to the client before the stream ends, and how it ends.\<close>

definition StreamWorkflowVersions :: "string \<Rightarrow> workflow_version list act" where
  "StreamWorkflowVersions workflowName =
     bnd KvsFor (\<lambda>_. handle (LoadObj VersionB workflowName)
       (\<lambda>e. if e = ErrKeyNotFound then fail ErrWorkflowVersionNotFound else fail e)
       (\<lambda>ver. ret (wvs_Version ver)))"

definition empty_workflow :: workflow where
  "empty_workflow = \<lparr> wf_Name = [], wf_Process = [], wf_Messages = [], wf_Errors = [], wf_GzipSource = [],
     wf_Collaboration = None, wf_MessageReceivers = [], wf_AutoLaunchHeaders = [] \<rparr>"

text \<open>\<open>getElement\<close> returns on a missing workflow only; after another failure of the load the
  table of the empty workflow is searched.\<close>

definition getElement :: "env \<Rightarrow> workflow_state \<Rightarrow> elem_data act" where
  "getElement E state =
     bnd KvsFor (\<lambda>_.
       bnd (handle (LoadObj DefinitionB (ws_WorkflowId state))
              (\<lambda>e. if e = ErrKeyNotFound then fail e else ret empty_workflow) ret) (\<lambda>wkf.
         case map_of (ElementTable (map_order E 4) wkf) (ws_ElementId state) of
           Some el \<Rightarrow> ret (el_data el)
         | None \<Rightarrow> fail ErrElementNotFound))"

section \<open>Executions\<close>

definition GetExecution :: "string \<Rightarrow> execution act" where
  "GetExecution executionID =
     bnd KvsFor (\<lambda>_. handle (LoadObj ExecutionB executionID)
       (\<lambda>e. if e = ErrKeyNotFound then fail ErrExecutionNotFound else fail e)
       ret)"

definition EnsureTxBucket :: "env \<Rightarrow> string \<Rightarrow> unit act" where
  "EnsureTxBucket E name =
     bnd io (\<lambda>_. bnd (asks txBuckets) (\<lambda>bs.
       if name \<in> set bs then ret ()
       else bnd io (\<lambda>_. modify (\<lambda>w. w\<lparr> txBuckets := txBuckets w @ [name] \<rparr>))))"

text \<open>The error of \<open>GetWorkflow\<close> is returned only after the execution has been saved.\<close>

definition createExecution :: "env \<Rightarrow> execution \<Rightarrow> execution act" where
  "createExecution E execution =
     bnd (newID E) (\<lambda>executionID.
       let execution = execution\<lparr> ex_ExecutionId := executionID, ex_ProcessInstanceId := [] \<rparr>
       in bnd KvsFor (\<lambda>_.
          bnd (handle (GetWorkflow E (ex_WorkflowId execution)) (\<lambda>e. ret (Inl e)) (\<lambda>v. ret (Inr v))) (\<lambda>r.
          bnd (SaveObj ExecutionB executionID execution) (\<lambda>_.
          case r of
            Inl e \<Rightarrow> fail e
          | Inr wkf \<Rightarrow>
              bnd (forE (\<lambda>m. EnsureTxBucket E (NS ''MsgTx_%s_'' (e_ns E) @ el_Name m)) (wf_Messages wkf))
                (\<lambda>_. ret execution)))))"

definition deleteExecution :: "env \<Rightarrow> workflow_state \<Rightarrow> workflow_state act" where
  "deleteExecution E state =
     bnd KvsFor (\<lambda>_.
       bnd (handle (DeleteObj ExecutionB (ws_ExecutionId state))
              (\<lambda>e. if e \<noteq> ErrKeyNotFound then fail e else ret ()) ret) (\<lambda>_.
       bnd (handle (DeleteObj TrackingB (ws_ExecutionId state))
              (\<lambda>e. if e \<noteq> ErrKeyNotFound then fail e else ret ()) ret) (\<lambda>_.
       PublishWorkflowState E ExecutionTerminated state no_opts)))"

definition ListExecutionProcesses :: "string \<Rightarrow> string list act" where
  "ListExecutionProcesses eid =
     bnd KvsFor (\<lambda>_. bnd (LoadObj ExecutionB eid) (\<lambda>v. ret (ex_ProcessInstanceId v)))"

section \<open>Process instances\<close>

definition GetProcessInstance :: "string \<Rightarrow> process_instance act" where
  "GetProcessInstance processInstanceID =
     bnd KvsFor (\<lambda>_. handle (LoadObj ProcessInstanceB processInstanceID)
       (\<lambda>e. if e = ErrKeyNotFound then fail ErrProcessInstanceNotFound else fail e)
       ret)"

definition createProcessInstance :: "env \<Rightarrow> string \<Rightarrow> string \<Rightarrow> string \<Rightarrow> string \<Rightarrow> string \<Rightarrow> string \<Rightarrow> bytes
    \<Rightarrow> process_instance act" where
  "createProcessInstance E executionId parentProcessID parentElementID processId workflowName workflowId headers =
     bnd (newID E) (\<lambda>pid.
     bnd KvsFor (\<lambda>_.
     bnd (GetExecution executionId) (\<lambda>wfi.
     let pi = \<lparr> pi_ProcessInstanceId = pid, pi_ExecutionId = executionId,
                pi_ParentProcessId = Some parentProcessID, pi_ParentElementId = Some parentElementID,
                pi_WorkflowId = workflowId, pi_WorkflowName = workflowName, pi_ProcessId = processId,
                pi_GatewayComplete = [], pi_Headers = headers \<rparr>
     in bnd (SaveObj ProcessInstanceB pid pi) (\<lambda>_.
        bnd (UpdateObj ExecutionB executionId wfi
               (\<lambda>v. Ok (v\<lparr> ex_ProcessInstanceId := ex_ProcessInstanceId v @ [pid] \<rparr>))) (\<lambda>_.
        ret pi)))))"

fun remove_member :: "'a list \<Rightarrow> 'a \<Rightarrow> 'a list" where
  "remove_member [] m = []"
| "remove_member (v # vs) m = (if v = m then vs else v # remove_member vs m)"

definition empty_execution :: execution where
  "empty_execution = \<lparr> ex_ExecutionId = [], ex_WorkflowId = [], ex_WorkflowName = [], ex_ProcessInstanceId = [] \<rparr>"

text \<open>The execution is deleted when the message it was read into lists no instance, before
  the error of the update is looked at.\<close>

definition destroyProcessInstance :: "env \<Rightarrow> workflow_state \<Rightarrow> string \<Rightarrow> string \<Rightarrow> workflow_state act" where
  "destroyProcessInstance E state processInstanceId executionId =
     bnd KvsFor (\<lambda>_.
     bnd (UpdateObjM ExecutionB executionId empty_execution
            (\<lambda>v. Ok (v\<lparr> ex_ProcessInstanceId := remove_member (ex_ProcessInstanceId v) processInstanceId \<rparr>)))
       (\<lambda>(e, err).
     bnd (whenE (ex_ProcessInstanceId e = []) (DeleteObj ExecutionB executionId)) (\<lambda>_.
     case err of
       Some x \<Rightarrow> fail x
     | None \<Rightarrow>
         bnd (DeleteObj ProcessInstanceB processInstanceId) (\<lambda>_.
         bnd (PublishWorkflowState E WorkflowProcessTerminated state no_opts) (\<lambda>state.
         if ex_ProcessInstanceId e = [] then PublishWorkflowState E WorkflowExecutionComplete state no_opts
         else ret state)))))"

definition xDestroyProcessInstance :: "env \<Rightarrow> workflow_state \<Rightarrow> unit act" where
  "xDestroyProcessInstance E state =
     bnd KvsFor (\<lambda>_.
     bnd (GetExecution (ws_ExecutionId state)) (\<lambda>execution.
     handle (GetProcessInstance (ws_ProcessInstanceId state))
       (\<lambda>e. if IsNotFound e then ret () else fail e)
       (\<lambda>pi.
         bnd (destroyProcessInstance E state (pi_ProcessInstanceId pi) (ex_ExecutionId execution)) (\<lambda>state.
         bnd (whenE (ex_WorkflowId execution \<noteq> [])
                (handle (LoadObj DefinitionB (ex_WorkflowId execution)) (\<lambda>_. ret ()) (\<lambda>_. ret ()))) (\<lambda>_.
         let tState = (if ws_Error state \<noteq> None then state\<lparr> ws_State := errored \<rparr> else state)
         in bnd (deleteExecution E tState) (\<lambda>_. ret ()))))))"

definition hasValidExecution :: "string \<Rightarrow> execution act" where
  "hasValidExecution executionId = GetExecution executionId"

definition hasValidProcess :: "string \<Rightarrow> string \<Rightarrow> (process_instance \<times> execution) act" where
  "hasValidProcess processInstanceId executionId =
     bnd (hasValidExecution executionId) (\<lambda>execution.
     bnd (GetProcessInstance processInstanceId) (\<lambda>pi. ret (pi, execution)))"

section \<open>Jobs\<close>

definition createJob :: "env \<Rightarrow> workflow_state \<Rightarrow> (string \<times> workflow_state) act" where
  "createJob E job =
     bnd KvsFor (\<lambda>_. bnd (newID E) (\<lambda>tid.
       let job = job\<lparr> ws_Id := Push (ws_Id job) tid \<rparr>
       in bnd (SaveObj JobB tid job) (\<lambda>_. ret (tid, job))))"

definition GetJob :: "string \<Rightarrow> workflow_state act" where
  "GetJob trackingID =
     bnd KvsFor (\<lambda>_. handle (LoadObj JobB trackingID)
       (\<lambda>e. if e = ErrKeyNotFound then fail ErrJobNotFound else fail e)
       ret)"

definition DeleteJob :: "string \<Rightarrow> unit act" where
  "DeleteJob trackingID = bnd KvsFor (\<lambda>_. DeleteObj JobB trackingID)"

section \<open>User tasks and owners\<close>

text \<open>One turn of the loop of \<open>closeUserTask\<close>; an error does not stop the loop.\<close>

definition closeTaskFor :: "string \<Rightarrow> goerr option \<Rightarrow> string \<Rightarrow> goerr option act" where
  "closeTaskFor trackingID retErr i =
     bnd (UpdateObjM UserTasksB i [] (\<lambda>ids. Ok (remove_member ids trackingID)))
       (\<lambda>(_, err). ret (case err of Some e \<Rightarrow> Some e | None \<Rightarrow> retErr))"

definition closeUserTask :: "env \<Rightarrow> string \<Rightarrow> unit act" where
  "closeUserTask E trackingID =
     bnd KvsFor (\<lambda>_. bnd (LoadObj JobB trackingID) (\<lambda>job.
       bnd (foldE (closeTaskFor trackingID) None (ws_Owners job @ ws_Groups job)) (\<lambda>retErr.
       case retErr of None \<Rightarrow> ret () | Some e \<Rightarrow> fail e)))"

definition GetUserTaskIDs :: "string \<Rightarrow> string list act" where
  "GetUserTaskIDs owner = bnd KvsFor (\<lambda>_. LoadObj UserTasksB owner)"

definition OwnerID :: "env \<Rightarrow> string \<Rightarrow> string act" where
  "OwnerID E name =
     bnd KvsFor (\<lambda>_.
       let name = (if name = [] then ''AnyUser'' else name)
       in handle (LoadObj OwnerIDB name)
            (\<lambda>e. if e \<noteq> ErrKeyNotFound then fail e
                 else bnd (newID E) (\<lambda>oid.
                      bnd (SaveObj OwnerIDB name oid) (\<lambda>_.
                      bnd (SaveObj OwnerNameB oid name) (\<lambda>_. ret oid))))
            ret)"

definition OwnerName :: "string \<Rightarrow> string act" where
  "OwnerName oid = bnd KvsFor (\<lambda>_. LoadObj OwnerNameB oid)"

section \<open>Publishing appends to the log\<close>

definition state_msg :: "env \<Rightarrow> string \<Rightarrow> workflow_state \<Rightarrow> pub_opts \<Rightarrow> world \<Rightarrow> pubmsg" where
  "state_msg E stateName state opts w =
     \<lparr> pm_Subject = NS stateName (e_ns E), pm_ID = ksuid E (nextId w), pm_Embargo = po_Embargo opts,
       pm_Headers = po_Headers opts, pm_Payload = PState (state\<lparr> ws_UnixTimeNano := clock E (ticks w) \<rparr>) \<rparr>"

definition pubW :: "env \<Rightarrow> string \<Rightarrow> workflow_state \<Rightarrow> pub_opts \<Rightarrow> world \<Rightarrow> world" where
  "pubW E stateName state opts w =
     w\<lparr> ticks := Suc (ticks w), nextId := Suc (nextId w),
        published := published w @ [state_msg E stateName state opts w] \<rparr>"

lemma pubW_sel [simp]:
  "published (pubW E n s p w) = published w @ [state_msg E n s p w]"
  "faults (pubW E n s p w) = faults w"
  "nextId (pubW E n s p w) = Suc (nextId w)"
  "ticks (pubW E n s p w) = Suc (ticks w)"
  "kvJob (pubW E n s p w) = kvJob w"
  "kvVersion (pubW E n s p w) = kvVersion w"
  "kvDefinition (pubW E n s p w) = kvDefinition w"
  "kvExecution (pubW E n s p w) = kvExecution w"
  "kvProcessInstance (pubW E n s p w) = kvProcessInstance w"
  "kvGateway (pubW E n s p w) = kvGateway w"
  "kvHistory (pubW E n s p w) = kvHistory w"
  "kvMessages (pubW E n s p w) = kvMessages w"
  "kvMsgTypes (pubW E n s p w) = kvMsgTypes w"
  "kvTaskSpec (pubW E n s p w) = kvTaskSpec w"
  "kvTaskSpecVer (pubW E n s p w) = kvTaskSpecVer w"
  "kvProcess (pubW E n s p w) = kvProcess w"
  "kvUserTasks (pubW E n s p w) = kvUserTasks w"
  "kvFatalError (pubW E n s p w) = kvFatalError w"
  "kvTracking (pubW E n s p w) = kvTracking w"
  "kvOwnerID (pubW E n s p w) = kvOwnerID w"
  "kvOwnerName (pubW E n s p w) = kvOwnerName w"
  "kvClientTask (pubW E n s p w) = kvClientTask w"
  "kvLock (pubW E n s p w) = kvLock w"
  "kvClients (pubW E n s p w) = kvClients w"
  "consumers (pubW E n s p w) = consumers w"
  "txBuckets (pubW E n s p w) = txBuckets w"
  "planAcks (pubW E n s p w) = planAcks w"
  "sCache (pubW E n s p w) = sCache w"
  by (simp_all add: pubW_def)

lemma state_msg_sel [simp]:
  "pm_Subject (state_msg E n s p w) = NS n (e_ns E)"
  "pm_ID (state_msg E n s p w) = ksuid E (nextId w)"
  "pm_Headers (state_msg E n s p w) = po_Headers p"
  "pm_Embargo (state_msg E n s p w) = po_Embargo p"
  "pm_Payload (state_msg E n s p w) = PState (s\<lparr> ws_UnixTimeNano := clock E (ticks w) \<rparr>)"
  by (simp_all add: state_msg_def)

lemma Publish_plain [simp]:
  assumes "reliable w" "n \<noteq> NS WorkflowJobUserTaskExecute (e_ns E)"
  shows "PublishWorkflowState E n s p w = (Ok (s\<lparr> ws_UnixTimeNano := clock E (ticks w) \<rparr>), pubW E n s p w)"
  using assms by (simp add: PublishWorkflowState_def pubW_def state_msg_def Let_def)

lemma PublishMsg_reliable [simp]:
  "reliable w \<Longrightarrow> PublishMsg E subj pl w =
     (Ok (), w\<lparr> nextId := Suc (nextId w), published := published w @
       [\<lparr> pm_Subject = subj, pm_ID = ksuid E (nextId w), pm_Embargo = 0, pm_Headers = [], pm_Payload = pl \<rparr>] \<rparr>)"
  by (simp add: PublishMsg_def)

text \<open>No subject published with a placeholder is the formatted user task subject.\<close>

lemma ContainsS_prefix: "ContainsS s q \<Longrightarrow> ContainsS (p @ s) q"
  by (induction p) auto

lemma HasPrefix_mono: "HasPrefix s q \<Longrightarrow> HasPrefix (s @ t) q"
  by (simp add: HasPrefix_iff prefix_prefix)

lemma ContainsS_append: "ContainsS s q \<Longrightarrow> ContainsS (s @ t) q"
proof (induction s)
  case Nil
  then show ?case by (cases t) (auto simp: HasPrefix_def)
next
  case (Cons c s)
  then show ?case using HasPrefix_mono [of "c # s" q t] by auto
qed

lemma wsubj_contains: "ContainsS (wsubj s) ''%s''"
proof -
  have "ContainsS ''WORKFLOW.%s'' ''%s''" by (simp add: HasPrefix_def)
  then show ?thesis unfolding wsubj_def by (rule ContainsS_append)
qed

lemma NS_wsubj: "NS (wsubj s) ns = ''WORKFLOW.'' @ ns @ s"
  using wsubj_contains [of s] by (simp add: NS_def wsubj_def)

lemma wsubj_not_NS: "\<not> ContainsS (NS m ns) ''%s'' \<Longrightarrow> wsubj s \<noteq> NS m ns"
  using wsubj_contains by metis

text \<open>A namespace is usable when formatting leaves no placeholder behind.\<close>

definition ns_ok :: "env \<Rightarrow> bool" where
  "ns_ok E \<longleftrightarrow> \<not> ContainsS (NS WorkflowJobUserTaskExecute (e_ns E)) ''%s''"

lemma wsubj_not_user_task: "ns_ok E \<Longrightarrow> wsubj s \<noteq> NS WorkflowJobUserTaskExecute (e_ns E)"
  by (simp add: ns_ok_def wsubj_not_NS)

lemmas subject_defs = WorkflowActivityAbort_def WorkflowActivityComplete_def WorkflowActivityExecute_def
  WorkflowElementTimedExecute_def WorkflowExecutionAbort_def WorkflowExecutionComplete_def
  WorkflowExecutionExecute_def ExecutionTerminated_def WorkflowJobAwaitMessageExecute_def
  WorkflowJobAwaitMessageComplete_def WorkflowJobLaunchComplete_def WorkflowJobLaunchExecute_def
  WorkflowJobManualTaskComplete_def WorkflowJobManualTaskExecute_def
  WorkflowJobSendMessageComplete_def WorkflowJobSendMessageExecute_def
  WorkflowJobServiceTaskAbort_def WorkflowJobServiceTaskComplete_def
  WorkflowJobServiceTaskExecute_def WorkflowJobTimerTaskComplete_def WorkflowJobTimerTaskExecute_def
  WorkflowJobUserTaskComplete_def WorkflowJobGatewayTaskComplete_def
  WorkflowJobGatewayTaskExecute_def WorkflowJobGatewayTaskActivate_def
  WorkflowJobGatewayTaskReEnter_def WorkflowJobGatewayTaskAbort_def WorkflowJobGatewayTaskAwait_def
  WorkflowJobRetry_def WorkflowMessage_def WorkflowProcessComplete_def WorkflowProcessExecute_def
  WorkflowProcessTerminated_def WorkflowProcessCompensate_def WorkflowTimedExecute_def
  WorkflowTraversalComplete_def WorkflowTraversalExecute_def WorkflowSystemProcessFatalError_def

lemma subjects_not_user_task [simp]:
  assumes "ns_ok E"
  shows "WorkflowActivityAbort \<noteq> NS WorkflowJobUserTaskExecute (e_ns E)"
    "WorkflowActivityComplete \<noteq> NS WorkflowJobUserTaskExecute (e_ns E)"
    "WorkflowActivityExecute \<noteq> NS WorkflowJobUserTaskExecute (e_ns E)"
    "WorkflowElementTimedExecute \<noteq> NS WorkflowJobUserTaskExecute (e_ns E)"
    "WorkflowExecutionAbort \<noteq> NS WorkflowJobUserTaskExecute (e_ns E)"
    "WorkflowExecutionComplete \<noteq> NS WorkflowJobUserTaskExecute (e_ns E)"
    "WorkflowExecutionExecute \<noteq> NS WorkflowJobUserTaskExecute (e_ns E)"
    "ExecutionTerminated \<noteq> NS WorkflowJobUserTaskExecute (e_ns E)"
    "WorkflowJobAwaitMessageExecute \<noteq> NS WorkflowJobUserTaskExecute (e_ns E)"
    "WorkflowJobAwaitMessageComplete \<noteq> NS WorkflowJobUserTaskExecute (e_ns E)"
    "WorkflowJobLaunchComplete \<noteq> NS WorkflowJobUserTaskExecute (e_ns E)"
    "WorkflowJobLaunchExecute \<noteq> NS WorkflowJobUserTaskExecute (e_ns E)"
    "WorkflowJobManualTaskComplete \<noteq> NS WorkflowJobUserTaskExecute (e_ns E)"
    "WorkflowJobManualTaskExecute \<noteq> NS WorkflowJobUserTaskExecute (e_ns E)"
    "WorkflowJobSendMessageComplete \<noteq> NS WorkflowJobUserTaskExecute (e_ns E)"
    "WorkflowJobSendMessageExecute \<noteq> NS WorkflowJobUserTaskExecute (e_ns E)"
    "WorkflowJobServiceTaskAbort \<noteq> NS WorkflowJobUserTaskExecute (e_ns E)"
    "WorkflowJobServiceTaskComplete \<noteq> NS WorkflowJobUserTaskExecute (e_ns E)"
    "WorkflowJobServiceTaskExecute \<noteq> NS WorkflowJobUserTaskExecute (e_ns E)"
    "WorkflowJobTimerTaskComplete \<noteq> NS WorkflowJobUserTaskExecute (e_ns E)"
    "WorkflowJobTimerTaskExecute \<noteq> NS WorkflowJobUserTaskExecute (e_ns E)"
    "WorkflowJobUserTaskComplete \<noteq> NS WorkflowJobUserTaskExecute (e_ns E)"
    "WorkflowJobGatewayTaskComplete \<noteq> NS WorkflowJobUserTaskExecute (e_ns E)"
    "WorkflowJobGatewayTaskExecute \<noteq> NS WorkflowJobUserTaskExecute (e_ns E)"
    "WorkflowJobGatewayTaskActivate \<noteq> NS WorkflowJobUserTaskExecute (e_ns E)"
    "WorkflowJobGatewayTaskReEnter \<noteq> NS WorkflowJobUserTaskExecute (e_ns E)"
    "WorkflowJobGatewayTaskAbort \<noteq> NS WorkflowJobUserTaskExecute (e_ns E)"
    "WorkflowJobGatewayTaskAwait \<noteq> NS WorkflowJobUserTaskExecute (e_ns E)"
    "WorkflowJobRetry \<noteq> NS WorkflowJobUserTaskExecute (e_ns E)"
    "WorkflowMessage \<noteq> NS WorkflowJobUserTaskExecute (e_ns E)"
    "WorkflowProcessComplete \<noteq> NS WorkflowJobUserTaskExecute (e_ns E)"
    "WorkflowProcessExecute \<noteq> NS WorkflowJobUserTaskExecute (e_ns E)"
    "WorkflowProcessTerminated \<noteq> NS WorkflowJobUserTaskExecute (e_ns E)"
    "WorkflowProcessCompensate \<noteq> NS WorkflowJobUserTaskExecute (e_ns E)"
    "WorkflowTimedExecute \<noteq> NS WorkflowJobUserTaskExecute (e_ns E)"
    "WorkflowTraversalComplete \<noteq> NS WorkflowJobUserTaskExecute (e_ns E)"
    "WorkflowTraversalExecute \<noteq> NS WorkflowJobUserTaskExecute (e_ns E)"
  unfolding subject_defs by (rule wsubj_not_user_task [OF assms])+

text \<open>Formatted with a namespace, different subjects stay different.\<close>

lemma NS_wsubj_inj [simp]: "NS (wsubj s) ns = NS (wsubj t) ns \<longleftrightarrow> s = t"
  by (simp add: NS_wsubj)

lemma ContainsS_dot: "ContainsS (p @ CHR ''.'' # s) ''%s'' \<longleftrightarrow> ContainsS p ''%s'' \<or> ContainsS s ''%s''"
proof (induction p)
  case (Cons c p)
  have "HasPrefix (c # p @ CHR ''.'' # s) ''%s'' \<longleftrightarrow> HasPrefix (c # p) ''%s''" by (cases p) (auto simp: HasPrefix_def)
  then show ?case using Cons by auto
qed (simp add: HasPrefix_def)

lemma NS_NS:
  assumes "ns_ok E" "\<not> ContainsS s ''%s''"
  shows "NS (NS (wsubj (CHR ''.'' # s)) (e_ns E)) ns = NS (wsubj (CHR ''.'' # s)) (e_ns E)"
proof -
  have n: "NS (wsubj (CHR ''.'' # t)) (e_ns E) = (''WORKFLOW.'' @ e_ns E) @ CHR ''.'' # t" for t by (simp add: NS_wsubj)
  have "\<not> ContainsS (''WORKFLOW.'' @ e_ns E) ''%s''"
    using assms(1) unfolding ns_ok_def WorkflowJobUserTaskExecute_def n ContainsS_dot by simp
  then have "\<not> ContainsS (NS (wsubj (CHR ''.'' # s)) (e_ns E)) ''%s''"
    using assms(2) unfolding n ContainsS_dot by simp
  then show ?thesis by (simp add: NS_def)
qed

lemma NS_subjects_idem:
  assumes "ns_ok E"
  shows "NS (NS WorkflowActivityAbort (e_ns E)) ns = NS WorkflowActivityAbort (e_ns E)"
    "NS (NS WorkflowActivityComplete (e_ns E)) ns = NS WorkflowActivityComplete (e_ns E)"
    "NS (NS WorkflowJobServiceTaskAbort (e_ns E)) ns = NS WorkflowJobServiceTaskAbort (e_ns E)"
    "NS (NS WorkflowJobRetry (e_ns E)) ns = NS WorkflowJobRetry (e_ns E)"
    "NS (NS WorkflowTraversalExecute (e_ns E)) ns = NS WorkflowTraversalExecute (e_ns E)"
    "NS (NS WorkflowJobManualTaskExecute (e_ns E)) ns = NS WorkflowJobManualTaskExecute (e_ns E)"
    "NS (NS WorkflowProcessExecute (e_ns E)) ns = NS WorkflowProcessExecute (e_ns E)"
  using NS_NS [OF assms] by (simp_all add: subject_defs HasPrefix_def)
lemma NS_subjects_not_user_task [simp]:
  "NS WorkflowActivityAbort ns \<noteq> NS WorkflowJobUserTaskExecute ns"
  "NS WorkflowActivityComplete ns \<noteq> NS WorkflowJobUserTaskExecute ns"
  "NS WorkflowActivityExecute ns \<noteq> NS WorkflowJobUserTaskExecute ns"
  "NS WorkflowElementTimedExecute ns \<noteq> NS WorkflowJobUserTaskExecute ns"
  "NS WorkflowExecutionAbort ns \<noteq> NS WorkflowJobUserTaskExecute ns"
  "NS WorkflowExecutionComplete ns \<noteq> NS WorkflowJobUserTaskExecute ns"
  "NS WorkflowExecutionExecute ns \<noteq> NS WorkflowJobUserTaskExecute ns"
  "NS ExecutionTerminated ns \<noteq> NS WorkflowJobUserTaskExecute ns"
  "NS WorkflowJobAwaitMessageExecute ns \<noteq> NS WorkflowJobUserTaskExecute ns"
  "NS WorkflowJobAwaitMessageComplete ns \<noteq> NS WorkflowJobUserTaskExecute ns"
  "NS WorkflowJobLaunchComplete ns \<noteq> NS WorkflowJobUserTaskExecute ns"
  "NS WorkflowJobLaunchExecute ns \<noteq> NS WorkflowJobUserTaskExecute ns"
  "NS WorkflowJobManualTaskComplete ns \<noteq> NS WorkflowJobUserTaskExecute ns"
  "NS WorkflowJobManualTaskExecute ns \<noteq> NS WorkflowJobUserTaskExecute ns"
  "NS WorkflowJobSendMessageComplete ns \<noteq> NS WorkflowJobUserTaskExecute ns"
  "NS WorkflowJobSendMessageExecute ns \<noteq> NS WorkflowJobUserTaskExecute ns"
  "NS WorkflowJobServiceTaskAbort ns \<noteq> NS WorkflowJobUserTaskExecute ns"
  "NS WorkflowJobServiceTaskComplete ns \<noteq> NS WorkflowJobUserTaskExecute ns"
  "NS WorkflowJobServiceTaskExecute ns \<noteq> NS WorkflowJobUserTaskExecute ns"
  "NS WorkflowJobTimerTaskComplete ns \<noteq> NS WorkflowJobUserTaskExecute ns"
  "NS WorkflowJobTimerTaskExecute ns \<noteq> NS WorkflowJobUserTaskExecute ns"
  "NS WorkflowJobUserTaskComplete ns \<noteq> NS WorkflowJobUserTaskExecute ns"
  "NS WorkflowJobGatewayTaskComplete ns \<noteq> NS WorkflowJobUserTaskExecute ns"
  "NS WorkflowJobGatewayTaskExecute ns \<noteq> NS WorkflowJobUserTaskExecute ns"
  "NS WorkflowJobGatewayTaskActivate ns \<noteq> NS WorkflowJobUserTaskExecute ns"
  "NS WorkflowJobGatewayTaskReEnter ns \<noteq> NS WorkflowJobUserTaskExecute ns"
  "NS WorkflowJobGatewayTaskAbort ns \<noteq> NS WorkflowJobUserTaskExecute ns"
  "NS WorkflowJobGatewayTaskAwait ns \<noteq> NS WorkflowJobUserTaskExecute ns"
  "NS WorkflowJobRetry ns \<noteq> NS WorkflowJobUserTaskExecute ns"
  "NS WorkflowMessage ns \<noteq> NS WorkflowJobUserTaskExecute ns"
  "NS WorkflowProcessComplete ns \<noteq> NS WorkflowJobUserTaskExecute ns"
  "NS WorkflowProcessExecute ns \<noteq> NS WorkflowJobUserTaskExecute ns"
  "NS WorkflowProcessTerminated ns \<noteq> NS WorkflowJobUserTaskExecute ns"
  "NS WorkflowProcessCompensate ns \<noteq> NS WorkflowJobUserTaskExecute ns"
  "NS WorkflowTimedExecute ns \<noteq> NS WorkflowJobUserTaskExecute ns"
  "NS WorkflowTraversalComplete ns \<noteq> NS WorkflowJobUserTaskExecute ns"
  "NS WorkflowTraversalExecute ns \<noteq> NS WorkflowJobUserTaskExecute ns"
  unfolding subject_defs WorkflowJobUserTaskExecute_def by simp_all

section \<open>The log of published messages only grows\<close>

lemma grows_io [along_intros]: "along (\<lambda>a b. prefix (published a) (published b)) io"
  by (rule alongI) (auto simp: io_def split: list.splits option.splits)

lemma grows_prims [along_intros]:
  "along (\<lambda>a b. prefix (published a) (published b)) (newID E)"
  "along (\<lambda>a b. prefix (published a) (published b)) (timeNow E)"
  "along (\<lambda>a b. prefix (published a) (published b)) KvsFor"
  by (auto simp: along_def KvsFor_def intro: grows_io [unfolded along_def, rule_format])

section \<open>Definitions and the cache\<close>

text \<open>The cache holds what the store holds.\<close>

definition cache_coherent :: "world \<Rightarrow> bool" where
  "cache_coherent w \<longleftrightarrow>
     (\<forall>k v. map_of (sCache w) k = Some v \<longrightarrow> kv_get (kvDefinition w) k = Some v)"

lemma GetWorkflow_reliable:
  assumes "reliable w" "cache_coherent w" "kv_get (kvDefinition w) i = Some wkf"
  shows "\<exists>c. GetWorkflow E i w = (Ok wkf, w\<lparr> sCache := c \<rparr>) \<and> cache_coherent (w\<lparr> sCache := c \<rparr>)"
proof (cases "map_of (sCache w) i")
  case None
  then have "GetWorkflow E i w =
      (Ok wkf, if cache_admits E i then w\<lparr> sCache := AList.update i wkf (sCache w) \<rparr> else w)"
    using assms by (simp add: GetWorkflow_def Cacheable_def bnd_apply handle_apply)
  moreover have "cache_coherent (w\<lparr> sCache := AList.update i wkf (sCache w) \<rparr>)" "w = w\<lparr> sCache := sCache w \<rparr>"
    using assms by (auto simp: cache_coherent_def)
  ultimately show ?thesis using assms(2) by (metis (full_types))
next
  case (Some v)
  then have "v = wkf" using assms by (force simp: cache_coherent_def)
  then have "GetWorkflow E i w = (Ok wkf, w\<lparr> sCache := sCache w \<rparr>)"
    using Some by (simp add: GetWorkflow_def Cacheable_def bnd_apply)
  then show ?thesis using assms(2) by (intro exI [of _ "sCache w"]) (simp add: cache_coherent_def)
qed

lemma GetWorkflow_missing:
  assumes "reliable w" "cache_coherent w" "kv_get (kvDefinition w) i = None"
  shows "GetWorkflow E i w = (Err ErrWorkflowNotFound, w)"
proof -
  have "map_of (sCache w) i = None"
    using assms(2,3) by (metis cache_coherent_def not_None_eq option.distinct(1))
  then show ?thesis using assms by (simp add: GetWorkflow_def Cacheable_def bnd_apply handle_apply)
qed

lemma GetWorkflow_hit [simp]:
  "map_of (sCache w) i = Some wkf \<Longrightarrow> GetWorkflow E i w = (Ok wkf, w)"
  by (simp add: GetWorkflow_def Cacheable_def bnd_apply)

section \<open>Lookups\<close>

lemma GetExecution_reliable [simp]:
  "reliable w \<Longrightarrow> GetExecution i w =
     (case kv_get (kvExecution w) i of Some v \<Rightarrow> (Ok v, w) | None \<Rightarrow> (Err ErrExecutionNotFound, w))"
  by (simp add: GetExecution_def bnd_apply handle_apply split: option.splits)

lemma GetProcessInstance_reliable [simp]:
  "reliable w \<Longrightarrow> GetProcessInstance i w =
     (case kv_get (kvProcessInstance w) i of Some v \<Rightarrow> (Ok v, w) | None \<Rightarrow> (Err ErrProcessInstanceNotFound, w))"
  by (simp add: GetProcessInstance_def bnd_apply handle_apply split: option.splits)

lemma GetJob_reliable [simp]:
  "reliable w \<Longrightarrow> GetJob i w =
     (case kv_get (kvJob w) i of Some v \<Rightarrow> (Ok v, w) | None \<Rightarrow> (Err ErrJobNotFound, w))"
  by (simp add: GetJob_def bnd_apply handle_apply split: option.splits)

lemma getWorkflowVersions_reliable [simp]:
  "reliable w \<Longrightarrow> getWorkflowVersions i w =
     (case kv_get (kvVersion w) i of Some v \<Rightarrow> (Ok v, w) | None \<Rightarrow> (Err ErrWorkflowNotFound, w))"
  by (simp add: getWorkflowVersions_def bnd_apply handle_apply split: option.splits)

lemma getWorkflowNameFor_reliable [simp]:
  "reliable w \<Longrightarrow> getWorkflowNameFor i w =
     (case kv_get (kvProcess w) i of Some v \<Rightarrow> (Ok v, w) | None \<Rightarrow> (Err ErrProcessNotFound, w))"
  by (simp add: getWorkflowNameFor_def bnd_apply handle_apply split: option.splits)

lemma DeleteJob_reliable [simp]:
  "reliable w \<Longrightarrow> DeleteJob i w = (Ok (), kvJob_update (kv_delete i) w)"
  by (simp add: DeleteJob_def bnd_apply)

lemma createJob_reliable [simp]:
  "reliable w \<Longrightarrow> createJob E job w =
     (let tid = ksuid E (nextId w); job = job\<lparr> ws_Id := Push (ws_Id job) tid \<rparr>
      in (Ok (tid, job), kvJob_update (kv_put tid job) (w\<lparr> nextId := Suc (nextId w) \<rparr>)))"
  by (simp add: createJob_def bnd_apply Let_def)

text \<open>A job that was created is found under its id, which is on top of its stack.\<close>

lemma createJob_GetJob:
  assumes "reliable w" "createJob E job w = (Ok (tid, job'), w')"
  shows "GetJob tid w' = (Ok job', w') \<and> TID (ws_Id job') = tid \<and> Pop (ws_Id job') = ws_Id job"
  using assms by (auto simp: Let_def)

section \<open>Process instances and their execution\<close>

lemma remove_member_remove1: "remove_member xs x = remove1 x xs"
  by (induction xs) auto

definition instances_linked :: "world \<Rightarrow> bool" where
  "instances_linked w \<longleftrightarrow>
     (\<forall>i pi. kv_get (kvProcessInstance w) i = Some pi \<longrightarrow>
        pi_ProcessInstanceId pi = i \<and>
        (\<exists>ex. kv_get (kvExecution w) (pi_ExecutionId pi) = Some ex \<and> i \<in> set (ex_ProcessInstanceId ex)))"

definition executions_keyed :: "world \<Rightarrow> bool" where
  "executions_keyed w \<longleftrightarrow>
     (\<forall>i ex. kv_get (kvExecution w) i = Some ex \<longrightarrow> ex_ExecutionId ex = i \<and> distinct (ex_ProcessInstanceId ex))"

lemma createProcessInstance_reliable:
  assumes "reliable w" "kv_get (kvExecution w) eid = Some ex"
  shows "createProcessInstance E eid ppi pel pr wn wid hs w =
    (let pid = ksuid E (nextId w);
         pi = \<lparr> pi_ProcessInstanceId = pid, pi_ExecutionId = eid,
                pi_ParentProcessId = Some ppi, pi_ParentElementId = Some pel,
                pi_WorkflowId = wid, pi_WorkflowName = wn, pi_ProcessId = pr,
                pi_GatewayComplete = [], pi_Headers = hs \<rparr>
     in (Ok pi, w\<lparr> nextId := Suc (nextId w), kvProcessInstance := kv_put pid pi (kvProcessInstance w),
          kvExecution := kv_put eid (ex\<lparr> ex_ProcessInstanceId := ex_ProcessInstanceId ex @ [pid] \<rparr>) (kvExecution w) \<rparr>))"
  using assms by (simp add: createProcessInstance_def bnd_apply Let_def)

lemma createProcessInstance_orphan:
  assumes "reliable w" "kv_get (kvExecution w) eid = None"
  shows "createProcessInstance E eid ppi pel pr wn wid hs w =
    (Err ErrExecutionNotFound, w\<lparr> nextId := Suc (nextId w) \<rparr>)"
  using assms by (simp add: createProcessInstance_def bnd_apply)

lemma createProcessInstance_linked:
  assumes "reliable w" "instances_linked w"
    and "createProcessInstance E eid ppi pel pr wn wid hs w = (r, w')"
  shows "instances_linked w'"
proof (cases "kv_get (kvExecution w) eid")
  case None
  then have "w' = w\<lparr> nextId := Suc (nextId w) \<rparr>" using createProcessInstance_orphan assms by fastforce
  then show ?thesis using assms(2) by (simp add: instances_linked_def)
next
  case (Some ex)
  let ?pid = "ksuid E (nextId w)"
  have pis: "\<And>i pi. kv_get (kvProcessInstance w') i = Some pi \<Longrightarrow>
      (i = ?pid \<and> pi_ProcessInstanceId pi = ?pid \<and> pi_ExecutionId pi = eid) \<or>
      kv_get (kvProcessInstance w) i = Some pi"
    and exs: "\<And>k. kv_get (kvExecution w') k = (if k = eid
      then Some (ex\<lparr> ex_ProcessInstanceId := ex_ProcessInstanceId ex @ [?pid] \<rparr>) else kv_get (kvExecution w) k)"
    using createProcessInstance_reliable [OF assms(1) Some, of E ppi pel pr wn wid hs] assms(3)
    by (auto simp: Let_def split: if_splits)
  show ?thesis
    unfolding instances_linked_def
  proof (intro allI impI)
    fix i pi
    assume "kv_get (kvProcessInstance w') i = Some pi"
    from pis [OF this] show "pi_ProcessInstanceId pi = i \<and>
      (\<exists>ex. kv_get (kvExecution w') (pi_ExecutionId pi) = Some ex \<and> i \<in> set (ex_ProcessInstanceId ex))"
    proof
      assume old: "kv_get (kvProcessInstance w) i = Some pi"
      then obtain x where "pi_ProcessInstanceId pi = i" "kv_get (kvExecution w) (pi_ExecutionId pi) = Some x"
        "i \<in> set (ex_ProcessInstanceId x)" using assms(2) unfolding instances_linked_def by blast
      then show ?thesis using Some by (cases "pi_ExecutionId pi = eid") (auto simp: exs)
    qed (auto simp: exs)
  qed
qed

text \<open>What destroying an instance leaves: the instance is gone, it is struck from its
  execution, and the execution goes with the last instance, with a completion message.\<close>

definition struck :: "string \<Rightarrow> execution \<Rightarrow> execution" where
  "struck pid ex = ex\<lparr> ex_ProcessInstanceId := remove1 pid (ex_ProcessInstanceId ex) \<rparr>"

lemma destroyProcessInstance_reliable:
  assumes "reliable w" "ns_ok E" "kv_get (kvExecution w) eid = Some ex"
  shows "\<exists>w'. destroyProcessInstance E st pid eid w =
        (Ok (st\<lparr> ws_UnixTimeNano := clock E (if ex_ProcessInstanceId (struck pid ex) = [] then Suc (ticks w) else ticks w) \<rparr>), w') \<and>
      reliable w' \<and>
      (\<forall>k. kv_get (kvProcessInstance w') k = (if k = pid then None else kv_get (kvProcessInstance w) k)) \<and>
      (\<forall>k. kv_get (kvExecution w') k =
         (if k = eid then (if ex_ProcessInstanceId (struck pid ex) = [] then None else Some (struck pid ex))
          else kv_get (kvExecution w) k)) \<and>
      map pm_Subject (published w') = map pm_Subject (published w) @
        (if ex_ProcessInstanceId (struck pid ex) = []
         then [NS WorkflowProcessTerminated (e_ns E), NS WorkflowExecutionComplete (e_ns E)]
         else [NS WorkflowProcessTerminated (e_ns E)]) \<and>
      kvDefinition w' = kvDefinition w \<and> kvHistory w' = kvHistory w \<and> kvJob w' = kvJob w"
  using assms
  by (auto simp: destroyProcessInstance_def UpdateObjM_def UpdateObjA_def bnd_apply handle_apply
      struck_def remove_member_remove1)

text \<open>C32. Destroying a process instance keeps the invariant that every stored instance belongs to a
  stored execution that lists it, and that executions are stored under their own id with
  distinct instances.\<close>

theorem destroyProcessInstance_linked:
  assumes "reliable w" "ns_ok E" "kv_get (kvExecution w) eid = Some ex"
    and "instances_linked w" "executions_keyed w"
    and "destroyProcessInstance E st pid eid w = (r, w')"
    and "kv_get (kvProcessInstance w) pid = Some pi" "pi_ExecutionId pi = eid"
  shows "instances_linked w' \<and> executions_keyed w'"
proof -
  obtain w2 where w2: "destroyProcessInstance E st pid eid w = (Ok (st\<lparr> ws_UnixTimeNano := clock E (if ex_ProcessInstanceId (struck pid ex) = [] then Suc (ticks w) else ticks w) \<rparr>), w2)"
    and pis: "\<forall>k. kv_get (kvProcessInstance w2) k = (if k = pid then None else kv_get (kvProcessInstance w) k)"
    and exs: "\<forall>k. kv_get (kvExecution w2) k =
         (if k = eid then (if ex_ProcessInstanceId (struck pid ex) = [] then None else Some (struck pid ex))
          else kv_get (kvExecution w) k)"
    using destroyProcessInstance_reliable [OF assms(1-3)] by blast
  have w': "w' = w2" using w2 assms(6) by simp
  have still: "q \<in> set (remove1 pid (ex_ProcessInstanceId ex))" if "q \<in> set (ex_ProcessInstanceId ex)" "q \<noteq> pid" for q
    using that by simp
  have "instances_linked w2"
    unfolding instances_linked_def
  proof (intro allI impI)
    fix q qi
    assume "kv_get (kvProcessInstance w2) q = Some qi"
    then have q: "q \<noteq> pid" "kv_get (kvProcessInstance w) q = Some qi" using pis by (auto split: if_splits)
    then obtain qx where qx: "pi_ProcessInstanceId qi = q" "kv_get (kvExecution w) (pi_ExecutionId qi) = Some qx"
      "q \<in> set (ex_ProcessInstanceId qx)" using assms(4) by (auto simp: instances_linked_def)
    have "\<exists>x. kv_get (kvExecution w2) (pi_ExecutionId qi) = Some x \<and> q \<in> set (ex_ProcessInstanceId x)"
    proof (cases "pi_ExecutionId qi = eid")
      case True
      then have "q \<in> set (ex_ProcessInstanceId (struck pid ex))" using qx assms(3) q still by (simp add: struck_def)
      then show ?thesis using exs True by auto
    next
      case False
      then show ?thesis using exs qx by auto
    qed
    then show "pi_ProcessInstanceId qi = q \<and>
      (\<exists>x. kv_get (kvExecution w2) (pi_ExecutionId qi) = Some x \<and> q \<in> set (ex_ProcessInstanceId x))"
      using qx by blast
  qed
  moreover have "executions_keyed w2"
    using assms(3,5) exs by (auto simp: executions_keyed_def struck_def split: if_splits)
  ultimately show ?thesis using w' by simp
qed

text \<open>When the update of the execution fails before it was read, the execution is deleted
  whatever instances it lists.\<close>

lemma destroyProcessInstance_fault_deletes:
  assumes "faults w = [None, None, Some m]" "kv_get (kvExecution w) eid = Some ex"
  shows "\<exists>w'. destroyProcessInstance E st pid eid w = (Err (ErrTransport m), w') \<and>
           kv_get (kvExecution w') eid = None"
  using assms
  by (auto simp: destroyProcessInstance_def UpdateObjM_def UpdateObjA_def KvsFor_def LoadObj_def io_def
      DeleteObj_def empty_execution_def bnd_apply handle_apply)

text \<open>Terminating one instance of an execution deletes the execution, also when other
  instances of it are running; these no longer pass \<open>hasValidProcess\<close>.\<close>

lemma xDestroyProcessInstance_reliable:
  assumes "reliable w" "ns_ok E" "kv_get (kvExecution w) (ws_ExecutionId st) = Some ex"
    and "ex_ExecutionId ex = ws_ExecutionId st"
    and "kv_get (kvProcessInstance w) (ws_ProcessInstanceId st) = Some pi"
    and "pi_ProcessInstanceId pi = ws_ProcessInstanceId st"
  shows "\<exists>w'. xDestroyProcessInstance E st w = (Ok (), w') \<and> reliable w' \<and>
           kv_get (kvExecution w') (ws_ExecutionId st) = None \<and>
           (\<forall>k. kv_get (kvProcessInstance w') k =
              (if k = ws_ProcessInstanceId st then None else kv_get (kvProcessInstance w) k))"
proof -
  obtain w2 t where w2: "destroyProcessInstance E st (ws_ProcessInstanceId st) (ws_ExecutionId st) w =
      (Ok (st\<lparr> ws_UnixTimeNano := t \<rparr>), w2)" "reliable w2"
    "\<forall>k. kv_get (kvProcessInstance w2) k = (if k = ws_ProcessInstanceId st then None else kv_get (kvProcessInstance w) k)"
    using destroyProcessInstance_reliable [OF assms(1-3), of st "ws_ProcessInstanceId st"] by blast
  show ?thesis
    using assms w2
    by (auto simp: xDestroyProcessInstance_def deleteExecution_def bnd_apply handle_apply Let_def whenE_def
        split: option.splits)
qed

lemma xDestroy_missing_instance:
  assumes "reliable w" "kv_get (kvExecution w) (ws_ExecutionId st) = Some ex"
    and "kv_get (kvProcessInstance w) (ws_ProcessInstanceId st) = None"
  shows "xDestroyProcessInstance E st w = (Ok (), w)"
  using assms by (simp add: xDestroyProcessInstance_def bnd_apply handle_apply IsNotFound_def integrityErrors_def)

section \<open>Owners and user tasks\<close>

text \<open>An owner id, once drawn, is returned for the name ever after, and the name is found
  from the id.\<close>

theorem OwnerID_roundtrip:
  assumes "reliable w" "kv_get (kvOwnerID w) (if name = [] then ''AnyUser'' else name) = None"
    and "OwnerID E name w = (Ok oid, w')"
  shows "OwnerID E name w' = (Ok oid, w') \<and>
     OwnerName oid w' = (Ok (if name = [] then ''AnyUser'' else name), w')"
  using assms by (auto simp: OwnerID_def OwnerName_def Let_def bnd_apply handle_apply)

lemma openUserTask_reliable [simp]:
  "reliable w \<Longrightarrow> openUserTask E owner tid w =
     (Ok (), case kv_get (kvUserTasks w) owner of
        Some ids \<Rightarrow> kvUserTasks_update (kv_put owner (ids @ [tid])) w
      | None \<Rightarrow> kvUserTasks_update (kv_put owner [tid]) (kvUserTasks_update (kv_put owner []) w))"
  by (simp add: openUserTask_def bnd_apply split: option.splits)

definition tasks_of :: "world \<Rightarrow> string \<Rightarrow> string list" where
  "tasks_of w owner = (case kv_get (kvUserTasks w) owner of Some ids \<Rightarrow> ids | None \<Rightarrow> [])"

lemma openUserTask_tasks:
  assumes "reliable w" "openUserTask E owner tid w = (r, w')"
  shows "tasks_of w' o' = (if o' = owner then tasks_of w o' @ [tid] else tasks_of w o')"
  using assms by (auto simp: tasks_of_def split: option.splits)

lemma closeUserTask_loop:
  assumes "reliable w" "distinct owners"
  shows "\<exists>w'. foldE (closeTaskFor tid) acc owners w = (Ok acc, w') \<and> reliable w' \<and>
           (\<forall>o'. tasks_of w' o' = (if o' \<in> set owners then remove1 tid (tasks_of w o') else tasks_of w o'))"
  using assms
proof (induction owners arbitrary: w)
  case (Cons i owners)
  obtain w1 where s: "closeTaskFor tid acc i w = (Ok acc, w1)" "reliable w1"
    and t: "\<forall>o'. tasks_of w1 o' = (if o' = i then remove1 tid (tasks_of w o') else tasks_of w o')"
    using Cons.prems(1)
    by (cases "kv_get (kvUserTasks w) i")
       (auto simp: closeTaskFor_def UpdateObjM_def UpdateObjA_def bnd_apply handle_apply tasks_of_def
          remove_member_remove1)
  obtain w2 where "foldE (closeTaskFor tid) acc owners w1 = (Ok acc, w2)"
    "reliable w2" "\<forall>o'. tasks_of w2 o' = (if o' \<in> set owners then remove1 tid (tasks_of w1 o') else tasks_of w1 o')"
    using Cons.IH [OF s(2)] Cons.prems(2) by auto
  then show ?case using s t Cons.prems(2) by (auto simp: bnd_apply)
qed auto

text \<open>Completing a user task takes it off the lists of its owners and groups, and off no
  other list.\<close>

theorem closeUserTask_reliable:
  assumes "reliable w" "kv_get (kvJob w) tid = Some job" "distinct (ws_Owners job @ ws_Groups job)"
  shows "\<exists>w'. closeUserTask E tid w = (Ok (), w') \<and>
    (\<forall>o'. tasks_of w' o' = (if o' \<in> set (ws_Owners job @ ws_Groups job)
                           then remove1 tid (tasks_of w o') else tasks_of w o'))"
  using assms closeUserTask_loop [OF assms(1,3), of tid None]
  by (auto simp: closeUserTask_def bnd_apply)

end
