(* ===== verification/History.thy ===== *)
theory History
  imports Entities
begin

text \<open>
  The history of a process instance: \<open>internal/server/workflow/history.go\<close>.

  An entry is stored under \<open>instance.tracking.type\<close>.  A function that streams results to a
  channel and errors to another is an action that returns the results sent before it
  returned, with the error sent last, if any.
\<close>

type_synonym 'a streamed = "'a list \<times> goerr option"

fun stream_each :: "('k \<Rightarrow> 'a act) \<Rightarrow> 'k list \<Rightarrow> 'a streamed act" where
  "stream_each f [] = ret ([], None)"
| "stream_each f (k # ks) =
     handle (f k) (\<lambda>e. ret ([], Some e))
       (\<lambda>x. bnd (stream_each f ks) (\<lambda>(xs, err). ret (x # xs, err)))"

section \<open>Recording\<close>

definition historyKey :: "string \<Rightarrow> string \<Rightarrow> history_type \<Rightarrow> string" where
  "historyKey pid tid ty = pid @ ''.'' @ tid @ ''.'' @ show_nat (history_num ty)"

definition history_of :: "workflow_state \<Rightarrow> history_type \<Rightarrow> history_entry" where
  "history_of state historyType =
     \<lparr> he_ItemType = historyType, he_WorkflowId = Some (ws_WorkflowId state),
       he_ExecutionId = Some (ws_ExecutionId state), he_ElementId = Some (ws_ElementId state),
       he_ElementName = Some (ws_ElementName state),
       he_ProcessInstanceId = Some (ws_ProcessInstanceId state),
       he_CancellationState = Some (ws_State state), he_Vars = ws_Vars state,
       he_Timer = ws_Timer state, he_Error = ws_Error state,
       he_UnixTimeNano = ws_UnixTimeNano state, he_Execute = ws_Execute state, he_Id = ws_Id state,
       he_Compensating = False, he_ProcessId = ws_ProcessId state,
       he_SatisfiesGatewayExpectation = ws_SatisfiesGatewayExpectation state,
       he_GatewayExpectations = ws_GatewayExpectations state, he_WorkflowName = ws_WorkflowName state,
       he_PreviousActivity = ws_PreviousActivity state, he_PreviousElement = ws_PreviousElement state \<rparr>"

definition RecordHistory :: "workflow_state \<Rightarrow> history_type \<Rightarrow> unit act" where
  "RecordHistory state historyType =
     bnd KvsFor (\<lambda>_.
       let trackingId = TID (ws_Id state);
           newId = historyKey (ws_ProcessInstanceId state) trackingId historyType
       in handle (SaveObj HistoryB newId (history_of state historyType))
            (\<lambda>e. fail (ErrWorkflowFatal e None)) ret)"

definition RecordHistoryProcessStart :: "workflow_state \<Rightarrow> unit act" where
  "RecordHistoryProcessStart state = RecordHistory state processExecute"

definition RecordHistoryActivityExecute :: "workflow_state \<Rightarrow> unit act" where
  "RecordHistoryActivityExecute state = RecordHistory state activityExecute"

definition RecordHistoryActivityComplete :: "workflow_state \<Rightarrow> unit act" where
  "RecordHistoryActivityComplete state = RecordHistory state activityComplete"

definition RecordHistoryJobExecute :: "workflow_state \<Rightarrow> unit act" where
  "RecordHistoryJobExecute state = RecordHistory state jobExecute"

definition RecordHistoryJobComplete :: "workflow_state \<Rightarrow> unit act" where
  "RecordHistoryJobComplete state = RecordHistory state jobComplete"

definition RecordHistoryJobAbort :: "workflow_state \<Rightarrow> unit act" where
  "RecordHistoryJobAbort state = RecordHistory state jobAbort"

definition RecordHistoryProcessComplete :: "workflow_state \<Rightarrow> unit act" where
  "RecordHistoryProcessComplete state = RecordHistory state processComplete"

definition RecordHistoryProcessSpawn :: "workflow_state \<Rightarrow> unit act" where
  "RecordHistoryProcessSpawn state = RecordHistory state processSpawnSync"

definition RecordHistoryProcessAbort :: "workflow_state \<Rightarrow> unit act" where
  "RecordHistoryProcessAbort state = RecordHistory state processAbort"

definition RecordHistoryCompensationCheckpoint :: "workflow_state \<Rightarrow> unit act" where
  "RecordHistoryCompensationCheckpoint state = RecordHistory state compensationCheckpoint"

section \<open>Reading\<close>

definition GetProcessHistory :: "env \<Rightarrow> string \<Rightarrow> history_entry streamed act" where
  "GetProcessHistory E processInstanceId =
     handle KvsFor (\<lambda>e. ret ([], Some e)) (\<lambda>_.
     handle (KeyPrefixSearch E HistoryB processInstanceId True False) (\<lambda>e. ret ([], Some e)) (\<lambda>keys.
     stream_each (LoadObj HistoryB) keys))"

definition GetProcessHistoryItem :: "string \<Rightarrow> string \<Rightarrow> history_type \<Rightarrow> history_entry act" where
  "GetProcessHistoryItem processInstanceID trackingID historyType =
     bnd KvsFor (\<lambda>_. LoadObj HistoryB (historyKey processInstanceID trackingID historyType))"

definition type_string :: "history_type \<Rightarrow> string" where
  "type_string ty = show_nat (history_num ty)"

text \<open>The part of a key before its last dot and the part after it.\<close>

definition beforeDot :: "string \<Rightarrow> string" where
  "beforeDot k = rev (drop 1 (dropWhile (\<lambda>c. c \<noteq> CHR ''.'') (rev k)))"

definition afterDot :: "string \<Rightarrow> string" where
  "afterDot k = rev (takeWhile (\<lambda>c. c \<noteq> CHR ''.'') (rev k))"

definition active_key :: "string list \<Rightarrow> string \<Rightarrow> bool" where
  "active_key keys k =
     (let st = afterDot k; entryId = beforeDot k in
      if st = type_string activityExecute then
        entryId @ ''.'' @ type_string activityComplete \<notin> set keys \<and>
        entryId @ ''.'' @ type_string activityAbort \<notin> set keys
      else if st = type_string jobExecute then
        entryId @ ''.'' @ type_string jobComplete \<notin> set keys \<and>
        entryId @ ''.'' @ type_string jobAbort \<notin> set keys
      else False)"

definition GetActiveEntries :: "env \<Rightarrow> string \<Rightarrow> history_entry streamed act" where
  "GetActiveEntries E processInstanceID =
     handle KvsFor (\<lambda>e. ret ([], Some e)) (\<lambda>_.
     handle (KeyPrefixSearchMap E HistoryB processInstanceID False False) (\<lambda>e. ret ([], Some e)) (\<lambda>keys.
     stream_each (LoadObj HistoryB) (filter (active_key keys) (map_order E 5 keys))))"

section \<open>Properties\<close>

lemma RecordHistory_reliable [simp]:
  "reliable w \<Longrightarrow> RecordHistory st ty w =
     (Ok (), kvHistory_update (kv_put (historyKey (ws_ProcessInstanceId st) (TID (ws_Id st)) ty) (history_of st ty)) w)"
  by (simp add: RecordHistory_def Let_def bnd_apply handle_apply)

lemma GetProcessHistoryItem_reliable [simp]:
  "reliable w \<Longrightarrow> GetProcessHistoryItem p t ty w =
     (case kv_get (kvHistory w) (historyKey p t ty) of Some v \<Rightarrow> (Ok v, w) | None \<Rightarrow> (Err ErrKeyNotFound, w))"
  by (simp add: GetProcessHistoryItem_def bnd_apply split: option.splits)

abbreviation dot_free :: "string \<Rightarrow> bool" where
  "dot_free s \<equiv> CHR ''.'' \<notin> set s"

lemma dot_not_digit: "d < 10 \<Longrightarrow> digit_char d \<noteq> CHR ''.''"
proof
  assume "d < 10" "digit_char d = CHR ''.''"
  then have "char_digit (CHR ''.'') = Some d" by (metis char_digit_char)
  then show False by (simp add: char_digit_def)
qed

lemma dot_free_show_nat [simp]: "dot_free (show_nat n)"
  using show_nat_digits dot_not_digit by metis

lemma historyKey_Join: "historyKey p t ty = Join ''.'' [p, t, type_string ty]"
  by (simp add: historyKey_def type_string_def)

lemma history_num_inj: "history_num a = history_num b \<Longrightarrow> a = b"
  by (cases a; cases b; simp)

lemma type_string_inj [simp]: "type_string a = type_string b \<longleftrightarrow> a = b"
  using show_nat_inj history_num_inj by (auto simp: type_string_def)

lemma dot_free_type [simp]: "dot_free (type_string ty)"
  by (simp add: type_string_def)

text \<open>Entries of different instances, tracking ids or types never share a key.\<close>

lemma historyKey_inj:
  assumes "dot_free p" "dot_free t" "dot_free p'" "dot_free t'"
    and "historyKey p t ty = historyKey p' t' ty'"
  shows "p = p' \<and> t = t' \<and> ty = ty'"
proof -
  have "[p, t, type_string ty] = [p', t', type_string ty']"
    by (rule Join_inj [where c = "CHR ''.''"]) (use assms in \<open>auto simp: historyKey_Join\<close>)
  then show ?thesis by simp
qed

lemma SplitChar_historyKey:
  assumes "dot_free p" "dot_free t"
  shows "SplitChar (CHR ''.'') (historyKey p t ty) = [p, t, type_string ty]"
  unfolding historyKey_Join by (rule Split_Join) (use assms in auto)

lemma afterDot_historyKey [simp]: "afterDot (historyKey p t ty) = type_string ty"
proof -
  have 1: "afterDot (x @ CHR ''.'' # s) = s" if "dot_free s" for x s
    using that by (simp add: afterDot_def takeWhile_append)
  have "historyKey p t ty = (p @ ''.'' @ t) @ CHR ''.'' # type_string ty"
    by (simp add: historyKey_def type_string_def)
  then show ?thesis using 1 dot_free_type by metis
qed

lemma beforeDot_historyKey [simp]: "beforeDot (historyKey p t ty) = p @ ''.'' @ t"
proof -
  have 1: "beforeDot (x @ CHR ''.'' # s) = x" if "dot_free s" for x s
    using that by (simp add: beforeDot_def dropWhile_append)
  have "historyKey p t ty = (p @ ''.'' @ t) @ CHR ''.'' # type_string ty"
    by (simp add: historyKey_def type_string_def)
  then show ?thesis using 1 dot_free_type by metis
qed

lemma entry_key: "(p @ ''.'' @ t) @ ''.'' @ type_string ty = historyKey p t ty"
  by (simp add: historyKey_def type_string_def)

text \<open>A prefix search on an instance id finds the keys of that instance and no others.\<close>

lemma history_search_matches:
  assumes "dot_free pid" "pid \<noteq> ''*''" "pid \<noteq> ''>''" "dot_free p" "dot_free t"
  shows "subject_matches (prefix_filter pid) (SplitChar (CHR ''.'') (historyKey p t ty)) \<longleftrightarrow> p = pid"
  using assms by (auto simp: SplitChar_historyKey prefix_filter_def SplitChar_free)

lemma stream_each_reliable:
  assumes "reliable w" "\<And>k. k \<in> set ks \<Longrightarrow> kv_get (fst B w) k \<noteq> None"
  shows "stream_each (LoadObj B) ks w = (Ok (map (\<lambda>k. the (kv_get (fst B w) k)) ks, None), w)"
  using assms by (induction ks) (auto simp: handle_apply bnd_apply split: option.splits)

text \<open>The keys of a bucket that only \<open>RecordHistory\<close> wrote to, and none deleted.\<close>

definition history_wf :: "world \<Rightarrow> bool" where
  "history_wf w \<longleftrightarrow> (\<forall>k \<in> set (kv_subjects (kvHistory w)).
     kv_get (kvHistory w) k \<noteq> None \<and> (\<exists>p t ty. dot_free p \<and> dot_free t \<and> k = historyKey p t ty))"

lemma history_wf_record:
  assumes "history_wf w" "dot_free (ws_ProcessInstanceId st)" "dot_free (TID (ws_Id st))" "reliable w"
    and "RecordHistory st ty w = (r, w')"
  shows "history_wf w'"
  using assms unfolding history_wf_def by auto blast

lemma set_map_order: "ranges_ok E \<Longrightarrow> set (map_order E i ks) = set ks"
  by (metis ranges_okD set_mset_mset)

text \<open>The active entries are the activities and jobs that were started and have neither
  completed nor been aborted.\<close>

definition open_entry :: "world \<Rightarrow> string \<Rightarrow> string \<Rightarrow> history_type \<Rightarrow> bool" where
  "open_entry w pid t ty \<longleftrightarrow>
     (ty = activityExecute \<and>
        historyKey pid t activityComplete \<notin> set (kv_subjects (kvHistory w)) \<and>
        historyKey pid t activityAbort \<notin> set (kv_subjects (kvHistory w))) \<or>
     (ty = jobExecute \<and>
        historyKey pid t jobComplete \<notin> set (kv_subjects (kvHistory w)) \<and>
        historyKey pid t jobAbort \<notin> set (kv_subjects (kvHistory w)))"

lemma active_key_open:
  assumes "\<And>ty. historyKey pid t ty \<in> set keys \<longleftrightarrow> historyKey pid t ty \<in> set (kv_subjects (kvHistory w))"
  shows "active_key keys (historyKey pid t ty) \<longleftrightarrow> open_entry w pid t ty"
proof -
  have "active_key keys (historyKey pid t ty) \<longleftrightarrow>
    (if ty = activityExecute
     then historyKey pid t activityComplete \<notin> set keys \<and> historyKey pid t activityAbort \<notin> set keys
     else if ty = jobExecute
     then historyKey pid t jobComplete \<notin> set keys \<and> historyKey pid t jobAbort \<notin> set keys
     else False)"
    unfolding active_key_def Let_def afterDot_historyKey beforeDot_historyKey entry_key type_string_inj ..
  then show ?thesis unfolding assms open_entry_def by auto
qed

lemma kv_get_subject: "kv_get b k = Some e \<Longrightarrow> k \<in> set (kv_subjects b)"
  using in_kv_keys [of k b] kv_keys_sub [of b] by auto


end
