(* ===== verification/Base62.thy ===== *)
theory Base62
  imports Prelude
begin

text \<open>
  The base 62 encoder of \<open>common/base62/base62.go\<close>, which names task specifications by the
  encoding of a digest.

  The destination array is held with its last cell first, the order in which the inner loop
  visits it.  The theorems show that the digits written are the number the bytes denote, and
  that inputs of equal length have different encodings.
\<close>

definition encodeStd :: string where
  "encodeStd = ''0123456789ABCDEFGHIJKLMNOPQRSTUVWXYZabcdefghijklmnopqrstuvwxyz''"

text \<open>The size \<open>cs\<close> of the destination, \<open>\<lceil>n * log 62 256\<rceil>\<close>: the least number of digits that
  hold every \<open>n\<close>-byte number.\<close>

definition b62_size :: "nat \<Rightarrow> nat" where
  "b62_size n = (case find (\<lambda>c. (256::nat) ^ n \<le> 62 ^ c) [0..<2 * n + 1] of Some c \<Rightarrow> c | None \<Rightarrow> 0)"

text \<open>The inner loop: \<open>v\<close> carries, \<open>c\<close> counts the cells written, \<open>rs\<close> is the count of the
  byte before.\<close>

fun b62_carry :: "nat list \<Rightarrow> nat \<Rightarrow> nat \<Rightarrow> nat \<Rightarrow> nat list \<times> nat" where
  "b62_carry [] v c rs = ([], c)"
| "b62_carry (d # ds) v c rs =
     (if v \<noteq> 0 \<or> c < rs
      then let x = v + 256 * d; (ds', c') = b62_carry ds (x div 62) (c + 1) rs
           in ((x mod 62) # ds', c')
      else (d # ds, c))"

definition b62_byte :: "nat list \<times> nat \<Rightarrow> nat \<Rightarrow> nat list \<times> nat" where
  "b62_byte = (\<lambda>(dst, rs) v. b62_carry dst v 0 rs)"

definition b62_digits :: "nat list \<Rightarrow> nat list \<times> nat" where
  "b62_digits src = foldl b62_byte (replicate (b62_size (length src)) 0, 0) src"

definition Encode62 :: "nat list \<Rightarrow> string" where
  "Encode62 src =
     (if length src = 0 then []
      else let (dst, rs) = b62_digits src
           in map (\<lambda>d. encodeStd ! d) (rev (take rs dst)))"

definition EncodeToString :: "string \<Rightarrow> string" where
  "EncodeToString src = Encode62 (map of_char src)"

section \<open>Correctness\<close>

text \<open>The number that digits denote, least significant first, and that bytes denote.\<close>

fun val62 :: "nat list \<Rightarrow> nat" where
  "val62 [] = 0"
| "val62 (d # ds) = d + 62 * val62 ds"

definition val256 :: "nat list \<Rightarrow> nat" where
  "val256 bs = foldl (\<lambda>a b. 256 * a + b) 0 bs"

text \<open>Invariant of the outer loop: digits below 62, and zero from the count on.\<close>

definition digits_ok :: "nat list \<Rightarrow> nat \<Rightarrow> bool" where
  "digits_ok dst rs \<longleftrightarrow> (\<forall>d \<in> set dst. d < 62) \<and> rs \<le> length dst \<and> (\<forall>d \<in> set (drop rs dst). d = 0)"

lemma val62_zeros: "\<forall>d \<in> set ds. d = 0 \<Longrightarrow> val62 ds = 0"
  by (induction ds) auto

lemma val62_bound: "\<forall>d \<in> set ds. d < 62 \<Longrightarrow> val62 ds < 62 ^ length ds"
  by (induction ds) auto

text \<open>One byte: the cells from count \<open>c\<close> on are multiplied by 256 and the carry is added,
  provided the result fits.\<close>

lemma b62_carry_spec:
  assumes "b62_carry ds v c rs = (ds', c')"
    and "\<forall>d \<in> set ds. d < 62" "\<forall>d \<in> set (drop (rs - c) ds). d = 0"
    and "256 * val62 ds + v < 62 ^ length ds"
  shows "val62 ds' = 256 * val62 ds + v \<and> length ds' = length ds \<and> (\<forall>d \<in> set ds'. d < 62) \<and>
         c \<le> c' \<and> c' - c \<le> length ds \<and> (\<forall>d \<in> set (drop (c' - c) ds'). d = 0)"
  using assms
proof (induction ds arbitrary: v c ds' c')
  case (Cons d ds)
  show ?case
  proof (cases "v \<noteq> 0 \<or> c < rs")
    case False
    then have "val62 (d # ds) = 0" using Cons.prems(3) val62_zeros [of "d # ds"] by simp
    then show ?thesis using False Cons.prems by (auto simp: val62_zeros)
  next
    case True
    let ?x = "v + 256 * d"
    obtain es e where rec: "b62_carry ds (?x div 62) (c + 1) rs = (es, e)" by fastforce
    have out: "ds' = (?x mod 62) # es" "c' = e" using Cons.prems(1) True rec by (auto simp: Let_def)
    have fits: "256 * val62 ds + ?x div 62 < 62 ^ length ds"
    proof -
      have "62 * (256 * val62 ds + ?x div 62) + ?x mod 62 = 256 * val62 (d # ds) + v"
        by (simp add: algebra_simps)
      then have "62 * (256 * val62 ds + ?x div 62) < 62 * 62 ^ length ds"
        using Cons.prems(4) by (metis add_lessD1 length_Cons power_Suc)
      then show ?thesis by simp
    qed
    have z: "\<forall>d \<in> set (drop (rs - (c + 1)) ds). d = 0"
    proof (cases "c < rs")
      case True
      then have "rs - c = Suc (rs - (c + 1))" by simp
      then show ?thesis using Cons.prems(3) by simp
    next
      case False
      then show ?thesis using Cons.prems(3) by simp
    qed
    have IH: "val62 es = 256 * val62 ds + ?x div 62 \<and> length es = length ds \<and> (\<forall>d \<in> set es. d < 62) \<and>
         c + 1 \<le> e \<and> e - (c + 1) \<le> length ds \<and> (\<forall>d \<in> set (drop (e - (c + 1)) es). d = 0)"
      by (rule Cons.IH [OF rec]) (use Cons.prems fits z in auto)
    have "c + 1 \<le> e" using IH by blast
    then have "e - c = Suc (e - (c + 1))" by arith
    moreover have "?x mod 62 + 62 * (256 * val62 ds + ?x div 62) = 256 * (d + 62 * val62 ds) + v"
      by (simp add: algebra_simps)
    ultimately show ?thesis using IH out by simp
  qed
qed auto

lemma b62_byte_spec:
  assumes "b62_byte (dst, rs) v = (dst', rs')" "digits_ok dst rs" "256 * val62 dst + v < 62 ^ length dst"
  shows "digits_ok dst' rs' \<and> val62 dst' = 256 * val62 dst + v \<and> length dst' = length dst"
  using b62_carry_spec [of dst v 0 rs dst' rs'] assms by (auto simp: b62_byte_def digits_ok_def)

lemma val256_snoc [simp]: "val256 (bs @ [b]) = 256 * val256 bs + b"
  by (simp add: val256_def)

lemma val256_bound: "\<forall>b \<in> set bs. b < 256 \<Longrightarrow> val256 bs < 256 ^ length bs"
proof (induction bs rule: rev_induct)
  case Nil
  then show ?case by (simp add: val256_def)
next
  case (snoc b bs)
  then have "val256 bs < 256 ^ length bs" "b < 256" by auto
  then have "256 * val256 bs + b < 256 * (val256 bs + 1)" by simp
  also have "\<dots> \<le> 256 * 256 ^ length bs" using \<open>val256 bs < 256 ^ length bs\<close> by (intro mult_le_mono) auto
  finally show ?case by simp
qed

lemma b62_size_enough: "256 ^ n \<le> (62::nat) ^ b62_size n"
proof -
  have "(256::nat) ^ n \<le> 3844 ^ n" by (rule power_mono) auto
  also have "\<dots> = 62 ^ (2 * n)" by (simp add: power_mult)
  finally have "\<exists>c \<in> set [0..<2 * n + 1]. (256::nat) ^ n \<le> 62 ^ c" by (intro bexI [of _ "2 * n"]) auto
  then obtain c where "find (\<lambda>c. (256::nat) ^ n \<le> 62 ^ c) [0..<2 * n + 1] = Some c"
    by (metis find_None_iff not_None_eq)
  moreover from this have "256 ^ n \<le> (62::nat) ^ c" unfolding find_Some_iff by blast
  ultimately show ?thesis unfolding b62_size_def by simp
qed

lemma b62_loop:
  assumes "\<forall>b \<in> set bs. b < 256" "256 ^ length bs \<le> (62::nat) ^ n"
    and "foldl b62_byte (replicate n 0, 0) bs = (dst, rs)"
  shows "digits_ok dst rs \<and> val62 dst = val256 bs \<and> length dst = n"
  using assms
proof (induction bs arbitrary: dst rs rule: rev_induct)
  case Nil
  then have "dst = replicate n 0" "rs = 0" by auto
  moreover have "val62 (replicate n 0) = 0" by (rule val62_zeros) simp
  ultimately show ?case by (auto simp: digits_ok_def val256_def)
next
  case (snoc b bs)
  obtain d r where f: "foldl b62_byte (replicate n 0, 0) bs = (d, r)" by fastforce
  have "(256::nat) ^ length bs \<le> 256 ^ length (bs @ [b])" by (rule power_increasing) auto
  then have le: "(256::nat) ^ length bs \<le> 62 ^ n" using snoc.prems(2) by (rule order_trans)
  have IH: "digits_ok d r \<and> val62 d = val256 bs \<and> length d = n"
    by (rule snoc.IH) (use snoc.prems(1) le f in auto)
  have "256 * val256 bs + b < 256 ^ length (bs @ [b])"
    using val256_bound [of "bs @ [b]"] snoc.prems(1) by simp
  then have fits: "256 * val62 d + b < 62 ^ length d" using IH snoc.prems(2) by (metis order_less_le_trans)
  have "b62_byte (d, r) b = (dst, rs)" using snoc.prems(3) f by simp
  from b62_byte_spec [OF this _ fits] IH show ?case by simp
qed

lemma b62_digits_spec:
  assumes "\<forall>b \<in> set bs. b < 256" "b62_digits bs = (dst, rs)"
  shows "digits_ok dst rs \<and> val62 dst = val256 bs \<and> length dst = b62_size (length bs)"
  using b62_loop [OF assms(1) b62_size_enough] assms(2) unfolding b62_digits_def by blast

lemma val62_take: "digits_ok dst rs \<Longrightarrow> val62 (take rs dst) = val62 dst"
proof -
  have app: "val62 (xs @ ys) = val62 xs + 62 ^ length xs * val62 ys" for xs ys
    by (induction xs) (auto simp: algebra_simps)
  assume "digits_ok dst rs"
  then have "val62 (drop rs dst) = 0" by (intro val62_zeros) (simp add: digits_ok_def)
  then show ?thesis using app [of "take rs dst" "drop rs dst"] by simp
qed

lemma encodeStd_length: "length encodeStd = 62"
  unfolding encodeStd_def by code_simp

lemma encodeStd_distinct: "distinct encodeStd"
  unfolding encodeStd_def by code_simp

lemma encodeStd_inj: "a < 62 \<Longrightarrow> b < 62 \<Longrightarrow> encodeStd ! a = encodeStd ! b \<Longrightarrow> a = b"
  using encodeStd_distinct encodeStd_length by (simp add: nth_eq_iff_index_eq)

lemma map_encode_inj:
  "\<forall>a \<in> set xs. a < 62 \<Longrightarrow> \<forall>b \<in> set ys. b < 62 \<Longrightarrow>
     map (\<lambda>d. encodeStd ! d) xs = map (\<lambda>d. encodeStd ! d) ys \<Longrightarrow> xs = ys"
proof -
  assume "\<forall>a \<in> set xs. a < 62" "\<forall>b \<in> set ys. b < 62"
  then have "inj_on (\<lambda>d. encodeStd ! d) (set xs \<union> set ys)"
    unfolding inj_on_def using encodeStd_inj by blast
  then show "map (\<lambda>d. encodeStd ! d) xs = map (\<lambda>d. encodeStd ! d) ys \<Longrightarrow> xs = ys"
    by (simp add: inj_on_map_eq_map)
qed

lemma val256_inj:
  "length as = length bs \<Longrightarrow> \<forall>a \<in> set as. a < 256 \<Longrightarrow> \<forall>b \<in> set bs. b < 256 \<Longrightarrow>
     val256 as = val256 bs \<Longrightarrow> as = bs"
proof (induction as arbitrary: bs rule: rev_induct)
  case (snoc a as)
  then obtain cs c where bs: "bs = cs @ [c]" by (metis append_is_Nil_conv length_0_conv not_Cons_self2 rev_exhaust)
  have eq: "256 * val256 as + a = 256 * val256 cs + c" "a < 256" "c < 256" using snoc.prems bs by auto
  have "a = (256 * val256 as + a) mod 256" using eq(2) by simp
  also have "\<dots> = (256 * val256 cs + c) mod 256" using eq(1) by simp
  also have "\<dots> = c" using eq(3) by simp
  finally have "a = c" .
  then show ?case using snoc bs eq by simp
qed simp

text \<open>C40. The base 62 encoder loses nothing: byte strings of equal length, such as two digests, have
  different encodings.\<close>

theorem Encode62_inj:
  assumes "length as = length bs" "\<forall>a \<in> set as. a < 256" "\<forall>b \<in> set bs. b < 256"
    and "Encode62 as = Encode62 bs"
  shows "as = bs"
proof (cases "length as = 0")
  case False
  obtain da ra where a: "b62_digits as = (da, ra)" by fastforce
  obtain db rb where b: "b62_digits bs = (db, rb)" by fastforce
  have sa: "digits_ok da ra \<and> val62 da = val256 as" using b62_digits_spec [OF assms(2) a] by blast
  have sb: "digits_ok db rb \<and> val62 db = val256 bs" using b62_digits_spec [OF assms(3) b] by blast
  have "map (\<lambda>d. encodeStd ! d) (rev (take ra da)) = map (\<lambda>d. encodeStd ! d) (rev (take rb db))"
    using assms(1,4) False a b by (simp add: Encode62_def)
  then have "rev (take ra da) = rev (take rb db)"
    by (rule map_encode_inj [rotated 2]) (use sa sb in \<open>auto simp: digits_ok_def dest: in_set_takeD\<close>)
  then have "val62 da = val62 db" using sa sb by (metis rev_rev_ident val62_take)
  then have "val256 as = val256 bs" using sa sb by simp
  then show ?thesis using assms(1-3) by (intro val256_inj)
qed (use assms(1) in auto)

end
