(* ===== verification/Task_Specs.thy ===== *)
theory Task_Specs
  imports History Base62
begin

text \<open>
  Task specifications: \<open>common/task/task.go\<close>, \<open>internal/server/workflow/taskspec.go\<close> and the
  task functions of \<open>operations.go\<close>.  A specification is stored under a UID, the base 62
  encoding of a digest of its identifying fields, and the UIDs of a task type are listed in
  the order of registration.
\<close>

section \<open>The UID of a specification\<close>

definition show_bool :: "bool \<Rightarrow> string" where
  "show_bool b = (if b then ''true'' else ''false'')"

text \<open>What is written to the digest, one field after the other.\<close>

definition uid_preimage :: "task_spec \<Rightarrow> task_metadata \<Rightarrow> bytes" where
  "uid_preimage spec md =
     ts_Kind spec @ ts_Version spec @ tm_Type md @ tm_Version md @
     (case ts_Parameters spec of
        None \<Rightarrow> []
      | Some ps \<Rightarrow>
          concat (map (\<lambda>v. pa_Type v @ pa_Name v @ show_bool (pa_Collection v) @ show_bool (pa_Mandatory v))
                   (tp_Input ps)) @
          concat (map (\<lambda>v. pa_Type v @ pa_Name v @ show_bool (pa_Collection v)) (tp_Output ps)))"

definition CreateUID :: "env \<Rightarrow> task_spec \<Rightarrow> (goerr, string) res" where
  "CreateUID E spec =
     (case ts_Metadata spec of
        None \<Rightarrow> Panic
      | Some md \<Rightarrow> Ok (EncodeToString (sha256 E (uid_preimage spec md))))"

section \<open>Registration\<close>

definition ensureServiceTaskConsumer :: "env \<Rightarrow> string \<Rightarrow> unit act" where
  "ensureServiceTaskConsumer E uid =
     bnd io (\<lambda>_. modify (\<lambda>w. w\<lparr> consumers := List.insert (''ServiceTask_'' @ e_ns E @ ''_'' @ uid) (consumers w) \<rparr>))"

definition GetTaskSpecVersions :: "string \<Rightarrow> string list act" where
  "GetTaskSpecVersions name = bnd KvsFor (\<lambda>_. LoadObj TaskSpecVerB name)"

definition GetTaskSpecUID :: "string \<Rightarrow> string act" where
  "GetTaskSpecUID name =
     bnd (GetTaskSpecVersions name) (\<lambda>ids. if ids = [] then panic else ret (ids ! (length ids - 1)))"

definition GetTaskSpecByUID :: "string \<Rightarrow> task_spec act" where
  "GetTaskSpecByUID uid = bnd KvsFor (\<lambda>_. LoadObj TaskSpecB uid)"

text \<open>A message sent on the core connection: not stored, no message id.\<close>

definition ConnPublish :: "string \<Rightarrow> (string \<times> string) list \<Rightarrow> payload \<Rightarrow> unit act" where
  "ConnPublish subject hdrs pl =
     bnd io (\<lambda>_. modify (\<lambda>w. w\<lparr> published := published w @
       [\<lparr> pm_Subject = subject, pm_ID = [], pm_Embargo = 0, pm_Headers = hdrs, pm_Payload = pl \<rparr>] \<rparr>))"

definition putVersion :: "env \<Rightarrow> task_spec \<Rightarrow> string \<Rightarrow> string list \<Rightarrow> string list act" where
  "putVersion E spec uid ids =
     (let ids = ids @ [uid];
          subj = (if length ids = 0 then WorkflowSystemTaskUpdate else WorkflowSystemTaskCreate)
      in bnd (ConnPublish subj [(''Shar-Namespace'', e_ns E)] (PTask spec)) (\<lambda>_. ret ids))"

definition PutTaskSpec :: "env \<Rightarrow> task_spec \<Rightarrow> string act" where
  "PutTaskSpec E spec =
     bnd KvsFor (\<lambda>_.
     bnd (lift_res (CreateUID E spec)) (\<lambda>uid.
     case ts_Metadata spec of
       None \<Rightarrow> panic
     | Some md \<Rightarrow>
         let spec = spec\<lparr> ts_Metadata := Some (md\<lparr> tm_Uid := uid \<rparr>) \<rparr>
         in bnd (ensureServiceTaskConsumer E uid) (\<lambda>_.
            bnd (SaveObj TaskSpecB uid spec) (\<lambda>_.
            bnd (UpdateObjA TaskSpecVerB (tm_Type md) [] (putVersion E spec uid)) (\<lambda>(_, err).
            case err of None \<Rightarrow> ret uid | Some e \<Rightarrow> fail e)))))"

definition empty_spec :: task_spec where
  "empty_spec = \<lparr> ts_Version = [], ts_Kind = [], ts_Metadata = None, ts_Behaviour = None,
     ts_Parameters = None, ts_Events = None \<rparr>"

definition empty_behaviour :: task_behaviour where
  "empty_behaviour = \<lparr> tb_DefaultRetry = None, tb_EstimatedMaxDuration = 0, tb_Unsafe = False, tb_Mock = False,
     tb_Deprecated = False, tb_MockBehaviour = None \<rparr>"

definition deprecate :: "task_spec \<Rightarrow> task_spec" where
  "deprecate v = v\<lparr> ts_Behaviour :=
     Some ((case ts_Behaviour v of None \<Rightarrow> empty_behaviour | Some b \<Rightarrow> b)\<lparr> tb_Deprecated := True \<rparr>) \<rparr>"

definition DeprecateTaskSpec :: "string list \<Rightarrow> unit act" where
  "DeprecateTaskSpec uids =
     bnd KvsFor (\<lambda>_. forE (\<lambda>u. bnd (UpdateObj TaskSpecB u empty_spec (\<lambda>v. Ok (deprecate v))) (\<lambda>_. ret ())) uids)"


text \<open>A process that is missing from the workflow, or a service task without a version, is a
  nil dereference.\<close>

definition checkProcessTaskDeprecation :: "workflow \<Rightarrow> string \<Rightarrow> unit act" where
  "checkProcessTaskDeprecation wkf processId =
     (case map_of (wf_Process wkf) processId of
        None \<Rightarrow> panic
      | Some pr \<Rightarrow>
          forE (\<lambda>e. let el = el_data e in
             if el_Type el = ServiceTask then
               (case el_Version el of
                  None \<Rightarrow> panic
                | Some v \<Rightarrow>
                    bnd (GetTaskSpecByUID v) (\<lambda>st.
                      if (case ts_Behaviour st of None \<Rightarrow> False | Some b \<Rightarrow> tb_Deprecated b)
                      then fail (ErrOther ''process contains deprecated task'') else ret ()))
             else ret ()) (pr_Elements pr))"

definition ListTaskSpecUIDs :: "bool \<Rightarrow> string list act" where
  "ListTaskSpecUIDs deprecated =
     bnd KvsFor (\<lambda>_. bnd (KeysOf TaskSpecVerB) (\<lambda>vers.
       foldE (\<lambda>acc v.
         bnd (LoadObj TaskSpecVerB v) (\<lambda>ids.
         if ids = [] then panic
         else let latestVer = ids ! (length ids - 1) in
              bnd (GetTaskSpecByUID latestVer) (\<lambda>latest.
              ret (if deprecated \<or> (case ts_Behaviour latest of None \<Rightarrow> False | Some b \<Rightarrow> \<not> tb_Deprecated b)
                   then acc @ [latestVer] else acc)))) [] vers))"

section \<open>Usage reports\<close>

record usage_report =
  ur_Workflow :: "string list"
  ur_Process :: "string list"
  ur_ExecutingWorkflow :: "string list"
  ur_ExecutingProcessInstance :: "string list"

definition uses_task :: "string list \<Rightarrow> process \<Rightarrow> bool" where
  "uses_task uids pr \<longleftrightarrow> list_ex (\<lambda>e. let el = el_data e in el_Type el = ServiceTask \<and>
     (case el_Version el of None \<Rightarrow> False | Some v \<Rightarrow> v \<in> set uids)) (pr_Elements pr)"

text \<open>The two sets \<open>rptWf\<close> and \<open>rptPr\<close> filled from one workflow.\<close>

definition report_workflow :: "env \<Rightarrow> string list \<Rightarrow> workflow \<Rightarrow> string list \<times> string list \<Rightarrow> string list \<times> string list" where
  "report_workflow E uids wkf acc =
     fold (\<lambda>(k, pr) (wfs, prs).
       if uses_task uids pr then (List.insert (wf_Name wkf) wfs, List.insert (pr_Id pr) prs) else (wfs, prs))
     (rangeMap (map_order E 6) (wf_Process wkf)) acc"

definition report_instances :: "string list \<Rightarrow> (string list \<times> string list) act" where
  "report_instances piKeys =
     foldE (\<lambda>(wfs, pis) piKey.
       bnd (LoadObj ProcessInstanceB piKey) (\<lambda>pi.
       ret (List.insert (pi_WorkflowId pi) wfs, List.insert (pi_ProcessInstanceId pi) pis))) ([], []) piKeys"

definition GetExecutableWorkflowIds :: "string list act" where
  "GetExecutableWorkflowIds =
     bnd KvsFor (\<lambda>_. bnd (KeysOf VersionB) (\<lambda>verKeys.
       foldE (\<lambda>res verKey.
         bnd (LoadObj VersionB verKey) (\<lambda>wfv.
         let vs = wvs_Version wfv in
         if vs = [] then panic else ret (res @ [wv_Id (vs ! (length vs - 1))]))) [] verKeys))"

definition GetTaskSpecUsage :: "env \<Rightarrow> string list \<Rightarrow> usage_report act" where
  "GetTaskSpecUsage E uids =
     bnd KvsFor (\<lambda>_.
     bnd (handle GetExecutableWorkflowIds (\<lambda>e. if e \<noteq> ErrNoKeysFound then fail e else ret []) ret) (\<lambda>wfKeys.
     bnd (foldE (\<lambda>acc vk.
            handle (LoadObj DefinitionB vk)
              (\<lambda>_. fail (ErrOther ''task spec usage by name get workflow''))
              (\<lambda>wkf. ret (report_workflow E uids wkf acc))) ([], []) wfKeys) (\<lambda>(wfs, prs).
     bnd (handle (KeysOf ProcessInstanceB) (\<lambda>e. if e \<noteq> ErrNoKeysFound then fail e else ret []) ret) (\<lambda>piKeys.
     bnd (report_instances piKeys) (\<lambda>(ewfs, epis).
     ret \<lparr> ur_Workflow = wfs, ur_Process = prs, ur_ExecutingWorkflow = ewfs,
           ur_ExecutingProcessInstance = epis \<rparr>)))))"

text \<open>\<open>GetTaskSpecUsageByName\<close> looks the workflow ids up in the bucket of versions.  \<open>reread\<close>
  stands for unmarshalling the bytes of a version list as a workflow.\<close>

definition GetTaskSpecUsageByName :: "env \<Rightarrow> (workflow_versions \<Rightarrow> (goerr, workflow) res) \<Rightarrow> string
    \<Rightarrow> usage_report act" where
  "GetTaskSpecUsageByName E reread name =
     bnd KvsFor (\<lambda>_.
     bnd (GetTaskSpecVersions name) (\<lambda>uids.
     bnd (KeysOf DefinitionB) (\<lambda>wfKeys.
     bnd (foldE (\<lambda>acc vk.
            handle (bnd (LoadObj VersionB vk) (\<lambda>v. lift_res (reread v)))
              (\<lambda>_. fail (ErrOther ''task spec usage by name get workflow''))
              (\<lambda>wkf. ret (report_workflow E uids wkf acc))) ([], []) wfKeys) (\<lambda>(wfs, prs).
     bnd (KeysOf ProcessInstanceB) (\<lambda>piKeys.
     bnd (report_instances piKeys) (\<lambda>(ewfs, epis).
     ret \<lparr> ur_Workflow = wfs, ur_Process = prs, ur_ExecutingWorkflow = ewfs,
           ur_ExecutingProcessInstance = epis \<rparr>))))))"

section \<open>Properties\<close>

lemma GetTaskSpecByUID_reliable [simp]:
  "reliable w \<Longrightarrow> GetTaskSpecByUID u w =
     (case kv_get (kvTaskSpec w) u of Some v \<Rightarrow> (Ok v, w) | None \<Rightarrow> (Err ErrKeyNotFound, w))"
  by (simp add: GetTaskSpecByUID_def bnd_apply split: option.splits)

lemma GetTaskSpecVersions_reliable [simp]:
  "reliable w \<Longrightarrow> GetTaskSpecVersions n w =
     (case kv_get (kvTaskSpecVer w) n of Some v \<Rightarrow> (Ok v, w) | None \<Rightarrow> (Err ErrKeyNotFound, w))"
  by (simp add: GetTaskSpecVersions_def bnd_apply split: option.splits)

definition versions_of :: "world \<Rightarrow> string \<Rightarrow> string list" where
  "versions_of w n = (case kv_get (kvTaskSpecVer w) n of Some ids \<Rightarrow> ids | None \<Rightarrow> [])"

text \<open>Registering a specification makes it the current version of its type, and the message
  sent is always that of a creation.\<close>

text \<open>C38. Registering a task specification stores it under the base 62 encoding of the digest of its
  identifying fields, appends that UID to the versions of its type, changes no other
  specification, and announces the task.\<close>

theorem PutTaskSpec_reliable:
  assumes "reliable w" "ts_Metadata spec = Some md"
  shows "\<exists>w'. PutTaskSpec E spec w = (Ok (EncodeToString (sha256 E (uid_preimage spec md))), w') \<and>
      reliable w' \<and>
      (\<forall>u. kv_get (kvTaskSpec w') u =
         (if u = EncodeToString (sha256 E (uid_preimage spec md))
          then Some (spec\<lparr> ts_Metadata := Some (md\<lparr> tm_Uid := u \<rparr>) \<rparr>) else kv_get (kvTaskSpec w) u)) \<and>
      (\<forall>n. versions_of w' n = (if n = tm_Type md
         then versions_of w n @ [EncodeToString (sha256 E (uid_preimage spec md))] else versions_of w n)) \<and>
      map pm_Subject (published w') = map pm_Subject (published w) @ [WorkflowSystemTaskCreate]"
  using assms
  by (auto simp: PutTaskSpec_def CreateUID_def ensureServiceTaskConsumer_def UpdateObjA_def putVersion_def
      ConnPublish_def versions_of_def bnd_apply handle_apply Let_def split: option.splits)

lemma GetTaskSpecUID_last:
  assumes "reliable w" "versions_of w n = ids @ [u]"
  shows "GetTaskSpecUID n w = (Ok u, w)"
  using assms by (auto simp: GetTaskSpecUID_def versions_of_def bnd_apply split: option.splits)

lemma forE_pure:
  assumes "\<And>x. x \<in> set xs \<Longrightarrow> f x w = (Ok (), w)"
  shows "forE f xs w = (Ok (), w)"
  using assms by (induction xs) (auto simp: bnd_apply)

text \<open>After a task is deprecated, a process that uses it cannot be launched.\<close>

lemma DeprecateTaskSpec_one:
  assumes "reliable w"
  shows "\<exists>w'. DeprecateTaskSpec [u] w = (Ok (), w') \<and> reliable w' \<and>
     kv_get (kvTaskSpec w') u = Some (deprecate (case kv_get (kvTaskSpec w) u of Some v \<Rightarrow> v | None \<Rightarrow> empty_spec)) \<and>
     (\<forall>v. v \<noteq> u \<longrightarrow> kv_get (kvTaskSpec w') v = kv_get (kvTaskSpec w) v)"
  using assms
  by (auto simp: DeprecateTaskSpec_def UpdateObj_def UpdateObjM_def UpdateObjA_def bnd_apply handle_apply
      split: option.splits)

lemma deprecated_deprecate: "ts_Behaviour (deprecate v) = Some b \<Longrightarrow> tb_Deprecated b"
  by (auto simp: deprecate_def)

lemma check_deprecated_elements:
  assumes "reliable w" "e \<in> set es" "el_Type (el_data e) = ServiceTask" "el_Version (el_data e) = Some u"
    and "kv_get (kvTaskSpec w) u = Some st" "ts_Behaviour st = Some b" "tb_Deprecated b"
  shows "fst (forE (\<lambda>e. let el = el_data e in
             if el_Type el = ServiceTask then
               (case el_Version el of
                  None \<Rightarrow> panic
                | Some v \<Rightarrow>
                    bnd (GetTaskSpecByUID v) (\<lambda>st.
                      if (case ts_Behaviour st of None \<Rightarrow> False | Some b \<Rightarrow> tb_Deprecated b)
                      then fail (ErrOther ''process contains deprecated task'') else ret ()))
             else ret ()) es w) \<noteq> Ok ()"
  using assms(2)
proof (induction es)
  case (Cons d ds)
  show ?case
  proof (cases "d = e")
    case True
    then show ?thesis using assms by (simp add: bnd_apply Let_def)
  next
    case False
    then have "e \<in> set ds" using Cons.prems by simp
    from Cons.IH [OF this] show ?thesis
      using assms(1) by (auto simp: bnd_apply Let_def split: option.splits)
  qed
qed simp

theorem checkProcessTaskDeprecation_blocks:
  assumes "reliable w" "map_of (wf_Process wkf) p = Some pr" "e \<in> set (pr_Elements pr)"
    and "el_Type (el_data e) = ServiceTask" "el_Version (el_data e) = Some u"
    and "kv_get (kvTaskSpec w) u = Some st" "ts_Behaviour st = Some b" "tb_Deprecated b"
  shows "fst (checkProcessTaskDeprecation wkf p w) \<noteq> Ok ()"
  using check_deprecated_elements [OF assms(1,3-8)] assms(2) by (simp add: checkProcessTaskDeprecation_def)

text \<open>Workflow ids are never names in the bucket of versions, so the report by name fails as
  soon as a workflow is stored.\<close>

lemma GetTaskSpecUsageByName_fails:
  assumes "reliable w" "kv_get (kvTaskSpecVer w) n = Some ids" "kv_get (kvDefinition w) i = Some wkf"
    and "\<And>k. kv_get (kvDefinition w) k \<noteq> None \<Longrightarrow> kv_get (kvVersion w) k = None"
  shows "GetTaskSpecUsageByName E reread n w = (Err (ErrOther ''task spec usage by name get workflow''), w)"
proof -
  have "i \<in> set (kv_keys (kvDefinition w))" using assms(3) by (simp add: in_kv_keys)
  then obtain k ks where ks: "kv_keys (kvDefinition w) = k # ks" by (cases "kv_keys (kvDefinition w)") auto
  then have "kv_get (kvVersion w) k = None" using assms(4) in_kv_keys [of k "kvDefinition w"] by simp
  then show ?thesis using assms(1,2) ks
    by (simp add: GetTaskSpecUsageByName_def KeysOf_def bnd_apply handle_apply)
qed

end
