(* ===== verification/Jobs.thy ===== *)
theory Jobs
  imports Task_Specs
begin

text \<open>
  Jobs of \<open>internal/server/workflow/operations.go\<close>: starting a job for an element, completing
  manual, service, message and user tasks, workflow errors and fatal errors, cancelling, and
  enabling and disabling workflows.

  A message handler and some operations return a flag for the acknowledgement together with
  an error; their result type is \<open>ack_err\<close>.
\<close>

type_synonym ack_err = "bool \<times> goerr option"

section \<open>Starting a job\<close>

text \<open>\<open>Eval[interface{}]\<close> asserts that the result is not nil: for an empty expression the
  assertion panics and becomes a fatal error.\<close>

definition Eval_any :: "env \<Rightarrow> string \<Rightarrow> vmap \<Rightarrow> (goerr, val) res" where
  "Eval_any E exp vars =
     (case ExprEngine_Eval E exp vars of
        Ok VNil \<Rightarrow> Err (ErrWorkflowFatal (ErrOther ''interface conversion: interface is nil'') None)
      | Ok v \<Rightarrow> Ok v
      | Err e \<Rightarrow> Err e
      | Panic \<Rightarrow> Err (ErrWorkflowFatal (ErrOther ''panic: evaluate expression'') None))"

definition evaluateOwners :: "env \<Rightarrow> string \<Rightarrow> vmap \<Rightarrow> string list act" where
  "evaluateOwners E owners vars =
     bnd (handle (lift_res (Eval_any E owners vars)) (\<lambda>e. fail (ErrWorkflowFatal e None)) ret) (\<lambda>groups.
       let jobGroups = (case groups of VString s \<Rightarrow> [s] | VStrings ss \<Rightarrow> ss | _ \<Rightarrow> [])
       in foldE (\<lambda>ids v. bnd (OwnerID E v) (\<lambda>oid. ret (ids @ [oid]))) [] jobGroups)"

text \<open>The user task part of \<open>startJob\<close>: who may perform the task.\<close>

definition jobOwners :: "env \<Rightarrow> elem_data \<Rightarrow> bytes \<Rightarrow> workflow_state \<Rightarrow> workflow_state act" where
  "jobOwners E el v job =
     (if el_Type el = UserTask then
        bnd (handle (lift_res (Decode E [] v)) (\<lambda>e. fail (ErrWorkflowFatal e None)) ret) (\<lambda>vx.
        bnd (handle (evaluateOwners E (el_Candidates el) vx) (\<lambda>e. fail (ErrWorkflowFatal e None)) ret) (\<lambda>owners.
        bnd (handle (evaluateOwners E (el_CandidateGroups el) vx) (\<lambda>e. fail (ErrWorkflowFatal e None)) ret) (\<lambda>groups.
        ret (job\<lparr> ws_Owners := owners, ws_Groups := groups \<rparr>))))
      else ret job)"

text \<open>The service task part: a task marked as a mock goes to the mock consumer.\<close>

definition jobSubject :: "elem_data \<Rightarrow> string \<Rightarrow> string act" where
  "jobSubject el subject =
     (if el_Type el = ServiceTask then
        (case el_Version el of
           None \<Rightarrow> panic
         | Some v \<Rightarrow> bnd (GetTaskSpecByUID v) (\<lambda>def.
             ret (if (case ts_Behaviour def of None \<Rightarrow> False | Some b \<Rightarrow> tb_Mock b) then subject @ ''.Mock'' else subject)))
      else ret subject)"

definition startJob :: "env \<Rightarrow> string \<Rightarrow> workflow_state \<Rightarrow> elem_data \<Rightarrow> bytes \<Rightarrow> pub_opts \<Rightarrow> workflow_state act" where
  "startJob E subject job el v opts =
     (let job = job\<lparr> ws_Execute := Some (el_Execute el) \<rparr>;
          job = (case el_Version el of Some ver \<Rightarrow> job\<lparr> ws_ExecuteVersion := ver \<rparr> | None \<Rightarrow> job)
      in bnd (if el_Type el \<noteq> MessageIntermediateCatchEvent
              then handle (lift_res (InputVars E v [] el)) (\<lambda>e. fail (ErrWorkflowFatal e None))
                     (\<lambda>b. ret (job\<lparr> ws_Vars := b \<rparr>))
              else ret job) (\<lambda>job.
         bnd (jobOwners E el v job) (\<lambda>job.
         bnd (jobSubject el subject) (\<lambda>subject.
         bnd (createJob E job) (\<lambda>(_, job).
         if el_Iteration el = None then
           bnd (PublishWorkflowState E (NS subject (e_ns E)) job opts) (\<lambda>job.
           bnd (RecordHistoryJobExecute job) (\<lambda>_. ret job))
         else ret job)))))"

section \<open>Completing tasks\<close>

text \<open>The common part of the completions: find the element, take the new variables, check
  that the variables of the output transformation are there.\<close>

definition checkedJob :: "env \<Rightarrow> workflow_state \<Rightarrow> bytes \<Rightarrow> workflow_state act" where
  "checkedJob E job newvars =
     bnd (handle (getElement E job) (\<lambda>e. fail (ErrWorkflowFatal e None)) ret) (\<lambda>el.
       let job = job\<lparr> ws_Vars := newvars \<rparr>
       in handle (lift_res (CheckVars E job el)) (\<lambda>e. fail (ErrWorkflowFatal e None)) (\<lambda>_. ret job))"

definition CompleteManualTask :: "env \<Rightarrow> workflow_state \<Rightarrow> bytes \<Rightarrow> unit act" where
  "CompleteManualTask E job newvars =
     bnd (checkedJob E job newvars) (\<lambda>job.
     bnd (PublishWorkflowState E WorkflowJobManualTaskComplete job no_opts) (\<lambda>_. ret ()))"

definition CompleteServiceTask :: "env \<Rightarrow> workflow_state \<Rightarrow> bytes \<Rightarrow> unit act" where
  "CompleteServiceTask E job newvars =
     bnd (if ws_State job \<noteq> compensating
          then handle (GetProcessHistoryItem (ws_ProcessInstanceId job) (ParentID (ws_Id job)) activityExecute)
                 (\<lambda>e. if e = ErrKeyNotFound then
                        bnd (PublishWorkflowState E (NS WorkflowJobServiceTaskAbort (e_ns E)) job no_opts) (\<lambda>_. ret False)
                      else fail e)
                 (\<lambda>_. ret True)
          else ret True) (\<lambda>go_on.
     if \<not> go_on then ret ()
     else bnd (checkedJob E job newvars) (\<lambda>job.
          bnd (PublishWorkflowState E WorkflowJobServiceTaskComplete job no_opts) (\<lambda>_. ret ())))"

definition CompleteSendMessageTask :: "env \<Rightarrow> workflow_state \<Rightarrow> bytes \<Rightarrow> unit act" where
  "CompleteSendMessageTask E job newvars =
     bnd (handle (getElement E job) (\<lambda>e. fail (ErrWorkflowFatal e None)) ret) (\<lambda>_.
     bnd (PublishWorkflowState E WorkflowJobSendMessageComplete job no_opts) (\<lambda>_. ret ()))"

definition CompleteUserTask :: "env \<Rightarrow> workflow_state \<Rightarrow> bytes \<Rightarrow> unit act" where
  "CompleteUserTask E job newvars =
     bnd (checkedJob E job newvars) (\<lambda>job.
     bnd (PublishWorkflowState E WorkflowJobUserTaskComplete job no_opts) (\<lambda>job.
     closeUserTask E (TID (ws_Id job))))"

definition GetCompensationInputVariables :: "string \<Rightarrow> string \<Rightarrow> bytes act" where
  "GetCompensationInputVariables processInstanceId trackingId =
     bnd (GetProcessHistoryItem processInstanceId trackingId jobExecute) (\<lambda>entry. ret (he_Vars entry))"

definition GetCompensationOutputVariables :: "string \<Rightarrow> string \<Rightarrow> bytes act" where
  "GetCompensationOutputVariables processInstanceId trackingId =
     bnd (GetProcessHistoryItem processInstanceId trackingId jobComplete) (\<lambda>entry. ret (he_Vars entry))"

section \<open>Cancelling\<close>

definition CancelProcessInstance :: "env \<Rightarrow> workflow_state \<Rightarrow> unit act" where
  "CancelProcessInstance E state =
     (if ws_State state = executing then fail ErrInvalidState
      else handle (xDestroyProcessInstance E state) (\<lambda>_. fail ErrCancelFailed) ret)"

section \<open>Workflow errors\<close>

text \<open>An error code the workflow does not declare: abort the job, cancel the instance.\<close>

definition unknownError :: "env \<Rightarrow> string \<Rightarrow> workflow_state \<Rightarrow> unit act" where
  "unknownError E errorCode state =
     (let werr = ErrWorkflowFatal ErrWorkflowErrorNotFound None
      in handle (PublishWorkflowState E (NS WorkflowJobServiceTaskAbort (e_ns E)) state no_opts)
           (\<lambda>_. fail werr)
           (\<lambda>state.
             let cancelState = state\<lparr> ws_State := errored,
                   ws_Error := Some \<lparr> er_Id = ''UNKNOWN'', er_Name = ''UNKNOWN'', er_Code = errorCode \<rparr> \<rparr>
             in handle (CancelProcessInstance E cancelState) (\<lambda>_. fail werr) (\<lambda>_. fail werr)))"

text \<open>The first caught error of the element whose definition has the code; an entry that refers
  to an undeclared error is a nil dereference.\<close>

fun findCaught :: "(string \<times> wf_error) list \<Rightarrow> string \<Rightarrow> catch_error list \<Rightarrow> (goerr, catch_error option) res" where
  "findCaught wfErrs errorCode [] = Ok None"
| "findCaught wfErrs errorCode (v # vs) =
     (case map_of wfErrs (ce_ErrorId v) of
        None \<Rightarrow> Panic
      | Some wfErr \<Rightarrow> if errorCode = er_Code wfErr then Ok (Some v) else findCaught wfErrs errorCode vs)"

definition error_table :: "wf_error list \<Rightarrow> (string \<times> wf_error) list" where
  "error_table errs = fold (\<lambda>v. AList.update (er_Id v) v) errs []"

text \<open>The states published for a caught error: the traversal to the target and the abort of the
  job.\<close>

definition error_state :: "elem_data \<Rightarrow> workflow_state \<Rightarrow> string \<Rightarrow> string list \<Rightarrow> bytes \<Rightarrow> workflow_state" where
  "error_state target state wfName tid vrs =
     empty_state\<lparr> ws_ElementType := el_Type target, ws_ElementId := el_Id target, ws_ElementName := el_Name target,
       ws_WorkflowId := ws_WorkflowId state, ws_ExecutionId := ws_ExecutionId state, ws_Id := tid,
       ws_Vars := vrs, ws_WorkflowName := wfName, ws_ProcessInstanceId := ws_ProcessInstanceId state,
       ws_ProcessId := ws_ProcessId state \<rparr>"

definition handleCaught :: "env \<Rightarrow> workflow \<Rightarrow> (string \<times> element) list \<Rightarrow> catch_error \<Rightarrow> bytes \<Rightarrow> workflow_state \<Rightarrow> unit act" where
  "handleCaught E wkf els caughtError inVars state =
     bnd (GetProcessHistoryItem (ws_ProcessInstanceId state) (TID (Pop (ws_Id state))) activityExecute) (\<lambda>activityStart.
     bnd (handle (lift_res (OutputVars E inVars (he_Vars activityStart) (ce_OutputTransform caughtError)))
            (\<lambda>e. fail (ErrWorkflowFatal e None)) ret) (\<lambda>vrs.
     case map_of els (ce_Target caughtError) of
       None \<Rightarrow> panic
     | Some tgt \<Rightarrow>
         let target = el_data tgt in
         bnd (PublishWorkflowState E WorkflowTraversalExecute
                (error_state target state (wf_Name wkf) (Pop (Pop (ws_Id state))) vrs) no_opts) (\<lambda>_.
         bnd (PublishWorkflowState E WorkflowJobServiceTaskAbort
                (error_state target state (wf_Name wkf) (ws_Id state) (ws_Vars state)) no_opts) (\<lambda>_.
         ret ()))))"

definition HandleWorkflowError :: "env \<Rightarrow> string \<Rightarrow> bytes \<Rightarrow> workflow_state \<Rightarrow> unit act" where
  "HandleWorkflowError E errorCode inVars state =
     bnd (GetWorkflow E (ws_WorkflowId state)) (\<lambda>wkf.
       let els = ElementTable (map_order E 4) wkf;
           found = list_ex (\<lambda>v. er_Code v = errorCode) (wf_Errors wkf);
           wfErrs = error_table (wf_Errors wkf)
       in if \<not> found then unknownError E errorCode state
          else case map_of els (ws_ElementId state) of
                 None \<Rightarrow> panic
               | Some e \<Rightarrow>
                   bnd (lift_res (findCaught wfErrs errorCode (el_Errors (el_data e)))) (\<lambda>caught.
                   case caught of
                     None \<Rightarrow> fail ErrUnhandledWorkflowError
                   | Some caughtError \<Rightarrow> handleCaught E wkf els caughtError inVars state))"

section \<open>Fatal errors\<close>

definition fatalErrorKey :: "string \<Rightarrow> string \<Rightarrow> string \<Rightarrow> string \<Rightarrow> string \<Rightarrow> string" where
  "fatalErrorKey workFlowName workflowId executionId processInstanceId elementId =
     Join ''.'' [workFlowName, workflowId, executionId, processInstanceId, elementId]"

definition state_fatal_key :: "workflow_state \<Rightarrow> string" where
  "state_fatal_key st = fatalErrorKey (ws_WorkflowName st) (ws_WorkflowId st) (ws_ExecutionId st)
     (ws_ProcessInstanceId st) (ws_ElementId st)"

definition PersistFatalError :: "fatal_error \<Rightarrow> ack_err act" where
  "PersistFatalError fatalError =
     handle KvsFor (\<lambda>e. ret (False, Some e)) (\<lambda>_.
     handle (SaveObj FatalErrorB (state_fatal_key (fe_WorkflowState fatalError)) fatalError)
       (\<lambda>e. ret (False, Some e)) (\<lambda>_. ret (True, None)))"

definition GetFatalErrors :: "env \<Rightarrow> string \<Rightarrow> fatal_error streamed act" where
  "GetFatalErrors E keyPrefix =
     handle KvsFor (\<lambda>e. ret ([], Some e)) (\<lambda>_.
     handle (KeyPrefixSearch E FatalErrorB keyPrefix True True) (\<lambda>e. ret ([], Some e)) (\<lambda>keys.
     stream_each (LoadObj FatalErrorB) keys))"

definition RetryActivity :: "env \<Rightarrow> workflow_state \<Rightarrow> unit act" where
  "RetryActivity E state =
     bnd KvsFor (\<lambda>_.
     bnd (LoadObj FatalErrorB (state_fatal_key state)) (\<lambda>fatalErr.
     bnd (PublishWorkflowState E (NS WorkflowJobRetry (e_ns E))
            ((fe_WorkflowState fatalErr)\<lparr> ws_Vars := ws_Vars state \<rparr>) no_opts) (\<lambda>_. ret ())))"

definition DeleteFatalError :: "workflow_state \<Rightarrow> unit act" where
  "DeleteFatalError state = bnd KvsFor (\<lambda>_. DeleteObj FatalErrorB (state_fatal_key state))"

text \<open>A failure to destroy one instance is logged and the loop goes on.\<close>

definition tearDownWorkflow :: "env \<Rightarrow> workflow_state \<Rightarrow> ack_err act" where
  "tearDownWorkflow E state =
     handle (if ws_ElementType state \<in> {ServiceTask, MessageIntermediateCatchEvent}
             then PublishWorkflowState E WorkflowJobServiceTaskAbort state no_opts
             else ret state)
       (\<lambda>e. ret (False, Some e))
       (\<lambda>state.
         handle (GetExecution (ws_ExecutionId state))
           (\<lambda>e. ret (False, Some e))
           (\<lambda>execution.
             bnd (foldE (\<lambda>st pid.
                    handle (destroyProcessInstance E (st\<lparr> ws_State := terminated \<rparr>) pid (ex_ExecutionId execution))
                      (\<lambda>_. ret (st\<lparr> ws_State := terminated \<rparr>)) ret)
                  state (ex_ProcessInstanceId execution)) (\<lambda>_. ret (True, None))))"

section \<open>Enabling and disabling a workflow\<close>

definition empty_versions :: workflow_versions where
  "empty_versions = \<lparr> wvs_Version = [], wvs_IsExecutionDisabled = False \<rparr>"

definition makeExecutable :: "string \<Rightarrow> bool \<Rightarrow> unit act" where
  "makeExecutable workflowName isExecutionDisabled =
     bnd KvsFor (\<lambda>_. bnd (UpdateObj VersionB workflowName empty_versions
       (\<lambda>v. Ok (v\<lparr> wvs_IsExecutionDisabled := isExecutionDisabled \<rparr>))) (\<lambda>_. ret ()))"

definition DisableWorkflow :: "string \<Rightarrow> unit act" where
  "DisableWorkflow workflowName = makeExecutable workflowName True"

definition EnableWorkflow :: "string \<Rightarrow> unit act" where
  "EnableWorkflow workflowName = makeExecutable workflowName False"

section \<open>Properties\<close>

text \<open>A started job is stored under the id on top of its stack, one level below the
  activity's, announced once on the subject of its kind, and recorded in the history with the
  time of the announcement.\<close>

definition prepared :: "elem_data \<Rightarrow> bytes \<Rightarrow> string \<Rightarrow> workflow_state \<Rightarrow> workflow_state" where
  "prepared el vrs tid job =
     (case el_Version el of Some ver \<Rightarrow> job\<lparr> ws_ExecuteVersion := ver \<rparr> | None \<Rightarrow> job)
       \<lparr> ws_Execute := Some (el_Execute el), ws_Vars := vrs, ws_Id := Push (ws_Id job) tid \<rparr>"

lemma startJob_simple:
  assumes "reliable w" "el_Iteration el = None"
    and "el_Type el \<notin> {UserTask, ServiceTask, MessageIntermediateCatchEvent}"
    and "InputVars E v [] el = Ok vrs"
    and "NS subject (e_ns E) \<noteq> NS WorkflowJobUserTaskExecute (e_ns E)"
  shows "\<exists>w'. startJob E subject job el v opts w =
      (Ok (prepared el vrs (ksuid E (nextId w)) job\<lparr> ws_UnixTimeNano := clock E (ticks w) \<rparr>), w') \<and>
    reliable w' \<and>
    (\<forall>k. kv_get (kvJob w') k = (if k = ksuid E (nextId w)
       then Some (prepared el vrs (ksuid E (nextId w)) job) else kv_get (kvJob w) k)) \<and>
    published w' = published w @ [state_msg E (NS subject (e_ns E)) (prepared el vrs (ksuid E (nextId w)) job) opts
        (w\<lparr> nextId := Suc (nextId w) \<rparr>)] \<and>
    kv_get (kvHistory w') (historyKey (ws_ProcessInstanceId job) (ksuid E (nextId w)) jobExecute) =
      Some (history_of (prepared el vrs (ksuid E (nextId w)) job\<lparr> ws_UnixTimeNano := clock E (ticks w) \<rparr>) jobExecute)"
  using assms
  by (auto simp: startJob_def jobOwners_def jobSubject_def prepared_def RecordHistoryJobExecute_def
      bnd_apply handle_apply Let_def state_msg_def history_of_def split: option.splits)

text \<open>A service task is announced on the subject of its version, or that of the mock consumer when
  its specification is a mock.\<close>

definition task_subject :: "task_spec \<Rightarrow> string \<Rightarrow> string" where
  "task_subject spec subject =
     (if (case ts_Behaviour spec of None \<Rightarrow> False | Some b \<Rightarrow> tb_Mock b) then subject @ ''.Mock'' else subject)"

lemma prepared_version:
  "el_Version el = Some v \<Longrightarrow> prepared el vrs tid job =
     job\<lparr> ws_Execute := Some (el_Execute el), ws_ExecuteVersion := v, ws_Vars := vrs, ws_Id := Push (ws_Id job) tid \<rparr>"
  by (cases job) (simp add: prepared_def)

lemma startJob_service:
  assumes "reliable w" "el_Iteration el = None" "el_Type el = ServiceTask" "el_Version el = Some v"
    and "kv_get (kvTaskSpec w) v = Some spec" "InputVars E vs [] el = Ok vrs"
    and "NS (task_subject spec subject) (e_ns E) \<noteq> NS WorkflowJobUserTaskExecute (e_ns E)"
  defines "jid \<equiv> ksuid E (nextId w)"
  shows "startJob E subject job el vs opts w =
      (Ok (prepared el vrs jid job\<lparr> ws_UnixTimeNano := clock E (ticks w) \<rparr>),
       kvHistory_update (kv_put (historyKey (ws_ProcessInstanceId job) jid jobExecute)
           (history_of (prepared el vrs jid job\<lparr> ws_UnixTimeNano := clock E (ticks w) \<rparr>) jobExecute))
         (pubW E (NS (task_subject spec subject) (e_ns E)) (prepared el vrs jid job) opts
            (kvJob_update (kv_put jid (prepared el vrs jid job)) (w\<lparr> nextId := Suc (nextId w) \<rparr>))))"
  using assms
  by (auto simp: startJob_def jobOwners_def jobSubject_def prepared_version RecordHistoryJobExecute_def task_subject_def
      bnd_apply handle_apply Let_def element_type_defs split: option.splits)

text \<open>A user task whose candidates are empty cannot be started: the empty expression evaluates to
  nil, the conversion of nil fails, and the error is fatal.\<close>

lemma evaluateOwners_empty:
  "evaluateOwners E [] vx w =
     (Err (ErrWorkflowFatal (ErrWorkflowFatal (ErrOther ''interface conversion: interface is nil'') None) None), w)"
  by (simp add: evaluateOwners_def Eval_any_def ExprEngine_Eval_def bnd_apply handle_apply)

lemma startJob_no_candidates:
  assumes "el_Type el = UserTask" "el_Candidates el = []" "Decode E [] v = Ok vx" "InputVars E v [] el = Ok vrs"
  shows "\<exists>e. startJob E subject job el v opts w = (Err (ErrWorkflowFatal e None), w)"
  using assms
  by (auto simp: startJob_def jobOwners_def evaluateOwners_empty bnd_apply handle_apply Let_def
      element_type_defs split: option.splits)

text \<open>Tearing a workflow down removes every instance of the execution and the execution.\<close>

definition tear_step :: "env \<Rightarrow> string \<Rightarrow> workflow_state \<Rightarrow> string \<Rightarrow> workflow_state act" where
  "tear_step E eid st pid =
     handle (destroyProcessInstance E (st\<lparr> ws_State := terminated \<rparr>) pid eid)
       (\<lambda>_. ret (st\<lparr> ws_State := terminated \<rparr>)) ret"

lemma tear_loop:
  assumes "reliable w" "ns_ok E" "kv_get (kvExecution w) eid = Some ex"
    and "ex_ProcessInstanceId ex = pids" "distinct pids" "pids \<noteq> []"
  shows "\<exists>st' w'. foldE (tear_step E eid) st pids w = (Ok st', w') \<and> reliable w' \<and>
      kv_get (kvExecution w') eid = None \<and>
      (\<forall>k. kv_get (kvProcessInstance w') k = (if k \<in> set pids then None else kv_get (kvProcessInstance w) k))"
  using assms
proof (induction pids arbitrary: w st ex)
  case (Cons p ps)
  let ?st = "st\<lparr> ws_State := terminated \<rparr>"
  have ps: "ex_ProcessInstanceId (struck p ex) = ps" using Cons.prems(4) by (simp add: struck_def)
  obtain t w1 where w1: "destroyProcessInstance E ?st p eid w = (Ok (?st\<lparr> ws_UnixTimeNano := t \<rparr>), w1)" "reliable w1"
    "\<forall>k. kv_get (kvProcessInstance w1) k = (if k = p then None else kv_get (kvProcessInstance w) k)"
    "\<forall>k. kv_get (kvExecution w1) k = (if k = eid then (if ps = [] then None else Some (struck p ex)) else kv_get (kvExecution w) k)"
    using destroyProcessInstance_reliable [OF Cons.prems(1-3), of ?st p] unfolding ps by blast
  have step: "tear_step E eid st p w = (Ok (?st\<lparr> ws_UnixTimeNano := t \<rparr>), w1)"
    using w1(1) by (simp add: tear_step_def)
  show ?case
  proof (cases "ps = []")
    case True
    then show ?thesis using step w1 by (simp add: bnd_apply)
  next
    case False
    have "kv_get (kvExecution w1) eid = Some (struck p ex)" using w1(4) False by simp
    from Cons.IH [OF w1(2) Cons.prems(2) this ps _ False] Cons.prems(5)
    show ?thesis using step w1(3) by (fastforce simp: bnd_apply)
  qed
qed simp

text \<open>C24. Tearing a workflow down after a fatal error removes every process instance of the execution
  and the execution itself.\<close>

theorem tearDownWorkflow_reliable:
  assumes "reliable w" "ns_ok E" "kv_get (kvExecution w) (ws_ExecutionId st) = Some ex"
    and "ex_ExecutionId ex = ws_ExecutionId st" "distinct (ex_ProcessInstanceId ex)" "ex_ProcessInstanceId ex \<noteq> []"
  shows "\<exists>w'. tearDownWorkflow E st w = (Ok (True, None), w') \<and>
      kv_get (kvExecution w') (ws_ExecutionId st) = None \<and>
      (\<forall>k \<in> set (ex_ProcessInstanceId ex). kv_get (kvProcessInstance w') k = None)"
proof -
  have body: "tearDownWorkflow E st w =
      handle (if ws_ElementType st \<in> {ServiceTask, MessageIntermediateCatchEvent}
             then PublishWorkflowState E WorkflowJobServiceTaskAbort st no_opts else ret st)
       (\<lambda>e. ret (False, Some e))
       (\<lambda>state. handle (GetExecution (ws_ExecutionId state)) (\<lambda>e. ret (False, Some e))
           (\<lambda>execution. bnd (foldE (tear_step E (ex_ExecutionId execution)) state (ex_ProcessInstanceId execution))
              (\<lambda>_. ret (True, None)))) w"
    by (simp add: tearDownWorkflow_def tear_step_def [abs_def])
  have abort: "WorkflowJobServiceTaskAbort \<noteq> NS WorkflowJobUserTaskExecute (e_ns E)"
    unfolding subject_defs by (rule wsubj_not_user_task [OF assms(2)])
  show ?thesis
  proof (cases "ws_ElementType st \<in> {ServiceTask, MessageIntermediateCatchEvent}")
    case True
    let ?w = "pubW E WorkflowJobServiceTaskAbort st no_opts w"
    obtain st' w' where "foldE (tear_step E (ws_ExecutionId st)) (st\<lparr> ws_UnixTimeNano := clock E (ticks w) \<rparr>)
        (ex_ProcessInstanceId ex) ?w = (Ok st', w')" "kv_get (kvExecution w') (ws_ExecutionId st) = None"
      "\<forall>k. kv_get (kvProcessInstance w') k = (if k \<in> set (ex_ProcessInstanceId ex) then None else kv_get (kvProcessInstance ?w) k)"
      using tear_loop [of ?w E "ws_ExecutionId st" ex "ex_ProcessInstanceId ex"
          "st\<lparr> ws_UnixTimeNano := clock E (ticks w) \<rparr>"] assms by auto
    then show ?thesis using body True abort assms by (simp add: handle_apply bnd_apply)
  next
    case False
    obtain st' w' where "foldE (tear_step E (ws_ExecutionId st)) st
        (ex_ProcessInstanceId ex) w = (Ok st', w')" "kv_get (kvExecution w') (ws_ExecutionId st) = None"
      "\<forall>k. kv_get (kvProcessInstance w') k = (if k \<in> set (ex_ProcessInstanceId ex) then None else kv_get (kvProcessInstance w) k)"
      using tear_loop [of w E "ws_ExecutionId st" ex "ex_ProcessInstanceId ex" st] assms by auto
    then show ?thesis using body False assms by (simp add: handle_apply bnd_apply)
  qed
qed

text \<open>An undeclared error code always ends in the fatal error.\<close>

lemma unknownError_fatal:
  assumes "unknownError E c st w = (r, w')" "r \<noteq> Panic"
  shows "r = Err (ErrWorkflowFatal ErrWorkflowErrorNotFound None)"
  using assms by (auto simp: unknownError_def Let_def handle_apply split: prod.splits res.splits)

text \<open>Completing a service task of an activity that is no longer there aborts the job instead.\<close>

theorem CompleteServiceTask_stale:
  assumes "reliable w" "ws_State job \<noteq> compensating"
    and "kv_get (kvHistory w) (historyKey (ws_ProcessInstanceId job) (ParentID (ws_Id job)) activityExecute) = None"
  shows "CompleteServiceTask E job nv w = (Ok (), pubW E (NS WorkflowJobServiceTaskAbort (e_ns E)) job no_opts w)"
  using assms by (simp add: CompleteServiceTask_def bnd_apply handle_apply)

lemma makeExecutable_reliable [simp]:
  assumes "reliable w"
  shows "\<exists>w'. makeExecutable n b w = (Ok (), w') \<and> reliable w' \<and>
    (\<forall>k. kv_get (kvVersion w') k = (if k = n then Some ((case kv_get (kvVersion w) n of Some v \<Rightarrow> v
        | None \<Rightarrow> empty_versions)\<lparr> wvs_IsExecutionDisabled := b \<rparr>) else kv_get (kvVersion w) k))"
  using assms by (auto simp: makeExecutable_def bnd_apply split: option.splits)

end
