(* ===== verification/Traversal.thy ===== *)
theory Traversal
  imports Jobs
begin

text \<open>
  \<open>Engine.traverse\<close> and \<open>Engine.completeActivity\<close> of \<open>internal/server/workflow/engine.go\<close>:
  following the outbound connections of an element whose conditions hold, setting up the
  instance of a reciprocated gateway, and publishing one traversal for each branch.

  The lemmas relate the loop over the targets to the set of selected branches and describe
  the published traversals.
\<close>

section \<open>Selecting the targets\<close>

fun conditionsHold :: "env \<Rightarrow> bytes \<Rightarrow> string list \<Rightarrow> (goerr, bool) res" where
  "conditionsHold E vrs [] = Ok True"
| "conditionsHold E vrs (ex # exs) =
     (case Decode E [] vrs of
        Err e \<Rightarrow> Err e
      | Panic \<Rightarrow> Panic
      | Ok exVars \<Rightarrow>
          (case Eval_bool E ex exVars of
             Err e \<Rightarrow> Err (ErrWorkflowFatal e None)
           | Panic \<Rightarrow> Panic
           | Ok b \<Rightarrow> if \<not> b then Ok False else conditionsHold E vrs exs))"

fun selectTargets :: "env \<Rightarrow> bytes \<Rightarrow> int \<Rightarrow> nat \<Rightarrow> target list \<Rightarrow> (string \<times> string) list
    \<Rightarrow> (goerr, (string \<times> string) list) res" where
  "selectTargets E vrs dflt ord [] targets = Ok targets"
| "selectTargets E vrs dflt ord (t # ts) targets =
     (if int ord = dflt then selectTargets E vrs dflt (Suc ord) ts targets
      else case conditionsHold E vrs (tg_Conditions t) of
             Err e \<Rightarrow> Err e
           | Panic \<Rightarrow> Panic
           | Ok ok \<Rightarrow> selectTargets E vrs dflt (Suc ord) ts
               (if ok then AList.update (tg_Id t) (tg_Target t) targets else targets))"

text \<open>The default target is taken when no other was selected; an index out of range panics.\<close>

definition withDefault :: "targets \<Rightarrow> (string \<times> string) list \<Rightarrow> (goerr, (string \<times> string) list) res" where
  "withDefault outbound sel =
     (if length sel = 0 \<and> tgs_DefaultTarget outbound \<noteq> - 1 then
        (if 0 \<le> tgs_DefaultTarget outbound \<and> tgs_DefaultTarget outbound < int (length (tgs_Target outbound))
         then let d = tgs_Target outbound ! nat (tgs_DefaultTarget outbound) in Ok [(tg_Id d, tg_Target d)]
         else Panic)
      else Ok sel)"

definition chooseTargets :: "env \<Rightarrow> bytes \<Rightarrow> targets \<Rightarrow> (goerr, (string \<times> string) list) res" where
  "chooseTargets E vrs outbound =
     (case selectTargets E vrs (tgs_DefaultTarget outbound) 0 (tgs_Target outbound) [] of
        Ok sel \<Rightarrow> withDefault outbound sel
      | Err e \<Rightarrow> Err e
      | Panic \<Rightarrow> Panic)"

section \<open>Publishing the traversals\<close>

definition addTracking :: "string \<Rightarrow> string \<Rightarrow> workflow_state \<Rightarrow> workflow_state" where
  "addTracking gid track ws =
     ws\<lparr> ws_SatisfiesGatewayExpectation :=
       AList.update gid (alist_get (ws_SatisfiesGatewayExpectation ws) [] gid @ [track])
         (ws_SatisfiesGatewayExpectation ws) \<rparr>"

text \<open>The gateway specification of an element of type gateway; its absence is a nil
  dereference.\<close>

definition solitaryConvergent :: "elem_data \<Rightarrow> (goerr, bool) res" where
  "solitaryConvergent target =
     (if el_Type target = Gateway then
        (case el_Gateway target of
           None \<Rightarrow> Panic
         | Some g \<Rightarrow> Ok (gw_Direction g = convergent \<and> gw_ReciprocalId g = []))
      else Ok False)"

definition reciprocatedDivergent :: "elem_data \<Rightarrow> (goerr, string option) res" where
  "reciprocatedDivergent elem =
     (if el_Type elem = Gateway then
        (case el_Gateway elem of
           None \<Rightarrow> Panic
         | Some g \<Rightarrow> Ok (if gw_Direction g = divergent \<and> gw_ReciprocalId g \<noteq> [] then Some (gw_ReciprocalId g) else None))
      else Ok None)"

text \<open>The name of the element in the process, from the stored definition.\<close>

definition elementName :: "env \<Rightarrow> workflow_state \<Rightarrow> string act" where
  "elementName E ws =
     handle (GetWorkflow E (ws_WorkflowId ws)) (\<lambda>e. fail (ErrWorkflowFatal e None)) (\<lambda>wkf.
       case map_of (wf_Process wkf) (ws_ProcessId ws) of
         None \<Rightarrow> panic
       | Some pr \<Rightarrow>
           (case map_of (IndexProcessElements (pr_Elements pr) []) (ws_ElementId ws) of
              None \<Rightarrow> panic
            | Some e \<Rightarrow> ret (el_Name (el_data e))))"

definition branchState :: "string option \<Rightarrow> string \<Rightarrow> string \<Rightarrow> bool \<Rightarrow> elem_data \<Rightarrow> workflow_state \<Rightarrow> workflow_state" where
  "branchState recip gwIID branchID solitary target ws =
     (let ws = (if solitary then addTracking (el_Id target) (''-,'' @ branchID) ws else ws)
      in case recip of
           None \<Rightarrow> ws
         | Some rid \<Rightarrow> addTracking rid (gwIID @ '','' @ branchID) ws)"

definition traverseBranch :: "env \<Rightarrow> tracking_id \<Rightarrow> (string \<times> element) list \<Rightarrow> string option \<Rightarrow> string \<Rightarrow> workflow_state
    \<Rightarrow> string \<times> string \<Rightarrow> unit act" where
  "traverseBranch E trackingID els recip gwIID state = (\<lambda>(branchID, elID).
     bnd (newID E) (\<lambda>nid.
     case map_of els elID of
       None \<Rightarrow> panic
     | Some tgt \<Rightarrow>
         let target = el_data tgt;
             ws = state\<lparr> ws_Id := Push trackingID nid, ws_ElementType := el_Type target, ws_ElementId := el_Id target \<rparr>
         in bnd (elementName E ws) (\<lambda>nm.
            bnd (lift_res (solitaryConvergent target)) (\<lambda>solitary.
            bnd (PublishWorkflowState E WorkflowTraversalExecute
                   (branchState recip gwIID branchID solitary target (ws\<lparr> ws_ElementName := nm \<rparr>)) no_opts)
              (\<lambda>_. ret ())))))"

text \<open>The gateway instance that a reciprocated divergent gateway opens for its branches.\<close>

definition openGateway :: "env \<Rightarrow> string \<Rightarrow> (string \<times> string) list \<Rightarrow> workflow_state \<Rightarrow> workflow_state act" where
  "openGateway E gwIID targets state =
     (let expectedPaths = map_order E 7 (map fst targets);
          state = state\<lparr> ws_GatewayExpectations := AList.update gwIID expectedPaths (ws_GatewayExpectations state) \<rparr>
      in bnd KvsFor (\<lambda>_.
         bnd (SaveObj GatewayB gwIID \<lparr> gt_MetExpectations = [], gt_Vars = [ws_Vars state], gt_Visits = 0 \<rparr>) (\<lambda>_.
         ret state)))"

definition traverse :: "env \<Rightarrow> tracking_id \<Rightarrow> targets option \<Rightarrow> (string \<times> element) list \<Rightarrow> workflow_state
    \<Rightarrow> workflow_state act" where
  "traverse E trackingID outbound els state =
     (let state = state\<lparr> ws_PreviousActivity := TID (ws_Id state), ws_PreviousElement := ws_ElementId state \<rparr>
      in case outbound of
           None \<Rightarrow> ret state
         | Some ob \<Rightarrow>
             bnd (lift_res (chooseTargets E (ws_Vars state) ob)) (\<lambda>targets.
             case map_of els (ws_ElementId state) of
               None \<Rightarrow> panic
             | Some elem \<Rightarrow>
                 bnd (lift_res (reciprocatedDivergent (el_data elem))) (\<lambda>recip.
                 bnd (newID E) (\<lambda>gwIID.
                 bnd (if recip \<noteq> None then openGateway E gwIID targets state else ret state) (\<lambda>state.
                 bnd (forE (traverseBranch E trackingID els recip gwIID state)
                        (rangeMap (map_order E 8) targets)) (\<lambda>_.
                 ret state))))))"

section \<open>Completing an activity\<close>

definition completeActivity :: "env \<Rightarrow> workflow_state \<Rightarrow> workflow_state act" where
  "completeActivity E state =
     (let state = DropStateParams state
      in bnd (PublishWorkflowState E WorkflowActivityComplete state no_opts) (\<lambda>state.
         bnd (handle (RecordHistoryActivityComplete state) (\<lambda>e. fail (ErrWorkflowFatal e None)) ret) (\<lambda>_.
         ret state)))"

section \<open>Which branches are taken\<close>

text \<open>The branches whose conditions all hold, the default one aside.\<close>

definition holds :: "env \<Rightarrow> bytes \<Rightarrow> target \<Rightarrow> bool" where
  "holds E vrs t \<longleftrightarrow> conditionsHold E vrs (tg_Conditions t) = Ok True"

definition candidates :: "int \<Rightarrow> nat \<Rightarrow> target list \<Rightarrow> target list" where
  "candidates dflt ord ts = map snd (filter (\<lambda>(i, t). int i \<noteq> dflt) (zip [ord..<ord + length ts] ts))"

lemma candidates_Cons:
  "candidates dflt ord (t # ts) = (if int ord = dflt then [] else [t]) @ candidates dflt (Suc ord) ts"
  by (simp add: candidates_def upt_conv_Cons del: upt_Suc)

lemma candidates_Nil [simp]: "candidates dflt ord [] = []" by (simp add: candidates_def)

lemma selectTargets_Ok:
  assumes "selectTargets E vrs dflt ord ts acc = Ok sel"
  shows "sel = fold (\<lambda>t. AList.update (tg_Id t) (tg_Target t)) (filter (holds E vrs) (candidates dflt ord ts)) acc"
  using assms
proof (induction ts arbitrary: ord acc)
  case (Cons t ts)
  show ?case
  proof (cases "int ord = dflt")
    case True
    then show ?thesis using Cons by (simp add: candidates_Cons)
  next
    case False
    then obtain b where b: "conditionsHold E vrs (tg_Conditions t) = Ok b"
      using Cons.prems by (auto split: res.splits)
    then show ?thesis using Cons False by (cases b) (auto simp: candidates_Cons holds_def)
  qed
qed simp

text \<open>Evaluation of the conditions fails exactly when one of them does not evaluate to a
  boolean.\<close>

lemma conditionsHold_true_iff:
  assumes "Decode E [] vrs = Ok m"
  shows "conditionsHold E vrs cs = Ok True \<longleftrightarrow> (\<forall>c \<in> set cs. Eval_bool E c m = Ok True)"
  using assms by (induction cs) (auto split: res.splits)

lemma map_fst_update_distinct:
  "distinct (map fst al) \<Longrightarrow> distinct (map fst (AList.update k v al))"
  by (rule distinct_update)

lemma fold_update_distinct:
  "distinct (map fst acc) \<Longrightarrow> distinct (map fst (fold (\<lambda>t. AList.update (tg_Id t) (tg_Target t)) ts acc))"
  by (induction ts arbitrary: acc) (auto simp: distinct_update)

lemma fold_update_fresh:
  assumes "distinct (map tg_Id ts)" "\<forall>t \<in> set ts. tg_Id t \<notin> fst ` set acc"
  shows "fold (\<lambda>t. AList.update (tg_Id t) (tg_Target t)) ts acc = acc @ map (\<lambda>t. (tg_Id t, tg_Target t)) ts"
  using assms
proof (induction ts arbitrary: acc)
  case (Cons t ts)
  have "AList.update (tg_Id t) (tg_Target t) acc = acc @ [(tg_Id t, tg_Target t)]"
    using Cons.prems by (induction acc) auto
  moreover have "\<forall>u \<in> set ts. tg_Id u \<notin> fst ` set (acc @ [(tg_Id t, tg_Target t)])"
    using Cons.prems by (auto simp: image_iff)
  ultimately show ?case using Cons by simp
qed simp

lemma distinct_candidates:
  assumes "distinct (map tg_Id ts)" shows "distinct (map tg_Id (candidates dflt ord ts))"
proof -
  have "set (candidates dflt ord ts) \<subseteq> set ts" for ord
    by (auto simp: candidates_def dest: set_zip_rightD)
  then show ?thesis using assms
  proof (induction ts arbitrary: ord)
    case (Cons t ts)
    have "set (candidates dflt (Suc ord) ts) \<subseteq> set ts"
      by (auto simp: candidates_def dest: set_zip_rightD)
    moreover have "distinct (map tg_Id (candidates dflt (Suc ord) ts))"
      by (rule Cons.IH) (use Cons.prems in \<open>auto simp: candidates_def dest: set_zip_rightD\<close>)
    ultimately show ?case using Cons.prems(2) by (auto simp: candidates_Cons)
  qed simp
qed

text \<open>With distinct connection ids, the targets chosen are the candidates that hold, in their
  order, or the default alone when there is none.\<close>


lemma chooseTargets_distinct: "chooseTargets E vrs ob = Ok sel \<Longrightarrow> distinct (map fst sel)"
  using selectTargets_Ok fold_update_distinct [of "[]"]
  by (fastforce simp: chooseTargets_def withDefault_def Let_def split: res.splits if_splits)

text \<open>A connection list of one entry whose default is that entry is always followed.\<close>

lemma chooseTargets_single:
  "chooseTargets E vrs \<lparr> tgs_Target = [t], tgs_DefaultTarget = 0 \<rparr> = Ok [(tg_Id t, tg_Target t)]"
  by (simp add: chooseTargets_def withDefault_def)

section \<open>What a traversal publishes\<close>

text \<open>The definition a state refers to is stored, its process exists and the elements that can be
  reached are known.\<close>

definition resolves :: "workflow \<Rightarrow> (string \<times> element) list \<Rightarrow> workflow_state \<Rightarrow> string \<Rightarrow> bool" where
  "resolves wkf els st elID \<longleftrightarrow>
     (\<exists>tgt pr e. map_of els elID = Some tgt \<and> solitaryConvergent (el_data tgt) \<noteq> Panic \<and>
        map_of (wf_Process wkf) (ws_ProcessId st) = Some pr \<and>
        map_of (IndexProcessElements (pr_Elements pr) []) (el_Id (el_data tgt)) = Some e)"

definition branch_msg :: "env \<Rightarrow> workflow \<Rightarrow> tracking_id \<Rightarrow> (string \<times> element) list \<Rightarrow> string option \<Rightarrow> string
    \<Rightarrow> workflow_state \<Rightarrow> string \<times> string \<Rightarrow> pubmsg \<Rightarrow> bool" where
  "branch_msg E wkf trackingID els recip gwIID st = (\<lambda>(b, elID) m.
     \<exists>tgt pr e sol nid now.
       map_of els elID = Some tgt \<and> solitaryConvergent (el_data tgt) = Ok sol \<and>
       map_of (wf_Process wkf) (ws_ProcessId st) = Some pr \<and>
       map_of (IndexProcessElements (pr_Elements pr) []) (el_Id (el_data tgt)) = Some e \<and>
       pm_Subject m = NS WorkflowTraversalExecute (e_ns E) \<and>
       pm_Payload m = PState ((branchState recip gwIID b sol (el_data tgt)
         (st\<lparr> ws_Id := Push trackingID nid, ws_ElementType := el_Type (el_data tgt),
              ws_ElementId := el_Id (el_data tgt), ws_ElementName := el_Name (el_data e) \<rparr>))\<lparr> ws_UnixTimeNano := now \<rparr>))"

text \<open>The parts of the world that the loop over the branches relies on and keeps.\<close>

definition trav_inv :: "workflow \<Rightarrow> string \<Rightarrow> world \<Rightarrow> bool" where
  "trav_inv wkf wid w \<longleftrightarrow> reliable w \<and> cache_coherent w \<and> kv_get (kvDefinition w) wid = Some wkf"

definition trav_frame :: "world \<Rightarrow> world \<Rightarrow> bool" where
  "trav_frame w w' \<longleftrightarrow> kvDefinition w' = kvDefinition w \<and> kvGateway w' = kvGateway w \<and> kvHistory w' = kvHistory w \<and>
     kvJob w' = kvJob w \<and> kvExecution w' = kvExecution w \<and> kvProcessInstance w' = kvProcessInstance w \<and>
     kvMessages w' = kvMessages w"

lemma trav_frame_refl [simp]: "trav_frame w w" by (simp add: trav_frame_def)

lemma trav_frame_trans: "trav_frame a b \<Longrightarrow> trav_frame b c \<Longrightarrow> trav_frame a c" by (simp add: trav_frame_def)

lemma elementName_ok:
  assumes "trav_inv wkf (ws_WorkflowId ws) w"
    and "map_of (wf_Process wkf) (ws_ProcessId ws) = Some pr"
    and "map_of (IndexProcessElements (pr_Elements pr) []) (ws_ElementId ws) = Some e"
  shows "\<exists>c. elementName E ws w = (Ok (el_Name (el_data e)), w\<lparr> sCache := c \<rparr>) \<and>
             trav_inv wkf (ws_WorkflowId ws) (w\<lparr> sCache := c \<rparr>)"
  using GetWorkflow_reliable [of w "ws_WorkflowId ws" wkf E] assms
  by (auto simp: elementName_def trav_inv_def handle_apply)

lemma traverseBranch_ok:
  assumes "trav_inv wkf (ws_WorkflowId st) w" "ns_ok E" "resolves wkf els st elID"
  shows "\<exists>m w'. traverseBranch E tid els recip gw st (b, elID) w = (Ok (), w') \<and>
    published w' = published w @ [m] \<and> branch_msg E wkf tid els recip gw st (b, elID) m \<and>
    trav_inv wkf (ws_WorkflowId st) w' \<and> trav_frame w w'"
proof -
  obtain tgt pr e where t: "map_of els elID = Some tgt" "solitaryConvergent (el_data tgt) \<noteq> Panic"
    "map_of (wf_Process wkf) (ws_ProcessId st) = Some pr"
    "map_of (IndexProcessElements (pr_Elements pr) []) (el_Id (el_data tgt)) = Some e"
    using assms(3) by (auto simp: resolves_def)
  obtain sol where sol: "solitaryConvergent (el_data tgt) = Ok sol"
    using t(2) by (auto simp: solitaryConvergent_def split: option.splits if_splits)
  let ?w1 = "w\<lparr> nextId := Suc (nextId w) \<rparr>"
  let ?ws = "st\<lparr> ws_Id := Push tid (ksuid E (nextId w)), ws_ElementType := el_Type (el_data tgt),
                 ws_ElementId := el_Id (el_data tgt) \<rparr>"
  have "trav_inv wkf (ws_WorkflowId ?ws) ?w1" using assms(1) by (simp add: trav_inv_def cache_coherent_def)
  then obtain c where c: "elementName E ?ws ?w1 = (Ok (el_Name (el_data e)), ?w1\<lparr> sCache := c \<rparr>)"
    "trav_inv wkf (ws_WorkflowId ?ws) (?w1\<lparr> sCache := c \<rparr>)"
    using elementName_ok [of wkf ?ws ?w1 pr e E] t by auto
  let ?bs = "branchState recip gw b sol (el_data tgt) (?ws\<lparr> ws_ElementName := el_Name (el_data e) \<rparr>)"
  let ?w2 = "?w1\<lparr> sCache := c \<rparr>"
  have run: "traverseBranch E tid els recip gw st (b, elID) w =
      (Ok (), pubW E WorkflowTraversalExecute ?bs no_opts ?w2)"
    using t sol c assms(2) by (simp add: traverseBranch_def bnd_apply Let_def trav_inv_def)
  have "trav_inv wkf (ws_WorkflowId st) (pubW E WorkflowTraversalExecute ?bs no_opts ?w2)"
    using c(2) by (simp add: trav_inv_def cache_coherent_def)
  moreover have "branch_msg E wkf tid els recip gw st (b, elID) (state_msg E WorkflowTraversalExecute ?bs no_opts ?w2)"
    using t sol unfolding branch_msg_def by auto
  ultimately show ?thesis using run by (simp add: trav_frame_def)
qed

lemma traverse_loop:
  assumes "trav_inv wkf (ws_WorkflowId st) w" "ns_ok E" "\<forall>(b, elID) \<in> set sel. resolves wkf els st elID"
  shows "\<exists>ms w'. forE (traverseBranch E tid els recip gw st) sel w = (Ok (), w') \<and>
    published w' = published w @ ms \<and> list_all2 (branch_msg E wkf tid els recip gw st) sel ms \<and>
    trav_inv wkf (ws_WorkflowId st) w' \<and> trav_frame w w'"
  using assms
proof (induction sel arbitrary: w)
  case (Cons p sel)
  obtain b elID where p: "p = (b, elID)" by fastforce
  obtain m w1 where w1: "traverseBranch E tid els recip gw st p w = (Ok (), w1)" "published w1 = published w @ [m]"
    "branch_msg E wkf tid els recip gw st p m" "trav_inv wkf (ws_WorkflowId st) w1" "trav_frame w w1"
    using traverseBranch_ok [OF Cons.prems(1,2), of els elID tid recip gw b] Cons.prems(3) p by auto
  obtain ms w2 where w2: "forE (traverseBranch E tid els recip gw st) sel w1 = (Ok (), w2)"
    "published w2 = published w1 @ ms" "list_all2 (branch_msg E wkf tid els recip gw st) sel ms"
    "trav_inv wkf (ws_WorkflowId st) w2" "trav_frame w1 w2"
    using Cons.IH [OF w1(4) Cons.prems(2)] Cons.prems(3) by auto
  have "forE (traverseBranch E tid els recip gw st) (p # sel) w = (Ok (), w2)"
    using w1(1) w2(1) by (simp add: bnd_apply)
  moreover have "published w2 = published w @ (m # ms)" using w1 w2 by simp
  moreover have "list_all2 (branch_msg E wkf tid els recip gw st) (p # sel) (m # ms)" using w1 w2 by simp
  ultimately show ?case using w2(4) trav_frame_trans [OF w1(5) w2(5)] by blast
qed auto

text \<open>The state that the branches inherit: where the traversal came from and, for a reciprocated
  divergent gateway, the paths its instance expects.\<close>

definition departed :: "workflow_state \<Rightarrow> workflow_state" where
  "departed st = st\<lparr> ws_PreviousActivity := TID (ws_Id st), ws_PreviousElement := ws_ElementId st \<rparr>"

definition expecting :: "env \<Rightarrow> string option \<Rightarrow> string \<Rightarrow> (string \<times> string) list \<Rightarrow> workflow_state \<Rightarrow> workflow_state" where
  "expecting E recip gwIID sel st =
     (if recip = None then st
      else st\<lparr> ws_GatewayExpectations := AList.update gwIID (map_order E 7 (map fst sel)) (ws_GatewayExpectations st) \<rparr>)"

lemma traverse_reliable:
  assumes "trav_inv wkf (ws_WorkflowId st) w" "ns_ok E"
    and "chooseTargets E (ws_Vars st) ob = Ok sel"
    and "map_of els (ws_ElementId st) = Some elem" "reciprocatedDivergent (el_data elem) = Ok recip"
    and "\<forall>(b, elID) \<in> set (rangeMap (map_order E 8) sel). resolves wkf els st elID"
  defines "gw \<equiv> ksuid E (nextId w)"
  defines "st' \<equiv> expecting E recip gw sel (departed st)"
  shows "\<exists>ms w'. traverse E tid (Some ob) els st w = (Ok st', w') \<and>
    published w' = published w @ ms \<and>
    list_all2 (branch_msg E wkf tid els recip gw st') (rangeMap (map_order E 8) sel) ms \<and>
    trav_inv wkf (ws_WorkflowId st) w' \<and>
    (\<forall>k. kv_get (kvGateway w') k = (if recip \<noteq> None \<and> k = gw
        then Some \<lparr> gt_MetExpectations = [], gt_Vars = [ws_Vars st], gt_Visits = 0 \<rparr> else kv_get (kvGateway w) k)) \<and>
    kvHistory w' = kvHistory w \<and> kvJob w' = kvJob w \<and> kvExecution w' = kvExecution w \<and>
    kvProcessInstance w' = kvProcessInstance w \<and> kvMessages w' = kvMessages w"
proof -
  have rel: "reliable w" using assms(1) by (simp add: trav_inv_def)
  let ?w1 = "w\<lparr> nextId := Suc (nextId w) \<rparr>"
  let ?w2 = "if recip = None then ?w1
     else kvGateway_update (kv_put gw \<lparr> gt_MetExpectations = [], gt_Vars = [ws_Vars st], gt_Visits = 0 \<rparr>) ?w1"
  have st': "ws_WorkflowId st' = ws_WorkflowId st" "ws_ProcessId st' = ws_ProcessId st"
    by (simp_all add: st'_def expecting_def departed_def)
  have inv2: "trav_inv wkf (ws_WorkflowId st') ?w2" using assms(1) st' by (auto simp: trav_inv_def cache_coherent_def)
  have res: "\<forall>(b, elID) \<in> set (rangeMap (map_order E 8) sel). resolves wkf els st' elID"
    using assms(6) st' by (simp add: resolves_def)
  obtain ms w' where l: "forE (traverseBranch E tid els recip gw st') (rangeMap (map_order E 8) sel) ?w2 = (Ok (), w')"
    "published w' = published ?w2 @ ms" "list_all2 (branch_msg E wkf tid els recip gw st') (rangeMap (map_order E 8) sel) ms"
    "trav_inv wkf (ws_WorkflowId st') w'" "trav_frame ?w2 w'"
    using traverse_loop [OF inv2 assms(2) res] by blast
  have run: "traverse E tid (Some ob) els st w = (Ok st', w')"
  proof (cases recip)
    case None
    then show ?thesis using assms(3-5) l(1) rel
      by (simp add: traverse_def bnd_apply Let_def st'_def expecting_def departed_def gw_def)
  next
    case (Some rid)
    then show ?thesis using assms(3-5) l(1) rel
      by (simp add: traverse_def openGateway_def bnd_apply Let_def st'_def expecting_def departed_def gw_def)
  qed
  show ?thesis using run l st' by (auto simp: trav_frame_def)
qed

text \<open>Completing an activity announces it, with the parameters of its job dropped, and records
  it.\<close>

lemma completeActivity_reliable [simp]:
  assumes "reliable w" "ns_ok E"
  shows "completeActivity E st w =
    (let s = (DropStateParams st)\<lparr> ws_UnixTimeNano := clock E (ticks w) \<rparr> in
     (Ok s, kvHistory_update (kv_put (historyKey (ws_ProcessInstanceId st) (TID (ws_Id st)) activityComplete)
              (history_of s activityComplete)) (pubW E WorkflowActivityComplete (DropStateParams st) no_opts w)))"
  using assms
  by (simp add: completeActivity_def Let_def bnd_apply handle_apply RecordHistoryActivityComplete_def DropStateParams_def)

end
