(* ===== verification/Gateways.thy ===== *)
theory Gateways
  imports Traversal
begin

text \<open>
  \<open>internal/server/workflow/gateway.go\<close>: the instance of a convergent gateway, what happens
  when a branch arrives at it, how the variables of the branches are merged, and the
  completion of the gateway.

  The lemmas show that an inclusive or parallel join completes exactly when every expected
  path has arrived, in any order and with repeated deliveries, and that branches that change
  different variables merge to the same variables in any order of arrival.
\<close>

section \<open>Results of message handlers\<close>

text \<open>\<open>return false, err\<close> for a failed call, and the guard that a handler opens with: a
  message for an execution or a process instance that has gone is acknowledged.\<close>

definition orNak :: "'a act \<Rightarrow> ('a \<Rightarrow> ack_err act) \<Rightarrow> ack_err act" where
  "orNak m f = handle m (\<lambda>e. ret (False, Some e)) f"

definition gone :: "goerr \<Rightarrow> bool" where
  "gone e \<longleftrightarrow> e = ErrExecutionNotFound \<or> e = ErrProcessInstanceNotFound"

definition guardProcess :: "workflow_state \<Rightarrow> (goerr \<Rightarrow> ack_err) \<Rightarrow> (process_instance \<Rightarrow> ack_err act) \<Rightarrow> ack_err act" where
  "guardProcess job missing body =
     handle (hasValidProcess (ws_ProcessInstanceId job) (ws_ExecutionId job))
       (\<lambda>e. if gone e then ret (missing e) else ret (False, Some e))
       (\<lambda>(pi, _). body pi)"

section \<open>The instance of a gateway\<close>

definition GetGatewayInstance :: "string \<Rightarrow> gateway act" where
  "GetGatewayInstance gatewayInstanceID = bnd KvsFor (\<lambda>_. LoadObj GatewayB gatewayInstanceID)"

text \<open>The last entry of the tracking of the element is \<open>instance,route\<close>; an entry without a
  comma, or no entry, is an index out of range.\<close>

definition GetGatewayInstanceID :: "workflow_state \<Rightarrow> (goerr, string \<times> string) res" where
  "GetGatewayInstanceID state =
     (case map_of (ws_SatisfiesGatewayExpectation state) (ws_ElementId state) of
        None \<Rightarrow> Err ErrGatewayInstanceNotFound
      | Some tracking \<Rightarrow>
          if tracking = [] then Panic
          else (case SplitChar (CHR '','') (last tracking) of
                  gatewayIID # route # _ \<Rightarrow> Ok (gatewayIID, route)
                | _ \<Rightarrow> Panic))"

definition empty_gateway :: gateway where
  "empty_gateway = \<lparr> gt_MetExpectations = [], gt_Vars = [], gt_Visits = 0 \<rparr>"

text \<open>The first branch to arrive executes the gateway, the others re-enter it.  The error of
  \<open>GetGatewayInstanceID\<close> is dropped, which leaves an empty key; the store rejects that key as
  invalid, and every failure of the load but a missing key is passed over.\<close>

definition processGatewayActivation :: "env \<Rightarrow> workflow_state \<Rightarrow> ack_err act" where
  "processGatewayActivation E job =
     orNak KvsFor (\<lambda>_.
     guardProcess job (\<lambda>_. (True, None)) (\<lambda>_.
     bnd (handle (lift_res (GetGatewayInstanceID job)) (\<lambda>_. ret []) (\<lambda>(gwIID, _). ret gwIID)) (\<lambda>gwIID.
     bnd (handle (if gwIID = [] then fail (ErrOther ''nats: invalid key'') else LoadObj GatewayB gwIID)
            (\<lambda>e. ret (if e = ErrKeyNotFound then Inl e else Inr empty_gateway)) (\<lambda>g. ret (Inr g))) (\<lambda>r.
     case r of
       Inl e \<Rightarrow> ret (False, Some e)
     | Inr gw \<Rightarrow>
         orNak (PublishWorkflowState E
                  (if length (gt_Vars gw) = 1 then WorkflowJobGatewayTaskExecute else WorkflowJobGatewayTaskReEnter)
                  job no_opts)
           (\<lambda>_. ret (True, None))))))"

section \<open>Merging the variables of the branches\<close>

fun mergeVals :: "vmap \<Rightarrow> vmap \<Rightarrow> vmap \<Rightarrow> (goerr, vmap) res" where
  "mergeVals base [] rt = Ok rt"
| "mergeVals base ((k, v) # kvs) rt =
     (case map_of base k of
        None \<Rightarrow> mergeVals base kvs (AList.update k v rt)
      | Some bv \<Rightarrow>
          (case go_eq bv v of
             None \<Rightarrow> Panic
           | Some same \<Rightarrow> mergeVals base kvs (if \<not> same then AList.update k v rt else rt)))"

fun mergeSets :: "env \<Rightarrow> vmap \<Rightarrow> bytes list \<Rightarrow> vmap \<Rightarrow> (goerr, vmap) res" where
  "mergeSets E base [] rt = Ok rt"
| "mergeSets E base (b # bs) rt =
     (case Decode E [] b of
        Err e \<Rightarrow> Err e
      | Panic \<Rightarrow> Panic
      | Ok v2 \<Rightarrow>
          (case mergeVals base (rangeMap (map_order E 9) v2) rt of
             Err e \<Rightarrow> Err e
           | Panic \<Rightarrow> Panic
           | Ok rt' \<Rightarrow> mergeSets E base bs rt'))"

definition mergeGatewayVars :: "env \<Rightarrow> gateway \<Rightarrow> (goerr, bytes) res" where
  "mergeGatewayVars E gw =
     (case gt_Vars gw of
        [] \<Rightarrow> Panic
      | [v] \<Rightarrow> Ok v
      | v # vs \<Rightarrow>
          (case Decode E [] v of
             Err e \<Rightarrow> Err e
           | Panic \<Rightarrow> Panic
           | Ok base \<Rightarrow>
               (case mergeSets E base vs base of
                  Err e \<Rightarrow> Err e
                | Panic \<Rightarrow> Panic
                | Ok rt \<Rightarrow> Encode E rt)))"

section \<open>Executing and completing a gateway\<close>

definition empty_process_instance :: process_instance where
  "empty_process_instance = \<lparr> pi_ProcessInstanceId = [], pi_ExecutionId = [], pi_ParentProcessId = None,
     pi_ParentElementId = None, pi_WorkflowId = [], pi_WorkflowName = [], pi_ProcessId = [],
     pi_GatewayComplete = [], pi_Headers = [] \<rparr>"

definition completeGateway :: "env \<Rightarrow> workflow_state \<Rightarrow> unit act" where
  "completeGateway E job =
     (case ws_Execute job of
        None \<Rightarrow> panic
      | Some gwIID \<Rightarrow>
          bnd KvsFor (\<lambda>_.
          bnd (UpdateObj ProcessInstanceB (ws_ProcessInstanceId job) empty_process_instance
                 (\<lambda>v. Ok (v\<lparr> pi_GatewayComplete := AList.update gwIID True (pi_GatewayComplete v) \<rparr>))) (\<lambda>_.
          bnd (completeActivity E job) (\<lambda>_.
          DeleteObj GatewayB gwIID))))"

text \<open>What a branch leaves in the instance when it arrives.\<close>

definition gw_arrive :: "string \<times> bytes \<Rightarrow> gateway \<Rightarrow> gateway" where
  "gw_arrive = (\<lambda>(route, vrs) g. g\<lparr> gt_MetExpectations := AList.update route [] (gt_MetExpectations g),
     gt_Vars := gt_Vars g @ [vrs], gt_Visits := gt_Visits g + 1 \<rparr>)"

text \<open>A failed merge is wrapped as a fatal error inside a formatted one.\<close>

definition mergeAndComplete :: "env \<Rightarrow> gateway \<Rightarrow> workflow_state \<Rightarrow> ack_err act" where
  "mergeAndComplete E gw job =
     handle (lift_res (mergeGatewayVars E gw))
       (\<lambda>e. ret (False, Some (ErrWorkflowFatal e None)))
       (\<lambda>nv. orNak (completeGateway E (job\<lparr> ws_Vars := nv \<rparr>)) (\<lambda>_. ret (True, None)))"

definition gatewayDecide :: "env \<Rightarrow> gateway_spec \<Rightarrow> string \<Rightarrow> gateway \<Rightarrow> workflow_state \<Rightarrow> ack_err act" where
  "gatewayDecide E spec gatewayIID gw job =
     (case gw_Type spec of
        exclusive \<Rightarrow> mergeAndComplete E gw job
      | _ \<Rightarrow>
          (case map_of (ws_GatewayExpectations job) gatewayIID of
             None \<Rightarrow> panic
           | Some expectedPaths \<Rightarrow>
               if length (gt_MetExpectations gw) \<ge> length expectedPaths then mergeAndComplete E gw job
               else orNak (PublishWorkflowState E WorkflowJobGatewayTaskAwait job no_opts) (\<lambda>_. ret (True, None))))"

definition gatewayExecProcessor :: "env \<Rightarrow> workflow_state \<Rightarrow> ack_err act" where
  "gatewayExecProcessor E job =
     guardProcess job (\<lambda>e. (True, Some e)) (\<lambda>_.
     handle (GetWorkflow E (ws_WorkflowId job))
       (\<lambda>e. ret (True, Some (ErrWorkflowFatal e None)))
       (\<lambda>wkf.
     case map_of (wf_Process wkf) (ws_ProcessId job) of
       None \<Rightarrow> panic
     | Some pr \<Rightarrow>
         let els = IndexProcessElements (pr_Elements pr) []
         in orNak (lift_res (GetGatewayInstanceID job)) (\<lambda>(gatewayIID, route).
            let job = job\<lparr> ws_Execute := Some gatewayIID \<rparr>
            in orNak KvsFor (\<lambda>_.
               orNak (UpdateObj GatewayB gatewayIID empty_gateway (\<lambda>g. Ok (gw_arrive (route, ws_Vars job) g))) (\<lambda>gw.
               case map_of els (ws_ElementId job) of
                 None \<Rightarrow> panic
               | Some el \<Rightarrow>
                   (case el_Gateway (el_data el) of
                      None \<Rightarrow> panic
                    | Some spec \<Rightarrow> gatewayDecide E spec gatewayIID gw job))))))"

section \<open>The join as an abstract counter of arrivals\<close>

text \<open>What a join promises: an arrival adds its route to the routes met, and the join is full
  when as many routes are met as are expected.\<close>

locale join =
  fixes met :: "'s \<Rightarrow> 'r set"
    and route :: "'a \<Rightarrow> 'r"
    and arrive :: "'a \<Rightarrow> 's \<Rightarrow> 's"
    and full :: "'r list \<Rightarrow> 's \<Rightarrow> bool"
    and ok :: "'s \<Rightarrow> bool"
  assumes ok_arrive: "ok s \<Longrightarrow> ok (arrive a s)"
    and met_arrive: "ok s \<Longrightarrow> met (arrive a s) = insert (route a) (met s)"
    and met_finite: "ok s \<Longrightarrow> finite (met s)"
    and full_iff: "ok s \<Longrightarrow> full ps s \<longleftrightarrow> length ps \<le> card (met s)"
begin

lemma ok_arrivals: "ok s \<Longrightarrow> ok (fold arrive as s)"
  by (induction as arbitrary: s) (simp_all add: ok_arrive)

lemma met_arrivals: "ok s \<Longrightarrow> met (fold arrive as s) = route ` set as \<union> met s"
  by (induction as arbitrary: s) (auto simp: ok_arrive met_arrive)

text \<open>With distinct expected paths and routes among them, the join is full exactly when every
  expected path has arrived, whatever the order and the number of repetitions.\<close>

lemma full_arrivals:
  assumes "ok s" "met s = {}" "distinct ps" "route ` set as \<subseteq> set ps"
  shows "full ps (fold arrive as s) \<longleftrightarrow> route ` set as = set ps"
proof -
  have m: "met (fold arrive as s) = route ` set as" using met_arrivals [OF assms(1)] assms(2) by simp
  have "full ps (fold arrive as s) \<longleftrightarrow> card (set ps) \<le> card (route ` set as)"
    using full_iff [OF ok_arrivals [OF assms(1)]] m assms(3) by (simp add: distinct_card)
  also have "\<dots> \<longleftrightarrow> route ` set as = set ps"
    using assms(4) card_seteq [of "set ps" "route ` set as"] by auto
  finally show ?thesis .
qed

lemma full_order:
  assumes "ok s" "met s = {}" "mset as = mset bs"
  shows "full ps (fold arrive as s) \<longleftrightarrow> full ps (fold arrive bs s)"
proof -
  have "set as = set bs" using assms(3) by (metis set_mset_mset)
  then have "met (fold arrive as s) = met (fold arrive bs s)" using met_arrivals [OF assms(1)] by simp
  then show ?thesis using full_iff [OF ok_arrivals [OF assms(1)]] by simp
qed

end

definition gw_met :: "gateway \<Rightarrow> string set" where
  "gw_met g = fst ` set (gt_MetExpectations g)"

definition gw_full :: "string list \<Rightarrow> gateway \<Rightarrow> bool" where
  "gw_full ps g \<longleftrightarrow> length (gt_MetExpectations g) \<ge> length ps"

definition gw_ok :: "gateway \<Rightarrow> bool" where
  "gw_ok g \<longleftrightarrow> distinct (map fst (gt_MetExpectations g))"

interpretation gwj: join gw_met fst gw_arrive gw_full gw_ok
proof
  fix s :: gateway and a :: "string \<times> bytes" and ps :: "string list"
  assume ok: "gw_ok s"
  show "gw_ok (gw_arrive a s)" using ok by (auto simp: gw_ok_def gw_arrive_def distinct_update split: prod.splits)
  show "gw_met (gw_arrive a s) = insert (fst a) (gw_met s)"
    by (auto simp: gw_met_def gw_arrive_def dom_update split: prod.splits)
  show "finite (gw_met s)" by (simp add: gw_met_def)
  show "gw_full ps s \<longleftrightarrow> length ps \<le> card (gw_met s)"
    using ok distinct_card [of "map fst (gt_MetExpectations s)"] by (simp add: gw_full_def gw_met_def gw_ok_def)
qed

section \<open>One arrival\<close>

text \<open>What the handler needs of the world: the instance, its execution and the definition are
  stored, and the element is a gateway of the kind.\<close>

definition gw_ready :: "world \<Rightarrow> workflow_state \<Rightarrow> gateway_type \<Rightarrow> bool" where
  "gw_ready w job ty \<longleftrightarrow> reliable w \<and> cache_coherent w \<and>
     kv_get (kvExecution w) (ws_ExecutionId job) \<noteq> None \<and>
     kv_get (kvProcessInstance w) (ws_ProcessInstanceId job) \<noteq> None \<and>
     (\<exists>wkf pr el spec. kv_get (kvDefinition w) (ws_WorkflowId job) = Some wkf \<and>
        map_of (wf_Process wkf) (ws_ProcessId job) = Some pr \<and>
        map_of (IndexProcessElements (pr_Elements pr) []) (ws_ElementId job) = Some el \<and>
        el_Gateway (el_data el) = Some spec \<and> gw_Type spec = ty)"

definition gw_of :: "world \<Rightarrow> string \<Rightarrow> gateway" where
  "gw_of w k = (case kv_get (kvGateway w) k of Some g \<Rightarrow> g | None \<Rightarrow> empty_gateway)"

lemma kv_put_kv_put: "kv_get (kv_put k v (kv_put k u b)) l = kv_get (kv_put k v b) l" by simp

lemma gatewayExec_run:
  assumes "gw_ready w job ty" "GetGatewayInstanceID job = Ok (gw, r)"
  shows "\<exists>w1 spec. gatewayExecProcessor E job w =
       gatewayDecide E spec gw (gw_arrive (r, ws_Vars job) (gw_of w gw)) (job\<lparr> ws_Execute := Some gw \<rparr>) w1 \<and>
     gw_Type spec = ty \<and> reliable w1 \<and> cache_coherent w1 \<and> published w1 = published w \<and>
     kvExecution w1 = kvExecution w \<and> kvProcessInstance w1 = kvProcessInstance w \<and> kvDefinition w1 = kvDefinition w \<and>
     (\<forall>k. kv_get (kvGateway w1) k = (if k = gw then Some (gw_arrive (r, ws_Vars job) (gw_of w gw)) else kv_get (kvGateway w) k))"
proof -
  from assms(1) obtain wkf pr el spec where
    rel: "reliable w" and coh: "cache_coherent w" and
    ex: "kv_get (kvExecution w) (ws_ExecutionId job) \<noteq> None" and
    pi: "kv_get (kvProcessInstance w) (ws_ProcessInstanceId job) \<noteq> None" and
    d: "kv_get (kvDefinition w) (ws_WorkflowId job) = Some wkf"
       "map_of (wf_Process wkf) (ws_ProcessId job) = Some pr"
       "map_of (IndexProcessElements (pr_Elements pr) []) (ws_ElementId job) = Some el"
       "el_Gateway (el_data el) = Some spec" "gw_Type spec = ty"
    unfolding gw_ready_def by blast
  obtain c where c: "GetWorkflow E (ws_WorkflowId job) w = (Ok wkf, w\<lparr> sCache := c \<rparr>)" "cache_coherent (w\<lparr> sCache := c \<rparr>)"
    using GetWorkflow_reliable [OF rel coh d(1), of E] by auto
  obtain x p where x: "kv_get (kvExecution w) (ws_ExecutionId job) = Some x"
    "kv_get (kvProcessInstance w) (ws_ProcessInstanceId job) = Some p" using ex pi by auto
  let ?g = "gw_arrive (r, ws_Vars job) (gw_of w gw)"
  let ?w1 = "case kv_get (kvGateway w) gw of
      Some _ \<Rightarrow> kvGateway_update (kv_put gw ?g) (w\<lparr> sCache := c \<rparr>)
    | None \<Rightarrow> kvGateway_update (kv_put gw ?g) (kvGateway_update (kv_put gw empty_gateway) (w\<lparr> sCache := c \<rparr>))"
  have "gatewayExecProcessor E job w = gatewayDecide E spec gw ?g (job\<lparr> ws_Execute := Some gw \<rparr>) ?w1"
    using rel x c d assms(2)
    by (auto simp: gatewayExecProcessor_def guardProcess_def hasValidProcess_def hasValidExecution_def handle_apply
        bnd_apply orNak_def Let_def gw_of_def split: option.splits)
  then show ?thesis
    using rel coh c d(5)
    by (intro exI [of _ ?w1] exI [of _ spec]) (auto simp: cache_coherent_def split: option.splits)
qed

abbreviation waits :: "gateway_type \<Rightarrow> bool" where
  "waits ty \<equiv> ty = inclusive \<or> ty = parallel"

definition arrival :: "workflow_state \<Rightarrow> string \<times> bytes" where
  "arrival job = (case GetGatewayInstanceID job of Ok (_, r) \<Rightarrow> (r, ws_Vars job) | _ \<Rightarrow> ([], ws_Vars job))"

text \<open>The job arrives at the instance \<open>gw\<close>, which expects the paths \<open>ps\<close>.\<close>

definition arrives_at :: "string \<Rightarrow> string list \<Rightarrow> workflow_state \<Rightarrow> bool" where
  "arrives_at gw ps job \<longleftrightarrow> (\<exists>r. GetGatewayInstanceID job = Ok (gw, r)) \<and>
     map_of (ws_GatewayExpectations job) gw = Some ps"

definition state_of :: "pubmsg \<Rightarrow> workflow_state option" where
  "state_of m = (case pm_Payload m of PState s \<Rightarrow> Some s | _ \<Rightarrow> None)"

lemma gateway_await:
  assumes "gw_ready w job ty" "waits ty" "ns_ok E" "arrives_at gw ps job"
    and "\<not> gw_full ps (gw_arrive (arrival job) (gw_of w gw))"
  shows "\<exists>w' m. gatewayExecProcessor E job w = (Ok (True, None), w') \<and>
     published w' = published w @ [m] \<and> pm_Subject m = NS WorkflowJobGatewayTaskAwait (e_ns E) \<and>
     (\<forall>ty job'. gw_ready w job' ty \<longrightarrow> gw_ready w' job' ty) \<and>
     (\<forall>k. kv_get (kvGateway w') k = (if k = gw then Some (gw_arrive (arrival job) (gw_of w gw)) else kv_get (kvGateway w) k)) \<and>
     kvProcessInstance w' = kvProcessInstance w"
proof -
  obtain r where r: "GetGatewayInstanceID job = Ok (gw, r)" and exp: "map_of (ws_GatewayExpectations job) gw = Some ps"
    using assms(4) by (auto simp: arrives_at_def)
  have a: "arrival job = (r, ws_Vars job)" using r by (simp add: arrival_def)
  obtain w1 spec where w1: "gatewayExecProcessor E job w =
      gatewayDecide E spec gw (gw_arrive (r, ws_Vars job) (gw_of w gw)) (job\<lparr> ws_Execute := Some gw \<rparr>) w1"
    "gw_Type spec = ty" "reliable w1" "cache_coherent w1" "published w1 = published w"
    "kvExecution w1 = kvExecution w" "kvProcessInstance w1 = kvProcessInstance w" "kvDefinition w1 = kvDefinition w"
    "\<forall>k. kv_get (kvGateway w1) k = (if k = gw then Some (gw_arrive (r, ws_Vars job) (gw_of w gw)) else kv_get (kvGateway w) k)"
    using gatewayExec_run [OF assms(1) r, of E] by blast
  let ?j = "job\<lparr> ws_Execute := Some gw \<rparr>"
  let ?w' = "pubW E WorkflowJobGatewayTaskAwait ?j no_opts w1"
  have "gatewayDecide E spec gw (gw_arrive (r, ws_Vars job) (gw_of w gw)) ?j w1 = (Ok (True, None), ?w')"
    using assms(2,3,5) w1(2,3) exp a
    by (cases ty) (auto simp: gatewayDecide_def orNak_def handle_apply gw_full_def)
  moreover have "\<forall>ty job'. gw_ready w job' ty \<longrightarrow> gw_ready ?w' job' ty"
    using w1(3-8) by (simp add: gw_ready_def cache_coherent_def)
  ultimately show ?thesis using w1 a by (intro exI [of _ ?w'] exI conjI) (auto intro!: exI)
qed

lemma gateway_complete:
  assumes "gw_ready w job ty" "waits ty" "ns_ok E" "arrives_at gw ps job"
    and "gw_full ps (gw_arrive (arrival job) (gw_of w gw))"
    and "mergeGatewayVars E (gw_arrive (arrival job) (gw_of w gw)) = Ok nv"
  shows "\<exists>w' m st. gatewayExecProcessor E job w = (Ok (True, None), w') \<and>
     published w' = published w @ [m] \<and> pm_Subject m = NS WorkflowActivityComplete (e_ns E) \<and>
     state_of m = Some st \<and> ws_Vars st = nv \<and> ws_Id st = ws_Id job \<and> ws_ElementId st = ws_ElementId job \<and>
     (\<forall>k. kv_get (kvGateway w') k = (if k = gw then None else kv_get (kvGateway w) k)) \<and>
     (\<exists>pi. kv_get (kvProcessInstance w') (ws_ProcessInstanceId job) = Some pi \<and>
        map_of (pi_GatewayComplete pi) gw = Some True)"
proof -
  obtain r where r: "GetGatewayInstanceID job = Ok (gw, r)" and exp: "map_of (ws_GatewayExpectations job) gw = Some ps"
    using assms(4) by (auto simp: arrives_at_def)
  have a: "arrival job = (r, ws_Vars job)" using r by (simp add: arrival_def)
  obtain w1 spec where w1: "gatewayExecProcessor E job w =
      gatewayDecide E spec gw (gw_arrive (r, ws_Vars job) (gw_of w gw)) (job\<lparr> ws_Execute := Some gw \<rparr>) w1"
    "gw_Type spec = ty" "reliable w1" "published w1 = published w" "kvProcessInstance w1 = kvProcessInstance w"
    "\<forall>k. kv_get (kvGateway w1) k = (if k = gw then Some (gw_arrive (r, ws_Vars job) (gw_of w gw)) else kv_get (kvGateway w) k)"
    using gatewayExec_run [OF assms(1) r, of E] by blast
  obtain p where p: "kv_get (kvProcessInstance w1) (ws_ProcessInstanceId job) = Some p"
    using assms(1) w1(5) by (auto simp: gw_ready_def)
  let ?j = "job\<lparr> ws_Execute := Some gw, ws_Vars := nv \<rparr>"
  let ?p = "p\<lparr> pi_GatewayComplete := AList.update gw True (pi_GatewayComplete p) \<rparr>"
  let ?w2 = "kvProcessInstance_update (kv_put (ws_ProcessInstanceId job) ?p) w1"
  let ?w3 = "snd (completeActivity E ?j ?w2)"
  have c: "completeGateway E ?j w1 = (Ok (), kvGateway_update (kv_delete gw) ?w3)"
    using w1(3) p assms(3) by (simp add: completeGateway_def bnd_apply Let_def)
  have d: "gatewayDecide E spec gw (gw_arrive (r, ws_Vars job) (gw_of w gw)) (job\<lparr> ws_Execute := Some gw \<rparr>) w1 =
      (Ok (True, None), kvGateway_update (kv_delete gw) ?w3)"
    using assms(2,3,5,6) w1(2,3) exp a c
    by (cases ty) (auto simp: gatewayDecide_def mergeAndComplete_def orNak_def handle_apply gw_full_def)
  show ?thesis
    using w1 d assms(3)
    by (intro exI [of _ "kvGateway_update (kv_delete gw) ?w3"]
          exI [of _ "state_msg E WorkflowActivityComplete (DropStateParams ?j) no_opts ?w2"]
          exI [of _ "(DropStateParams ?j)\<lparr> ws_UnixTimeNano := clock E (ticks ?w2) \<rparr>"])
       (simp add: Let_def DropStateParams_def state_of_def)
qed

section \<open>A sequence of arrivals\<close>

definition arrivals :: "env \<Rightarrow> workflow_state list \<Rightarrow> ack_err list act" where
  "arrivals E jobs = foldE (\<lambda>acks job. bnd (gatewayExecProcessor E job) (\<lambda>a. ret (acks @ [a]))) [] jobs"

lemma foldE_snoc_acc:
  "foldE (\<lambda>acks x. bnd (f x) (\<lambda>a. ret (acks @ [a]))) acc xs w =
     (case foldE (\<lambda>acks x. bnd (f x) (\<lambda>a. ret (acks @ [a]))) [] xs w of
        (Ok r, w') \<Rightarrow> (Ok (acc @ r), w') | (Err e, w') \<Rightarrow> (Err e, w') | (Panic, w') \<Rightarrow> (Panic, w'))"
proof (induction xs arbitrary: acc w)
  case (Cons x xs)
  show ?case
  proof (cases "f x w")
    case (Pair r w1)
    then show ?thesis
      using Cons [of "acc @ [the_Ok]" w1 for the_Ok] Cons [of "[the_Ok]" w1 for the_Ok]
      by (cases r) (auto simp: bnd_apply split: prod.splits res.splits)
  qed
qed simp

lemma arrivals_Cons:
  "gatewayExecProcessor E job w = (Ok a, w1) \<Longrightarrow> arrivals E jobs w1 = (Ok r, w2) \<Longrightarrow>
     arrivals E (job # jobs) w = (Ok (a # r), w2)"
  unfolding arrivals_def by (simp add: bnd_apply foldE_snoc_acc [of _ "[a]"])

lemma arrivals_append:
  "arrivals E js w = (Ok r, w1) \<Longrightarrow> arrivals E ks w1 = (Ok q, w2) \<Longrightarrow> arrivals E (js @ ks) w = (Ok (r @ q), w2)"
  unfolding arrivals_def by (simp add: foldE_append bnd_apply foldE_snoc_acc [of _ r])

text \<open>As long as a path is missing every arrival waits.\<close>

lemma arrivals_wait:
  assumes "\<forall>job \<in> set jobs. gw_ready w job ty \<and> arrives_at gw ps job" "waits ty" "ns_ok E"
    and "gw_ok (gw_of w gw)" "distinct ps"
    and "gw_met (gw_of w gw) \<union> fst ` arrival ` set jobs \<subset> set ps"
  shows "\<exists>w' ms. arrivals E jobs w = (Ok (replicate (length jobs) (True, None)), w') \<and>
     published w' = published w @ ms \<and> length ms = length jobs \<and>
     (\<forall>m \<in> set ms. pm_Subject m = NS WorkflowJobGatewayTaskAwait (e_ns E)) \<and>
     (\<forall>ty job'. gw_ready w job' ty \<longrightarrow> gw_ready w' job' ty) \<and>
     (\<forall>k. k \<noteq> gw \<longrightarrow> kv_get (kvGateway w') k = kv_get (kvGateway w) k) \<and>
     gw_of w' gw = fold gw_arrive (map arrival jobs) (gw_of w gw) \<and>
     kvProcessInstance w' = kvProcessInstance w"
  using assms
proof (induction jobs arbitrary: w)
  case Nil
  then show ?case by (intro exI [of _ w] exI [of _ "[]"]) (simp add: arrivals_def)
next
  case (Cons job jobs)
  let ?g = "gw_arrive (arrival job) (gw_of w gw)"
  have met: "gw_met ?g = insert (fst (arrival job)) (gw_met (gw_of w gw))" and ok: "gw_ok ?g"
    using gwj.met_arrive gwj.ok_arrive Cons.prems(4) by auto
  have "gw_met ?g \<subset> set ps" using Cons.prems(6) met by auto
  then have "card (gw_met ?g) < length ps" using psubset_card_mono [of "set ps"] Cons.prems(5) by (simp add: distinct_card)
  then have "\<not> gw_full ps ?g" using gwj.full_iff [OF ok] by simp
  then obtain w1 m where w1: "gatewayExecProcessor E job w = (Ok (True, None), w1)"
     "published w1 = published w @ [m]" "pm_Subject m = NS WorkflowJobGatewayTaskAwait (e_ns E)"
     "\<forall>ty job'. gw_ready w job' ty \<longrightarrow> gw_ready w1 job' ty"
     "\<forall>k. kv_get (kvGateway w1) k = (if k = gw then Some ?g else kv_get (kvGateway w) k)"
     "kvProcessInstance w1 = kvProcessInstance w"
    using gateway_await [of w job ty E gw ps] Cons.prems(1-3) by auto
  have g1: "gw_of w1 gw = ?g" using w1(5) by (simp add: gw_of_def)
  obtain w' ms where w': "arrivals E jobs w1 = (Ok (replicate (length jobs) (True, None)), w')"
     "published w' = published w1 @ ms" "length ms = length jobs"
     "\<forall>m \<in> set ms. pm_Subject m = NS WorkflowJobGatewayTaskAwait (e_ns E)"
     "\<forall>ty job'. gw_ready w1 job' ty \<longrightarrow> gw_ready w' job' ty"
     "\<forall>k. k \<noteq> gw \<longrightarrow> kv_get (kvGateway w') k = kv_get (kvGateway w1) k"
     "gw_of w' gw = fold gw_arrive (map arrival jobs) (gw_of w1 gw)" "kvProcessInstance w' = kvProcessInstance w1"
    using Cons.IH [of w1] Cons.prems w1(4) g1 ok met by auto
  have "arrivals E (job # jobs) w = (Ok (replicate (length (job # jobs)) (True, None)), w')"
    using arrivals_Cons [OF w1(1) w'(1)] by simp
  moreover have "published w' = published w @ (m # ms)" using w1 w' by simp
  ultimately show ?case using w1 w' g1 by (intro exI [of _ w'] exI [of _ "m # ms"]) auto
qed

text \<open>The arrival of the last missing path completes the gateway, once.\<close>

text \<open>C2. A convergent parallel or inclusive gateway joins its branches: when the arrivals together
  cover exactly the expected paths, every arrival but the last is acknowledged and awaits, and
  the last one completes the activity once, with the merged variables, deletes the gateway
  instance and marks it complete in the process instance.\<close>

theorem arrivals_join:
  assumes "\<forall>job \<in> set (pre @ [lst]). gw_ready w job ty \<and> arrives_at gw ps job" "waits ty" "ns_ok E"
    and "gw_ok (gw_of w gw)" "gw_met (gw_of w gw) = {}" "distinct ps"
    and "fst ` arrival ` set pre \<subset> set ps" "fst ` arrival ` set (pre @ [lst]) = set ps"
    and "mergeGatewayVars E (fold gw_arrive (map arrival (pre @ [lst])) (gw_of w gw)) = Ok nv"
  shows "\<exists>w' ms m st. arrivals E (pre @ [lst]) w = (Ok (replicate (Suc (length pre)) (True, None)), w') \<and>
     published w' = published w @ ms @ [m] \<and> length ms = length pre \<and>
     (\<forall>m \<in> set ms. pm_Subject m = NS WorkflowJobGatewayTaskAwait (e_ns E)) \<and>
     pm_Subject m = NS WorkflowActivityComplete (e_ns E) \<and> state_of m = Some st \<and> ws_Vars st = nv \<and>
     ws_Id st = ws_Id lst \<and> ws_ElementId st = ws_ElementId lst \<and>
     (\<forall>k. kv_get (kvGateway w') k = (if k = gw then None else kv_get (kvGateway w) k)) \<and>
     (\<exists>pi. kv_get (kvProcessInstance w') (ws_ProcessInstanceId lst) = Some pi \<and>
        map_of (pi_GatewayComplete pi) gw = Some True)"
proof -
  obtain w1 ms where w1: "arrivals E pre w = (Ok (replicate (length pre) (True, None)), w1)"
     "published w1 = published w @ ms" "length ms = length pre"
     "\<forall>m \<in> set ms. pm_Subject m = NS WorkflowJobGatewayTaskAwait (e_ns E)"
     "\<forall>ty job'. gw_ready w job' ty \<longrightarrow> gw_ready w1 job' ty"
     "\<forall>k. k \<noteq> gw \<longrightarrow> kv_get (kvGateway w1) k = kv_get (kvGateway w) k"
     "gw_of w1 gw = fold gw_arrive (map arrival pre) (gw_of w gw)"
    using arrivals_wait [of pre w ty gw ps E] assms(1-7) by auto
  have g: "gw_arrive (arrival lst) (gw_of w1 gw) = fold gw_arrive (map arrival (pre @ [lst])) (gw_of w gw)"
    using w1(7) by simp
  have "gw_full ps (fold gw_arrive (map arrival (pre @ [lst])) (gw_of w gw))"
    using gwj.full_arrivals [OF assms(4,5,6), of "map arrival (pre @ [lst])"] assms(8) by (metis image_set order_refl)
  then obtain w2 m st where w2: "gatewayExecProcessor E lst w1 = (Ok (True, None), w2)"
     "published w2 = published w1 @ [m]" "pm_Subject m = NS WorkflowActivityComplete (e_ns E)"
     "state_of m = Some st" "ws_Vars st = nv" "ws_Id st = ws_Id lst" "ws_ElementId st = ws_ElementId lst"
     "\<forall>k. kv_get (kvGateway w2) k = (if k = gw then None else kv_get (kvGateway w1) k)"
     "\<exists>pi. kv_get (kvProcessInstance w2) (ws_ProcessInstanceId lst) = Some pi \<and> map_of (pi_GatewayComplete pi) gw = Some True"
    using gateway_complete [of w1 lst ty E gw ps nv] assms(1-3,9) w1(5) g by auto
  have "arrivals E [lst] w1 = (Ok [(True, None)], w2)"
    using arrivals_Cons [OF w2(1), of "[]"] by (simp add: arrivals_def)
  then have "arrivals E (pre @ [lst]) w = (Ok (replicate (Suc (length pre)) (True, None)), w2)"
    using arrivals_append [OF w1(1)] by (simp add: replicate_append_same)
  moreover have "published w2 = published w @ ms @ [m]" using w1 w2 by simp
  ultimately show ?thesis using w1 w2
    by (intro exI [of _ w2] exI [of _ ms] exI [of _ m] exI [of _ st]) auto
qed

section \<open>What merging gives\<close>

text \<open>A branch changes a variable when it has a value for it that the base lacks or that
  differs from the value in the base.\<close>

definition changed :: "vmap \<Rightarrow> vmap \<Rightarrow> string \<Rightarrow> val option" where
  "changed base vs k =
     (case map_of vs k of
        None \<Rightarrow> None
      | Some v \<Rightarrow> (case map_of base k of
            None \<Rightarrow> Some v
          | Some bv \<Rightarrow> if go_eq bv v = Some True then None else Some v))"

lemma mergeVals_spec:
  assumes "mergeVals base kvs rt = Ok rt'" "distinct (map fst kvs)"
  shows "map_of rt' k = (case changed base kvs k of Some v \<Rightarrow> Some v | None \<Rightarrow> map_of rt k)"
  using assms
proof (induction base kvs rt rule: mergeVals.induct)
  case (2 base j v kvs rt)
  have new: "map_of kvs j = None" using 2(4) by (simp add: map_of_eq_None_iff)
  show ?case
  proof (cases "map_of base j")
    case None
    then show ?thesis using 2(1) 2(3,4) new by (auto simp: changed_def split: option.splits)
  next
    case (Some bv)
    then obtain same where "go_eq bv v = Some same" using 2(3) by (auto split: option.splits)
    then show ?thesis using 2(2) [OF Some] 2(3,4) Some new
      by (cases same) (auto simp: changed_def split: option.splits)
  qed
qed (simp add: changed_def)

lemma mergeVals_distinct:
  "mergeVals base kvs rt = Ok rt' \<Longrightarrow> distinct (map fst rt) \<Longrightarrow> distinct (map fst rt')"
  by (induction base kvs rt rule: mergeVals.induct) (auto simp: distinct_update split: option.splits if_splits)

lemma Decode_distinct: "Decode E [] b = Ok vs \<Longrightarrow> distinct (map fst vs)"
proof -
  have "distinct (map fst acc) \<Longrightarrow> distinct (map fst (fold (\<lambda>(k, v). AList.update k v) m acc))" for m acc :: vmap
    by (induction m arbitrary: acc) (auto simp: distinct_update)
  then show "Decode E [] b = Ok vs \<Longrightarrow> distinct (map fst vs)"
    by (auto simp: Decode_def split: if_splits res.splits)
qed

definition decoded :: "env \<Rightarrow> bytes \<Rightarrow> vmap" where
  "decoded E b = (case Decode E [] b of Ok vs \<Rightarrow> vs | _ \<Rightarrow> [])"

lemma mergeSets_ConsE:
  assumes "ranges_ok E" "mergeSets E base (b # bs) rt = Ok rt'"
  obtains rt1 where "mergeSets E base bs rt1 = Ok rt'"
    "\<And>k. map_of rt1 k = (case changed base (decoded E b) k of Some v \<Rightarrow> Some v | None \<Rightarrow> map_of rt k)"
    "distinct (map fst rt) \<Longrightarrow> distinct (map fst rt1)"
proof -
  obtain v2 rt1 where d: "Decode E [] b = Ok v2" "mergeVals base (rangeMap (map_order E 9) v2) rt = Ok rt1"
    "mergeSets E base bs rt1 = Ok rt'" using assms(2) by (auto split: res.splits)
  have o: "mset (map_order E 9 (map fst v2)) = mset (map fst v2)" using assms(1) by (rule ranges_okD)
  have dv: "distinct (map fst v2)" using d(1) by (rule Decode_distinct)
  have "changed base (rangeMap (map_order E 9) v2) k = changed base v2 k" for k
    using map_of_rangeMap [of "map_order E 9" v2] o dv by (simp add: changed_def)
  then have "map_of rt1 k = (case changed base (decoded E b) k of Some v \<Rightarrow> Some v | None \<Rightarrow> map_of rt k)" for k
    using mergeVals_spec [OF d(2)] distinct_rangeMap [of "map_order E 9" v2] o dv d(1) by (simp add: decoded_def)
  then show ?thesis using that d(3) mergeVals_distinct [OF d(2)] by blast
qed

lemma mergeSets_distinct:
  "ranges_ok E \<Longrightarrow> mergeSets E base bs rt = Ok rt' \<Longrightarrow> distinct (map fst rt) \<Longrightarrow> distinct (map fst rt')"
proof (induction bs arbitrary: rt)
  case (Cons b bs)
  from Cons.prems(1,2) obtain rt1 where "mergeSets E base bs rt1 = Ok rt'" "distinct (map fst rt) \<Longrightarrow> distinct (map fst rt1)"
    by (rule mergeSets_ConsE) (rule that)
  then show ?case using Cons by blast
qed simp

lemma mergeSets_spec:
  assumes "ranges_ok E" "mergeSets E base bs rt = Ok rt'"
  shows "map_of rt' k = fold (\<lambda>b acc. case changed base (decoded E b) k of Some v \<Rightarrow> Some v | None \<Rightarrow> acc) bs (map_of rt k)"
  using assms
proof (induction bs arbitrary: rt)
  case (Cons b bs)
  from Cons.prems obtain rt1 where "mergeSets E base bs rt1 = Ok rt'"
    "map_of rt1 k = (case changed base (decoded E b) k of Some v \<Rightarrow> Some v | None \<Rightarrow> map_of rt k)"
    by (rule mergeSets_ConsE) blast
  then show ?case using Cons.IH [OF Cons.prems(1)] by simp
qed simp

text \<open>The merged variables: the value of the last branch that changed the variable, or else
  the value in the base.\<close>

lemma mergeGatewayVars_spec:
  assumes "ranges_ok E" "codec_ok E" "gt_Vars g = v0 # vs" "Decode E [] v0 = Ok base" "vs \<noteq> []"
    and "mergeGatewayVars E g = Ok b"
  shows "\<exists>rt. Decode E [] b = Ok rt \<and> (\<forall>k. map_of rt k = map_option (mp_wire E)
     (fold (\<lambda>b acc. case changed base (decoded E b) k of Some v \<Rightarrow> Some v | None \<Rightarrow> acc) vs (map_of base k)))"
proof -
  obtain rt where rt: "mergeSets E base vs base = Ok rt" "Encode E rt = Ok b"
    using assms(3-6) by (cases vs) (auto simp: mergeGatewayVars_def split: res.splits)
  have "distinct (map fst rt)"
    using mergeSets_distinct [OF assms(1) rt(1)] Decode_distinct [OF assms(4)] by blast
  then obtain rt' where "Decode E [] b = Ok rt'" "\<forall>k. map_of rt' k = map_option (mp_wire E) (map_of rt k)"
    using Decode_Encode [OF assms(2) _ rt(2)] by blast
  then show ?thesis using mergeSets_spec [OF assms(1) rt(1)] by auto
qed

text \<open>When no two branches change the same variable, folding over the branches gives the one
  changed value and the order is irrelevant.\<close>

lemma fold_changed_unique:
  assumes "\<forall>b \<in> set bs. f b = None \<or> f b = Some u"
  shows "fold (\<lambda>b acc. case f b of Some v \<Rightarrow> Some v | None \<Rightarrow> acc) bs a =
     (if \<exists>b \<in> set bs. f b = Some u then Some u else a)"
  using assms by (induction bs arbitrary: a) (auto split: if_splits)

lemma fold_changed_order:
  assumes "\<And>b c u v. b \<in> set bs \<Longrightarrow> c \<in> set bs \<Longrightarrow> f b = Some u \<Longrightarrow> f c = Some v \<Longrightarrow> u = v" "mset bs = mset cs"
  shows "fold (\<lambda>b acc. case f b of Some v \<Rightarrow> Some v | None \<Rightarrow> acc) bs a =
         fold (\<lambda>b acc. case f b of Some v \<Rightarrow> Some v | None \<Rightarrow> acc) cs a"
proof -
  have s: "set bs = set cs" using assms(2) by (metis set_mset_mset)
  obtain u where u: "\<forall>b \<in> set bs. f b = None \<or> f b = Some u"
  proof (cases "\<exists>b u. b \<in> set bs \<and> f b = Some u")
    case True
    then obtain b u where "b \<in> set bs" "f b = Some u" by blast
    then have "\<forall>c \<in> set bs. f c = None \<or> f c = Some u" using assms(1) by (metis option.exhaust)
    then show ?thesis by (rule that)
  next
    case False
    then show ?thesis using that by auto
  qed
  then have "\<forall>b \<in> set cs. f b = None \<or> f b = Some u" using s by simp
  then show ?thesis unfolding fold_changed_unique [OF u] using s by (subst fold_changed_unique) auto
qed

text \<open>C36. The merged variables of a gateway do not depend on the order of the arrivals, when no two
  branches changed the same variable to different values.\<close>

theorem merge_order:
  assumes "ranges_ok E" "codec_ok E" "Decode E [] v0 = Ok base" "mset vs = mset us" "vs \<noteq> []"
    and "\<And>b c k x y. b \<in> set vs \<Longrightarrow> c \<in> set vs \<Longrightarrow> changed base (decoded E b) k = Some x \<Longrightarrow>
           changed base (decoded E c) k = Some y \<Longrightarrow> x = y"
    and "gt_Vars g = v0 # vs" "gt_Vars h = v0 # us"
    and "mergeGatewayVars E g = Ok p" "mergeGatewayVars E h = Ok q"
  shows "\<exists>a b. Decode E [] p = Ok a \<and> Decode E [] q = Ok b \<and> map_of a = map_of b"
proof -
  have "us \<noteq> []" using assms(4,5) by auto
  then obtain a b where a: "Decode E [] p = Ok a" "\<forall>k. map_of a k = map_option (mp_wire E)
      (fold (\<lambda>b acc. case changed base (decoded E b) k of Some v \<Rightarrow> Some v | None \<Rightarrow> acc) vs (map_of base k))"
    and b: "Decode E [] q = Ok b" "\<forall>k. map_of b k = map_option (mp_wire E)
      (fold (\<lambda>b acc. case changed base (decoded E b) k of Some v \<Rightarrow> Some v | None \<Rightarrow> acc) us (map_of base k))"
    using mergeGatewayVars_spec [OF assms(1,2,7,3,5,9)] mergeGatewayVars_spec [OF assms(1,2,8,3) _ assms(10)] by blast
  have "map_of a = map_of b"
  proof
    fix k
    have "fold (\<lambda>b acc. case changed base (decoded E b) k of Some v \<Rightarrow> Some v | None \<Rightarrow> acc) vs (map_of base k) =
        fold (\<lambda>b acc. case changed base (decoded E b) k of Some v \<Rightarrow> Some v | None \<Rightarrow> acc) us (map_of base k)"
      by (rule fold_changed_order [OF assms(6) assms(4)])
    then show "map_of a k = map_of b k" using a(2) b(2) by simp
  qed
  then show ?thesis using a(1) b(1) by blast
qed

text \<open>A variable that holds a slice or a map makes the comparison with the base panic.\<close>

lemma merge_slice_panics:
  assumes "Decode E [] v0 = Ok base" "Decode E [] v1 = Ok [(k, VSlice ys)]" "map_of base k = Some (VSlice xs)"
    and "ranges_ok E" "gt_Vars g = v0 # v1 # vs"
  shows "mergeGatewayVars E g = Panic"
proof -
  have "mset (map_order E 9 [k]) = mset [k]" using assms(4) by (rule ranges_okD)
  then have "map_order E 9 [k] = [k]" by simp
  then have "rangeMap (map_order E 9) [(k, VSlice ys)] = [(k, VSlice ys)]"
    by (simp add: rangeMap_def map_filter_simps)
  then show ?thesis using assms by (simp add: mergeGatewayVars_def)
qed

end
