(* ===== verification/Durations.thy ===== *)
theory Durations
  imports Model_Types
begin

text \<open>
  ISO 8601 durations: \<open>client/parser/duration.go\<close>, with the calendar arithmetic of Go's
  \<open>time.AddDate\<close> that \<open>Shift\<close> uses, for UTC times in nanoseconds.

  The regular expression of the source is a sequence of optional components, each digits and
  a letter; as the letter after the digits is fixed for each component, matching it is
  deterministic and \<open>component\<close> reads one.  The theorems are the round trip between printing
  and parsing and the bounds of what is accepted.
\<close>

record duration =
  du_Y :: int
  du_M :: int
  du_W :: int
  du_D :: int
  du_TH :: int
  du_TM :: int
  du_TS :: int

definition zero_duration :: duration where
  "zero_duration = \<lparr> du_Y = 0, du_M = 0, du_W = 0, du_D = 0, du_TH = 0, du_TM = 0, du_TS = 0 \<rparr>"

section \<open>Integers: \<open>strconv.Atoi\<close>\<close>

abbreviation is_digit :: "char \<Rightarrow> bool" where
  "is_digit c \<equiv> char_digit c \<noteq> None"

definition max_int64 :: int where "max_int64 = 2 ^ 63 - 1"
definition min_int64 :: int where "min_int64 = - (2 ^ 63)"

text \<open>\<open>Atoi\<close> on decimal input with an optional sign; out of range is an error.\<close>

definition Atoi :: "string \<Rightarrow> int option" where
  "Atoi s =
     (let neg = (s \<noteq> [] \<and> hd s = CHR ''-'');
          ds = (if s \<noteq> [] \<and> (hd s = CHR ''-'' \<or> hd s = CHR ''+'') then tl s else s)
      in if ds = [] then None
         else case read_digits 0 ds of
                None \<Rightarrow> None
              | Some n \<Rightarrow> let v = (if neg then - int n else int n)
                          in if min_int64 \<le> v \<and> v \<le> max_int64 then Some v else None)"

section \<open>Parsing\<close>

definition digits_of :: "string \<Rightarrow> string" where
  "digits_of s = takeWhile is_digit s"

text \<open>One optional component \<open>(\d+X)?\<close>: the digits matched, empty when it is absent, and the
  rest of the input.\<close>

definition component :: "char \<Rightarrow> string \<Rightarrow> string \<times> string" where
  "component X s =
     (let ds = digits_of s; rest = dropWhile is_digit s
      in if ds \<noteq> [] \<and> rest \<noteq> [] \<and> hd rest = X then (ds, tl rest) else ([], s))"

text \<open>The groups of the pattern: year, month, week, day, hour, minute, second.\<close>

definition match_duration :: "string \<Rightarrow> string list option" where
  "match_duration s =
     (case s of
        [] \<Rightarrow> None
      | p # s0 \<Rightarrow>
          if p \<noteq> CHR ''P'' then None
          else let (y, s1) = component (CHR ''Y'') s0;
                   (mo, s2) = component (CHR ''M'') s1;
                   (wk, s3) = component (CHR ''W'') s2;
                   (d, s4) = component (CHR ''D'') s3
               in case s4 of
                    [] \<Rightarrow> Some [y, mo, wk, d, [], [], []]
                  | t # s5 \<Rightarrow>
                      if t \<noteq> CHR ''T'' then None
                      else let (h, s6) = component (CHR ''H'') s5;
                               (mi, s7) = component (CHR ''M'') s6;
                               (se, s8) = component (CHR ''S'') s7
                           in if s8 = [] then Some [y, mo, wk, d, h, mi, se] else None)"

definition part_value :: "string \<Rightarrow> (goerr, int) res" where
  "part_value part = (if part = [] then Ok 0 else case Atoi part of Some v \<Rightarrow> Ok v | None \<Rightarrow> Err (ErrOther ''parse to integer''))"

fun part_values :: "string list \<Rightarrow> (goerr, int list) res" where
  "part_values [] = Ok []"
| "part_values (p # ps) =
     (case part_value p of
        Err e \<Rightarrow> Err e
      | Panic \<Rightarrow> Panic
      | Ok v \<Rightarrow> (case part_values ps of Ok vs \<Rightarrow> Ok (v # vs) | Err e \<Rightarrow> Err e | Panic \<Rightarrow> Panic))"

definition ParseISO8601 :: "string \<Rightarrow> (goerr, duration) res" where
  "ParseISO8601 from =
     (case match_duration from of
        None \<Rightarrow> Err ErrFailedToParseISO8601
      | Some ps \<Rightarrow>
          (case part_values ps of
             Err e \<Rightarrow> Err e
           | Panic \<Rightarrow> Panic
           | Ok vs \<Rightarrow> (case vs of
               [y, mo, wk, d, h, mi, se] \<Rightarrow>
                 Ok \<lparr> du_Y = y, du_M = mo, du_W = wk, du_D = d, du_TH = h, du_TM = mi, du_TS = se \<rparr>
             | _ \<Rightarrow> Panic)))"

definition IsZero :: "duration \<Rightarrow> bool" where
  "IsZero d \<longleftrightarrow> du_Y d = 0 \<and> du_M d = 0 \<and> du_W d = 0 \<and> du_D d = 0 \<and> du_TH d = 0 \<and> du_TM d = 0 \<and> du_TS d = 0"

section \<open>Shifting a time\<close>

text \<open>Proleptic Gregorian calendar: the number of days from 1970-01-01 of a date, and back.\<close>

definition days_from_civil :: "int \<Rightarrow> int \<Rightarrow> int \<Rightarrow> int" where
  "days_from_civil y m d =
     (let y' = (if m \<le> 2 then y - 1 else y);
          era = y' div 400;
          yoe = y' - era * 400;
          doy = (153 * (if m > 2 then m - 3 else m + 9) + 2) div 5 + d - 1;
          doe = yoe * 365 + yoe div 4 - yoe div 100 + doy
      in era * 146097 + doe - 719468)"

definition civil_from_days :: "int \<Rightarrow> int \<times> int \<times> int" where
  "civil_from_days z0 =
     (let z = z0 + 719468;
          era = z div 146097;
          doe = z - era * 146097;
          yoe = (doe - doe div 1460 + doe div 36524 - doe div 146096) div 365;
          y = yoe + era * 400;
          doy = doe - (365 * yoe + yoe div 4 - yoe div 100);
          mp = (5 * doy + 2) div 153;
          d = doy - (153 * mp + 2) div 5 + 1;
          m = (if mp < 10 then mp + 3 else mp - 9)
      in (if m \<le> 2 then y + 1 else y, m, d))"

definition day_ns :: int where "day_ns = 86400000000000"

definition AddDate :: "int \<Rightarrow> int \<Rightarrow> int \<Rightarrow> int \<Rightarrow> int" where
  "AddDate years months days t =
     (let (y, m, d) = civil_from_days (t div day_ns);
          m' = m - 1 + months;
          y' = y + years + m' div 12;
          base = days_from_civil y' (m' mod 12 + 1) 1
      in (base + (d - 1) + days) * day_ns + t mod day_ns)"

definition timeDuration :: "duration \<Rightarrow> int" where
  "timeDuration d = du_TH d * 3600000000000 + du_TM d * 60000000000 + du_TS d * 1000000000"

definition Shift :: "duration \<Rightarrow> int \<Rightarrow> int" where
  "Shift d t =
     (let t1 = (if du_Y d \<noteq> 0 \<or> du_M d \<noteq> 0 \<or> du_W d \<noteq> 0 \<or> du_D d \<noteq> 0
                then AddDate (du_Y d) (du_M d) (du_W d * 7 + du_D d) t else t)
      in t1 + timeDuration d)"

section \<open>Properties\<close>

lemma is_digit_digit_char [simp]: "n < 10 \<Longrightarrow> is_digit (digit_char n)" by simp

lemma show_nat_all_digits: "c \<in> set (show_nat n) \<Longrightarrow> is_digit c"
  using show_nat_digits by force

lemma Atoi_show_nat: "int n \<le> max_int64 \<Longrightarrow> Atoi (show_nat n) = Some (int n)"
proof -
  assume b: "int n \<le> max_int64"
  have "show_nat n \<noteq> []" by simp
  then have "hd (show_nat n) \<in> set (show_nat n)" by (rule hd_in_set)
  then have "is_digit (hd (show_nat n))" by (rule show_nat_all_digits)
  then have "hd (show_nat n) \<noteq> CHR ''-''" "hd (show_nat n) \<noteq> CHR ''+''" by (auto simp: char_digit_def)
  then show ?thesis using b by (simp add: Atoi_def Let_def min_int64_def)
qed

text \<open>Every value read is an \<open>int64\<close>.\<close>

lemma Atoi_range: "Atoi s = Some v \<Longrightarrow> min_int64 \<le> v \<and> v \<le> max_int64"
  by (auto simp: Atoi_def Let_def split: if_splits option.splits)

definition show_component :: "char \<Rightarrow> nat \<Rightarrow> string" where
  "show_component X n = show_nat n @ [X]"

definition print_duration :: "nat \<Rightarrow> nat \<Rightarrow> nat \<Rightarrow> nat \<Rightarrow> nat \<Rightarrow> nat \<Rightarrow> nat \<Rightarrow> string" where
  "print_duration y mo wk d h mi se =
     ''P'' @ show_component (CHR ''Y'') y @ show_component (CHR ''M'') mo @
     show_component (CHR ''W'') wk @ show_component (CHR ''D'') d @ ''T'' @
     show_component (CHR ''H'') h @ show_component (CHR ''M'') mi @ show_component (CHR ''S'') se"

lemma component_show:
  assumes "\<not> is_digit X"
  shows "component X (show_component X n @ rest) = (show_nat n, rest)"
proof -
  have "takeWhile is_digit (show_nat n @ X # rest) = show_nat n"
    using assms show_nat_all_digits [of _ n] by (subst takeWhile_append2) auto
  moreover have "dropWhile is_digit (show_nat n @ X # rest) = X # rest"
    using assms show_nat_all_digits [of _ n] by (subst dropWhile_append2) auto
  ultimately show ?thesis by (simp add: component_def digits_of_def show_component_def Let_def)
qed

lemma letters_not_digits:
  "\<not> is_digit (CHR ''Y'')" "\<not> is_digit (CHR ''M'')" "\<not> is_digit (CHR ''W'')" "\<not> is_digit (CHR ''D'')"
  "\<not> is_digit (CHR ''H'')" "\<not> is_digit (CHR ''S'')"
  by (simp_all add: char_digit_def)

lemma match_print:
  "match_duration (print_duration y mo wk d h mi se) =
     Some [show_nat y, show_nat mo, show_nat wk, show_nat d, show_nat h, show_nat mi, show_nat se]"
proof -
  have last: "component (CHR ''S'') (show_component (CHR ''S'') se) = (show_nat se, [])"
    using component_show [OF letters_not_digits(6), of se "[]"] by simp
  show ?thesis
    by (simp add: match_duration_def print_duration_def component_show letters_not_digits last del: not_None_eq)
qed

lemma part_value_show: "int n \<le> max_int64 \<Longrightarrow> part_value (show_nat n) = Ok (int n)"
  by (simp add: part_value_def Atoi_show_nat)

text \<open>Parsing a printed duration gives it back.\<close>

text \<open>C39. Parsing the ISO 8601 text of a duration gives back its components, as long as they fit in
  64 bits.\<close>

theorem Parse_print:
  assumes "\<forall>n \<in> {y, mo, wk, d, h, mi, se}. int n \<le> max_int64"
  shows "ParseISO8601 (print_duration y mo wk d h mi se) =
    Ok \<lparr> du_Y = int y, du_M = int mo, du_W = int wk, du_D = int d, du_TH = int h, du_TM = int mi, du_TS = int se \<rparr>"
  using assms by (simp add: ParseISO8601_def match_print part_value_show)

text \<open>A duration without a date part shifts a time by exactly its length.\<close>

lemma Shift_time:
  "du_Y d = 0 \<Longrightarrow> du_M d = 0 \<Longrightarrow> du_W d = 0 \<Longrightarrow> du_D d = 0 \<Longrightarrow> Shift d t = t + timeDuration d"
  by (simp add: Shift_def)

end
