(* ===== verification/Compensation.thy ===== *)
theory Compensation
  imports Gateways Durations
begin

text \<open>
  \<open>internal/server/workflow/compensation.go\<close>: planning the compensation of a process
  instance from its history, running one step of the plan, and what happens when the job of
  a step completes.

  The plan is a list of messages on a subject of its own with a durable consumer; the
  consumer delivers them in the order of publication and remembers how many were
  acknowledged (\<open>planAcks\<close>).  The history, which the code streams from another goroutine, is
  read completely before the plan is made.

  The lemmas show that the plan lists the completed compensable jobs of the instance, the
  latest first, that each step picks the next entry, and what an empty plan leads to.
\<close>

section \<open>The plan\<close>

definition consumerPrefix :: string where
  "consumerPrefix = ''comp_plan_''"

definition planSubject :: "env \<Rightarrow> string \<Rightarrow> string" where
  "planSubject E stateID = NS ''WORKFLOW.%s.Compensate.'' (e_ns E) @ stateID"

definition CreateConsumer :: "string \<Rightarrow> unit act" where
  "CreateConsumer name =
     bnd io (\<lambda>_. modify (\<lambda>w. if name \<in> set (consumers w) then w else w\<lparr> consumers := consumers w @ [name] \<rparr>))"

text \<open>A step of the plan: the time of the job and the key of its history entry.\<close>

type_synonym comp_step = "int \<times> string"

text \<open>One entry of the history.  Only a missing completion excludes the job; another failure of
  the lookup does not.\<close>

definition planEntry :: "(string \<times> element) list \<Rightarrow> comp_step list \<Rightarrow> history_entry \<Rightarrow> comp_step list act" where
  "planEntry els forCompensation entry =
     (if he_Compensating entry then ret forCompensation
      else if he_ItemType entry \<noteq> jobExecute then ret forCompensation
      else case he_ElementId entry of
             None \<Rightarrow> panic
           | Some eid \<Rightarrow>
               (case map_of els eid of
                  None \<Rightarrow> panic
                | Some el \<Rightarrow>
                    if el_CompensateWith (el_data el) = None then ret forCompensation
                    else (case he_ProcessInstanceId entry of
                            None \<Rightarrow> panic
                          | Some pid \<Rightarrow>
                              let step = (he_UnixTimeNano entry, historyKey pid (TID (he_Id entry)) (he_ItemType entry))
                              in handle (LoadObj HistoryB (historyKey pid (ParentID (he_Id entry)) activityComplete))
                                   (\<lambda>e. if e = ErrKeyNotFound then ret forCompensation else ret (forCompensation @ [step]))
                                   (\<lambda>_. ret (forCompensation @ [step])))))"

text \<open>\<open>slices.SortFunc\<close> by descending time.\<close>

definition sortSteps :: "comp_step list \<Rightarrow> comp_step list" where
  "sortSteps = sort_key (\<lambda>s. - fst s)"

definition publishStep :: "env \<Rightarrow> string \<Rightarrow> nat \<Rightarrow> nat \<times> comp_step \<Rightarrow> unit act" where
  "publishStep E subject len = (\<lambda>(i, v).
     ConnPublish subject
       [(''Shar-Namespace'', e_ns E), (''Step'', Itoa (int i)), (''Steps'', Itoa (int len))] (PText (snd v)))"

definition Compensate :: "env \<Rightarrow> workflow_state \<Rightarrow> workflow_state act" where
  "Compensate E state =
     bnd KvsFor (\<lambda>_.
     bnd (GetWorkflow E (ws_WorkflowId state)) (\<lambda>wkf.
     case map_of (wf_Process wkf) (ws_ProcessId state) of
       None \<Rightarrow> panic
     | Some pr \<Rightarrow>
         let els = IndexProcessElements (pr_Elements pr) [];
             stateID = TID (ws_Id state);
             subject = planSubject E stateID
         in bnd (GetProcessHistory E (ws_ProcessInstanceId state)) (\<lambda>(hist, err).
            bnd (CreateConsumer (consumerPrefix @ stateID)) (\<lambda>_.
            bnd (foldE (planEntry els) [] hist) (\<lambda>forCompensation.
            case err of
              Some e \<Rightarrow> fail e
            | None \<Rightarrow>
                let plan = sortSteps forCompensation
                in bnd (forE (publishStep E subject (length plan)) (zip [0..<length plan] plan)) (\<lambda>_.
                   PublishWorkflowState E WorkflowProcessCompensate (state\<lparr> ws_State := compensating \<rparr>) no_opts))))))"

section \<open>One step of the plan\<close>

definition planMessages :: "world \<Rightarrow> string \<Rightarrow> pubmsg list" where
  "planMessages w subject = filter (\<lambda>m. pm_Subject m = subject) (published w)"

text \<open>\<open>Fetch(1)\<close>: the first message that was not acknowledged.  Without one the channel is
  closed and the message received from it is nil.\<close>

definition fetchPlan :: "string \<Rightarrow> string \<Rightarrow> pubmsg option act" where
  "fetchPlan name subject =
     bnd io (\<lambda>_. bnd (asks consumers) (\<lambda>cs.
       if name \<notin> set cs then fail ErrConsumerNotFound
       else bnd io (\<lambda>_. asks (\<lambda>w. let n = alist_get (planAcks w) 0 name; ms = planMessages w subject
              in if n < length ms then Some (ms ! n) else None))))"

definition ackPlan :: "string \<Rightarrow> unit act" where
  "ackPlan name =
     bnd io (\<lambda>_. modify (\<lambda>w. w\<lparr> planAcks := AList.update name (Suc (alist_get (planAcks w) 0 name)) (planAcks w) \<rparr>))"

definition headerInt :: "pubmsg \<Rightarrow> string \<Rightarrow> int act" where
  "headerInt m h = (case Atoi (alist_get (pm_Headers m) [] h) of
     None \<Rightarrow> fail (ErrOther ''strconv.Atoi: parsing'') | Some n \<Rightarrow> ret n)"

definition payload_text :: "pubmsg \<Rightarrow> string" where
  "payload_text m = (case pm_Payload m of PText s \<Rightarrow> s | _ \<Rightarrow> [])"

definition compensationJob :: "workflow_state \<Rightarrow> history_entry \<Rightarrow> string \<Rightarrow> elem_data \<Rightarrow> int \<Rightarrow> int \<Rightarrow> int \<Rightarrow> workflow_state" where
  "compensationJob state jobExe wid el now step steps =
     empty_state\<lparr> ws_WorkflowId := wid, ws_ElementId := el_Id el, ws_ElementType := el_Type el,
       ws_ElementName := el_Name el, ws_Id := ws_Id state, ws_Execute := Some (el_Execute el),
       ws_State := compensating, ws_Condition := None, ws_UnixTimeNano := now, ws_Vars := ws_Vars state,
       ws_WorkflowName := ws_WorkflowName state, ws_ProcessId := ws_ProcessId state,
       ws_ProcessInstanceId := ws_ProcessInstanceId state,
       ws_Compensation := Some \<lparr> cp_Step = step, cp_TotalSteps = steps, cp_ForTrackingId = TID (he_Id jobExe) \<rparr>,
       ws_ExecutionId := (case he_ExecutionId jobExe of Some e \<Rightarrow> e | None \<Rightarrow> []),
       ws_ExecuteVersion := (case el_Version el of Some v \<Rightarrow> v | None \<Rightarrow> []) \<rparr>"

text \<open>The element that compensates the job of a history entry.\<close>

definition compensator :: "(string \<times> element) list \<Rightarrow> history_entry \<Rightarrow> elem_data option" where
  "compensator els jobExe =
     Option.bind (he_ElementId jobExe) (\<lambda>eid. Option.bind (map_of els eid) (\<lambda>orig.
     Option.bind (el_CompensateWith (el_data orig)) (\<lambda>cid. Option.bind (map_of els cid) (\<lambda>el. Some (el_data el)))))"

definition runStep :: "env \<Rightarrow> workflow_state \<Rightarrow> (string \<times> element) list \<Rightarrow> string \<Rightarrow> int \<Rightarrow> int \<Rightarrow> ack_err act" where
  "runStep E state els jobExecuteHistoryID step steps =
     orNak KvsFor (\<lambda>_.
     orNak (LoadObj HistoryB jobExecuteHistoryID) (\<lambda>jobExe.
     case (compensator els jobExe, he_WorkflowId jobExe) of
       (Some el, Some wid) \<Rightarrow>
         bnd (timeNow E) (\<lambda>now.
         let job = compensationJob state jobExe wid el now step steps
         in orNak (RecordHistoryCompensationCheckpoint job) (\<lambda>_.
            if ws_ElementType job = ServiceTask then
              orNak (startJob E (NS WorkflowJobServiceTaskExecute (e_ns E) @ ''.'' @ ws_ExecuteVersion job) job el (ws_Vars state) no_opts)
                (\<lambda>_. ret (True, None))
            else ret (True, None)))
     | _ \<Rightarrow> panic))"

definition processProcessCompensate :: "env \<Rightarrow> workflow_state \<Rightarrow> ack_err act" where
  "processProcessCompensate E state =
     orNak (GetWorkflow E (ws_WorkflowId state)) (\<lambda>wkf.
     case map_of (wf_Process wkf) (ws_ProcessId state) of
       None \<Rightarrow> panic
     | Some pr \<Rightarrow>
         let els = IndexProcessElements (pr_Elements pr) [];
             name = consumerPrefix @ TID (ws_Id state)
         in orNak (fetchPlan name (planSubject E (TID (ws_Id state)))) (\<lambda>cmsg.
            case cmsg of
              None \<Rightarrow> panic
            | Some m \<Rightarrow>
                orNak (headerInt m ''Step'') (\<lambda>step.
                orNak (headerInt m ''Steps'') (\<lambda>steps.
                orNak (ackPlan name) (\<lambda>_.
                runStep E state els (payload_text m) step steps)))))"

section \<open>Completion of a step\<close>

text \<open>The last step completes the activity that started the compensation, and the process when
  that activity is an end event.\<close>

definition finishCompensation :: "env \<Rightarrow> (string \<times> element) list \<Rightarrow> tracking_id \<Rightarrow> workflow_state \<Rightarrow> unit act" where
  "finishCompensation E els cid state =
     bnd (GetProcessHistoryItem (ws_ProcessInstanceId state) (TID cid) activityExecute) (\<lambda>activity.
     case Option.bind (he_ElementId activity) (map_of els) of
       None \<Rightarrow> panic
     | Some el \<Rightarrow>
         (case (he_ElementId activity, he_ElementName activity) of
            (Some eid, Some ename) \<Rightarrow>
              let state = (DropStateParams (state\<lparr> ws_State := executing, ws_ElementId := eid,
                            ws_ElementType := el_Type (el_data el), ws_ElementName := ename \<rparr>))\<lparr> ws_Id := cid \<rparr>
              in bnd (PublishWorkflowState E WorkflowActivityComplete state no_opts) (\<lambda>state.
                 bnd (RecordHistoryActivityComplete state) (\<lambda>_.
                 if ws_ElementType state = CompensateEndEvent then
                   bnd (lift_res (OutputVars E (ws_Vars state) [] (el_OutputTransform (el_data el)))) (\<lambda>localVars.
                   bnd (PublishWorkflowState E WorkflowProcessComplete
                          (state\<lparr> ws_Id := [ws_ProcessInstanceId state], ws_State := completed, ws_Vars := localVars \<rparr>) no_opts)
                     (\<lambda>_. ret ()))
                 else ret ()))
          | _ \<Rightarrow> panic))"

definition compensationJobComplete :: "env \<Rightarrow> workflow_state \<Rightarrow> unit act" where
  "compensationJobComplete E job =
     (let cid = Pop (ws_Id job)
      in bnd (GetProcessHistoryItem (ws_ProcessInstanceId job) (TID cid) compensationCheckpoint) (\<lambda>checkpoint.
         bnd (GetWorkflow E (ws_WorkflowId job)) (\<lambda>wkf.
         case map_of (wf_Process wkf) (ws_ProcessId job) of
           None \<Rightarrow> panic
         | Some pr \<Rightarrow>
             let els = IndexProcessElements (pr_Elements pr) []
             in (case map_of els (ws_ElementId job) of
                   None \<Rightarrow> panic
                 | Some el \<Rightarrow>
                     bnd (lift_res (OutputVars E (ws_Vars job) (he_Vars checkpoint) (el_OutputTransform (el_data el)))) (\<lambda>vrs.
                     let state = job\<lparr> ws_Vars := vrs \<rparr>
                     in case ws_Compensation state of
                          None \<Rightarrow> panic
                        | Some c \<Rightarrow>
                            if cp_Step c = cp_TotalSteps c - 1 then finishCompensation E els cid state
                            else bnd (PublishWorkflowState E WorkflowProcessCompensate (state\<lparr> ws_Id := cid \<rparr>) no_opts)
                                   (\<lambda>_. ret ()))))))"

section \<open>What is planned\<close>

text \<open>The history entry of a completed job that has a compensating element.\<close>

definition compensable :: "history_entry bucket \<Rightarrow> (string \<times> element) list \<Rightarrow> history_entry \<Rightarrow> bool" where
  "compensable h els e \<longleftrightarrow> \<not> he_Compensating e \<and> he_ItemType e = jobExecute \<and>
     (\<exists>eid el pid. he_ElementId e = Some eid \<and> map_of els eid = Some el \<and> el_CompensateWith (el_data el) \<noteq> None \<and>
        he_ProcessInstanceId e = Some pid \<and>
        kv_get h (historyKey pid (ParentID (he_Id e)) activityComplete) \<noteq> None)"

definition step_of :: "history_entry \<Rightarrow> comp_step" where
  "step_of e = (he_UnixTimeNano e,
     historyKey (case he_ProcessInstanceId e of Some p \<Rightarrow> p | None \<Rightarrow> []) (TID (he_Id e)) (he_ItemType e))"

text \<open>An entry that the engine can have recorded: it names an element of the process.\<close>

definition recorded :: "(string \<times> element) list \<Rightarrow> history_entry \<Rightarrow> bool" where
  "recorded els e \<longleftrightarrow> he_ProcessInstanceId e \<noteq> None \<and> (he_ItemType e = jobExecute \<longrightarrow>
     (\<exists>eid el. he_ElementId e = Some eid \<and> map_of els eid = Some el))"

lemma planEntry_reliable:
  assumes "reliable w" "recorded els e"
  shows "planEntry els acc e w = (Ok (if compensable (kvHistory w) els e then acc @ [step_of e] else acc), w)"
  using assms
  by (auto simp: planEntry_def compensable_def recorded_def step_of_def Let_def handle_apply split: option.splits)

lemma plan_reliable:
  assumes "reliable w" "\<forall>e \<in> set hist. recorded els e"
  shows "foldE (planEntry els) acc hist w = (Ok (acc @ map step_of (filter (compensable (kvHistory w) els) hist)), w)"
  using assms by (induction hist arbitrary: acc) (auto simp: planEntry_reliable bnd_apply)

lemma ConnPublish_reliable [simp]:
  "reliable w \<Longrightarrow> ConnPublish subject hs pl w = (Ok (), w\<lparr> published := published w @
     [\<lparr> pm_Subject = subject, pm_ID = [], pm_Embargo = 0, pm_Headers = hs, pm_Payload = pl \<rparr>] \<rparr>)"
  by (simp add: ConnPublish_def)

definition plan_msg :: "env \<Rightarrow> string \<Rightarrow> nat \<Rightarrow> nat \<times> comp_step \<Rightarrow> pubmsg" where
  "plan_msg E subject len = (\<lambda>(i, v). \<lparr> pm_Subject = subject, pm_ID = [], pm_Embargo = 0,
     pm_Headers = [(''Shar-Namespace'', e_ns E), (''Step'', Itoa (int i)), (''Steps'', Itoa (int len))],
     pm_Payload = PText (snd v) \<rparr>)"

lemma publishSteps_reliable:
  assumes "reliable w"
  shows "forE (publishStep E subject len) steps w =
    (Ok (), w\<lparr> published := published w @ map (plan_msg E subject len) steps \<rparr>)"
  using assms
proof (induction steps arbitrary: w)
  case (Cons s steps)
  obtain i v where s: "s = (i, v)" by (cases s)
  let ?w1 = "w\<lparr> published := published w @ [plan_msg E subject len s] \<rparr>"
  have "publishStep E subject len s w = (Ok (), ?w1)"
    using Cons.prems s by (simp add: publishStep_def plan_msg_def)
  then show ?case using Cons.IH [of ?w1] Cons.prems by (simp add: bnd_apply)
qed simp

lemma sorted_sortSteps: "sorted_wrt (\<lambda>a b. fst a \<ge> fst b) (sortSteps ss)"
proof -
  have "sorted (map (\<lambda>s. - fst s) (sortSteps ss))" unfolding sortSteps_def by (rule sorted_sort_key)
  then show ?thesis unfolding sorted_map by (simp add: sorted_wrt_mono_rel [rotated])
qed

lemma mset_sortSteps [simp]: "mset (sortSteps ss) = mset ss" by (simp add: sortSteps_def)

lemma length_sortSteps [simp]: "length (sortSteps ss) = length ss" by (metis mset_sortSteps size_mset)

text \<open>What \<open>GetProcessHistory\<close> streams from a history nobody deleted from.\<close>

definition history_keys :: "env \<Rightarrow> history_entry bucket \<Rightarrow> string \<Rightarrow> string list" where
  "history_keys E h pid = sort (filter (\<lambda>k. subject_matches (prefix_filter pid) (SplitChar (CHR ''.'') k))
     (map_order E 0 (kv_subjects h)))"

definition history_of_instance :: "env \<Rightarrow> history_entry bucket \<Rightarrow> string \<Rightarrow> history_entry list" where
  "history_of_instance E h pid = map (\<lambda>k. the (kv_get h k)) (history_keys E h pid)"

definition plain_id :: "string \<Rightarrow> bool" where
  "plain_id pid \<longleftrightarrow> dot_free pid \<and> pid \<noteq> ''*'' \<and> pid \<noteq> ''>''"

lemma set_history_keys:
  assumes "ranges_ok E" "history_wf w" "plain_id pid"
  shows "set (history_keys E (kvHistory w) pid) =
     {k \<in> set (kv_subjects (kvHistory w)). \<exists>t ty. dot_free t \<and> k = historyKey pid t ty}"
  using assms(2,3) unfolding history_keys_def history_wf_def plain_id_def
  by (auto simp: set_map_order [OF assms(1)] history_search_matches) (metis history_search_matches)+

lemma GetProcessHistory_reliable:
  assumes "reliable w" "ranges_ok E" "history_wf w" "plain_id pid"
  shows "GetProcessHistory E pid w = (Ok (history_of_instance E (kvHistory w) pid, None), w)"
    and "set (history_of_instance E (kvHistory w) pid) =
      {e. \<exists>t ty. dot_free t \<and> kv_get (kvHistory w) (historyKey pid t ty) = Some e}"
proof -
  let ?ks = "history_keys E (kvHistory w) pid"
  note ks = set_history_keys [OF assms(2-4)]
  then have live: "k \<in> set ?ks \<Longrightarrow> kv_get (kvHistory w) k \<noteq> None" for k
    using assms(3) by (auto simp: history_wf_def)
  have "stream_each (LoadObj HistoryB) ?ks w = (Ok (history_of_instance E (kvHistory w) pid, None), w)"
    using stream_each_reliable [OF assms(1), of ?ks HistoryB] live by (simp add: history_of_instance_def)
  then show "GetProcessHistory E pid w = (Ok (history_of_instance E (kvHistory w) pid, None), w)"
    using assms(1) by (simp add: GetProcessHistory_def KeyPrefixSearch_def Let_def bnd_apply handle_apply flip: history_keys_def)
  have "set (history_of_instance E (kvHistory w) pid) = {e. \<exists>k \<in> set ?ks. kv_get (kvHistory w) k = Some e}"
    using live by (force simp: history_of_instance_def)
  then show "set (history_of_instance E (kvHistory w) pid) =
      {e. \<exists>t ty. dot_free t \<and> kv_get (kvHistory w) (historyKey pid t ty) = Some e}"
    by (auto simp: ks intro: kv_get_subject)
qed

text \<open>The plan of an instance: its completed compensable jobs, the latest first.\<close>

definition plan_of :: "env \<Rightarrow> history_entry bucket \<Rightarrow> (string \<times> element) list \<Rightarrow> string \<Rightarrow> comp_step list" where
  "plan_of E h els pid = sortSteps (map step_of (filter (compensable h els) (history_of_instance E h pid)))"

definition plan_msgs :: "env \<Rightarrow> string \<Rightarrow> comp_step list \<Rightarrow> pubmsg list" where
  "plan_msgs E subject plan = map (plan_msg E subject (length plan)) (zip [0..<length plan] plan)"

lemma length_plan_msgs [simp]: "length (plan_msgs E subject plan) = length plan"
  by (simp add: plan_msgs_def)

lemma nth_plan_msgs: "k < length plan \<Longrightarrow> plan_msgs E subject plan ! k = plan_msg E subject (length plan) (k, plan ! k)"
  by (simp add: plan_msgs_def)

definition comp_ready :: "world \<Rightarrow> workflow_state \<Rightarrow> (string \<times> element) list \<Rightarrow> bool" where
  "comp_ready w st els \<longleftrightarrow> reliable w \<and> cache_coherent w \<and>
     (\<exists>wkf pr. kv_get (kvDefinition w) (ws_WorkflowId st) = Some wkf \<and>
        map_of (wf_Process wkf) (ws_ProcessId st) = Some pr \<and> els = IndexProcessElements (pr_Elements pr) [])"

lemma CreateConsumer_reliable [simp]:
  "reliable w \<Longrightarrow> CreateConsumer n w =
     (Ok (), w\<lparr> consumers := (if n \<in> set (consumers w) then consumers w else consumers w @ [n]) \<rparr>)"
  by (simp add: CreateConsumer_def)

lemma Compensate_reliable:
  assumes "comp_ready w st els" "ns_ok E" "ranges_ok E" "history_wf w" "plain_id (ws_ProcessInstanceId st)"
    and "\<forall>e \<in> set (history_of_instance E (kvHistory w) (ws_ProcessInstanceId st)). recorded els e"
  shows "\<exists>w' m s t. Compensate E st w = (Ok s, w') \<and>
     published w' = published w @
       plan_msgs E (planSubject E (TID (ws_Id st))) (plan_of E (kvHistory w) els (ws_ProcessInstanceId st)) @ [m] \<and>
     pm_Subject m = NS WorkflowProcessCompensate (e_ns E) \<and> pm_Payload m = PState s \<and>
     s = st\<lparr> ws_State := compensating, ws_UnixTimeNano := t \<rparr> \<and> kvTaskSpec w' = kvTaskSpec w \<and> nextId w \<le> nextId w' \<and>
     consumerPrefix @ TID (ws_Id st) \<in> set (consumers w') \<and> planAcks w' = planAcks w \<and>
     kvHistory w' = kvHistory w \<and> comp_ready w' s els \<and>
     sorted_wrt (\<lambda>a b. fst a \<ge> fst b) (plan_of E (kvHistory w) els (ws_ProcessInstanceId st))"
proof -
  obtain wkf pr where rel: "reliable w" and coh: "cache_coherent w"
    and d: "kv_get (kvDefinition w) (ws_WorkflowId st) = Some wkf"
      "map_of (wf_Process wkf) (ws_ProcessId st) = Some pr" "els = IndexProcessElements (pr_Elements pr) []"
    using assms(1) by (auto simp: comp_ready_def)
  obtain c where c: "GetWorkflow E (ws_WorkflowId st) w = (Ok wkf, w\<lparr> sCache := c \<rparr>)" "cache_coherent (w\<lparr> sCache := c \<rparr>)"
    using GetWorkflow_reliable [OF rel coh d(1), of E] by auto
  let ?w1 = "w\<lparr> sCache := c \<rparr>" and ?pid = "ws_ProcessInstanceId st"
  let ?n = "consumerPrefix @ TID (ws_Id st)" and ?subj = "planSubject E (TID (ws_Id st))"
  define cs where "cs = (if ?n \<in> set (consumers w) then consumers w else consumers w @ [?n])"
  have cs: "CreateConsumer ?n ?w1 = (Ok (), ?w1\<lparr> consumers := cs \<rparr>)" "?n \<in> set cs"
    using rel by (simp_all add: cs_def)
  let ?w2 = "?w1\<lparr> consumers := cs \<rparr>"
  let ?plan = "plan_of E (kvHistory w) els ?pid"
  let ?w3 = "?w2\<lparr> published := published w @ plan_msgs E ?subj ?plan \<rparr>"
  let ?st = "st\<lparr> ws_State := compensating \<rparr>"
  have "history_wf ?w1" using assms(4) by (simp add: history_wf_def)
  then have g: "GetProcessHistory E ?pid ?w1 = (Ok (history_of_instance E (kvHistory w) ?pid, None), ?w1)"
    using GetProcessHistory_reliable(1) [of ?w1 E ?pid] rel assms(3,5) by simp
  have f: "foldE (planEntry els) [] (history_of_instance E (kvHistory w) ?pid) ?w2 =
      (Ok (map step_of (filter (compensable (kvHistory w) els) (history_of_instance E (kvHistory w) ?pid))), ?w2)"
    using plan_reliable [of ?w2 _ els "[]"] rel assms(6) by simp
  have p: "forE (publishStep E ?subj (length ?plan)) (zip [0..<length ?plan] ?plan) ?w2 = (Ok (), ?w3)"
    using publishSteps_reliable [of ?w2] rel by (simp add: plan_msgs_def)
  have run: "Compensate E st w = (Ok (?st\<lparr> ws_UnixTimeNano := clock E (ticks ?w3) \<rparr>), pubW E WorkflowProcessCompensate ?st no_opts ?w3)"
    using rel c d g f p cs(1) assms(2) unfolding plan_of_def
    by (simp add: Compensate_def bnd_apply Let_def del: CreateConsumer_reliable)
  have "comp_ready (pubW E WorkflowProcessCompensate ?st no_opts ?w3) (?st\<lparr> ws_UnixTimeNano := clock E (ticks ?w3) \<rparr>) els"
    using rel c d by (auto simp: comp_ready_def cache_coherent_def)
  moreover have "sorted_wrt (\<lambda>a b. fst a \<ge> fst b) ?plan" unfolding plan_of_def by (rule sorted_sortSteps)
  ultimately show ?thesis using run cs(2)
    by (intro exI [of _ "pubW E WorkflowProcessCompensate ?st no_opts ?w3"]
          exI [of _ "state_msg E WorkflowProcessCompensate ?st no_opts ?w3"]
          exI [of _ "?st\<lparr> ws_UnixTimeNano := clock E (ticks ?w3) \<rparr>"] exI [of _ "clock E (ticks ?w3)"]) simp
qed

text \<open>A step takes the next entry of the plan, acknowledges it and runs it.\<close>

lemma Atoi_Itoa: "int n \<le> max_int64 \<Longrightarrow> Atoi (Itoa (int n)) = Some (int n)"
  by (simp add: Itoa_def Atoi_show_nat)

lemma compensate_step:
  assumes "comp_ready w st els" "consumerPrefix @ TID (ws_Id st) \<in> set (consumers w)"
    and "planMessages w (planSubject E (TID (ws_Id st))) = plan_msgs E (planSubject E (TID (ws_Id st))) plan"
    and "alist_get (planAcks w) 0 (consumerPrefix @ TID (ws_Id st)) = k" "k < length plan" "int (length plan) \<le> max_int64"
  shows "\<exists>c. processProcessCompensate E st w =
     runStep E st els (snd (plan ! k)) (int k) (int (length plan))
       (w\<lparr> sCache := c, planAcks := AList.update (consumerPrefix @ TID (ws_Id st)) (Suc k) (planAcks w) \<rparr>) \<and>
     cache_coherent (w\<lparr> sCache := c \<rparr>)"
proof -
  obtain wkf pr where rel: "reliable w" and coh: "cache_coherent w"
    and d: "kv_get (kvDefinition w) (ws_WorkflowId st) = Some wkf"
      "map_of (wf_Process wkf) (ws_ProcessId st) = Some pr" "els = IndexProcessElements (pr_Elements pr) []"
    using assms(1) by (auto simp: comp_ready_def)
  obtain c where c: "GetWorkflow E (ws_WorkflowId st) w = (Ok wkf, w\<lparr> sCache := c \<rparr>)" "cache_coherent (w\<lparr> sCache := c \<rparr>)"
    using GetWorkflow_reliable [OF rel coh d(1), of E] by auto
  let ?m = "plan_msg E (planSubject E (TID (ws_Id st))) (length plan) (k, plan ! k)"
  have f: "fetchPlan (consumerPrefix @ TID (ws_Id st)) (planSubject E (TID (ws_Id st))) (w\<lparr> sCache := c \<rparr>) =
      (Ok (Some ?m), w\<lparr> sCache := c \<rparr>)"
    using rel assms(2-5) nth_plan_msgs [OF assms(5)]
    by (simp add: fetchPlan_def bnd_apply planMessages_def)
  have hd: "headerInt ?m ''Step'' w' = (Ok (int k), w')" "headerInt ?m ''Steps'' w' = (Ok (int (length plan)), w')" for w'
    using assms(5,6) by (simp_all add: headerInt_def plan_msg_def alist_get_def Atoi_Itoa)
  have t: "payload_text ?m = snd (plan ! k)" by (simp add: payload_text_def plan_msg_def)
  have "processProcessCompensate E st w = runStep E st els (snd (plan ! k)) (int k) (int (length plan))
       (w\<lparr> sCache := c, planAcks := AList.update (consumerPrefix @ TID (ws_Id st)) (Suc k) (planAcks w) \<rparr>)"
    using rel c(1) d f hd t assms(4)
    by (simp add: processProcessCompensate_def orNak_def handle_apply Let_def ackPlan_def)
  then show ?thesis using c(2) by blast
qed

text \<open>An empty plan leaves the handler with a nil message.\<close>

lemma compensate_empty_panics:
  assumes "comp_ready w st els" "consumerPrefix @ TID (ws_Id st) \<in> set (consumers w)"
    and "planMessages w (planSubject E (TID (ws_Id st))) = []"
  shows "fst (processProcessCompensate E st w) = Panic"
proof -
  obtain wkf pr where rel: "reliable w" and coh: "cache_coherent w"
    and d: "kv_get (kvDefinition w) (ws_WorkflowId st) = Some wkf"
      "map_of (wf_Process wkf) (ws_ProcessId st) = Some pr" "els = IndexProcessElements (pr_Elements pr) []"
    using assms(1) by (auto simp: comp_ready_def)
  obtain c where c: "GetWorkflow E (ws_WorkflowId st) w = (Ok wkf, w\<lparr> sCache := c \<rparr>)"
    using GetWorkflow_reliable [OF rel coh d(1), of E] by auto
  have "fetchPlan (consumerPrefix @ TID (ws_Id st)) (planSubject E (TID (ws_Id st))) (w\<lparr> sCache := c \<rparr>) =
      (Ok None, w\<lparr> sCache := c \<rparr>)"
    using rel assms(2,3) by (simp add: fetchPlan_def bnd_apply planMessages_def)
  then show ?thesis using c d by (simp add: processProcessCompensate_def orNak_def handle_apply Let_def)
qed

text \<open>When the job of a step completes, the next step is asked for, or the activity that
  started the compensation completes, and the process with it if it is an end event.\<close>

lemma compensation_next:
  assumes "comp_ready w job els" "ns_ok E" "map_of els (ws_ElementId job) = Some el"
    and "kv_get (kvHistory w) (historyKey (ws_ProcessInstanceId job) (TID (Pop (ws_Id job))) compensationCheckpoint) = Some cp"
    and "OutputVars E (ws_Vars job) (he_Vars cp) (el_OutputTransform (el_data el)) = Ok vrs"
    and "ws_Compensation job = Some c" "cp_Step c \<noteq> cp_TotalSteps c - 1"
  shows "\<exists>k. compensationJobComplete E job w =
       (Ok (), pubW E WorkflowProcessCompensate (job\<lparr> ws_Vars := vrs, ws_Id := Pop (ws_Id job) \<rparr>) no_opts (w\<lparr> sCache := k \<rparr>)) \<and>
     cache_coherent (w\<lparr> sCache := k \<rparr>)"
proof -
  obtain wkf pr where rel: "reliable w" and coh: "cache_coherent w"
    and d: "kv_get (kvDefinition w) (ws_WorkflowId job) = Some wkf"
      "map_of (wf_Process wkf) (ws_ProcessId job) = Some pr" "els = IndexProcessElements (pr_Elements pr) []"
    using assms(1) by (auto simp: comp_ready_def)
  obtain k where k: "GetWorkflow E (ws_WorkflowId job) w = (Ok wkf, w\<lparr> sCache := k \<rparr>)" "cache_coherent (w\<lparr> sCache := k \<rparr>)"
    using GetWorkflow_reliable [OF rel coh d(1), of E] by auto
  let ?j = "job\<lparr> ws_Vars := vrs, ws_Id := Pop (ws_Id job) \<rparr>"
  have "compensationJobComplete E job w = (Ok (), pubW E WorkflowProcessCompensate ?j no_opts (w\<lparr> sCache := k \<rparr>))"
    using rel d k(1) assms(2-7) by (simp add: compensationJobComplete_def Let_def bnd_apply)
  then show ?thesis using k(2) by blast
qed

lemma compensation_last:
  assumes "comp_ready w job els" "ns_ok E" "map_of els (ws_ElementId job) = Some el"
    and "kv_get (kvHistory w) (historyKey (ws_ProcessInstanceId job) (TID (Pop (ws_Id job))) compensationCheckpoint) = Some cp"
    and "OutputVars E (ws_Vars job) (he_Vars cp) (el_OutputTransform (el_data el)) = Ok vrs"
    and "ws_Compensation job = Some c" "cp_Step c = cp_TotalSteps c - 1"
    and "kv_get (kvHistory w) (historyKey (ws_ProcessInstanceId job) (TID (Pop (ws_Id job))) activityExecute) = Some act"
    and "he_ElementId act = Some eid" "he_ElementName act = Some en" "map_of els eid = Some e0"
    and "el_Type (el_data e0) = CompensateEndEvent" "OutputVars E vrs [] (el_OutputTransform (el_data e0)) = Ok lv"
  shows "\<exists>w' m1 m2 s1 s2. compensationJobComplete E job w = (Ok (), w') \<and> published w' = published w @ [m1, m2] \<and>
     pm_Subject m1 = NS WorkflowActivityComplete (e_ns E) \<and> pm_Payload m1 = PState s1 \<and>
     ws_Id s1 = Pop (ws_Id job) \<and> ws_ElementId s1 = eid \<and> ws_State s1 = executing \<and> ws_Vars s1 = vrs \<and>
     pm_Subject m2 = NS WorkflowProcessComplete (e_ns E) \<and> pm_Payload m2 = PState s2 \<and>
     ws_Id s2 = [ws_ProcessInstanceId job] \<and> ws_State s2 = completed \<and> ws_Vars s2 = lv"
proof -
  obtain wkf pr where rel: "reliable w" and coh: "cache_coherent w"
    and d: "kv_get (kvDefinition w) (ws_WorkflowId job) = Some wkf"
      "map_of (wf_Process wkf) (ws_ProcessId job) = Some pr" "els = IndexProcessElements (pr_Elements pr) []"
    using assms(1) by (auto simp: comp_ready_def)
  obtain k where k: "GetWorkflow E (ws_WorkflowId job) w = (Ok wkf, w\<lparr> sCache := k \<rparr>)"
    using GetWorkflow_reliable [OF rel coh d(1), of E] by auto
  let ?s = "(DropStateParams (job\<lparr> ws_Vars := vrs, ws_State := executing, ws_ElementId := eid,
     ws_ElementType := CompensateEndEvent, ws_ElementName := en \<rparr>))\<lparr> ws_Id := Pop (ws_Id job) \<rparr>"
  let ?w0 = "w\<lparr> sCache := k \<rparr>"
  let ?w1 = "pubW E WorkflowActivityComplete ?s no_opts ?w0"
  let ?s1 = "?s\<lparr> ws_UnixTimeNano := clock E (ticks w) \<rparr>"
  let ?w2 = "kvHistory_update (kv_put (historyKey (ws_ProcessInstanceId job) (TID (Pop (ws_Id job))) activityComplete)
     (history_of ?s1 activityComplete)) ?w1"
  let ?s2 = "?s1\<lparr> ws_Id := [ws_ProcessInstanceId job], ws_State := completed, ws_Vars := lv \<rparr>"
  have "finishCompensation E els (Pop (ws_Id job)) (job\<lparr> ws_Vars := vrs \<rparr>) ?w0 =
      (Ok (), pubW E WorkflowProcessComplete ?s2 no_opts ?w2)"
    using rel assms(2,8-13)
    by (simp add: finishCompensation_def bnd_apply Let_def RecordHistoryActivityComplete_def DropStateParams_def)
  then have run: "compensationJobComplete E job w = (Ok (), pubW E WorkflowProcessComplete ?s2 no_opts ?w2)"
    using rel d k assms(3-7) by (simp add: compensationJobComplete_def Let_def bnd_apply)
  show ?thesis
    by (rule exI [of _ "pubW E WorkflowProcessComplete ?s2 no_opts ?w2"],
        rule exI [of _ "state_msg E WorkflowActivityComplete ?s no_opts ?w0"],
        rule exI [of _ "state_msg E WorkflowProcessComplete ?s2 no_opts ?w2"],
        rule exI [of _ ?s1], rule exI [of _ "?s2\<lparr> ws_UnixTimeNano := clock E (ticks ?w2) \<rparr>"])
      (simp add: run DropStateParams_def)
qed

end
