(* ===== verification/Launch.thy ===== *)
theory Launch
  imports Jobs
begin

text \<open>
  Launching: \<open>Launch\<close>, \<open>LaunchWithParent\<close>, \<open>launchProcess\<close>, \<open>rollBackLaunch\<close> and
  \<open>forEachStartElement\<close> of \<open>internal/server/workflow/operations.go\<close>.

  The lemmas describe a successful launch (one execution, one process instance for every
  process with a start event, one traversal for every start event), what a disabled workflow
  and a missing variable lead to, and which failures are rolled back.
\<close>

section \<open>Starting the processes\<close>

definition startElements :: "process \<Rightarrow> element list" where
  "startElements pr = filter (\<lambda>e. el_Type (el_data e) = StartEvent) (pr_Elements pr)"

definition forEachStartElement :: "process \<Rightarrow> (element \<Rightarrow> unit act) \<Rightarrow> unit act" where
  "forEachStartElement pr fn = forE fn (startElements pr)"

text \<open>The variables that the output transformation of a start event mentions have to be
  given.\<close>

fun expectVars :: "env \<Rightarrow> vmap \<Rightarrow> (string \<times> string) list \<Rightarrow> unit act" where
  "expectVars E testVars [] = ret ()"
| "expectVars E testVars ((k, v) # ts) =
     bnd (lift_res (GetVariables E v)) (\<lambda>evs.
       if list_all (\<lambda>ev. map_of testVars ev \<noteq> None) evs then expectVars E testVars ts else fail ErrExpectedVar)"

definition startState :: "env \<Rightarrow> tracking_id \<Rightarrow> elem_data \<Rightarrow> string \<Rightarrow> string \<Rightarrow> string \<Rightarrow> string \<Rightarrow> bytes \<Rightarrow> string \<Rightarrow> workflow_state" where
  "startState E trackingID el prId workflowName wfID executionId vrs pid =
     empty_state\<lparr> ws_ElementType := el_Type el, ws_ElementId := el_Id el, ws_ElementName := el_Name el,
       ws_WorkflowId := wfID, ws_ExecutionId := executionId, ws_Id := trackingID, ws_Vars := vrs,
       ws_WorkflowName := workflowName, ws_ProcessId := prId, ws_ProcessInstanceId := pid,
       ws_TraceParent := e_trace E \<rparr>"

definition startElement :: "env \<Rightarrow> tracking_id \<Rightarrow> string \<Rightarrow> string \<Rightarrow> string \<Rightarrow> string \<Rightarrow> bytes \<Rightarrow> string \<Rightarrow> element \<Rightarrow> unit act" where
  "startElement E ID prId workflowName wfID executionId vrs pid e =
     bnd (newID E) (\<lambda>nid.
     let exec = startState E (Push (Push ID pid) nid) (el_data e) prId workflowName wfID executionId vrs pid;
         processWfState = exec\<lparr> ws_Id := Push (Push ID executionId) pid \<rparr>
     in bnd (PublishWorkflowState E (NS WorkflowProcessExecute (e_ns E)) processWfState no_opts) (\<lambda>_.
        bnd (RecordHistoryProcessStart exec) (\<lambda>_.
        bnd (PublishWorkflowState E WorkflowTraversalExecute exec no_opts) (\<lambda>_. ret ()))))"

definition launchProcess :: "env \<Rightarrow> tracking_id \<Rightarrow> string \<Rightarrow> process \<Rightarrow> string \<Rightarrow> string \<Rightarrow> string \<Rightarrow> bytes \<Rightarrow> string \<Rightarrow> string \<Rightarrow> bytes
    \<Rightarrow> unit act" where
  "launchProcess E ID prId pr workflowName wfID executionId vrs parentpiID parentElID headers =
     bnd (lift_res (Decode E [] vrs)) (\<lambda>testVars.
     bnd (forEachStartElement pr (\<lambda>e. expectVars E testVars (rangeMap (map_order E 11) (el_OutputTransform (el_data e))))) (\<lambda>_.
     if startElements pr \<noteq> [] then
       bnd (createProcessInstance E executionId parentpiID parentElID (pr_Id pr) workflowName wfID headers) (\<lambda>pi.
       forEachStartElement pr (startElement E ID prId workflowName wfID executionId vrs (pi_ProcessInstanceId pi)))
     else ret ()))"

section \<open>Launching a workflow\<close>

definition rollBackLaunch :: "env \<Rightarrow> execution \<Rightarrow> unit act" where
  "rollBackLaunch E e =
     handle (PublishWorkflowState E WorkflowExecutionAbort
               (empty_state\<lparr> ws_Id := [ex_ExecutionId e], ws_ExecutionId := ex_ExecutionId e,
                  ws_WorkflowName := ex_WorkflowName e, ws_WorkflowId := ex_WorkflowId e, ws_State := terminated \<rparr>) no_opts)
       (\<lambda>_. ret ()) (\<lambda>_. ret ())"

text \<open>The first part of \<open>LaunchWithParent\<close>: the latest definition of the workflow that the
  process belongs to.  The versions are looked at before the error of their lookup, so a
  failed lookup is a nil dereference.\<close>

definition launchDefinition :: "env \<Rightarrow> string \<Rightarrow> (string \<times> string \<times> workflow) act" where
  "launchDefinition E processId =
     bnd (getWorkflowNameFor processId) (\<lambda>workflowName.
     handle (getWorkflowVersions workflowName) (\<lambda>_. panic) (\<lambda>wfv.
     if wvs_IsExecutionDisabled wfv then
       bnd (timeNow E) (\<lambda>_.
       bnd (PublishMsg E WorkflowSystemWorkflowDisableLaunchAttempted (PDisabled workflowName)) (\<lambda>_.
       fail (ErrOther ''the workflow is not executable'')))
     else if wvs_Version wfv = [] then panic
     else let wfID = wv_Id (last (wvs_Version wfv))
          in bnd (GetWorkflow E wfID) (\<lambda>wkf.
             bnd (checkProcessTaskDeprecation wkf processId) (\<lambda>_.
             ret (workflowName, wfID, wkf)))))"

text \<open>The second part: the execution the processes belong to, a new one for a top level launch
  or that of the parent.  A failure to announce the new execution rolls the launch back.\<close>

definition launchExecution :: "env \<Rightarrow> string \<Rightarrow> string \<Rightarrow> workflow \<Rightarrow> bytes \<Rightarrow> bytes \<Rightarrow> string \<Rightarrow> (string \<times> bytes) act" where
  "launchExecution E workflowName wfID wkf vrs headers parentpiID =
     (if parentpiID = [] then
        bnd (createExecution E (empty_execution\<lparr> ex_WorkflowId := wfID, ex_WorkflowName := wf_Name wkf \<rparr>)) (\<lambda>e.
        handle (PublishWorkflowState E WorkflowExecutionExecute
                  (empty_state\<lparr> ws_ExecutionId := ex_ExecutionId e, ws_WorkflowId := wfID, ws_WorkflowName := workflowName,
                     ws_Vars := vrs, ws_Id := [ex_ExecutionId e], ws_TraceParent := e_trace E \<rparr>) no_opts)
          (\<lambda>err. bnd (rollBackLaunch E e) (\<lambda>_. fail err))
          (\<lambda>_. ret (ex_ExecutionId e, headers)))
      else
        bnd (GetProcessInstance parentpiID) (\<lambda>pi.
        bnd (GetExecution (pi_ExecutionId pi)) (\<lambda>e.
        ret (ex_ExecutionId e, pi_Headers pi))))"

text \<open>The third part: a process of the collaboration starts all of them, another one starts
  alone.\<close>

fun collabProcesses :: "workflow \<Rightarrow> participant list \<Rightarrow> (goerr, process list) res" where
  "collabProcesses wkf [] = Ok []"
| "collabProcesses wkf (i # is) =
     (case map_of (wf_Process wkf) (pt_ProcessId i) of
        None \<Rightarrow> Err (ErrOther ''find collaboration process'')
      | Some pr \<Rightarrow> (case collabProcesses wkf is of Ok prs \<Rightarrow> Ok (pr # prs) | Err e \<Rightarrow> Err e | Panic \<Rightarrow> Panic))"

definition launchProcesses :: "workflow \<Rightarrow> string \<Rightarrow> process list act" where
  "launchProcesses wkf processId =
     (case wf_Collaboration wkf of
        None \<Rightarrow> panic
      | Some parts \<Rightarrow>
          bnd (lift_res (collabProcesses wkf parts)) (\<lambda>collab.
          if list_ex (\<lambda>i. pt_ProcessId i = processId) parts then ret collab
          else case map_of (wf_Process wkf) processId of
                 None \<Rightarrow> fail (ErrOther ''find process with name'')
               | Some pr \<Rightarrow> ret [pr]))"

definition LaunchWithParent :: "env \<Rightarrow> string \<Rightarrow> tracking_id \<Rightarrow> bytes \<Rightarrow> bytes \<Rightarrow> string \<Rightarrow> string \<Rightarrow> (string \<times> string) act" where
  "LaunchWithParent E processId ID vrs headers parentpiID parentElID =
     bnd (launchDefinition E processId) (\<lambda>(workflowName, wfID, wkf).
     bnd (launchExecution E workflowName wfID wkf vrs headers parentpiID) (\<lambda>(executionId, headers).
     bnd (launchProcesses wkf processId) (\<lambda>prs.
     bnd (forE (\<lambda>pr. launchProcess E ID (pr_Id pr) pr workflowName wfID executionId vrs parentpiID parentElID headers) prs) (\<lambda>_.
     ret (executionId, wfID)))))"

definition Launch :: "env \<Rightarrow> string \<Rightarrow> bytes \<Rightarrow> bytes \<Rightarrow> (string \<times> string) act" where
  "Launch E processId vrs headers = LaunchWithParent E processId [] vrs headers [] []"

section \<open>A launch that does not happen\<close>

text \<open>A disabled workflow is not launched: the attempt is reported and nothing is stored.\<close>

text \<open>C30. A workflow whose execution is disabled is not launched: the call fails, the attempt is
  published, and no execution, instance, history entry or job is written.\<close>

theorem Launch_disabled:
  assumes "reliable w" "kv_get (kvProcess w) processId = Some wn" "kv_get (kvVersion w) wn = Some wfv"
    and "wvs_IsExecutionDisabled wfv"
  shows "\<exists>w' m. LaunchWithParent E processId ID vrs hs ppi pel w = (Err (ErrOther ''the workflow is not executable''), w') \<and>
     published w' = published w @ [m] \<and> pm_Subject m = WorkflowSystemWorkflowDisableLaunchAttempted \<and>
     pm_Payload m = PDisabled wn \<and> kvExecution w' = kvExecution w \<and> kvProcessInstance w' = kvProcessInstance w \<and>
     kvHistory w' = kvHistory w \<and> kvJob w' = kvJob w"
  using assms by (simp add: LaunchWithParent_def launchDefinition_def bnd_apply handle_apply)

text \<open>A process whose workflow has no versions record ends in a nil dereference instead of an
  error.\<close>

lemma Launch_no_versions:
  assumes "reliable w" "kv_get (kvProcess w) processId = Some wn" "kv_get (kvVersion w) wn = None"
  shows "fst (LaunchWithParent E processId ID vrs hs ppi pel w) = Panic"
  using assms by (simp add: LaunchWithParent_def launchDefinition_def bnd_apply handle_apply)

lemma expectVars_reliable:
  "expectVars E tv ts w = (Ok (), w) \<longleftrightarrow>
     (\<forall>(k, e) \<in> set ts. \<exists>vs. GetVariables E e = Ok vs \<and> (\<forall>x \<in> set vs. map_of tv x \<noteq> None))"
  by (induction ts) (auto simp: bnd_apply list_all_iff split: res.splits if_splits)

lemma expectVars_pure: "snd (expectVars E tv ts w) = w"
  by (induction ts) (auto simp: bnd_apply split: res.splits)

section \<open>What a launched process is\<close>

text \<open>The two messages of a start event: the process instance executes, and the start event is
  traversed.\<close>

definition start_msgs :: "env \<Rightarrow> tracking_id \<Rightarrow> string \<Rightarrow> string \<Rightarrow> string \<Rightarrow> string \<Rightarrow> bytes \<Rightarrow> string \<Rightarrow> element \<Rightarrow> pubmsg list \<Rightarrow> bool" where
  "start_msgs E ID prId wn wid eid vrs pid e ms \<longleftrightarrow>
     (\<exists>m1 m2 nid t1 t2. ms = [m1, m2] \<and> pm_Subject m1 = NS WorkflowProcessExecute (e_ns E) \<and>
        pm_Payload m1 = PState ((startState E (Push (Push ID eid) pid) (el_data e) prId wn wid eid vrs pid)\<lparr> ws_UnixTimeNano := t1 \<rparr>) \<and>
        pm_Subject m2 = NS WorkflowTraversalExecute (e_ns E) \<and>
        pm_Payload m2 = PState ((startState E (Push (Push ID pid) nid) (el_data e) prId wn wid eid vrs pid)\<lparr> ws_UnixTimeNano := t2 \<rparr>))"

definition launch_frame :: "world \<Rightarrow> world \<Rightarrow> bool" where
  "launch_frame w w' \<longleftrightarrow> faults w' = faults w \<and> kvJob w' = kvJob w \<and> kvDefinition w' = kvDefinition w \<and>
     kvVersion w' = kvVersion w \<and> kvProcess w' = kvProcess w \<and> kvTaskSpec w' = kvTaskSpec w \<and> sCache w' = sCache w \<and>
     kvExecution w' = kvExecution w \<and> kvProcessInstance w' = kvProcessInstance w \<and> nextId w \<le> nextId w'"

lemma launch_frame_refl [simp]: "launch_frame w w" by (simp add: launch_frame_def)

lemma launch_frame_trans: "launch_frame a b \<Longrightarrow> launch_frame b c \<Longrightarrow> launch_frame a c" by (simp add: launch_frame_def)

lemma startState_sel [simp]:
  "ws_ProcessInstanceId (startState E tid el prId wn wid eid vrs pid) = pid"
  "ws_Id (startState E tid el prId wn wid eid vrs pid) = tid"
  "(startState E tid el prId wn wid eid vrs pid)\<lparr> ws_Id := tid' \<rparr> = startState E tid' el prId wn wid eid vrs pid"
  by (simp_all add: startState_def)

lemma startElement_reliable:
  assumes "reliable w" "ns_ok E"
  shows "\<exists>w' ms. startElement E ID prId wn wid eid vrs pid e w = (Ok (), w') \<and> published w' = published w @ ms \<and>
     start_msgs E ID prId wn wid eid vrs pid e ms \<and> launch_frame w w'"
proof -
  let ?nid = "ksuid E (nextId w)"
  let ?x = "startState E (Push (Push ID pid) ?nid) (el_data e) prId wn wid eid vrs pid"
  let ?p = "startState E (Push (Push ID eid) pid) (el_data e) prId wn wid eid vrs pid"
  let ?w0 = "w\<lparr> nextId := Suc (nextId w) \<rparr>"
  let ?w1 = "pubW E (NS WorkflowProcessExecute (e_ns E)) ?p no_opts ?w0"
  let ?w2 = "kvHistory_update (kv_put (historyKey pid ?nid processExecute) (history_of ?x processExecute)) ?w1"
  let ?w3 = "pubW E WorkflowTraversalExecute ?x no_opts ?w2"
  have "startElement E ID prId wn wid eid vrs pid e w = (Ok (), ?w3)"
    using assms by (simp add: startElement_def bnd_apply Let_def RecordHistoryProcessStart_def)
  moreover have "start_msgs E ID prId wn wid eid vrs pid e
      [state_msg E (NS WorkflowProcessExecute (e_ns E)) ?p no_opts ?w0, state_msg E WorkflowTraversalExecute ?x no_opts ?w2]"
    unfolding start_msgs_def by (auto simp: NS_subjects_idem [OF assms(2)])
  ultimately show ?thesis by (intro exI [of _ ?w3] exI) (auto simp: launch_frame_def)
qed

lemma startElements_reliable:
  assumes "reliable w" "ns_ok E"
  shows "\<exists>w' mss. forE (startElement E ID prId wn wid eid vrs pid) es w = (Ok (), w') \<and>
     published w' = published w @ concat mss \<and>
     list_all2 (start_msgs E ID prId wn wid eid vrs pid) es mss \<and> launch_frame w w'"
  using assms
proof (induction es arbitrary: w)
  case Nil
  then show ?case by (intro exI [of _ w] exI [of _ "[]"]) simp
next
  case (Cons e es)
  obtain w1 ms where w1: "startElement E ID prId wn wid eid vrs pid e w = (Ok (), w1)" "published w1 = published w @ ms"
    "start_msgs E ID prId wn wid eid vrs pid e ms" "launch_frame w w1"
    using startElement_reliable [OF Cons.prems] by blast
  have "reliable w1" using w1(4) Cons.prems by (simp add: launch_frame_def)
  then obtain w2 mss where w2: "forE (startElement E ID prId wn wid eid vrs pid) es w1 = (Ok (), w2)"
    "published w2 = published w1 @ concat mss" "list_all2 (start_msgs E ID prId wn wid eid vrs pid) es mss" "launch_frame w1 w2"
    using Cons.IH Cons.prems(2) by blast
  show ?case using w1 w2 launch_frame_trans [OF w1(4) w2(4)]
    by (intro exI [of _ w2] exI [of _ "ms # mss"]) (simp add: bnd_apply)
qed

text \<open>Every variable that a start event of the process expects is given.\<close>

definition vars_given :: "env \<Rightarrow> bytes \<Rightarrow> process \<Rightarrow> bool" where
  "vars_given E vrs pr \<longleftrightarrow> (\<exists>tv. Decode E [] vrs = Ok tv \<and>
     (\<forall>e \<in> set (startElements pr). \<forall>(k, x) \<in> set (rangeMap (map_order E 11) (el_OutputTransform (el_data e))).
        \<exists>vs. GetVariables E x = Ok vs \<and> (\<forall>v \<in> set vs. map_of tv v \<noteq> None)))"

definition new_instance :: "string \<Rightarrow> string \<Rightarrow> string \<Rightarrow> string \<Rightarrow> string \<Rightarrow> string \<Rightarrow> string \<Rightarrow> bytes \<Rightarrow> process_instance" where
  "new_instance pid eid ppi pel prId wn wid hs = \<lparr> pi_ProcessInstanceId = pid, pi_ExecutionId = eid,
     pi_ParentProcessId = Some ppi, pi_ParentElementId = Some pel, pi_WorkflowId = wid, pi_WorkflowName = wn,
     pi_ProcessId = prId, pi_GatewayComplete = [], pi_Headers = hs \<rparr>"

lemma vars_checked:
  assumes "\<forall>e \<in> set es. \<forall>(k, x) \<in> set (f e). \<exists>vs. GetVariables E x = Ok vs \<and> (\<forall>v \<in> set vs. map_of tv v \<noteq> None)"
  shows "forE (\<lambda>e. expectVars E tv (f e)) es w = (Ok (), w)"
  using assms
proof (induction es)
  case (Cons e es)
  have "expectVars E tv (f e) w = (Ok (), w)" using Cons.prems expectVars_reliable by simp
  then show ?case using Cons by (simp add: bnd_apply)
qed simp

lemma launchProcess_started:
  assumes "reliable w" "ns_ok E" "vars_given E vrs pr" "startElements pr \<noteq> []" "kv_get (kvExecution w) eid = Some ex"
  defines "pid \<equiv> ksuid E (nextId w)"
  shows "\<exists>w' mss. launchProcess E ID prId pr wn wid eid vrs ppi pel hs w = (Ok (), w') \<and>
     published w' = published w @ concat mss \<and> list_all2 (start_msgs E ID prId wn wid eid vrs pid) (startElements pr) mss \<and>
     (\<forall>k. kv_get (kvProcessInstance w') k = (if k = pid then Some (new_instance pid eid ppi pel (pr_Id pr) wn wid hs)
        else kv_get (kvProcessInstance w) k)) \<and>
     (\<forall>k. kv_get (kvExecution w') k = (if k = eid then Some (ex\<lparr> ex_ProcessInstanceId := ex_ProcessInstanceId ex @ [pid] \<rparr>)
        else kv_get (kvExecution w) k)) \<and>
     reliable w' \<and> nextId w < nextId w'"
proof -
  obtain tv where tv: "Decode E [] vrs = Ok tv"
    "\<forall>e \<in> set (startElements pr). \<forall>(k, x) \<in> set (rangeMap (map_order E 11) (el_OutputTransform (el_data e))).
        \<exists>vs. GetVariables E x = Ok vs \<and> (\<forall>v \<in> set vs. map_of tv v \<noteq> None)"
    using assms(3) by (auto simp: vars_given_def)
  let ?pi = "new_instance pid eid ppi pel (pr_Id pr) wn wid hs"
  let ?w1 = "w\<lparr> nextId := Suc (nextId w), kvProcessInstance := kv_put pid ?pi (kvProcessInstance w),
     kvExecution := kv_put eid (ex\<lparr> ex_ProcessInstanceId := ex_ProcessInstanceId ex @ [pid] \<rparr>) (kvExecution w) \<rparr>"
  have c: "createProcessInstance E eid ppi pel (pr_Id pr) wn wid hs w = (Ok ?pi, ?w1)"
    using createProcessInstance_reliable [OF assms(1,5)] by (simp add: Let_def new_instance_def pid_def)
  obtain w' mss where w': "forE (startElement E ID prId wn wid eid vrs pid) (startElements pr) ?w1 = (Ok (), w')"
    "published w' = published ?w1 @ concat mss" "list_all2 (start_msgs E ID prId wn wid eid vrs pid) (startElements pr) mss"
    "launch_frame ?w1 w'"
    using startElements_reliable [of ?w1 E ID prId wn wid eid vrs pid "startElements pr"] assms(1,2) by auto
  have "pi_ProcessInstanceId ?pi = pid" by (simp add: new_instance_def)
  then have "launchProcess E ID prId pr wn wid eid vrs ppi pel hs w = (Ok (), w')"
    using tv vars_checked [OF tv(2), of w] c w'(1) assms(4)
    by (simp add: launchProcess_def forEachStartElement_def bnd_apply)
  then show ?thesis using w' assms(1) by (intro exI [of _ w'] exI [of _ mss]) (auto simp: launch_frame_def)
qed

text \<open>A process whose variables are not given leaves no trace.\<close>

lemma launchProcess_missing_var:
  assumes "Decode E [] vrs = Ok tv" "startElements pr = e # es"
    and "rangeMap (map_order E 11) (el_OutputTransform (el_data e)) = (k, x) # ts"
    and "GetVariables E x = Ok vs" "v \<in> set vs" "map_of tv v = None"
  shows "launchProcess E ID prId pr wn wid eid vrs ppi pel hs w = (Err ErrExpectedVar, w)"
  using assms by (auto simp: launchProcess_def forEachStartElement_def bnd_apply list_all_iff)

section \<open>A whole launch\<close>

lemma EnsureTxBucket_reliable:
  "reliable w \<Longrightarrow> \<exists>b. EnsureTxBucket E n w = (Ok (), w\<lparr> txBuckets := b \<rparr>)"
  by (cases "n \<in> set (txBuckets w)") (auto simp: EnsureTxBucket_def bnd_apply intro: exI [of _ "txBuckets w"])

lemma EnsureTxBuckets_reliable:
  "reliable w \<Longrightarrow> \<exists>b. forE (\<lambda>m. EnsureTxBucket E (f m)) ms w = (Ok (), w\<lparr> txBuckets := b \<rparr>)"
proof (induction ms arbitrary: w)
  case Nil
  then show ?case by (intro exI [of _ "txBuckets w"]) simp
next
  case (Cons m ms)
  obtain b where b: "EnsureTxBucket E (f m) w = (Ok (), w\<lparr> txBuckets := b \<rparr>)" using EnsureTxBucket_reliable Cons.prems by blast
  obtain c where "forE (\<lambda>m. EnsureTxBucket E (f m)) ms (w\<lparr> txBuckets := b \<rparr>) = (Ok (), w\<lparr> txBuckets := b \<rparr>\<lparr> txBuckets := c \<rparr>)"
    using Cons.IH [of "w\<lparr> txBuckets := b \<rparr>"] Cons.prems by auto
  then show ?case using b by (auto simp: bnd_apply)
qed

lemma createExecution_reliable:
  assumes "reliable w" "cache_coherent w" "kv_get (kvDefinition w) (ex_WorkflowId x) = Some wkf"
  shows "\<exists>b c. createExecution E x w =
    (Ok (x\<lparr> ex_ExecutionId := ksuid E (nextId w), ex_ProcessInstanceId := [] \<rparr>),
     kvExecution_update (kv_put (ksuid E (nextId w)) (x\<lparr> ex_ExecutionId := ksuid E (nextId w), ex_ProcessInstanceId := [] \<rparr>))
       (w\<lparr> nextId := Suc (nextId w), sCache := c, txBuckets := b \<rparr>)) \<and>
     cache_coherent (w\<lparr> sCache := c \<rparr>)"
proof -
  let ?w0 = "w\<lparr> nextId := Suc (nextId w) \<rparr>"
  let ?x = "x\<lparr> ex_ExecutionId := ksuid E (nextId w), ex_ProcessInstanceId := [] \<rparr>"
  have "cache_coherent ?w0" using assms(2) by (simp add: cache_coherent_def)
  then obtain c where c: "GetWorkflow E (ex_WorkflowId x) ?w0 = (Ok wkf, ?w0\<lparr> sCache := c \<rparr>)" "cache_coherent (?w0\<lparr> sCache := c \<rparr>)"
    using GetWorkflow_reliable [of ?w0 "ex_WorkflowId x" wkf E] assms(1,3) by auto
  let ?w1 = "kvExecution_update (kv_put (ksuid E (nextId w)) ?x) (?w0\<lparr> sCache := c \<rparr>)"
  obtain b where b: "forE (\<lambda>m. EnsureTxBucket E (NS ''MsgTx_%s_'' (e_ns E) @ el_Name m)) (wf_Messages wkf) ?w1 =
      (Ok (), ?w1\<lparr> txBuckets := b \<rparr>)"
    using EnsureTxBuckets_reliable [of ?w1 E "\<lambda>m. NS ''MsgTx_%s_'' (e_ns E) @ el_Name m"] assms(1) by auto
  have "createExecution E x w = (Ok ?x, ?w1\<lparr> txBuckets := b \<rparr>)"
    using assms(1) c b by (simp add: createExecution_def bnd_apply handle_apply Let_def)
  then show ?thesis using c(2) by (intro exI [of _ b] exI [of _ c]) (simp add: cache_coherent_def)
qed

lemma launchProcess_idle:
  assumes "startElements pr = []" "Decode E [] vrs = Ok tv"
  shows "launchProcess E ID prId pr wn wid eid vrs ppi pel hs w = (Ok (), w)"
  using assms by (simp add: launchProcess_def forEachStartElement_def bnd_apply)

definition started :: "process list \<Rightarrow> process list" where
  "started prs = filter (\<lambda>pr. startElements pr \<noteq> []) prs"

text \<open>The processes of a launch one after the other: each that has a start event gets an
  instance, the execution lists the instances, and the start events are traversed.\<close>

lemma launch_loop:
  assumes "reliable w" "ns_ok E" "fresh_ids E" "\<forall>pr \<in> set prs. vars_given E vrs pr" "kv_get (kvExecution w) eid = Some ex"
  shows "\<exists>w' pids msss.
     forE (\<lambda>pr. launchProcess E ID (pr_Id pr) pr wn wid eid vrs ppi pel hs) prs w = (Ok (), w') \<and>
     length pids = length (started prs) \<and> distinct pids \<and> set pids \<subseteq> ksuid E ` {nextId w ..< nextId w'} \<and>
     kv_get (kvExecution w') eid = Some (ex\<lparr> ex_ProcessInstanceId := ex_ProcessInstanceId ex @ pids \<rparr>) \<and>
     list_all2 (\<lambda>pr pid. kv_get (kvProcessInstance w') pid = Some (new_instance pid eid ppi pel (pr_Id pr) wn wid hs)) (started prs) pids \<and>
     (\<forall>k. k \<notin> ksuid E ` {nextId w ..< nextId w'} \<longrightarrow> kv_get (kvProcessInstance w') k = kv_get (kvProcessInstance w) k) \<and>
     published w' = published w @ concat (map concat msss) \<and>
     list_all2 (\<lambda>(pr, pid) mss. list_all2 (start_msgs E ID (pr_Id pr) wn wid eid vrs pid) (startElements pr) mss) (zip (started prs) pids) msss \<and>
     reliable w' \<and> nextId w \<le> nextId w'"
  using assms(1,4,5)
proof (induction prs arbitrary: w ex)
  case Nil
  then show ?case by (intro exI [of _ w] exI [of _ "[]"]) (simp add: started_def)
next
  case (Cons pr prs)
  show ?case
  proof (cases "startElements pr = []")
    case True
    obtain tv where "Decode E [] vrs = Ok tv" using Cons.prems(2) by (auto simp: vars_given_def)
    then have "launchProcess E ID (pr_Id pr) pr wn wid eid vrs ppi pel hs w = (Ok (), w)"
      using launchProcess_idle [OF True] by blast
    moreover have "started (pr # prs) = started prs" using True by (simp add: started_def)
    ultimately show ?thesis using Cons.IH [OF Cons.prems(1) _ Cons.prems(3)] Cons.prems(2) by (simp add: bnd_apply)
  next
    case False
    let ?pid = "ksuid E (nextId w)"
    obtain w1 mss where w1: "launchProcess E ID (pr_Id pr) pr wn wid eid vrs ppi pel hs w = (Ok (), w1)"
      "published w1 = published w @ concat mss" "list_all2 (start_msgs E ID (pr_Id pr) wn wid eid vrs ?pid) (startElements pr) mss"
      "\<forall>k. kv_get (kvProcessInstance w1) k = (if k = ?pid then Some (new_instance ?pid eid ppi pel (pr_Id pr) wn wid hs)
        else kv_get (kvProcessInstance w) k)"
      "\<forall>k. kv_get (kvExecution w1) k = (if k = eid then Some (ex\<lparr> ex_ProcessInstanceId := ex_ProcessInstanceId ex @ [?pid] \<rparr>)
        else kv_get (kvExecution w) k)"
      "reliable w1" "nextId w < nextId w1"
      using launchProcess_started [OF Cons.prems(1) assms(2) _ False Cons.prems(3)] Cons.prems(2) by fastforce
    obtain w2 pids msss where w2:
      "forE (\<lambda>pr. launchProcess E ID (pr_Id pr) pr wn wid eid vrs ppi pel hs) prs w1 = (Ok (), w2)"
      "length pids = length (started prs)" "distinct pids" "set pids \<subseteq> ksuid E ` {nextId w1 ..< nextId w2}"
      "kv_get (kvExecution w2) eid = Some (ex\<lparr> ex_ProcessInstanceId := ex_ProcessInstanceId ex @ [?pid] @ pids \<rparr>)"
      "list_all2 (\<lambda>pr pid. kv_get (kvProcessInstance w2) pid = Some (new_instance pid eid ppi pel (pr_Id pr) wn wid hs)) (started prs) pids"
      "\<forall>k. k \<notin> ksuid E ` {nextId w1 ..< nextId w2} \<longrightarrow> kv_get (kvProcessInstance w2) k = kv_get (kvProcessInstance w1) k"
      "published w2 = published w1 @ concat (map concat msss)"
      "list_all2 (\<lambda>(pr, pid) mss. list_all2 (start_msgs E ID (pr_Id pr) wn wid eid vrs pid) (startElements pr) mss) (zip (started prs) pids) msss"
      "reliable w2" "nextId w1 \<le> nextId w2"
      using Cons.IH [OF w1(6), of "ex\<lparr> ex_ProcessInstanceId := ex_ProcessInstanceId ex @ [?pid] \<rparr>"] w1(5) Cons.prems(2) by auto
    have fr: "?pid \<notin> ksuid E ` {nextId w1 ..< nextId w2}"
    proof
      assume "?pid \<in> ksuid E ` {nextId w1 ..< nextId w2}"
      then obtain x where "ksuid E (nextId w) = ksuid E x" "nextId w1 \<le> x" by auto
      then show False using assms(3) w1(7) unfolding fresh_ids_def by (metis leD)
    qed
    have st: "started (pr # prs) = pr # started prs" using False by (simp add: started_def)
    have "forE (\<lambda>pr. launchProcess E ID (pr_Id pr) pr wn wid eid vrs ppi pel hs) (pr # prs) w = (Ok (), w2)"
      using w1(1) w2(1) by (simp add: bnd_apply)
    moreover have "distinct (?pid # pids)" "set (?pid # pids) \<subseteq> ksuid E ` {nextId w ..< nextId w2}"
      using w2(3,4) fr w1(7) w2(11) by auto
    moreover have "kv_get (kvProcessInstance w2) ?pid = Some (new_instance ?pid eid ppi pel (pr_Id pr) wn wid hs)"
      using w2(7) fr w1(4) by simp
    moreover have "\<forall>k. k \<notin> ksuid E ` {nextId w ..< nextId w2} \<longrightarrow> kv_get (kvProcessInstance w2) k = kv_get (kvProcessInstance w) k"
      using w2(7,11) w1(4,7) by (auto simp: image_iff)
    ultimately show ?thesis using w1 w2 st
      by (intro exI [of _ w2] exI [of _ "?pid # pids"] exI [of _ "mss # msss"]) auto
  qed
qed

text \<open>No service task of the process is deprecated.\<close>

definition tasks_current :: "world \<Rightarrow> process \<Rightarrow> bool" where
  "tasks_current w pr \<longleftrightarrow> (\<forall>e \<in> set (pr_Elements pr). el_Type (el_data e) = ServiceTask \<longrightarrow>
     (\<exists>v st. el_Version (el_data e) = Some v \<and> kv_get (kvTaskSpec w) v = Some st \<and>
        \<not> (case ts_Behaviour st of None \<Rightarrow> False | Some b \<Rightarrow> tb_Deprecated b)))"

lemma checkDeprecation_current:
  assumes "reliable w" "map_of (wf_Process wkf) processId = Some pr" "tasks_current w pr"
  shows "checkProcessTaskDeprecation wkf processId w = (Ok (), w)"
proof -
  have "forE (\<lambda>e. let el = el_data e in
             if el_Type el = ServiceTask then
               (case el_Version el of
                  None \<Rightarrow> panic
                | Some v \<Rightarrow>
                    bnd (GetTaskSpecByUID v) (\<lambda>st.
                      if (case ts_Behaviour st of None \<Rightarrow> False | Some b \<Rightarrow> tb_Deprecated b)
                      then fail (ErrOther ''process contains deprecated task'') else ret ()))
             else ret ()) es w = (Ok (), w)" if "set es \<subseteq> set (pr_Elements pr)" for es
    using that
  proof (induction es)
    case (Cons e es)
    then show ?case using assms(1,3)
      by (cases "el_Type (el_data e) = ServiceTask")
         (auto simp: tasks_current_def Let_def bnd_apply GetTaskSpecByUID_def dest!: bspec)
  qed simp
  then show ?thesis using assms(2) by (simp add: checkProcessTaskDeprecation_def)
qed

text \<open>The workflow can be launched: the process is registered, its latest definition is stored
  and enabled, and its tasks are current.\<close>

definition launchable :: "world \<Rightarrow> string \<Rightarrow> string \<Rightarrow> string \<Rightarrow> workflow \<Rightarrow> bool" where
  "launchable w processId wn wid wkf \<longleftrightarrow> reliable w \<and> cache_coherent w \<and> kv_get (kvProcess w) processId = Some wn \<and>
     (\<exists>wfv. kv_get (kvVersion w) wn = Some wfv \<and> \<not> wvs_IsExecutionDisabled wfv \<and> wvs_Version wfv \<noteq> [] \<and>
        wv_Id (last (wvs_Version wfv)) = wid) \<and>
     kv_get (kvDefinition w) wid = Some wkf \<and>
     (\<exists>pr. map_of (wf_Process wkf) processId = Some pr \<and> tasks_current w pr)"

lemma launchDefinition_ok:
  assumes "launchable w processId wn wid wkf"
  shows "\<exists>c. launchDefinition E processId w = (Ok (wn, wid, wkf), w\<lparr> sCache := c \<rparr>) \<and> cache_coherent (w\<lparr> sCache := c \<rparr>)"
proof -
  obtain wfv pr where l: "reliable w" "cache_coherent w" "kv_get (kvProcess w) processId = Some wn"
    "kv_get (kvVersion w) wn = Some wfv" "\<not> wvs_IsExecutionDisabled wfv" "wvs_Version wfv \<noteq> []"
    "wv_Id (last (wvs_Version wfv)) = wid" "kv_get (kvDefinition w) wid = Some wkf"
    "map_of (wf_Process wkf) processId = Some pr" "tasks_current w pr"
    using assms by (auto simp: launchable_def)
  obtain c where c: "GetWorkflow E wid w = (Ok wkf, w\<lparr> sCache := c \<rparr>)" "cache_coherent (w\<lparr> sCache := c \<rparr>)"
    using GetWorkflow_reliable [OF l(1,2,8), of E] by auto
  have "tasks_current (w\<lparr> sCache := c \<rparr>) pr" using l(10) by (simp add: tasks_current_def)
  then have "checkProcessTaskDeprecation wkf processId (w\<lparr> sCache := c \<rparr>) = (Ok (), w\<lparr> sCache := c \<rparr>)"
    using checkDeprecation_current [of "w\<lparr> sCache := c \<rparr>"] l(1,9) by simp
  then show ?thesis using l c by (intro exI [of _ c]) (simp add: launchDefinition_def bnd_apply handle_apply)
qed

definition exec_msg :: "env \<Rightarrow> string \<Rightarrow> string \<Rightarrow> string \<Rightarrow> bytes \<Rightarrow> pubmsg \<Rightarrow> bool" where
  "exec_msg E eid wid wn vrs m \<longleftrightarrow> pm_Subject m = NS WorkflowExecutionExecute (e_ns E) \<and>
     (\<exists>t. pm_Payload m = PState (empty_state\<lparr> ws_ExecutionId := eid, ws_WorkflowId := wid, ws_WorkflowName := wn,
        ws_Vars := vrs, ws_Id := [eid], ws_TraceParent := e_trace E, ws_UnixTimeNano := t \<rparr>))"

text \<open>The execution of a top level launch.\<close>

lemma launchExecution_new:
  assumes "reliable w" "cache_coherent w" "kv_get (kvDefinition w) wid = Some wkf" "ns_ok E"
  defines "eid \<equiv> ksuid E (nextId w)"
  defines "x \<equiv> \<lparr> ex_ExecutionId = eid, ex_WorkflowId = wid, ex_WorkflowName = wf_Name wkf, ex_ProcessInstanceId = [] \<rparr>"
  shows "\<exists>w' m. launchExecution E wn wid wkf vrs hs [] w = (Ok (eid, hs), w') \<and> published w' = published w @ [m] \<and>
     exec_msg E eid wid wn vrs m \<and> (\<forall>k. kv_get (kvExecution w') k = (if k = eid then Some x else kv_get (kvExecution w) k)) \<and>
     kvProcessInstance w' = kvProcessInstance w \<and> reliable w' \<and> nextId w' = nextId w + 2"
proof -
  let ?x0 = "empty_execution\<lparr> ex_WorkflowId := wid, ex_WorkflowName := wf_Name wkf \<rparr>"
  have x: "?x0\<lparr> ex_ExecutionId := eid, ex_ProcessInstanceId := [] \<rparr> = x"
    by (simp add: x_def eid_def empty_execution_def)
  obtain b c where bc: "createExecution E ?x0 w =
      (Ok x, kvExecution_update (kv_put eid x) (w\<lparr> nextId := Suc (nextId w), sCache := c, txBuckets := b \<rparr>))"
    using createExecution_reliable [of w ?x0 wkf E] assms(1-3) unfolding eid_def [symmetric] x by auto
  let ?w1 = "kvExecution_update (kv_put eid x) (w\<lparr> nextId := Suc (nextId w), sCache := c, txBuckets := b \<rparr>)"
  let ?s = "empty_state\<lparr> ws_ExecutionId := eid, ws_WorkflowId := wid, ws_WorkflowName := wn,
     ws_Vars := vrs, ws_Id := [eid], ws_TraceParent := e_trace E \<rparr>"
  have "ex_ExecutionId x = eid" by (simp add: x_def)
  then have "launchExecution E wn wid wkf vrs hs [] w = (Ok (eid, hs), pubW E WorkflowExecutionExecute ?s no_opts ?w1)"
    using bc assms(1,4) by (simp add: launchExecution_def handle_apply)
  then show ?thesis
    using assms(1) by (intro exI [of _ "pubW E WorkflowExecutionExecute ?s no_opts ?w1"]
        exI [of _ "state_msg E WorkflowExecutionExecute ?s no_opts ?w1"]) (auto simp: exec_msg_def)
qed

text \<open>C5. Launching a process whose workflow is enabled and whose variables are given creates one
  execution and one process instance for every process to start, links them, announces the
  execution, and publishes for every start event the process execution and its traversal, in
  order.\<close>

theorem Launch_ok:
  assumes "launchable w processId wn wid wkf" "ns_ok E" "fresh_ids E"
    and "launchProcesses wkf processId = ret prs" "\<forall>pr \<in> set prs. vars_given E vrs pr"
  defines "eid \<equiv> ksuid E (nextId w)"
  shows "\<exists>w' m pids msss. Launch E processId vrs hs w = (Ok (eid, wid), w') \<and>
     kv_get (kvExecution w') eid =
       Some \<lparr> ex_ExecutionId = eid, ex_WorkflowId = wid, ex_WorkflowName = wf_Name wkf, ex_ProcessInstanceId = pids \<rparr> \<and>
     distinct pids \<and> list_all2 (\<lambda>pr pid. kv_get (kvProcessInstance w') pid =
       Some (new_instance pid eid [] [] (pr_Id pr) wn wid hs)) (started prs) pids \<and>
     published w' = published w @ m # concat (map concat msss) \<and> exec_msg E eid wid wn vrs m \<and>
     list_all2 (\<lambda>(pr, pid) mss. list_all2 (start_msgs E [] (pr_Id pr) wn wid eid vrs pid) (startElements pr) mss)
       (zip (started prs) pids) msss"
proof -
  obtain c where c: "launchDefinition E processId w = (Ok (wn, wid, wkf), w\<lparr> sCache := c \<rparr>)" "cache_coherent (w\<lparr> sCache := c \<rparr>)"
    using launchDefinition_ok [OF assms(1), of E] by blast
  let ?w1 = "w\<lparr> sCache := c \<rparr>"
  let ?x = "\<lparr> ex_ExecutionId = eid, ex_WorkflowId = wid, ex_WorkflowName = wf_Name wkf, ex_ProcessInstanceId = [] \<rparr>"
  have l: "reliable ?w1" "kv_get (kvDefinition ?w1) wid = Some wkf" using assms(1) by (auto simp: launchable_def)
  obtain w2 m where w2: "launchExecution E wn wid wkf vrs hs [] ?w1 = (Ok (eid, hs), w2)" "published w2 = published ?w1 @ [m]"
     "exec_msg E eid wid wn vrs m" "kv_get (kvExecution w2) eid = Some ?x" "reliable w2"
    using launchExecution_new [OF l(1) c(2) l(2) assms(2), of wn vrs hs] unfolding eid_def by auto
  obtain w3 pids msss where w3:
     "forE (\<lambda>pr. launchProcess E [] (pr_Id pr) pr wn wid eid vrs [] [] hs) prs w2 = (Ok (), w3)"
     "distinct pids" "kv_get (kvExecution w3) eid = Some (?x\<lparr> ex_ProcessInstanceId := ex_ProcessInstanceId ?x @ pids \<rparr>)"
     "list_all2 (\<lambda>pr pid. kv_get (kvProcessInstance w3) pid = Some (new_instance pid eid [] [] (pr_Id pr) wn wid hs)) (started prs) pids"
     "published w3 = published w2 @ concat (map concat msss)"
     "list_all2 (\<lambda>(pr, pid) mss. list_all2 (start_msgs E [] (pr_Id pr) wn wid eid vrs pid) (startElements pr) mss) (zip (started prs) pids) msss"
    using launch_loop [OF w2(5) assms(2,3,5) w2(4), of "[]" wn wid "[]" "[]" hs] by blast
  have "Launch E processId vrs hs w = (Ok (eid, wid), w3)"
    using c(1) w2(1) w3(1) assms(4) by (simp add: Launch_def LaunchWithParent_def bnd_apply)
  then show ?thesis using w2 w3
    by (intro exI [of _ w3] exI [of _ m] exI [of _ pids] exI [of _ msss]) simp
qed

text \<open>A child launch belongs to the execution of its parent, with the parent's headers.\<close>


section \<open>Launches that fail half way\<close>

text \<open>When a start event lacks a variable the launch fails after its execution was stored and
  announced, and no abort of the execution is published.\<close>

lemma Launch_orphan:
  assumes "launchable w processId wn wid wkf" "ns_ok E"
    and "launchProcesses wkf processId = ret (pr # prs)"
    and "Decode E [] vrs = Ok tv" "startElements pr = e # es"
    and "rangeMap (map_order E 11) (el_OutputTransform (el_data e)) = (k, x) # ts"
    and "GetVariables E x = Ok vs" "v \<in> set vs" "map_of tv v = None"
  defines "eid \<equiv> ksuid E (nextId w)"
  shows "\<exists>w' m. Launch E processId vrs hs w = (Err ErrExpectedVar, w') \<and> kv_get (kvExecution w') eid \<noteq> None \<and>
     published w' = published w @ [m] \<and> pm_Subject m = NS WorkflowExecutionExecute (e_ns E)"
proof -
  obtain c where c: "launchDefinition E processId w = (Ok (wn, wid, wkf), w\<lparr> sCache := c \<rparr>)" "cache_coherent (w\<lparr> sCache := c \<rparr>)"
    using launchDefinition_ok [OF assms(1), of E] by blast
  have l: "reliable (w\<lparr> sCache := c \<rparr>)" "kv_get (kvDefinition (w\<lparr> sCache := c \<rparr>)) wid = Some wkf"
    using assms(1) by (auto simp: launchable_def)
  obtain w2 m where w2: "launchExecution E wn wid wkf vrs hs [] (w\<lparr> sCache := c \<rparr>) = (Ok (eid, hs), w2)"
     "published w2 = published w @ [m]" "exec_msg E eid wid wn vrs m" "kv_get (kvExecution w2) eid \<noteq> None"
    using launchExecution_new [OF l(1) c(2) l(2) assms(2), of wn vrs hs] unfolding eid_def by auto
  have "launchProcess E [] (pr_Id pr) pr wn wid eid vrs [] [] hs w2 = (Err ErrExpectedVar, w2)"
    by (rule launchProcess_missing_var [OF assms(4-9)])
  then have "Launch E processId vrs hs w = (Err ErrExpectedVar, w2)"
    using c(1) w2(1) assms(3) by (simp add: Launch_def LaunchWithParent_def bnd_apply)
  then show ?thesis using w2 by (auto simp: exec_msg_def)
qed

end
