(* ===== verification/Engine.thy ===== *)
theory Engine
  imports Compensation Launch
begin

text \<open>
  The processors of \<open>internal/server/workflow/engine.go\<close>: starting an activity for an element,
  completing a job, completing an activity, launching a child, and timed starts.

  An element is looked up in the definition for every message; a missing element is a nil
  pointer, which panics where the code first looks at it.

  The lemmas describe the effect of the processors for the kinds of elements: which messages
  an activity publishes, that a stale job completion is ignored, that a job completion
  completes its activity once with the transformed variables, and the completion of a
  process by its end event.
\<close>

section \<open>Starting an activity\<close>

text \<open>Go integers of type \<open>int\<close> have 64 bits and wrap around.\<close>

definition int64 :: "int \<Rightarrow> int" where
  "int64 n = (n + 2 ^ 63) mod 2 ^ 64 - 2 ^ 63"

text \<open>The due time of a boundary timer: an \<open>int\<close> is nanoseconds from now, a string an ISO 8601
  duration, anything else means now.\<close>

definition timerDue :: "env \<Rightarrow> boundary_timer \<Rightarrow> bytes \<Rightarrow> int act" where
  "timerDue E i vrs =
     bnd (lift_res (Decode E [] vrs)) (\<lambda>v.
     bnd (lift_res (EvalAny E (bt_Duration i) v)) (\<lambda>r.
     bnd (timeNow E) (\<lambda>ut.
     case r of
       VInt KInt x \<Rightarrow> ret (int64 (ut + x))
     | VString x \<Rightarrow> bnd (lift_res (ParseISO8601 x)) (\<lambda>dur. ret (Shift dur ut))
     | _ \<Rightarrow> ret ut)))"

definition startTimer :: "env \<Rightarrow> workflow_state \<Rightarrow> workflow_state \<Rightarrow> boundary_timer \<Rightarrow> unit act" where
  "startTimer E traversal newState i =
     bnd (timeNow E) (\<lambda>now.
     let timerState = newState\<lparr> ws_Execute := Some (bt_Target i), ws_UnixTimeNano := now,
                        ws_Timer := Some \<lparr> wt_LastFired = 0, wt_Count = 0 \<rparr> \<rparr>
     in bnd (timerDue E i (ws_Vars traversal)) (\<lambda>ut.
        bnd (PublishWorkflowState E (NS WorkflowElementTimedExecute (e_ns E)) timerState (WithEmbargo ut)) (\<lambda>_. ret ())))"

text \<open>The service task of an element, with the version resolved when the element has none, and
  written to the element.  An error other than a missing name is dropped and leaves the empty
  version.\<close>

definition serviceVersion :: "string \<Rightarrow> elem_data \<Rightarrow> elem_data act" where
  "serviceVersion wid el =
     (case el_Version el of
        Some v \<Rightarrow> ret el
      | None \<Rightarrow>
          bnd (handle (GetTaskSpecUID (el_Execute el))
                 (\<lambda>e. if e = ErrKeyNotFound then fail (ErrWorkflowFatal e None) else ret []) ret) (\<lambda>v.
          bnd (writeElement wid el (\<lambda>d. d\<lparr> el_Version := Some v \<rparr>)) (\<lambda>_.
          ret (el\<lparr> el_Version := Some v \<rparr>))))"

text \<open>The embargo of an intermediate timer event.\<close>

definition timerEmbargo :: "env \<Rightarrow> elem_data \<Rightarrow> bytes \<Rightarrow> int act" where
  "timerEmbargo E el vrs =
     bnd (handle (lift_res (Decode E [] vrs)) (\<lambda>e. fail (ErrWorkflowFatal e None)) ret) (\<lambda>varmap.
     bnd (handle (lift_res (EvalAny E (el_Execute el) varmap)) (\<lambda>e. fail (ErrWorkflowFatal e None)) ret) (\<lambda>r.
     case r of
       VString em \<Rightarrow>
         (case Atoi em of
            Some v \<Rightarrow> bnd (timeNow E) (\<lambda>now. ret (int64 (v + now)))
          | None \<Rightarrow>
              bnd (handle (lift_res (ParseISO8601 em)) (\<lambda>e. fail (ErrWorkflowFatal e None)) ret) (\<lambda>pem.
              bnd (timeNow E) (\<lambda>now. ret (Shift pem now))))
     | VInt KInt em \<Rightarrow> bnd (timeNow E) (\<lambda>now. ret (int64 (em + now)))
     | _ \<Rightarrow> fail (ErrWorkflowFatal (ErrOther ''timer embargo value could not be evaluated to an int or a duration'') None)))"

definition startIntermediateTimer :: "env \<Rightarrow> elem_data \<Rightarrow> workflow_state \<Rightarrow> workflow_state \<Rightarrow> workflow_state act" where
  "startIntermediateTimer E el traversal newState =
     bnd (timerEmbargo E el (ws_Vars traversal)) (\<lambda>embargo.
     bnd (newID E) (\<lambda>nid.
     let newState = newState\<lparr> ws_Id := Push (ws_Id newState) nid \<rparr>
     in bnd (PublishWorkflowState E (NS WorkflowJobTimerTaskExecute (e_ns E)) newState no_opts) (\<lambda>newState.
        PublishWorkflowState E (NS WorkflowJobTimerTaskComplete (e_ns E)) newState (WithEmbargo embargo))))"

text \<open>The outcome of an end event: only the end of a top level process ends the process; the
  catch errors of the element, not its error, decide between completed and errored.\<close>

definition endStatus :: "process_instance \<Rightarrow> elem_data \<Rightarrow> cancellation_state" where
  "endStatus pi el =
     (if pi_ParentProcessId pi = None \<or> pi_ParentProcessId pi = Some [] then
        (if el_Errors el = [] then completed else errored)
      else executing)"

text \<open>The switch over the type of the element; the result is the status with the new state.\<close>

definition startDispatch :: "env \<Rightarrow> process_instance \<Rightarrow> elem_data \<Rightarrow> workflow_state \<Rightarrow> workflow_state
    \<Rightarrow> (cancellation_state \<times> workflow_state) act" where
  "startDispatch E pi el traversal newState =
     (let executed = (\<lambda>m. bnd m (\<lambda>s. ret (executing, s)))
      in if el_Type el = StartEvent then
           bnd (lift_res (OutputVars E (ws_Vars traversal) [] (el_OutputTransform el))) (\<lambda>initVars.
           executed (completeActivity E (newState\<lparr> ws_State := executing, ws_Vars := initVars \<rparr>)))
         else if el_Type el = Gateway then
           (case el_Gateway el of
              None \<Rightarrow> panic
            | Some g \<Rightarrow>
                if gw_Direction g = convergent
                then bnd (PublishWorkflowState E WorkflowJobGatewayTaskActivate (newState\<lparr> ws_State := executing \<rparr>) no_opts)
                       (\<lambda>_. ret (executing, newState))
                else bnd (completeActivity E (newState\<lparr> ws_State := executing \<rparr>)) (\<lambda>_. ret (executing, newState)))
         else if el_Type el = ServiceTask then
           bnd (serviceVersion (pi_WorkflowId pi) el) (\<lambda>el.
           executed (startJob E (WorkflowJobServiceTaskExecute @ ''.'' @ the (el_Version el)) newState el (ws_Vars traversal) no_opts))
         else if el_Type el = UserTask then
           executed (startJob E WorkflowJobUserTaskExecute newState el (ws_Vars traversal) no_opts)
         else if el_Type el = ManualTask then
           executed (startJob E WorkflowJobManualTaskExecute newState el (ws_Vars traversal) no_opts)
         else if el_Type el = MessageIntermediateThrowEvent then
           bnd (GetWorkflow E (pi_WorkflowId pi)) (\<lambda>wkf.
           if list_ex (\<lambda>v. el_Name v = el_Execute el) (wf_Messages wkf)
           then executed (startJob E (WorkflowJobSendMessageExecute @ ''.'' @ pi_WorkflowName pi @ ''_'' @ el_Execute el)
                            newState el (ws_Vars traversal) no_opts)
           else fail (ErrWorkflowFatal (ErrOther ''unknown workflow message name'') None))
         else if el_Type el = CallActivity then
           executed (startJob E (NS WorkflowJobLaunchExecute (e_ns E)) newState el (ws_Vars traversal) no_opts)
         else if el_Type el = MessageIntermediateCatchEvent then
           bnd (startJob E WorkflowJobAwaitMessageExecute
                  (newState\<lparr> ws_Execute := Some (el_Execute el), ws_Condition := Some (el_Msg el) \<rparr>) el (ws_Vars newState) no_opts)
             (\<lambda>_. ret (executing, newState))
         else if el_Type el = TimerIntermediateCatchEvent then
           executed (startIntermediateTimer E el traversal newState)
         else if el_Type el = EndEvent then
           (let status = endStatus pi el
            in bnd (completeActivity E (newState\<lparr> ws_State := status \<rparr>)) (\<lambda>s. ret (status, s)))
         else if el_Type el = CompensateEndEvent then
           executed (Compensate E newState)
         else executed (completeActivity E (newState\<lparr> ws_State := executing \<rparr>)))"

text \<open>The completion of the process when the status is final.\<close>

definition startFinish :: "env \<Rightarrow> process_instance \<Rightarrow> (string \<times> element) list \<Rightarrow> elem_data \<Rightarrow> cancellation_state \<Rightarrow> workflow_state
    \<Rightarrow> unit act" where
  "startFinish E pi els el status newState =
     (if status \<in> {completed, errored, terminated} then
        let newState = newState\<lparr> ws_Id := [pi_ProcessInstanceId pi], ws_State := status, ws_Error := el_Error el \<rparr>
        in bnd (if status = completed then
                  (case map_of els (ws_ElementId newState) of
                     None \<Rightarrow> panic
                   | Some e \<Rightarrow>
                       if el_OutputTransform (el_data e) \<noteq> []
                       then bnd (lift_res (OutputVars E (ws_Vars newState) [] (el_OutputTransform (el_data e))))
                              (\<lambda>finalVars. ret (newState\<lparr> ws_Vars := finalVars \<rparr>))
                       else ret newState)
                else ret newState) (\<lambda>newState.
           bnd (PublishWorkflowState E WorkflowProcessComplete newState no_opts) (\<lambda>_. ret ()))
      else ret ())"

definition activityStartProcessor :: "env \<Rightarrow> string \<Rightarrow> workflow_state \<Rightarrow> bool \<Rightarrow> unit act" where
  "activityStartProcessor E newActivityID traversal traverseOnly =
     handle (GetProcessInstance (ws_ProcessInstanceId traversal))
       (\<lambda>e. if e = ErrProcessInstanceNotFound \<or> e = ErrKeyNotFound then ret () else fail e)
       (\<lambda>pi.
     bnd (GetWorkflow E (pi_WorkflowId pi)) (\<lambda>wkf.
     let els = ElementTable (map_order E 12) wkf;
         elem = map_option el_data (map_of els (ws_ElementId traversal))
     in if traverseOnly \<and> elem = None then panic
        else
          let elem = (if traverseOnly then map_option (\<lambda>d. d\<lparr> el_Type := ''forceTraversal'' \<rparr>) elem else elem);
              newState = traversal\<lparr> ws_Id := Push (Pop (ws_Id traversal)) newActivityID \<rparr>
          in bnd (PublishWorkflowState E WorkflowActivityExecute newState no_opts) (\<lambda>newState.
             bnd (RecordHistoryActivityExecute newState) (\<lambda>_.
             bnd (PublishWorkflowState E WorkflowTraversalComplete traversal no_opts) (\<lambda>traversal.
             case elem of
               None \<Rightarrow> panic
             | Some el \<Rightarrow>
                 bnd (forE (startTimer E traversal newState) (el_BoundaryTimer el)) (\<lambda>_.
                 bnd (startDispatch E pi el traversal newState) (\<lambda>(status, newState).
                 startFinish E pi els el status newState)))))))"

section \<open>Completing a job\<close>

text \<open>A missing field of the history entry is a nil dereference.\<close>

definition workfFlowStateFrom :: "history_entry \<Rightarrow> (goerr, workflow_state) res" where
  "workfFlowStateFrom a =
     (case (he_WorkflowId a, he_ExecutionId a, he_ElementId a, he_ProcessInstanceId a, he_CancellationState a) of
        (Some wid, Some xid, Some eid, Some pid, Some st) \<Rightarrow>
          Ok (empty_state\<lparr> ws_Id := he_Id a, ws_WorkflowId := wid, ws_ExecutionId := xid, ws_ElementId := eid,
             ws_ProcessInstanceId := pid, ws_State := st, ws_Vars := he_Vars a, ws_Timer := he_Timer a,
             ws_Error := he_Error a, ws_UnixTimeNano := he_UnixTimeNano a, ws_Execute := he_Execute a,
             ws_ProcessId := he_ProcessId a, ws_SatisfiesGatewayExpectation := he_SatisfiesGatewayExpectation a,
             ws_GatewayExpectations := he_GatewayExpectations a, ws_WorkflowName := he_WorkflowName a \<rparr>)
      | _ \<Rightarrow> Panic)"

definition completeJobProcessor :: "env \<Rightarrow> workflow_state \<Rightarrow> unit act" where
  "completeJobProcessor E job =
     handle (GetProcessHistoryItem (ws_ProcessInstanceId job) (ParentID (ws_Id job)) activityExecute)
       (\<lambda>e. if e = ErrKeyNotFound then ret () else fail e)
       (\<lambda>_.
     handle (GetProcessInstance (ws_ProcessInstanceId job))
       (\<lambda>e. if e = ErrProcessInstanceNotFound then ret () else fail e)
       (\<lambda>pi.
     bnd (GetWorkflow E (pi_WorkflowId pi)) (\<lambda>wkf.
     let els = ElementTable (map_order E 12) wkf;
         newID = Pop (ws_Id job)
     in handle (GetProcessHistoryItem (ws_ProcessInstanceId job) (TID newID) activityExecute)
          (\<lambda>e. if e = ErrKeyNotFound then ret () else fail e)
          (\<lambda>activityStart.
        bnd (lift_res (workfFlowStateFrom activityStart)) (\<lambda>oldState.
        case map_of els (ws_ElementId job) of
          None \<Rightarrow> panic
        | Some e \<Rightarrow>
            let el = el_data e
            in bnd (lift_res (OutputVars E (ws_Vars job) (ws_Vars oldState) (el_OutputTransform el))) (\<lambda>vrs.
               bnd (completeActivity E (oldState\<lparr> ws_Vars := vrs, ws_Id := newID, ws_State := ws_State job,
                      ws_ElementId := el_Id el, ws_ElementType := el_Type el \<rparr>)) (\<lambda>_.
               bnd (RecordHistoryJobComplete job) (\<lambda>_.
               DeleteJob (TID (ws_Id job))))))))))"

section \<open>Completing an activity\<close>

text \<open>A link throw event is connected to the first link catch event of the same name that
  ranging over the table meets; the connection is the default target, and is written to the
  element.\<close>

definition linkTargets :: "env \<Rightarrow> string \<Rightarrow> (string \<times> element) list \<Rightarrow> elem_data \<Rightarrow> targets option act" where
  "linkTargets E wid els el =
     (if el_Type el = LinkIntermediateThrowEvent then
        (case find (\<lambda>(_, t). el_Type (el_data t) = LinkIntermediateCatchEvent \<and> el_Execute (el_data t) = el_Execute el)
                (rangeMap (map_order E 13) els) of
           None \<Rightarrow> fail (ErrWorkflowFatal (ErrOther ''corresponding catch not found'') None)
         | Some (_, t) \<Rightarrow>
             let ob = Some \<lparr> tgs_Target = [\<lparr> tg_Id = [], tg_Conditions = [], tg_Target = el_Id (el_data t) \<rparr>],
                             tgs_DefaultTarget = 0 \<rparr>
             in bnd (writeElement wid el (\<lambda>d. d\<lparr> el_Outbound := ob \<rparr>)) (\<lambda>_. ret ob))
      else ret (el_Outbound el))"

text \<open>The end of a process that a call activity started: the job of the call activity is
  completed and deleted, the instance is destroyed, and the completion of the job is
  published once more.  The error of \<open>GetExecution\<close> is compared with the error of the store,
  which it never is, and the error returned instead of it is nil at that point.\<close>

definition completeParentJob :: "env \<Rightarrow> workflow_state \<Rightarrow> process_instance option \<Rightarrow> string \<Rightarrow> unit act" where
  "completeParentJob E state pi jobID =
     bnd (handle (GetJob jobID) (\<lambda>e. if e = ErrJobNotFound then ret None else fail e)
            (\<lambda>j. bnd (PublishWorkflowState E WorkflowJobLaunchComplete (j\<lparr> ws_Vars := ws_Vars state, ws_Error := ws_Error state \<rparr>) no_opts)
                   (\<lambda>j. ret (Some j)))) (\<lambda>j.
     bnd (handle (DeleteJob jobID) (\<lambda>e. if e \<noteq> ErrKeyNotFound then fail e else ret ()) ret) (\<lambda>_.
     bnd (handle (GetExecution (ws_ExecutionId state))
            (\<lambda>e. if e \<noteq> ErrKeyNotFound then fail (ErrOther ''activity complete processor failed to get execution'') else ret None)
            (\<lambda>x. ret (Some x))) (\<lambda>execution.
     bnd (case pi of
            None \<Rightarrow> ret ()
          | Some p \<Rightarrow>
              (case execution of
                 None \<Rightarrow> panic
               | Some x \<Rightarrow>
                   handle (destroyProcessInstance E state (pi_ProcessInstanceId p) (ex_ExecutionId x))
                     (\<lambda>e. if e \<noteq> ErrKeyNotFound then fail e else ret ()) (\<lambda>_. ret ()))) (\<lambda>_.
     case j of
       None \<Rightarrow> panic
     | Some j \<Rightarrow> bnd (PublishWorkflowState E WorkflowJobLaunchComplete j no_opts) (\<lambda>_. ret ())))))"

definition activityCompleteProcessor :: "env \<Rightarrow> workflow_state \<Rightarrow> unit act" where
  "activityCompleteProcessor E state =
     bnd (handle (GetProcessHistoryItem (ws_ProcessInstanceId state) (TID (ws_Id state)) activityExecute)
            (\<lambda>e. if e = ErrKeyNotFound then ret False else fail e)
            (\<lambda>old. case he_CancellationState old of
                     None \<Rightarrow> panic
                   | Some c \<Rightarrow> ret (c = obsolete \<and> ws_State state = obsolete))) (\<lambda>stale.
     if stale then ret ()
     else
     bnd (handle (GetProcessInstance (ws_ProcessInstanceId state))
            (\<lambda>e. if e = ErrProcessInstanceNotFound then ret None else fail e) (\<lambda>pi. ret (Some pi))) (\<lambda>pi.
     bnd (GetWorkflow E (ws_WorkflowId state)) (\<lambda>wkf.
     let els = ElementTable (map_order E 12) wkf;
         newID = Pop (ws_Id state)
     in case map_of els (ws_ElementId state) of
          None \<Rightarrow> panic
        | Some e \<Rightarrow>
            bnd (linkTargets E (ws_WorkflowId state) els (el_data e)) (\<lambda>outbound.
            bnd (if pi = None then ret (Some state)
                 else handle (traverse E newID outbound els state)
                        (\<lambda>e. if IsWorkflowFatal e then ret None else fail e) (\<lambda>s. ret (Some s))) (\<lambda>traversed.
            case traversed of
              None \<Rightarrow> ret ()
            | Some state \<Rightarrow>
                if ws_ElementType state \<in> {EndEvent, CompensateEndEvent} \<and> length (ws_Id state) > 2
                   \<and> Ancestor (ws_Id state) 2 \<noteq> ws_ExecutionId state
                then completeParentJob E state pi (Ancestor (ws_Id state) 2)
                else ret ())))))"

section \<open>Child launches and timed starts\<close>

definition launchProcessor :: "env \<Rightarrow> workflow_state \<Rightarrow> unit act" where
  "launchProcessor E state =
     handle (GetWorkflow E (ws_WorkflowId state)) (\<lambda>_. fail (ErrWorkflowFatal ErrWorkflowNotFound None)) (\<lambda>wkf.
     bnd (GetProcessInstance (ws_ProcessInstanceId state)) (\<lambda>pi.
     case map_of (ElementTable (map_order E 12) wkf) (ws_ElementId state) of
       None \<Rightarrow> panic
     | Some e \<Rightarrow>
         handle (LaunchWithParent (E\<lparr> e_trace := ws_TraceParent state \<rparr>) (el_Execute (el_data e)) (ws_Id state) (ws_Vars state)
                   (pi_Headers pi) (ws_ProcessInstanceId state) (ws_ElementId state))
           (\<lambda>err. fail (ErrWorkflowFatal err None)) (\<lambda>_. ret ())))"

definition newTraceID :: "env \<Rightarrow> string act" where
  "newTraceID E = (\<lambda>w. (Ok (trace_id E (nextId w)), w\<lparr> nextId := Suc (nextId w) \<rparr>))"

text \<open>Whether a timer is due: \<open>None\<close> when a repeating timer has fired often enough.\<close>

definition timerFires :: "workflow_timer_definition \<Rightarrow> workflow_timer \<Rightarrow> int \<Rightarrow> bool option" where
  "timerFires t tm now =
     (case wtd_Type t of
        timer_fixed \<Rightarrow> Some (wtd_Value t \<le> now)
      | timer_duration \<Rightarrow>
          if wtd_Repeat t \<noteq> 0 \<and> wt_Count tm \<ge> wtd_Repeat t then None
          else Some (int64 (now - wt_LastFired tm) \<ge> wtd_Value t))"

definition fireTimer :: "env \<Rightarrow> workflow \<Rightarrow> (string \<times> element) list \<Rightarrow> elem_data \<Rightarrow> workflow_state \<Rightarrow> workflow_state \<Rightarrow> int
    \<Rightarrow> (bool \<times> int \<times> goerr option) act" where
  "fireTimer E wkf els el state newTimer fireNext =
     handle (createExecution E (empty_execution\<lparr> ex_WorkflowId := ws_WorkflowId state, ex_WorkflowName := ws_WorkflowName state \<rparr>))
       (\<lambda>e. ret (False, 0, Some e)) (\<lambda>exec.
     handle (createProcessInstance E (ex_ExecutionId exec) [] [] (ws_ProcessId state) (wf_Name wkf) (ws_WorkflowId state) (wf_AutoLaunchHeaders wkf))
       (\<lambda>e. ret (False, 0, Some e)) (\<lambda>pi.
     let state = state\<lparr> ws_ExecutionId := pi_ExecutionId pi, ws_ProcessInstanceId := pi_ProcessInstanceId pi \<rparr>
     in bnd (newTraceID E) (\<lambda>tp.
        let processWfState = state\<lparr> ws_TraceParent := tp, ws_Id := [ws_ExecutionId state, ws_ProcessInstanceId state] \<rparr>
        in handle (PublishWorkflowState E WorkflowProcessExecute processWfState no_opts) (\<lambda>_. ret (False, 0, None)) (\<lambda>processWfState.
           handle (RecordHistoryProcessStart processWfState) (\<lambda>e. ret (False, 0, Some e)) (\<lambda>_.
           handle (lift_res (OutputVars E (ws_Vars newTimer) (ws_Vars newTimer) (el_OutputTransform el))) (\<lambda>_. ret (False, 0, None)) (\<lambda>vrs.
           bnd (newID E) (\<lambda>tid.
           handle (traverse E [tid] (el_Outbound el) els state) (\<lambda>_. ret (False, 0, None)) (\<lambda>_.
           handle (PublishWorkflowState E WorkflowTimedExecute (newTimer\<lparr> ws_Vars := vrs \<rparr>) no_opts)
             (\<lambda>_. ret (False, fireNext, None)) (\<lambda>_. ret (True, 0, None))))))))))"

text \<open>The result is the acknowledgement, the delay of a negative acknowledgement, and the
  error.\<close>

definition timedExecuteProcessor :: "env \<Rightarrow> workflow_state \<Rightarrow> (bool \<times> int \<times> goerr option) act" where
  "timedExecuteProcessor E state =
     handle (GetWorkflow E (ws_WorkflowId state)) (\<lambda>e. ret (True, 0, Some e)) (\<lambda>wkf.
     let els = ElementTable (map_order E 12) wkf
     in bnd (timeNow E) (\<lambda>now.
        case (ws_Timer state, Option.bind (map_of els (ws_ElementId state)) (\<lambda>e. map_option (Pair (el_data e)) (el_Timer (el_data e)))) of
          (Some tm, Some (el, t)) \<Rightarrow>
            let fireNext = int64 (wt_LastFired tm + int64 (wtd_Value t * 2));
                newTimer = state\<lparr> ws_Timer := Some \<lparr> wt_LastFired = now, wt_Count = int64 (wt_Count tm + 1) \<rparr> \<rparr>
            in (case timerFires t tm now of
                  None \<Rightarrow> ret (True, 0, None)
                | Some True \<Rightarrow> fireTimer E wkf els el state newTimer fireNext
                | Some False \<Rightarrow>
                    if wtd_Type t = timer_duration then ret (False, int64 (fireNext - now), None) else ret (True, 0, None))
        | _ \<Rightarrow> panic))"

section \<open>A job completes its activity once\<close>

lemma ParentID_Pop: "ParentID t = TID (Pop t)"
  by (cases t rule: rev_cases) (auto simp: ParentID_def Ancestor_def TID_def Pop_def nth_append nat_int_pred last_conv_nth split: if_splits)

lemma Push_Pop_Push [simp]: "TID (Push t i) = i" "Pop (Push t i) = t"
  by (simp_all add: tid.top_push tid.pop_push)

text \<open>The history of a running activity and the definitions its job refers to.\<close>

definition job_ready :: "env \<Rightarrow> world \<Rightarrow> workflow_state \<Rightarrow> workflow_state \<Rightarrow> elem_data \<Rightarrow> bool" where
  "job_ready E w job old el \<longleftrightarrow> reliable w \<and> cache_coherent w \<and>
     (\<exists>act pi wkf e. kv_get (kvHistory w) (historyKey (ws_ProcessInstanceId job) (TID (Pop (ws_Id job))) activityExecute) = Some act \<and>
        workfFlowStateFrom act = Ok old \<and> kv_get (kvProcessInstance w) (ws_ProcessInstanceId job) = Some pi \<and>
        kv_get (kvDefinition w) (pi_WorkflowId pi) = Some wkf \<and>
        map_of (ElementTable (map_order E 12) wkf) (ws_ElementId job) = Some e \<and> el_data e = el)"

text \<open>C19. The completion of a job completes its activity: the variables of the output transformation
  are merged into those the activity started with, one activity completion is published on the
  id of the activity, the job is deleted and its completion recorded in the history.\<close>

theorem completeJob_ok:
  assumes "job_ready E w job old el" "ns_ok E"
    and "OutputVars E (ws_Vars job) (ws_Vars old) (el_OutputTransform el) = Ok vrs"
  shows "\<exists>w' m s. completeJobProcessor E job w = (Ok (), w') \<and> published w' = published w @ [m] \<and>
     pm_Subject m = NS WorkflowActivityComplete (e_ns E) \<and> pm_Payload m = PState s \<and>
     ws_Id s = Pop (ws_Id job) \<and> ws_Vars s = vrs \<and> ws_State s = ws_State job \<and> ws_ElementId s = el_Id el \<and>
     (\<forall>k. kv_get (kvJob w') k = (if k = TID (ws_Id job) then None else kv_get (kvJob w) k)) \<and>
     kv_get (kvHistory w') (historyKey (ws_ProcessInstanceId job) (TID (ws_Id job)) jobComplete) = Some (history_of job jobComplete)"
proof -
  obtain act pi wkf e where h: "reliable w" "cache_coherent w"
    and a: "kv_get (kvHistory w) (historyKey (ws_ProcessInstanceId job) (TID (Pop (ws_Id job))) activityExecute) = Some act"
      "workfFlowStateFrom act = Ok old" "kv_get (kvProcessInstance w) (ws_ProcessInstanceId job) = Some pi"
    and d: "kv_get (kvDefinition w) (pi_WorkflowId pi) = Some wkf"
      "map_of (ElementTable (map_order E 12) wkf) (ws_ElementId job) = Some e" "el_data e = el"
    using assms(1) by (auto simp: job_ready_def)
  obtain c where c: "GetWorkflow E (pi_WorkflowId pi) w = (Ok wkf, w\<lparr> sCache := c \<rparr>)"
    using GetWorkflow_reliable [OF h d(1), of E] by auto
  show ?thesis
    using h a d c assms(2,3)
    by (simp add: completeJobProcessor_def ParentID_Pop bnd_apply handle_apply Let_def RecordHistoryJobComplete_def DropStateParams_def)
qed

text \<open>A job whose activity has no history entry any more, or whose instance is gone, is dropped.\<close>

lemma completeJob_stale:
  assumes "reliable w"
    and "kv_get (kvHistory w) (historyKey (ws_ProcessInstanceId job) (TID (Pop (ws_Id job))) activityExecute) = None \<or>
         kv_get (kvProcessInstance w) (ws_ProcessInstanceId job) = None"
  shows "completeJobProcessor E job w = (Ok (), w)"
  using assms by (auto simp: completeJobProcessor_def ParentID_Pop handle_apply split: option.splits)

section \<open>An activity starts\<close>

text \<open>What an arriving traversal refers to.\<close>

definition start_ready :: "env \<Rightarrow> world \<Rightarrow> workflow_state \<Rightarrow> process_instance \<Rightarrow> workflow \<Rightarrow> elem_data \<Rightarrow> bool" where
  "start_ready E w tr pi wkf el \<longleftrightarrow> reliable w \<and> cache_coherent w \<and>
     kv_get (kvProcessInstance w) (ws_ProcessInstanceId tr) = Some pi \<and> kv_get (kvDefinition w) (pi_WorkflowId pi) = Some wkf \<and>
     (\<exists>e. map_of (ElementTable (map_order E 12) wkf) (ws_ElementId tr) = Some e \<and> el_data e = el)"

text \<open>The state of the new activity and the world after it was announced and recorded.\<close>

definition started_state :: "env \<Rightarrow> world \<Rightarrow> string \<Rightarrow> workflow_state \<Rightarrow> workflow_state" where
  "started_state E w aid tr = tr\<lparr> ws_Id := Push (Pop (ws_Id tr)) aid, ws_UnixTimeNano := clock E (ticks w) \<rparr>"

definition started_world :: "env \<Rightarrow> world \<Rightarrow> string \<Rightarrow> workflow_state \<Rightarrow> world" where
  "started_world E w aid tr =
     pubW E WorkflowTraversalComplete tr no_opts
       (kvHistory_update (kv_put (historyKey (ws_ProcessInstanceId tr) aid activityExecute) (history_of (started_state E w aid tr) activityExecute))
         (pubW E WorkflowActivityExecute (tr\<lparr> ws_Id := Push (Pop (ws_Id tr)) aid \<rparr>) no_opts w))"

lemma started_sel [simp]:
  "ws_Id (started_state E w aid tr) = Push (Pop (ws_Id tr)) aid"
  "ws_ProcessInstanceId (started_state E w aid tr) = ws_ProcessInstanceId tr"
  "ws_ElementId (started_state E w aid tr) = ws_ElementId tr"
  "ws_Vars (started_state E w aid tr) = ws_Vars tr"
  "faults (started_world E w aid tr) = faults w"
  "sCache (started_world E w aid tr) = sCache w"
  "kvDefinition (started_world E w aid tr) = kvDefinition w"
  "kvJob (started_world E w aid tr) = kvJob w"
  "nextId (started_world E w aid tr) = Suc (Suc (nextId w))"
  "map pm_Subject (published (started_world E w aid tr)) = map pm_Subject (published w) @
     [NS WorkflowActivityExecute (e_ns E), NS WorkflowTraversalComplete (e_ns E)]"
  by (simp_all add: started_state_def started_world_def)

lemma activityStart_run:
  assumes "start_ready E w tr pi wkf el" "ns_ok E" "el_BoundaryTimer el = []"
  shows "\<exists>c t. activityStartProcessor E aid tr False w =
     bnd (startDispatch E pi el (tr\<lparr> ws_UnixTimeNano := t \<rparr>) (started_state E w aid tr))
       (\<lambda>(status, s). startFinish E pi (ElementTable (map_order E 12) wkf) el status s)
       (started_world E (w\<lparr> sCache := c \<rparr>) aid tr)"
proof -
  obtain e where h: "reliable w" "cache_coherent w" "kv_get (kvProcessInstance w) (ws_ProcessInstanceId tr) = Some pi"
    and d: "kv_get (kvDefinition w) (pi_WorkflowId pi) = Some wkf"
    and e: "map_of (ElementTable (map_order E 12) wkf) (ws_ElementId tr) = Some e" "el_data e = el"
    using assms(1) by (auto simp: start_ready_def)
  obtain c where c: "GetWorkflow E (pi_WorkflowId pi) w = (Ok wkf, w\<lparr> sCache := c \<rparr>)"
    using GetWorkflow_reliable [OF h(1,2) d, of E] by auto
  show ?thesis
    using h e c assms(2,3)
    by (intro exI [of _ c] exI [of _ "clock E (Suc (ticks w))"])
       (simp add: activityStartProcessor_def handle_apply bnd_apply Let_def RecordHistoryActivityExecute_def started_world_def started_state_def)
qed

text \<open>The end event of a top level process completes its activity and then the process.\<close>


text \<open>A manual task opens one job for the activity and waits: the activity is not completed.\<close>

theorem activityStart_manual:
  assumes "start_ready E w tr pi wkf el" "ns_ok E" "el_BoundaryTimer el = []" "el_Type el = ManualTask"
    and "el_Iteration el = None" "InputVars E (ws_Vars tr) [] el = Ok vrs"
  shows "\<exists>w' jid job. activityStartProcessor E aid tr False w = (Ok (), w') \<and>
     map pm_Subject (published w') = map pm_Subject (published w) @
       map (\<lambda>n. NS n (e_ns E)) [WorkflowActivityExecute, WorkflowTraversalComplete, WorkflowJobManualTaskExecute] \<and>
     (\<forall>k. kv_get (kvJob w') k = (if k = jid then Some job else kv_get (kvJob w) k)) \<and>
     ws_Id job = Push (Push (Pop (ws_Id tr)) aid) jid \<and> ws_Vars job = vrs \<and> ws_ElementId job = ws_ElementId tr"
proof -
  have h: "reliable w" using assms(1) by (auto simp: start_ready_def)
  obtain c t where r: "activityStartProcessor E aid tr False w =
     bnd (startDispatch E pi el (tr\<lparr> ws_UnixTimeNano := t \<rparr>) (started_state E w aid tr))
       (\<lambda>(status, s). startFinish E pi (ElementTable (map_order E 12) wkf) el status s) (started_world E (w\<lparr> sCache := c \<rparr>) aid tr)"
    using activityStart_run [OF assms(1-3)] by blast
  let ?w = "started_world E (w\<lparr> sCache := c \<rparr>) aid tr"
  let ?job = "prepared el vrs (ksuid E (nextId ?w)) (started_state E w aid tr)"
  have ne: "ManualTask \<notin> {StartEvent, Gateway, ServiceTask, UserTask, MessageIntermediateCatchEvent}" by (simp add: element_type_defs)
  obtain w' where w': "startJob E WorkflowJobManualTaskExecute (started_state E w aid tr) el (ws_Vars tr) no_opts ?w =
      (Ok (?job\<lparr> ws_UnixTimeNano := clock E (ticks ?w) \<rparr>), w')"
    "\<forall>k. kv_get (kvJob w') k = (if k = ksuid E (nextId ?w) then Some ?job else kv_get (kvJob w) k)"
    "published w' = published ?w @ [state_msg E (NS WorkflowJobManualTaskExecute (e_ns E)) ?job no_opts (?w\<lparr> nextId := Suc (nextId ?w) \<rparr>)]"
    using startJob_simple [of ?w el E "ws_Vars tr" vrs WorkflowJobManualTaskExecute "started_state E w aid tr" no_opts] h ne assms(2,4,5,6)
    by auto
  show ?thesis unfolding r using w' h ne assms(4)
    by (intro exI [of _ w'] exI [of _ "ksuid E (nextId ?w)"] exI [of _ ?job])
       (simp add: startDispatch_def startFinish_def Let_def bnd_apply prepared_def NS_subjects_idem [OF assms(2)] split: option.splits)
qed

section \<open>An activity completes\<close>

text \<open>The completion of an activity follows its outbound connections: exactly one traversal is
  published for each chosen branch, in the order the branches are ranged over.\<close>

text \<open>C18. The completion of an activity follows its outbound connections: exactly one traversal is
  published for each chosen branch, one level below the parent's tracking id, with the variables
  of the activity and the gateway expectations of the branch.\<close>

theorem activityComplete_traverses:
  assumes "trav_inv wkf (ws_WorkflowId st) w" "ns_ok E"
    and "kv_get (kvProcessInstance w) (ws_ProcessInstanceId st) = Some pi"
    and "kv_get (kvHistory w) (historyKey (ws_ProcessInstanceId st) (TID (ws_Id st)) activityExecute) = Some old"
      "he_CancellationState old = Some executing"
    and "map_of (ElementTable (map_order E 12) wkf) (ws_ElementId st) = Some e"
    and "el_Type (el_data e) \<noteq> LinkIntermediateThrowEvent" "ws_ElementType st \<notin> {EndEvent, CompensateEndEvent}"
    and "el_Outbound (el_data e) = Some ob" "chooseTargets E (ws_Vars st) ob = Ok sel"
    and "reciprocatedDivergent (el_data e) = Ok recip"
    and "\<forall>(b, elID) \<in> set (rangeMap (map_order E 8) sel). resolves wkf (ElementTable (map_order E 12) wkf) st elID"
  shows "\<exists>ms w' gw st'. activityCompleteProcessor E st w = (Ok (), w') \<and> published w' = published w @ ms \<and>
     list_all2 (branch_msg E wkf (Pop (ws_Id st)) (ElementTable (map_order E 12) wkf) recip gw st') (rangeMap (map_order E 8) sel) ms \<and>
     ws_Vars st' = ws_Vars st \<and> ws_PreviousElement st' = ws_ElementId st"
proof -
  let ?els = "ElementTable (map_order E 12) wkf"
  have h: "reliable w" "cache_coherent w" "kv_get (kvDefinition w) (ws_WorkflowId st) = Some wkf"
    using assms(1) by (auto simp: trav_inv_def)
  obtain c where c: "GetWorkflow E (ws_WorkflowId st) w = (Ok wkf, w\<lparr> sCache := c \<rparr>)" "cache_coherent (w\<lparr> sCache := c \<rparr>)"
    using GetWorkflow_reliable [OF h, of E] by auto
  have inv: "trav_inv wkf (ws_WorkflowId st) (w\<lparr> sCache := c \<rparr>)" using h c(2) by (simp add: trav_inv_def)
  let ?st = "expecting E recip (ksuid E (nextId w)) sel (departed st)"
  obtain ms w' where t: "traverse E (Pop (ws_Id st)) (Some ob) ?els st (w\<lparr> sCache := c \<rparr>) = (Ok ?st, w')"
    "published w' = published w @ ms"
    "list_all2 (branch_msg E wkf (Pop (ws_Id st)) ?els recip (ksuid E (nextId w)) ?st) (rangeMap (map_order E 8) sel) ms"
    using traverse_reliable [OF inv assms(2,10,6,11,12), of "Pop (ws_Id st)"] by auto
  have "activityCompleteProcessor E st w = (Ok (), w')"
    using h c(1) t(1) assms(3-9)
    by (simp add: activityCompleteProcessor_def linkTargets_def handle_apply bnd_apply Let_def expecting_def departed_def)
  moreover have "ws_Vars ?st = ws_Vars st" "ws_PreviousElement ?st = ws_ElementId st" by (simp_all add: expecting_def departed_def)
  ultimately show ?thesis using t by blast
qed

text \<open>The version of a service task that has none is looked up once and then kept by the cached
  workflow.  A failure of the lookup is kept in the same way: the empty version.\<close>

lemma version_kept:
  assumes "el_Version el = None" "GetTaskSpecUID (el_Execute el) w = (Ok v, w1)" "map_of (sCache w1) wid = Some wkf"
  shows "\<exists>w'. serviceVersion wid el w = (Ok (el\<lparr> el_Version := Some v \<rparr>), w') \<and>
     map_of (sCache w') wid = Some (mapWorkflow (\<lambda>d. if el_Id d = el_Id el \<and> el_Type d = el_Type el then d\<lparr> el_Version := Some v \<rparr> else d) wkf)"
  using assms by (auto simp: serviceVersion_def writeElement_def bnd_apply handle_apply map_of_cached)

lemma version_lost:
  assumes "el_Version el = None" "faults w = [Some m]" "map_of (sCache w) wid = Some wkf"
  shows "\<exists>w'. serviceVersion wid el w = (Ok (el\<lparr> el_Version := Some [] \<rparr>), w') \<and>
     map_of (sCache w') wid = Some (mapWorkflow (\<lambda>d. if el_Id d = el_Id el \<and> el_Type d = el_Type el then d\<lparr> el_Version := Some [] \<rparr> else d) wkf)"
  using assms by (auto simp: serviceVersion_def GetTaskSpecUID_def GetTaskSpecVersions_def writeElement_def KvsFor_def io_def
      bnd_apply handle_apply map_of_cached)

text \<open>A link throw event continues at a link catch event of the same name.\<close>

lemma linkTargets_catch:
  assumes "el_Type el = LinkIntermediateThrowEvent" "(k, t) \<in> set (rangeMap (map_order E 13) els)"
    and "el_Type (el_data t) = LinkIntermediateCatchEvent" "el_Execute (el_data t) = el_Execute el"
  shows "\<exists>k' t' ob c. linkTargets E wid els el w = (Ok (Some ob), w\<lparr> sCache := c \<rparr>) \<and> (k', t') \<in> set (rangeMap (map_order E 13) els) \<and>
     el_Type (el_data t') = LinkIntermediateCatchEvent \<and> el_Execute (el_data t') = el_Execute el \<and>
     (\<exists>i. chooseTargets E vrs ob = Ok [(i, el_Id (el_data t'))])"
proof -
  let ?P = "\<lambda>(_, t). el_Type (el_data t) = LinkIntermediateCatchEvent \<and> el_Execute (el_data t) = el_Execute el"
  have "find ?P (rangeMap (map_order E 13) els) \<noteq> None"
    using assms(2-4) by (auto simp: find_None_iff)
  then obtain k' t' where f: "find ?P (rangeMap (map_order E 13) els) = Some (k', t')" by auto
  then have "(k', t') \<in> set (rangeMap (map_order E 13) els)" "?P (k', t')"
    by (auto simp: find_Some_iff in_set_conv_nth)
  then show ?thesis using f assms(1) by (auto simp: linkTargets_def writeElement_def bnd_apply Let_def chooseTargets_single)
qed

section \<open>Timed starts\<close>

text \<open>A fixed timer that is not yet due is acknowledged without firing and without being
  published again.\<close>

lemma fixed_timer_lost:
  assumes "reliable w" "cache_coherent w" "kv_get (kvDefinition w) (ws_WorkflowId st) = Some wkf"
    and "map_of (ElementTable (map_order E 12) wkf) (ws_ElementId st) = Some e" "el_Timer (el_data e) = Some t"
    and "wtd_Type t = timer_fixed" "clock E (ticks w) < wtd_Value t" "ws_Timer st = Some tm"
  shows "\<exists>w'. timedExecuteProcessor E st w = (Ok (True, 0, None), w') \<and> published w' = published w"
proof -
  obtain c where c: "GetWorkflow E (ws_WorkflowId st) w = (Ok wkf, w\<lparr> sCache := c \<rparr>)"
    using GetWorkflow_reliable [OF assms(1-3), of E] by auto
  show ?thesis using c assms(4-8) by (simp add: timedExecuteProcessor_def handle_apply bnd_apply Let_def timerFires_def)
qed

text \<open>A repeating timer that has fired as often as it should stops.\<close>

lemma repeat_timer_stops:
  assumes "reliable w" "cache_coherent w" "kv_get (kvDefinition w) (ws_WorkflowId st) = Some wkf"
    and "map_of (ElementTable (map_order E 12) wkf) (ws_ElementId st) = Some e" "el_Timer (el_data e) = Some t"
    and "wtd_Type t = timer_duration" "wtd_Repeat t \<noteq> 0" "ws_Timer st = Some tm" "wt_Count tm \<ge> wtd_Repeat t"
  shows "\<exists>w'. timedExecuteProcessor E st w = (Ok (True, 0, None), w') \<and> published w' = published w"
proof -
  obtain c where c: "GetWorkflow E (ws_WorkflowId st) w = (Ok wkf, w\<lparr> sCache := c \<rparr>)"
    using GetWorkflow_reliable [OF assms(1-3), of E] by auto
  show ?thesis using c assms(4-9) by (simp add: timedExecuteProcessor_def handle_apply bnd_apply Let_def timerFires_def)
qed

lemma int64_range: "- (2 ^ 63) \<le> int64 n" "int64 n < 2 ^ 63"
  by (simp_all add: int64_def)

lemma int64_id: "- (2 ^ 63) \<le> n \<Longrightarrow> n < 2 ^ 63 \<Longrightarrow> int64 n = n"
  by (simp add: int64_def)

end
