(* ===== verification/Messages.thy ===== *)
theory Messages
  imports Gateways
begin

text \<open>
  \<open>internal/server/workflow/messages.go\<close>: correlating the sender of a message with the
  catch events that wait for it, through an exchange stored under the message name and the
  correlation key.

  The lemmas relate the handlers to a small abstract exchange and show that, for one sender
  and the expected receivers arriving in any order, every receiver gets the sender's
  variables exactly once and the exchange is removed at the end.
\<close>

section \<open>Formatting a correlation key\<close>

text \<open>\<open>fmt.Sprintf("%+v", x)\<close> for the values of the expression language.\<close>

fun fmtV :: "env \<Rightarrow> val \<Rightarrow> string" and fmtKVs :: "env \<Rightarrow> (string \<times> val) list \<Rightarrow> (string \<times> string) list" where
  "fmtV E VNil = ''<nil>''"
| "fmtV E (VBool b) = (if b then ''true'' else ''false'')"
| "fmtV E (VInt _ n) = Itoa n"
| "fmtV E (VFloat x) = fmt_float E x"
| "fmtV E (VString s) = s"
| "fmtV E (VStrings ss) = ''['' @ Join '' '' ss @ '']''"
| "fmtV E (VSlice vs) = ''['' @ Join '' '' (map (fmtV E) vs) @ '']''"
| "fmtV E (VMap kvs) = ''map['' @ Join '' '' (map snd (sort_key fst (fmtKVs E kvs))) @ '']''"
| "fmtKVs E [] = []"
| "fmtKVs E ((k, v) # kvs) = (k, k @ '':'' @ fmtV E v) # fmtKVs E kvs"

definition messageKeyFrom :: "string list \<Rightarrow> string" where
  "messageKeyFrom keyElements = Join ''-'' keyElements"

section \<open>Delivery\<close>

datatype party = senderParty | receiverParty

definition empty_exchange :: exchange where
  "empty_exchange = \<lparr> xc_Sender = None, xc_Receivers = [] \<rparr>"

text \<open>The loop of \<open>hasAllReceivers\<close>: the flag starts false, so an empty list of expected
  receivers is never complete.\<close>

fun allReceived :: "bool \<Rightarrow> exchange \<Rightarrow> message_receiver list \<Rightarrow> bool" where
  "allReceived acc x [] = acc"
| "allReceived acc x (r # rs) = (if map_of (xc_Receivers x) (mr_Id r) \<noteq> None then allReceived True x rs else False)"

definition hasAllReceivers :: "exchange \<Rightarrow> string \<Rightarrow> bool act" where
  "hasAllReceivers x messageName =
     bnd KvsFor (\<lambda>_. bnd (LoadObj MsgTypesB messageName) (\<lambda>expected.
       ret (allReceived False x (mrs_MessageReceiver expected))))"

text \<open>One receiver: the flag tells whether the loop goes on.  \<open>GetJob\<close> reports a missing job as
  \<open>ErrJobNotFound\<close>, which is not the error tested for.\<close>

fun deliverTo :: "env \<Rightarrow> bytes \<Rightarrow> receiver list \<Rightarrow> bool act" where
  "deliverTo E vrs [] = ret True"
| "deliverTo E vrs (r # rs) =
     handle (GetJob (rc_Id r))
       (\<lambda>e. if e = ErrKeyNotFound then ret False else fail e)
       (\<lambda>job. bnd (PublishWorkflowState E WorkflowJobAwaitMessageComplete (job\<lparr> ws_Vars := vrs \<rparr>) no_opts)
                (\<lambda>_. deliverTo E vrs rs))"

text \<open>A sender is delivered to all the receivers, a receiver gets its own delivery.\<close>

definition recipients :: "env \<Rightarrow> party \<Rightarrow> string \<Rightarrow> exchange \<Rightarrow> receiver list act" where
  "recipients E justArrived receiverName x =
     (case justArrived of
        senderParty \<Rightarrow> ret (map snd (rangeMap (map_order E 10) (xc_Receivers x)))
      | receiverParty \<Rightarrow> (case map_of (xc_Receivers x) receiverName of Some r \<Rightarrow> ret [r] | None \<Rightarrow> panic))"

definition attemptMessageDelivery :: "env \<Rightarrow> exchange \<Rightarrow> string \<Rightarrow> party \<Rightarrow> string \<Rightarrow> string \<Rightarrow> unit act" where
  "attemptMessageDelivery E x receiverName justArrived messageName correlationKey =
     bnd KvsFor (\<lambda>_.
     case xc_Sender x of
       None \<Rightarrow> ret ()
     | Some sender \<Rightarrow>
         if xc_Receivers x = [] then ret ()
         else bnd (recipients E justArrived receiverName x) (\<lambda>receivers.
              bnd (deliverTo E (sn_Vars sender) receivers) (\<lambda>go_on.
              if \<not> go_on then ret ()
              else bnd (hasAllReceivers x messageName) (\<lambda>allIn.
                   if allIn then DeleteObj MessagesB (messageKeyFrom [messageName, correlationKey]) else ret ()))))"

definition handleMessageExchange :: "env \<Rightarrow> party \<Rightarrow> (exchange \<Rightarrow> exchange) \<Rightarrow> string \<Rightarrow> exchange \<Rightarrow> string \<Rightarrow> string \<Rightarrow> unit act" where
  "handleMessageExchange E pty setPartyFn elementId x messageName correlationKey =
     bnd KvsFor (\<lambda>_.
     let messageKey = messageKeyFrom [messageName, correlationKey]
     in bnd (handle (CreateObj MessagesB messageKey x)
               (\<lambda>e. if e = ErrKeyExists
                    then bnd (UpdateObj MessagesB messageKey empty_exchange (\<lambda>v. Ok (setPartyFn v))) (\<lambda>_. ret ())
                    else fail e)
               ret) (\<lambda>_.
        bnd (LoadObj MessagesB messageKey) (\<lambda>updated.
        attemptMessageDelivery E updated elementId pty messageName correlationKey)))"

section \<open>The two handlers\<close>

definition setSender :: "sender \<Rightarrow> exchange \<Rightarrow> exchange" where
  "setSender s x = x\<lparr> xc_Sender := Some s \<rparr>"

definition setReceiver :: "string \<Rightarrow> receiver \<Rightarrow> exchange \<Rightarrow> exchange" where
  "setReceiver elementId r x = x\<lparr> xc_Receivers := AList.update elementId r (xc_Receivers x) \<rparr>"

definition processMessage :: "env \<Rightarrow> message_instance \<Rightarrow> ack_err act" where
  "processMessage E inst =
     (let sender = \<lparr> sn_Vars = mi_Vars inst, sn_CorrelationKey = mi_CorrelationKey inst \<rparr>
      in orNak (handleMessageExchange E senderParty (setSender sender) [] \<lparr> xc_Sender = Some sender, xc_Receivers = [] \<rparr>
                  (mi_Name inst) (mi_CorrelationKey inst))
           (\<lambda>_. ret (True, None)))"

definition correlationKeyOf :: "env \<Rightarrow> elem_data \<Rightarrow> workflow_state \<Rightarrow> (goerr, string) res" where
  "correlationKeyOf E el job =
     (case Decode E [] (ws_Vars job) of
        Err e \<Rightarrow> Err (ErrWorkflowFatal e (Some job))
      | Panic \<Rightarrow> Panic
      | Ok vrs \<Rightarrow>
          (case EvalAny E (''= '' @ el_Execute el) vrs of
             Err e \<Rightarrow> Err (ErrWorkflowFatal e (Some job))
           | Panic \<Rightarrow> Panic
           | Ok VNil \<Rightarrow> Err (ErrWorkflowFatal (ErrOther ''message correlation expression was empty'') (Some job))
           | Ok v \<Rightarrow> Ok (fmtV E v)))"

definition awaitMessageProcessor :: "env \<Rightarrow> workflow_state \<Rightarrow> ack_err act" where
  "awaitMessageProcessor E job =
     guardProcess job (\<lambda>e. (True, Some e)) (\<lambda>_.
     handle (getElement E job)
       (\<lambda>e. if e = ErrKeyNotFound then ret (True, Some (ErrWorkflowFatal e (Some job))) else ret (False, Some e))
       (\<lambda>el.
     orNak (lift_res (correlationKeyOf E el job)) (\<lambda>correlationKey.
       let r = \<lparr> rc_Id = TID (ws_Id job), rc_CorrelationKey = correlationKey \<rparr>;
           elementId = ws_ElementId job
       in orNak (handleMessageExchange E receiverParty (setReceiver elementId r) elementId
                   \<lparr> xc_Sender = None, xc_Receivers = [(elementId, r)] \<rparr> (el_Msg el) correlationKey)
            (\<lambda>_. ret (True, None)))))"

section \<open>The abstract exchange\<close>

datatype ev = Send sender | Recv string receiver

text \<open>What an arrival leaves in the exchange, whom it is delivered to, and when the exchange
  is complete.\<close>

definition xput :: "ev \<Rightarrow> exchange option \<Rightarrow> exchange" where
  "xput v x = (case v of Send s \<Rightarrow> setSender s | Recv e r \<Rightarrow> setReceiver e r)
     (case x of Some x \<Rightarrow> x | None \<Rightarrow> empty_exchange)"

definition xdeliver :: "env \<Rightarrow> ev \<Rightarrow> exchange \<Rightarrow> receiver list" where
  "xdeliver E v x =
     (if xc_Sender x = None \<or> xc_Receivers x = [] then []
      else case v of Send _ \<Rightarrow> map snd (rangeMap (map_order E 10) (xc_Receivers x)) | Recv _ r \<Rightarrow> [r])"

definition xcomplete :: "message_receivers \<Rightarrow> exchange \<Rightarrow> bool" where
  "xcomplete rcv x \<longleftrightarrow> xc_Sender x \<noteq> None \<and> xc_Receivers x \<noteq> [] \<and> allReceived False x (mrs_MessageReceiver rcv)"

definition xstep :: "message_receivers \<Rightarrow> ev \<Rightarrow> exchange option \<Rightarrow> exchange option" where
  "xstep rcv v x = (let y = xput v x in if xcomplete rcv y then None else Some y)"

definition exchangeEv :: "env \<Rightarrow> string \<Rightarrow> string \<Rightarrow> ev \<Rightarrow> unit act" where
  "exchangeEv E name key v =
     (case v of
        Send s \<Rightarrow> handleMessageExchange E senderParty (setSender s) [] \<lparr> xc_Sender = Some s, xc_Receivers = [] \<rparr> name key
      | Recv e r \<Rightarrow> handleMessageExchange E receiverParty (setReceiver e r) e \<lparr> xc_Sender = None, xc_Receivers = [(e, r)] \<rparr> name key)"

section \<open>The handlers implement it\<close>

lemma allReceived_iff:
  "allReceived acc x rs \<longleftrightarrow> (\<forall>r \<in> set rs. map_of (xc_Receivers x) (mr_Id r) \<noteq> None) \<and> (rs \<noteq> [] \<or> acc)"
  by (induction acc x rs rule: allReceived.induct) auto

lemma CreateObj_reliable [simp]:
  "reliable w \<Longrightarrow> CreateObj MessagesB k v w =
     (case kv_get (kvMessages w) k of
        Some _ \<Rightarrow> (Err ErrKeyExists, w) | None \<Rightarrow> (Ok (), kvMessages_update (kv_put k v) w))"
  by (auto simp: CreateObj_def kv_create_def split: option.splits)

text \<open>A delivery: the job of the receiver completes with the sender's variables.\<close>

definition delivery :: "env \<Rightarrow> world \<Rightarrow> bytes \<Rightarrow> receiver \<Rightarrow> pubmsg \<Rightarrow> bool" where
  "delivery E w vrs r m \<longleftrightarrow> (\<exists>job t. kv_get (kvJob w) (rc_Id r) = Some job \<and>
     pm_Subject m = NS WorkflowJobAwaitMessageComplete (e_ns E) \<and>
     pm_Payload m = PState (job\<lparr> ws_Vars := vrs, ws_UnixTimeNano := t \<rparr>))"

text \<open>Everything but the exchanges and the log of messages stays.\<close>

definition msg_frame :: "world \<Rightarrow> world \<Rightarrow> bool" where
  "msg_frame w w' \<longleftrightarrow> faults w' = faults w \<and> kvJob w' = kvJob w \<and> kvMsgTypes w' = kvMsgTypes w \<and>
     kvExecution w' = kvExecution w \<and> kvProcessInstance w' = kvProcessInstance w \<and> kvDefinition w' = kvDefinition w"

lemma msg_frame_refl [simp]: "msg_frame w w" by (simp add: msg_frame_def)

lemma msg_frame_trans: "msg_frame a b \<Longrightarrow> msg_frame b c \<Longrightarrow> msg_frame a c" by (simp add: msg_frame_def)

lemma delivery_frame: "msg_frame w w' \<Longrightarrow> delivery E w' = delivery E w"
  by (simp add: msg_frame_def delivery_def fun_eq_iff)

lemma deliverTo_reliable:
  assumes "reliable w" "ns_ok E" "\<forall>r \<in> set rs. kv_get (kvJob w) (rc_Id r) \<noteq> None"
  shows "\<exists>w' ms. deliverTo E vrs rs w = (Ok True, w') \<and> published w' = published w @ ms \<and>
     list_all2 (delivery E w vrs) rs ms \<and> msg_frame w w' \<and> kvMessages w' = kvMessages w"
  using assms
proof (induction rs arbitrary: w)
  case (Cons r rs)
  obtain job where job: "kv_get (kvJob w) (rc_Id r) = Some job" using Cons.prems(3) by auto
  let ?j = "job\<lparr> ws_Vars := vrs \<rparr>"
  let ?w1 = "pubW E WorkflowJobAwaitMessageComplete ?j no_opts w"
  have f: "msg_frame w ?w1" by (simp add: msg_frame_def)
  obtain w' ms where w': "deliverTo E vrs rs ?w1 = (Ok True, w')" "published w' = published ?w1 @ ms"
    "list_all2 (delivery E ?w1 vrs) rs ms" "msg_frame ?w1 w'" "kvMessages w' = kvMessages ?w1"
    using Cons.IH [of ?w1] Cons.prems by auto
  let ?m = "state_msg E WorkflowJobAwaitMessageComplete ?j no_opts w"
  have "deliverTo E vrs (r # rs) w = (Ok True, w')"
    using Cons.prems(1,2) job w'(1) by (simp add: handle_apply bnd_apply)
  moreover have "list_all2 (delivery E w vrs) (r # rs) (?m # ms)"
    using w'(3) job by (auto simp: delivery_frame [OF f] delivery_def)
  ultimately show ?case using w' msg_frame_trans [OF f w'(4)]
    by (intro exI [of _ w'] exI [of _ "?m # ms"]) simp
qed simp

lemma exchange_stored:
  assumes "reliable w" "kv_get (kvMsgTypes w) name = Some rcv"
  shows "exchangeEv E name key v w =
     attemptMessageDelivery E (xput v (kv_get (kvMessages w) (messageKeyFrom [name, key])))
       (case v of Send _ \<Rightarrow> [] | Recv e _ \<Rightarrow> e) (case v of Send _ \<Rightarrow> senderParty | Recv _ _ \<Rightarrow> receiverParty) name key
       (kvMessages_update (kv_put (messageKeyFrom [name, key]) (xput v (kv_get (kvMessages w) (messageKeyFrom [name, key])))) w)"
  using assms
  by (cases v) (auto simp: exchangeEv_def handleMessageExchange_def Let_def bnd_apply handle_apply xput_def
      empty_exchange_def setSender_def setReceiver_def split: option.splits)

lemma exchange_refines:
  fixes E :: env and name key :: string and v :: ev
  assumes "reliable w" "ns_ok E" "kv_get (kvMsgTypes w) name = Some rcv"
  defines "k \<equiv> messageKeyFrom [name, key]"
  defines "y \<equiv> xput v (kv_get (kvMessages w) k)"
  assumes "\<forall>r \<in> set (xdeliver E v y). kv_get (kvJob w) (rc_Id r) \<noteq> None"
  shows "\<exists>w' ms. exchangeEv E name key v w = (Ok (), w') \<and> published w' = published w @ ms \<and>
     list_all2 (delivery E w (case xc_Sender y of Some s \<Rightarrow> sn_Vars s | None \<Rightarrow> [])) (xdeliver E v y) ms \<and>
     kv_get (kvMessages w') k = xstep rcv v (kv_get (kvMessages w) k) \<and>
     (\<forall>l. l \<noteq> k \<longrightarrow> kv_get (kvMessages w') l = kv_get (kvMessages w) l) \<and> msg_frame w w'"
proof -
  let ?w1 = "kvMessages_update (kv_put k y) w"
  let ?e = "case v of Send _ \<Rightarrow> [] | Recv e _ \<Rightarrow> e" and ?p = "case v of Send _ \<Rightarrow> senderParty | Recv _ _ \<Rightarrow> receiverParty"
  have run: "exchangeEv E name key v w = attemptMessageDelivery E y ?e ?p name key ?w1"
    using exchange_stored [OF assms(1,3), of E key v] by (simp add: k_def y_def)
  have f1: "msg_frame w ?w1" by (simp add: msg_frame_def)
  show ?thesis
  proof (cases "xc_Sender y = None \<or> xc_Receivers y = []")
    case True
    then have "attemptMessageDelivery E y ?e ?p name key ?w1 = (Ok (), ?w1)"
      using assms(1) by (auto simp: attemptMessageDelivery_def split: option.splits)
    moreover have "xstep rcv v (kv_get (kvMessages w) k) = Some y" "xdeliver E v y = []"
      using True by (auto simp: xstep_def xcomplete_def xdeliver_def y_def)
    ultimately show ?thesis using run f1 by (intro exI [of _ ?w1] exI [of _ "[]"]) simp
  next
    case False
    then obtain s where s: "xc_Sender y = Some s" "xc_Receivers y \<noteq> []" by auto
    obtain w2 ms where w2: "deliverTo E (sn_Vars s) (xdeliver E v y) ?w1 = (Ok True, w2)" "published w2 = published ?w1 @ ms"
      "list_all2 (delivery E ?w1 (sn_Vars s)) (xdeliver E v y) ms" "msg_frame ?w1 w2" "kvMessages w2 = kvMessages ?w1"
      using deliverTo_reliable [of ?w1 E "xdeliver E v y" "sn_Vars s"] assms(1,2,6) by auto
    have r2: "reliable w2" "kv_get (kvMsgTypes w2) name = Some rcv" using w2(4) assms(1,3) by (auto simp: msg_frame_def)
    let ?w' = "if xcomplete rcv y then kvMessages_update (kv_delete k) w2 else w2"
    have sel: "recipients E ?p ?e y ?w1 = (Ok (xdeliver E v y), ?w1)"
      using s by (cases v) (auto simp: recipients_def xdeliver_def y_def xput_def setReceiver_def)
    have "attemptMessageDelivery E y ?e ?p name key ?w1 = (Ok (), ?w')"
      using assms(1) s sel w2(1) r2
      by (cases "xcomplete rcv y") (auto simp: attemptMessageDelivery_def bnd_apply hasAllReceivers_def xcomplete_def k_def)
    moreover have "kv_get (kvMessages ?w') k = xstep rcv v (kv_get (kvMessages w) k)"
      using w2(5) by (simp add: xstep_def Let_def flip: y_def)
    moreover have "msg_frame w ?w'" using w2(4) by (simp add: msg_frame_def)
    moreover have "\<forall>l. l \<noteq> k \<longrightarrow> kv_get (kvMessages ?w') l = kv_get (kvMessages w) l" using w2(5) by simp
    moreover have "published ?w' = published w @ ms" using w2(2) by simp
    ultimately show ?thesis using run s(1) w2(3) delivery_frame [OF f1]
      by (intro exI [of _ ?w'] exI [of _ ms]) simp
  qed
qed

section \<open>One sender and the expected receivers, in any order\<close>

fun xrun :: "env \<Rightarrow> message_receivers \<Rightarrow> ev list \<Rightarrow> exchange option \<Rightarrow> exchange option \<times> receiver list" where
  "xrun E rcv [] x = (x, [])"
| "xrun E rcv (v # vs) x =
     (case xrun E rcv vs (xstep rcv v x) of (z, ds) \<Rightarrow> (z, xdeliver E v (xput v x) @ ds))"

lemma xrun_append:
  "xrun E rcv (us @ vs) x = (case xrun E rcv us x of (y, ds) \<Rightarrow> case xrun E rcv vs y of (z, es) \<Rightarrow> (z, ds @ es))"
  by (induction us arbitrary: x) (auto split: prod.splits)

definition sends :: "ev list \<Rightarrow> sender list" where
  "sends vs = List.map_filter (\<lambda>v. case v of Send s \<Rightarrow> Some s | Recv _ _ \<Rightarrow> None) vs"

definition recvs :: "ev list \<Rightarrow> (string \<times> receiver) list" where
  "recvs vs = List.map_filter (\<lambda>v. case v of Send s \<Rightarrow> None | Recv e r \<Rightarrow> Some (e, r)) vs"

lemma sends_append [simp]: "sends (us @ vs) = sends us @ sends vs"
  by (simp add: sends_def map_filter_def)

lemma recvs_append [simp]: "recvs (us @ vs) = recvs us @ recvs vs"
  by (simp add: recvs_def map_filter_def)

lemma sends_recvs_simps [simp]:
  "sends [] = []" "recvs [] = []" "sends [Send s] = [s]" "recvs [Send s] = []" "sends [Recv e r] = []" "recvs [Recv e r] = [(e, r)]"
  by (simp_all add: sends_def recvs_def map_filter_def)

lemma update_new: "k \<notin> fst ` set al \<Longrightarrow> AList.update k v al = al @ [(k, v)]"
  by (induction al) auto

lemma mset_rangeMap:
  assumes "ranges_ok E" "distinct (map fst m)"
  shows "mset (rangeMap (map_order E i) m) = mset m"
proof -
  have o: "mset (map_order E i (map fst m)) = mset (map fst m)" using assms(1) by (rule ranges_okD)
  have "distinct (rangeMap (map_order E i) m)"
    using distinct_rangeMap [of "map_order E i" m] o assms(2) by (simp add: distinct_map)
  moreover have "distinct m" using assms(2) by (simp add: distinct_map)
  ultimately show ?thesis using set_rangeMap [of "map_order E i" m] o assms(2) by (simp add: set_eq_iff_mset_eq_distinct)
qed

text \<open>The exchange that a list of arrivals leaves when nothing completes it.\<close>

definition gathered :: "ev list \<Rightarrow> exchange option" where
  "gathered vs = (if vs = [] then None
     else Some \<lparr> xc_Sender = (case sends vs of [] \<Rightarrow> None | s # _ \<Rightarrow> Some s), xc_Receivers = recvs vs \<rparr>)"

lemma xput_gathered:
  assumes "length (sends (vs @ [v])) \<le> 1" "distinct (map fst (recvs (vs @ [v])))"
  shows "Some (xput v (gathered vs)) = gathered (vs @ [v])"
  using assms
  by (cases v) (auto simp: gathered_def xput_def setSender_def setReceiver_def empty_exchange_def update_new
      split: list.splits)

definition complete :: "message_receivers \<Rightarrow> ev list \<Rightarrow> bool" where
  "complete rcv vs \<longleftrightarrow> sends vs \<noteq> [] \<and> mr_Id ` set (mrs_MessageReceiver rcv) \<subseteq> fst ` set (recvs vs)"

lemma xcomplete_gathered:
  assumes "mrs_MessageReceiver rcv \<noteq> []" "gathered vs = Some y"
  shows "xcomplete rcv y \<longleftrightarrow> complete rcv vs"
proof -
  have "xc_Receivers y = recvs vs" "xc_Sender y \<noteq> None \<longleftrightarrow> sends vs \<noteq> []"
    using assms(2) by (auto simp: gathered_def split: if_splits list.splits)
  then show ?thesis using assms(1)
    by (auto simp: xcomplete_def complete_def allReceived_iff map_of_eq_None_iff) 
qed

lemma xdeliver_gathered:
  assumes "ranges_ok E" "length (sends (vs @ [v])) \<le> 1" "distinct (map fst (recvs (vs @ [v])))"
    and "gathered (vs @ [v]) = Some y"
  shows "mset (xdeliver E v y) + (if sends vs = [] then {#} else mset (map snd (recvs vs))) =
     (if sends (vs @ [v]) = [] then {#} else mset (map snd (recvs (vs @ [v]))))"
proof (cases v)
  case (Send s)
  then have "sends vs = []" "y = \<lparr> xc_Sender = Some s, xc_Receivers = recvs vs \<rparr>"
    using assms(2,4) by (auto simp: gathered_def)
  then show ?thesis using Send assms(1,3) by (simp add: xdeliver_def mset_rangeMap flip: image_mset.compositionality)
next
  case (Recv e r)
  then have "xc_Receivers y = recvs vs @ [(e, r)]" "xc_Sender y = None \<longleftrightarrow> sends vs = []"
    using assms(4) by (auto simp: gathered_def split: list.splits)
  then show ?thesis using Recv by (simp add: xdeliver_def)
qed

lemma xrun_prefix:
  assumes "ranges_ok E" "mrs_MessageReceiver rcv \<noteq> []" "length (sends vs) \<le> 1" "distinct (map fst (recvs vs))" "\<not> complete rcv vs"
  shows "fst (xrun E rcv vs None) = gathered vs \<and>
     mset (snd (xrun E rcv vs None)) = (if sends vs = [] then {#} else mset (map snd (recvs vs)))"
  using assms(3-5)
proof (induction vs rule: rev_induct)
  case Nil
  then show ?case by (simp add: gathered_def)
next
  case (snoc v vs)
  have "\<not> complete rcv vs" using snoc.prems(3) by (auto simp: complete_def)
  then have IH: "fst (xrun E rcv vs None) = gathered vs"
    "mset (snd (xrun E rcv vs None)) = (if sends vs = [] then {#} else mset (map snd (recvs vs)))"
    using snoc.IH snoc.prems(1,2) by auto
  let ?y = "xput v (gathered vs)"
  have y: "gathered (vs @ [v]) = Some ?y" using xput_gathered snoc.prems(1,2) by simp
  then have "xstep rcv v (gathered vs) = Some ?y"
    using xcomplete_gathered [OF assms(2) y] snoc.prems(3) by (simp add: xstep_def Let_def)
  then show ?case using IH y xdeliver_gathered [OF assms(1) snoc.prems(1,2) y]
    by (auto simp: xrun_append split: prod.splits)
qed

lemma xrun_complete:
  assumes "ranges_ok E" "mrs_MessageReceiver rcv \<noteq> []" "length (sends vs) \<le> 1" "distinct (map fst (recvs vs))"
    and "complete rcv vs" "\<not> complete rcv (butlast vs)"
  shows "fst (xrun E rcv vs None) = None \<and> mset (snd (xrun E rcv vs None)) = mset (map snd (recvs vs))"
proof -
  have "vs \<noteq> []" using assms(5) by (auto simp: complete_def)
  then obtain us v where vs: "vs = us @ [v]" by (metis append_butlast_last_id)
  have IH: "fst (xrun E rcv us None) = gathered us"
    "mset (snd (xrun E rcv us None)) = (if sends us = [] then {#} else mset (map snd (recvs us)))"
    using xrun_prefix [OF assms(1,2), of us] assms(3,4,6) vs by auto
  have y: "gathered (us @ [v]) = Some (xput v (gathered us))" using xput_gathered assms(3,4) vs by simp
  then have "xstep rcv v (gathered us) = None"
    using xcomplete_gathered [OF assms(2) y] assms(5) vs by (simp add: xstep_def Let_def)
  moreover have "sends vs \<noteq> []" using assms(5) by (simp add: complete_def)
  ultimately show ?thesis using IH xdeliver_gathered [OF assms(1) _ _ y] assms(3,4) vs
    by (auto simp: xrun_append split: prod.splits)
qed

lemma complete_mono: "complete rcv us \<Longrightarrow> complete rcv (us @ vs)"
  by (auto simp: complete_def)

lemma set_xdeliver:
  assumes "ranges_ok E" "distinct (map fst (recvs vs))" "gathered vs = Some y" "vs = us @ [v]"
  shows "set (xdeliver E v y) \<subseteq> snd ` set (recvs vs)"
proof -
  have r: "xc_Receivers y = recvs vs" using assms(3) by (auto simp: gathered_def split: if_splits)
  have "set (rangeMap (map_order E 10) (recvs vs)) = set (recvs vs)"
    using mset_rangeMap [OF assms(1,2), of 10] by (metis set_mset_mset)
  then show ?thesis using assms(4) r by (cases v) (auto simp: xdeliver_def)
qed

lemma gathered_sender:
  "gathered vs = Some y \<Longrightarrow> set (sends vs) \<subseteq> {s} \<Longrightarrow> xc_Sender y = None \<or> xc_Sender y = Some s"
  by (cases "sends vs") (auto simp: gathered_def split: if_splits)

lemma exchange_run:
  assumes "reliable w" "ns_ok E" "ranges_ok E" "kv_get (kvMsgTypes w) name = Some rcv" "mrs_MessageReceiver rcv \<noteq> []"
    and "kv_get (kvMessages w) (messageKeyFrom [name, key]) = None"
    and "\<forall>r \<in> snd ` set (recvs vs). kv_get (kvJob w) (rc_Id r) \<noteq> None"
    and "set (sends vs) \<subseteq> {s}" "length (sends vs) \<le> 1" "distinct (map fst (recvs vs))" "\<not> complete rcv (butlast vs)"
  shows "\<exists>w' ms. forE (exchangeEv E name key) vs w = (Ok (), w') \<and> published w' = published w @ ms \<and>
     list_all2 (delivery E w (sn_Vars s)) (snd (xrun E rcv vs None)) ms \<and>
     kv_get (kvMessages w') (messageKeyFrom [name, key]) = fst (xrun E rcv vs None) \<and>
     (\<forall>l. l \<noteq> messageKeyFrom [name, key] \<longrightarrow> kv_get (kvMessages w') l = kv_get (kvMessages w) l) \<and> msg_frame w w'"
  using assms(7-11)
proof (induction vs rule: rev_induct)
  case Nil
  then show ?case using assms(6) by (intro exI [of _ w] exI [of _ "[]"]) simp
next
  case (snoc v us)
  let ?k = "messageKeyFrom [name, key]"
  have nc: "\<not> complete rcv us" using snoc.prems(5) by simp
  then have "\<not> complete rcv (butlast us)"
    using complete_mono [of rcv "butlast us" "[last us]"] by (cases "us = []") auto
  then obtain w1 ms1 where w1: "forE (exchangeEv E name key) us w = (Ok (), w1)" "published w1 = published w @ ms1"
     "list_all2 (delivery E w (sn_Vars s)) (snd (xrun E rcv us None)) ms1"
     "kv_get (kvMessages w1) ?k = fst (xrun E rcv us None)"
     "\<forall>l. l \<noteq> ?k \<longrightarrow> kv_get (kvMessages w1) l = kv_get (kvMessages w) l" "msg_frame w w1"
    using snoc.IH snoc.prems by auto
  have g: "fst (xrun E rcv us None) = gathered us"
    using xrun_prefix [OF assms(3,5), of us] nc snoc.prems(3,4) by auto
  let ?y = "xput v (gathered us)"
  have y: "gathered (us @ [v]) = Some ?y" using xput_gathered snoc.prems(3,4) by simp
  have jobs: "\<forall>r \<in> set (xdeliver E v ?y). kv_get (kvJob w1) (rc_Id r) \<noteq> None"
    using set_xdeliver [OF assms(3) snoc.prems(4) y refl] snoc.prems(1) w1(6) by (auto simp: msg_frame_def)
  have r1: "reliable w1" "kv_get (kvMsgTypes w1) name = Some rcv" using w1(6) assms(1,4) by (auto simp: msg_frame_def)
  obtain w2 ms2 where w2: "exchangeEv E name key v w1 = (Ok (), w2)" "published w2 = published w1 @ ms2"
     "list_all2 (delivery E w1 (case xc_Sender ?y of Some s \<Rightarrow> sn_Vars s | None \<Rightarrow> [])) (xdeliver E v ?y) ms2"
     "kv_get (kvMessages w2) ?k = xstep rcv v (gathered us)"
     "\<forall>l. l \<noteq> ?k \<longrightarrow> kv_get (kvMessages w2) l = kv_get (kvMessages w1) l" "msg_frame w1 w2"
    using exchange_refines [OF r1(1) assms(2) r1(2), of v key] jobs w1(4) g by auto
  have "xdeliver E v ?y \<noteq> [] \<Longrightarrow> xc_Sender ?y = Some s"
    using gathered_sender [OF y snoc.prems(2)] by (auto simp: xdeliver_def)
  then have d2: "list_all2 (delivery E w (sn_Vars s)) (xdeliver E v ?y) ms2"
    using w2(3) delivery_frame [OF w1(6)] by (cases "xdeliver E v ?y = []") auto
  have "forE (exchangeEv E name key) (us @ [v]) w = (Ok (), w2)"
    using w1(1) w2(1) by (simp add: forE_append bnd_apply)
  moreover have "snd (xrun E rcv (us @ [v]) None) = snd (xrun E rcv us None) @ xdeliver E v ?y"
    "fst (xrun E rcv (us @ [v]) None) = xstep rcv v (gathered us)"
    using g by (auto simp: xrun_append split: prod.splits)
  ultimately show ?case using w1 w2 d2 msg_frame_trans [OF w1(6) w2(6)]
    by (intro exI [of _ w2] exI [of _ "ms1 @ ms2"]) (simp add: list_all2_appendI)
qed

section \<open>The handlers on a sequence of arrivals\<close>

datatype inbound = InMessage message_instance | InAwait workflow_state

definition handleInbound :: "env \<Rightarrow> inbound \<Rightarrow> ack_err act" where
  "handleInbound E i = (case i of InMessage m \<Rightarrow> processMessage E m | InAwait job \<Rightarrow> awaitMessageProcessor E job)"

definition inbounds :: "env \<Rightarrow> inbound list \<Rightarrow> ack_err list act" where
  "inbounds E is = foldE (\<lambda>acks i. bnd (handleInbound E i) (\<lambda>a. ret (acks @ [a]))) [] is"

definition event_of :: "string \<Rightarrow> inbound \<Rightarrow> ev" where
  "event_of key i = (case i of
     InMessage m \<Rightarrow> Send \<lparr> sn_Vars = mi_Vars m, sn_CorrelationKey = mi_CorrelationKey m \<rparr>
   | InAwait job \<Rightarrow> Recv (ws_ElementId job) \<lparr> rc_Id = TID (ws_Id job), rc_CorrelationKey = key \<rparr>)"

text \<open>The arrival concerns the message and the key: a message of that name and key, or the job
  of a catch event whose expression evaluates to the key.\<close>

definition concerns :: "env \<Rightarrow> world \<Rightarrow> string \<Rightarrow> string \<Rightarrow> inbound \<Rightarrow> bool" where
  "concerns E w name key i = (case i of
     InMessage m \<Rightarrow> mi_Name m = name \<and> mi_CorrelationKey m = key
   | InAwait job \<Rightarrow>
       kv_get (kvExecution w) (ws_ExecutionId job) \<noteq> None \<and>
       kv_get (kvProcessInstance w) (ws_ProcessInstanceId job) \<noteq> None \<and>
       (\<exists>wkf el. kv_get (kvDefinition w) (ws_WorkflowId job) = Some wkf \<and>
          map_of (ElementTable (map_order E 4) wkf) (ws_ElementId job) = Some el \<and>
          el_Msg (el_data el) = name \<and> correlationKeyOf E (el_data el) job = Ok key))"

lemma handleInbound_event:
  assumes "reliable w" "concerns E w name key i"
  shows "handleInbound E i w = orNak (exchangeEv E name key (event_of key i)) (\<lambda>_. ret (True, None)) w"
  using assms
  by (cases i) (auto simp: handleInbound_def processMessage_def awaitMessageProcessor_def event_of_def concerns_def
      exchangeEv_def guardProcess_def hasValidProcess_def hasValidExecution_def getElement_def orNak_def
      handle_apply bnd_apply Let_def split: option.splits)

text \<open>C25. The message handlers implement the abstract exchange: each arrival changes the stored
  exchange of its name and key as the abstract step does, sends as many completions as the
  abstract step delivers, and touches no other exchange.\<close>

theorem inbound_refines:
  assumes "reliable w" "ns_ok E" "kv_get (kvMsgTypes w) name = Some rcv" "concerns E w name key i"
    and "\<forall>r \<in> set (xdeliver E (event_of key i) (xput (event_of key i) (kv_get (kvMessages w) (messageKeyFrom [name, key])))).
       kv_get (kvJob w) (rc_Id r) \<noteq> None"
  shows "\<exists>w' ms. handleInbound E i w = (Ok (True, None), w') \<and> published w' = published w @ ms \<and>
     length ms = length (xdeliver E (event_of key i) (xput (event_of key i) (kv_get (kvMessages w) (messageKeyFrom [name, key])))) \<and>
     kv_get (kvMessages w') (messageKeyFrom [name, key]) =
       xstep rcv (event_of key i) (kv_get (kvMessages w) (messageKeyFrom [name, key])) \<and>
     (\<forall>l. l \<noteq> messageKeyFrom [name, key] \<longrightarrow> kv_get (kvMessages w') l = kv_get (kvMessages w) l)"
proof -
  obtain w' ms where w': "exchangeEv E name key (event_of key i) w = (Ok (), w')" "published w' = published w @ ms"
    "list_all2 (delivery E w (case xc_Sender (xput (event_of key i) (kv_get (kvMessages w) (messageKeyFrom [name, key]))) of
        Some s \<Rightarrow> sn_Vars s | None \<Rightarrow> []))
      (xdeliver E (event_of key i) (xput (event_of key i) (kv_get (kvMessages w) (messageKeyFrom [name, key])))) ms"
    "kv_get (kvMessages w') (messageKeyFrom [name, key]) =
       xstep rcv (event_of key i) (kv_get (kvMessages w) (messageKeyFrom [name, key]))"
    "\<forall>l. l \<noteq> messageKeyFrom [name, key] \<longrightarrow> kv_get (kvMessages w') l = kv_get (kvMessages w) l"
    using exchange_refines [OF assms(1-3,5)] by blast
  have "handleInbound E i w = (Ok (True, None), w')"
    using handleInbound_event [OF assms(1,4)] w'(1) by (simp add: orNak_def handle_apply)
  then show ?thesis using w' list_all2_lengthD [OF w'(3)] by auto
qed

lemma concerns_frame: "msg_frame w w' \<Longrightarrow> concerns E w' = concerns E w"
  by (auto simp: fun_eq_iff concerns_def msg_frame_def split: inbound.splits)

lemma inbounds_run:
  assumes "reliable w" "ns_ok E" "ranges_ok E" "kv_get (kvMsgTypes w) name = Some rcv" "mrs_MessageReceiver rcv \<noteq> []"
    and "kv_get (kvMessages w) (messageKeyFrom [name, key]) = None"
    and "\<forall>i \<in> set is. concerns E w name key i"
    and "\<forall>r \<in> snd ` set (recvs (map (event_of key) is)). kv_get (kvJob w) (rc_Id r) \<noteq> None"
    and "set (sends (map (event_of key) is)) \<subseteq> {s}" "length (sends (map (event_of key) is)) \<le> 1"
    and "distinct (map fst (recvs (map (event_of key) is)))" "\<not> complete rcv (butlast (map (event_of key) is))"
  shows "\<exists>w'. inbounds E is w = (Ok (replicate (length is) (True, None)), w') \<and>
     forE (exchangeEv E name key) (map (event_of key) is) w = (Ok (), w') \<and> msg_frame w w'"
  using assms(7-12)
proof (induction "is" rule: rev_induct)
  case Nil
  then show ?case by (simp add: inbounds_def)
next
  case (snoc i js)
  let ?us = "map (event_of key) js"
  have "\<not> complete rcv ?us" using snoc.prems(6) by (simp add: butlast_append)
  then have "\<not> complete rcv (butlast ?us)"
    using complete_mono [of rcv "butlast ?us" "[last ?us]"] by (cases "js = []") auto
  then obtain w1 where w1: "inbounds E js w = (Ok (replicate (length js) (True, None)), w1)"
    "forE (exchangeEv E name key) ?us w = (Ok (), w1)" "msg_frame w w1"
    using snoc.IH snoc.prems by auto
  obtain w2 where w2: "forE (exchangeEv E name key) (map (event_of key) (js @ [i])) w = (Ok (), w2)" "msg_frame w w2"
    using exchange_run [OF assms(1-6) snoc.prems(2-6)] by blast
  then have v: "exchangeEv E name key (event_of key i) w1 = (Ok (), w2)"
    using w1(2) by (simp add: forE_append bnd_apply split: prod.splits res.splits)
  have "reliable w1" "concerns E w1 name key i"
    using w1(3) assms(1) snoc.prems(1) concerns_frame [OF w1(3)] by (auto simp: msg_frame_def)
  then have "handleInbound E i w1 = (Ok (True, None), w2)"
    using handleInbound_event v by (simp add: orNak_def handle_apply)
  then have "inbounds E (js @ [i]) w = (Ok (replicate (length (js @ [i])) (True, None)), w2)"
    using w1(1) by (simp add: inbounds_def foldE_append bnd_apply replicate_append_same)
  then show ?case using w2 by blast
qed

lemma mset_sends:
  "mset (sends vs) = image_mset (\<lambda>v. case v of Send s \<Rightarrow> s) (filter_mset (\<lambda>v. case v of Send _ \<Rightarrow> True | _ \<Rightarrow> False) (mset vs))"
  by (induction vs) (auto simp: sends_def split: ev.splits)

lemma mset_recvs:
  "mset (recvs vs) = image_mset (\<lambda>v. case v of Recv e r \<Rightarrow> (e, r)) (filter_mset (\<lambda>v. case v of Send _ \<Rightarrow> False | _ \<Rightarrow> True) (mset vs))"
  by (induction vs) (auto simp: recvs_def split: ev.splits)

lemma arrivals_split:
  assumes "mset vs = mset (Send s # map (\<lambda>j. Recv (e j) (r j)) js)"
  shows "sends vs = [s]" "mset (recvs vs) = mset (map (\<lambda>j. (e j, r j)) js)"
proof -
  have "sends (Send s # map (\<lambda>j. Recv (e j) (r j)) js) = [s]"
    "recvs (Send s # map (\<lambda>j. Recv (e j) (r j)) js) = map (\<lambda>j. (e j, r j)) js"
    by (induction js) (auto simp: sends_def recvs_def)
  then have "mset (sends vs) = mset [s]" "mset (recvs vs) = mset (map (\<lambda>j. (e j, r j)) js)"
    unfolding mset_sends [of vs] mset_recvs [of vs] assms mset_sends [symmetric] mset_recvs [symmetric] by auto
  then show "sends vs = [s]" "mset (recvs vs) = mset (map (\<lambda>j. (e j, r j)) js)" by auto
qed

lemma last_completes:
  assumes "length (sends vs) \<le> 1" "distinct (map fst (recvs vs))"
    and "fst ` set (recvs vs) \<subseteq> mr_Id ` set (mrs_MessageReceiver rcv)" "vs \<noteq> []"
  shows "\<not> complete rcv (butlast vs)"
proof -
  obtain us v where vs: "vs = us @ [v]" using assms(4) by (metis append_butlast_last_id)
  show ?thesis using assms vs by (cases v) (auto simp: complete_def)
qed

text \<open>One message and the jobs of the expected catch events, arriving in any order: every job
  completes once, with the variables of the message, and the exchange is gone.\<close>

text \<open>C4. A message and the jobs that wait for it meet in any order: when the message and one waiting
  job for each of its receivers have arrived, in whatever interleaving, every arrival was
  acknowledged, each waiting job was completed exactly once with the variables of the message,
  and the exchange was deleted.\<close>

theorem inbounds_deliver:
  assumes "reliable w" "ns_ok E" "ranges_ok E" "kv_get (kvMsgTypes w) name = Some rcv" "mrs_MessageReceiver rcv \<noteq> []"
    and "kv_get (kvMessages w) (messageKeyFrom [name, key]) = None"
    and "mset is = mset (InMessage m # map InAwait jobs)" "\<forall>i \<in> set is. concerns E w name key i"
    and "distinct (map ws_ElementId jobs)" "ws_ElementId ` set jobs = mr_Id ` set (mrs_MessageReceiver rcv)"
    and "\<forall>job \<in> set jobs. kv_get (kvJob w) (TID (ws_Id job)) \<noteq> None"
  shows "\<exists>w' ms rs. inbounds E is w = (Ok (replicate (length is) (True, None)), w') \<and>
     published w' = published w @ ms \<and> mset (map rc_Id rs) = mset (map (\<lambda>job. TID (ws_Id job)) jobs) \<and>
     list_all2 (delivery E w (mi_Vars m)) rs ms \<and>
     kv_get (kvMessages w') (messageKeyFrom [name, key]) = None"
proof -
  let ?vs = "map (event_of key) is"
  let ?s = "\<lparr> sn_Vars = mi_Vars m, sn_CorrelationKey = mi_CorrelationKey m \<rparr>"
  let ?r = "\<lambda>job. \<lparr> rc_Id = TID (ws_Id job), rc_CorrelationKey = key \<rparr>"
  have "mset ?vs = mset (Send ?s # map (\<lambda>job. Recv (ws_ElementId job) (?r job)) jobs)"
    using arg_cong [OF assms(7), of "image_mset (event_of key)"] by (simp add: event_of_def multiset.map_comp comp_def)
  note split = arrivals_split [OF this]
  have ks: "mset (map fst (recvs ?vs)) = mset (map ws_ElementId jobs)"
    using arg_cong [OF split(2), of "image_mset fst"] by (simp add: multiset.map_comp comp_def)
  have rs: "mset (map snd (recvs ?vs)) = mset (map ?r jobs)"
    using arg_cong [OF split(2), of "image_mset snd"] by (simp add: multiset.map_comp comp_def)
  have dist: "distinct (map fst (recvs ?vs))" using ks assms(9) by (metis mset_eq_imp_distinct_iff)
  have keys: "fst ` set (recvs ?vs) = mr_Id ` set (mrs_MessageReceiver rcv)"
    using ks assms(10) by (metis set_map set_mset_mset)
  have jobs: "\<forall>r \<in> snd ` set (recvs ?vs). kv_get (kvJob w) (rc_Id r) \<noteq> None"
  proof -
    have "snd ` set (recvs ?vs) = ?r ` set jobs" using rs by (metis set_map set_mset_mset)
    then show ?thesis using assms(11) by auto
  qed
  have one: "set (sends ?vs) \<subseteq> {?s}" "length (sends ?vs) \<le> 1" and ne: "?vs \<noteq> []"
    using split(1) by (auto simp del: map_is_Nil_conv)
  have nc: "\<not> complete rcv (butlast ?vs)" by (rule last_completes [OF one(2) dist _ ne]) (simp add: keys)
  have c: "complete rcv ?vs" using split(1) keys by (simp add: complete_def)
  obtain w' ms where w': "forE (exchangeEv E name key) ?vs w = (Ok (), w')" "published w' = published w @ ms"
     "list_all2 (delivery E w (sn_Vars ?s)) (snd (xrun E rcv ?vs None)) ms"
     "kv_get (kvMessages w') (messageKeyFrom [name, key]) = fst (xrun E rcv ?vs None)"
    using exchange_run [OF assms(1-6) jobs one dist nc] by blast
  have "inbounds E is w = (Ok (replicate (length is) (True, None)), w')"
    using inbounds_run [OF assms(1-6,8) jobs one dist nc] w'(1) by auto
  moreover have x: "fst (xrun E rcv ?vs None) = None" "mset (snd (xrun E rcv ?vs None)) = mset (map snd (recvs ?vs))"
    using xrun_complete [OF assms(3,5) one(2) dist c nc] by auto
  moreover have "mset (map rc_Id (snd (xrun E rcv ?vs None))) = mset (map (\<lambda>job. TID (ws_Id job)) jobs)"
    using arg_cong [OF x(2), of "image_mset rc_Id"] arg_cong [OF rs, of "image_mset rc_Id"]
    by (simp add: multiset.map_comp comp_def)
  ultimately show ?thesis using w'
    by (intro exI [of _ w'] exI [of _ ms] exI [of _ "snd (xrun E rcv ?vs None)"]) simp
qed

text \<open>A message type without expected receivers keeps its exchange for ever.\<close>

lemma no_receivers_kept:
  assumes "mrs_MessageReceiver rcv = []" shows "xstep rcv v x \<noteq> None"
  using assms by (simp add: xstep_def xcomplete_def Let_def)

end
