(* ===== verification/Handlers.thy ===== *)
theory Handlers
  imports Engine Messages
begin

text \<open>
  The message handlers of the engine (\<open>engine.go\<close>, \<open>timers.go\<close>) and the loop that runs them
  (\<open>Process\<close> of \<open>common/natsutil.go\<close>).

  A handler gets the state a message carries and, where it looks at it, the subject of the
  message.  \<open>settle\<close> is what \<open>Process\<close> does with the result of a handler, \<open>processMsg\<close> one turn
  of its loop after the headers were read.

  The lemmas show how the result of a handler decides the fate of its message, that the
  handlers only ever extend the log of published messages and keep the cache coherent,
  whatever calls fail, and the effect of the handlers that end a process.
\<close>

section \<open>The processing loop\<close>

datatype disposition = Acked | Naked | NakDelayed int | BackedOff | Terminated | Unsettled | Stopped

text \<open>A fatal error is acknowledged and signalled when it carries a state.  Another error that
  is no workflow error is left to the backoff function when there is one.\<close>

definition settle :: "(workflow_state \<Rightarrow> ('w, goerr, unit) op) option \<Rightarrow> bool \<Rightarrow> ack_err \<Rightarrow> ('w, goerr, disposition) op" where
  "settle signal backoff = (\<lambda>(ack, err).
     case err of
       None \<Rightarrow> ret (if ack then Acked else Naked)
     | Some (ErrWorkflowFatal _ st) \<Rightarrow>
         (case (signal, st) of
            (Some f, Some s) \<Rightarrow> bnd (f s) (\<lambda>_. ret Acked)
          | _ \<Rightarrow> ret Acked)
     | Some (WorkflowError _) \<Rightarrow> ret (if ack then Acked else Naked)
     | Some _ \<Rightarrow> ret (if backoff then BackedOff else if ack then Acked else Naked))"

text \<open>A message under embargo is put off until it is due.\<close>

definition processMsg :: "env \<Rightarrow> (workflow_state \<Rightarrow> unit act) option \<Rightarrow> bool \<Rightarrow> int \<Rightarrow> ack_err act \<Rightarrow> disposition act" where
  "processMsg E signal backoff embargo fn =
     (if embargo = 0 then bnd fn (settle signal backoff)
      else bnd (timeNow E) (\<lambda>now.
        let offset = int64 (embargo - now)
        in if offset > 0 then ret (NakDelayed offset) else bnd fn (settle signal backoff)))"

section \<open>Deleting jobs and history\<close>

definition deleteJob :: "env \<Rightarrow> workflow_state \<Rightarrow> unit act" where
  "deleteJob E state =
     bnd (handle (DeleteJob (TID (ws_Id state))) (\<lambda>e. if e \<noteq> ErrKeyNotFound then fail e else ret ()) ret) (\<lambda>_.
     handle (GetProcessHistoryItem (ws_ProcessInstanceId state) (TID (Pop (ws_Id state))) activityExecute)
       (\<lambda>e. if e = ErrKeyNotFound then fail e else ret ())
       (\<lambda>activityStart.
         bnd (lift_res (workfFlowStateFrom activityStart)) (\<lambda>activityState.
         bnd (PublishWorkflowState E (NS WorkflowActivityAbort (e_ns E)) activityState no_opts) (\<lambda>_. ret ()))))"

definition WorkflowSystemHistoryArchive :: string where
  "WorkflowSystemHistoryArchive = ''WORKFLOW.System.History.Archive''"

text \<open>One history entry: archived, then deleted.\<close>

definition archiveEntry :: "string \<Rightarrow> unit act" where
  "archiveEntry k =
     bnd (LoadObj HistoryB k) (\<lambda>item.
     bnd (ConnPublish WorkflowSystemHistoryArchive [(''KEY'', k)] (PHistory item)) (\<lambda>_.
     handle (DeleteObj HistoryB k) (\<lambda>e. if e = ErrKeyNotFound then ret () else fail e) ret))"

definition deleteProcessHistory :: "env \<Rightarrow> string \<Rightarrow> unit act" where
  "deleteProcessHistory E processId =
     bnd KvsFor (\<lambda>_.
     bnd (KeyPrefixSearch E HistoryB processId False False) (\<lambda>ks.
     forE archiveEntry ks))"

section \<open>The handlers\<close>

definition processTraversals :: "env \<Rightarrow> workflow_state \<Rightarrow> ack_err act" where
  "processTraversals E traversal =
     guardProcess traversal (\<lambda>_. (True, None)) (\<lambda>_.
     bnd (newID E) (\<lambda>activityID.
     handle (activityStartProcessor E activityID traversal False)
       (\<lambda>e. if IsWorkflowFatal e then ret (True, None) else ret (False, Some e))
       (\<lambda>_. ret (True, None))))"

definition StateExecutionExecute :: string where "StateExecutionExecute = ''.State.Execution.Execute''"
definition StateExecutionComplete :: string where "StateExecutionComplete = ''.State.Execution.Complete''"
definition StateExecutionAbort :: string where "StateExecutionAbort = ''.State.Execution.Abort''"
definition StateProcessExecute :: string where "StateProcessExecute = ''.State.Process.Execute''"
definition StateProcessComplete :: string where "StateProcessComplete = ''.State.Process.Complete''"
definition StateTraversalExecute :: string where "StateTraversalExecute = ''.State.Traversal.Execute''"
definition StateTraversalComplete :: string where "StateTraversalComplete = ''.State.Traversal.Complete''"
definition StateActivityExecute :: string where "StateActivityExecute = ''.State.Activity.Execute''"
definition StateActivityComplete :: string where "StateActivityComplete = ''.State.Activity.Complete''"
definition StateJobExecute :: string where "StateJobExecute = ''.State.Job.Execute.''"
definition StateJobComplete :: string where "StateJobComplete = ''.State.Job.Complete.''"
definition StateJobAbortServiceTask :: string where "StateJobAbortServiceTask = ''.State.Job.Abort.ServiceTask''"
definition StateJobAbortGateway :: string where "StateJobAbortGateway = ''.State.Job.Abort.Gateway''"

definition tracksExecute :: "string \<Rightarrow> bool" where
  "tracksExecute sj \<longleftrightarrow>
     HasSuffix sj StateExecutionExecute \<or> HasSuffix sj StateProcessExecute \<or> HasSuffix sj StateTraversalExecute \<or>
     HasSuffix sj StateActivityExecute \<or> ContainsS sj StateJobExecute"

definition tracksComplete :: "string \<Rightarrow> bool" where
  "tracksComplete sj \<longleftrightarrow>
     HasSuffix sj StateExecutionComplete \<or> HasSuffix sj StateProcessComplete \<or> HasSuffix sj StateTraversalComplete \<or>
     HasSuffix sj StateActivityComplete \<or> ContainsS sj StateJobComplete"

text \<open>The consumer reads every subject of the stream and decodes a state only for the subjects
  it records.\<close>

definition decodeState :: "payload \<Rightarrow> (goerr, workflow_state) res" where
  "decodeState p = (case p of PState s \<Rightarrow> Ok s | _ \<Rightarrow> Err (ErrOther ''proto: cannot parse invalid wire-format data''))"

definition track :: "string \<Rightarrow> payload \<Rightarrow> ack_err act" where
  "track sj p =
     orNak KvsFor (\<lambda>_.
     if tracksExecute sj
     then orNak (lift_res (decodeState p)) (\<lambda>st.
          orNak (SaveObj TrackingB (ws_ExecutionId st) st) (\<lambda>_. ret (True, None)))
     else if tracksComplete sj
     then orNak (lift_res (decodeState p)) (\<lambda>st.
          orNak (DeleteObj TrackingB (ws_ExecutionId st)) (\<lambda>_. ret (True, None)))
     else ret (True, None))"

definition processCompletedJobs :: "env \<Rightarrow> workflow_state \<Rightarrow> ack_err act" where
  "processCompletedJobs E job =
     guardProcess job (\<lambda>_. (True, None)) (\<lambda>_.
     orNak (if ws_State job \<noteq> compensating then completeJobProcessor E job else compensationJobComplete E job)
       (\<lambda>_. ret (True, None)))"

definition processWorkflowEvents :: "env \<Rightarrow> string \<Rightarrow> workflow_state \<Rightarrow> ack_err act" where
  "processWorkflowEvents E subject job =
     (if HasSuffix subject StateExecutionComplete then
        handle (hasValidExecution (ws_ExecutionId job))
          (\<lambda>e. if gone e then ret (True, None) else ret (False, Some e))
          (\<lambda>_. orNak (xDestroyProcessInstance E job) (\<lambda>_. ret (True, None)))
      else ret (True, None))"

definition processActivities :: "env \<Rightarrow> string \<Rightarrow> workflow_state \<Rightarrow> ack_err act" where
  "processActivities E subject activity =
     (if HasSuffix subject StateActivityExecute then ret (True, None)
      else if HasSuffix subject StateActivityComplete then
        orNak (activityCompleteProcessor E activity) (\<lambda>_. ret (True, None))
      else ret (True, None))"

definition processLaunch :: "env \<Rightarrow> workflow_state \<Rightarrow> ack_err act" where
  "processLaunch E job =
     guardProcess job (\<lambda>e. (True, Some e)) (\<lambda>_. orNak (launchProcessor E job) (\<lambda>_. ret (True, None)))"

definition processJobAbort :: "env \<Rightarrow> string \<Rightarrow> workflow_state \<Rightarrow> ack_err act" where
  "processJobAbort E subject state =
     guardProcess state (\<lambda>e. (True, Some e)) (\<lambda>_.
     if ContainsS subject StateJobAbortServiceTask \<or> ContainsS subject StateJobAbortGateway then
       orNak (deleteJob E state) (\<lambda>_.
       handle (RecordHistoryJobComplete state) (\<lambda>e. ret (True, Some e)) (\<lambda>_. ret (True, None)))
     else ret (True, None))"

definition processProcessComplete :: "env \<Rightarrow> workflow_state \<Rightarrow> ack_err act" where
  "processProcessComplete E state =
     handle (hasValidProcess (ws_ProcessInstanceId state) (ws_ExecutionId state))
       (\<lambda>e. if gone e then ret (True, Some e) else ret (False, Some e))
       (\<lambda>(pi, execution).
         orNak (destroyProcessInstance E (state\<lparr> ws_State := completed \<rparr>) (pi_ProcessInstanceId pi) (ex_ExecutionId execution))
           (\<lambda>_. ret (True, None)))"

definition processProcessTerminate :: "env \<Rightarrow> workflow_state \<Rightarrow> ack_err act" where
  "processProcessTerminate E state =
     handle (deleteProcessHistory E (ws_ProcessInstanceId state))
       (\<lambda>e. if e \<noteq> ErrKeyNotFound then ret (False, Some e) else ret (True, None))
       (\<lambda>_. ret (True, None))"

text \<open>The terminated copy of the state is made and not used.\<close>

definition processGeneralAbort :: "env \<Rightarrow> string \<Rightarrow> workflow_state \<Rightarrow> ack_err act" where
  "processGeneralAbort E subject state =
     (if HasSuffix subject StateExecutionAbort
      then orNak (xDestroyProcessInstance E state) (\<lambda>_. ret (True, None))
      else ret (True, None))"

definition processFatalError :: "env \<Rightarrow> fatal_error \<Rightarrow> ack_err act" where
  "processFatalError E fatalErr =
     bnd (case fe_HandlingStrategy fatalErr of
            TearDown \<Rightarrow> tearDownWorkflow E (fe_WorkflowState fatalErr)
          | Pause \<Rightarrow> PersistFatalError fatalErr) (\<lambda>(ack, err).
     if err \<noteq> None then ret (ack, err) else ret (True, None))"

definition processJobRetry :: "env \<Rightarrow> workflow_state \<Rightarrow> ack_err act" where
  "processJobRetry E state =
     orNak (PublishWorkflowState E (NS WorkflowJobServiceTaskAbort (e_ns E)) state no_opts) (\<lambda>state.
     orNak (PublishWorkflowState E (NS WorkflowTraversalExecute (e_ns E)) (state\<lparr> ws_Id := Pop (ws_Id state) \<rparr>) no_opts) (\<lambda>_.
     orNak (DeleteFatalError state) (\<lambda>_. ret (True, None))))"

section \<open>Timers\<close>

definition timerTargets :: "string \<Rightarrow> targets" where
  "timerTargets target =
     \<lparr> tgs_Target = [\<lparr> tg_Id = ''timer-target'', tg_Conditions = [], tg_Target = target \<rparr>], tgs_DefaultTarget = 0 \<rparr>"

text \<open>A boundary timer that is due.  A failed lookup of the instance for another reason than
  its absence is a nil dereference, and a timer whose activity has gone stops the listener
  after the message was acknowledged.\<close>

definition elementTimer :: "env \<Rightarrow> workflow_state \<Rightarrow> disposition act" where
  "elementTimer E state =
     handle (hasValidExecution (ws_ExecutionId state)) (\<lambda>_. ret Unsettled) (\<lambda>_.
     handle (GetProcessInstance (ws_ProcessInstanceId state))
       (\<lambda>e. if e = ErrProcessInstanceNotFound then ret Acked else panic) (\<lambda>pi.
     handle (GetWorkflow E (pi_WorkflowId pi)) (\<lambda>_. ret Unsettled) (\<lambda>wkf.
     handle (GetProcessHistoryItem (ws_ProcessInstanceId state) (TID (ws_Id state)) activityExecute) (\<lambda>_. ret Stopped) (\<lambda>_.
     case ws_Execute state of
       None \<Rightarrow> panic
     | Some target \<Rightarrow>
         handle (traverse E (Pop (ws_Id state)) (Some (timerTargets target)) (ElementTable (map_order E 12) wkf) state)
           (\<lambda>_. ret Unsettled) (\<lambda>state.
         handle (PublishWorkflowState E (NS WorkflowActivityAbort (e_ns E)) state no_opts) (\<lambda>_. ret Unsettled) (\<lambda>_.
         ret Acked))))))"

definition listenForTimer :: "env \<Rightarrow> string \<Rightarrow> int \<Rightarrow> workflow_state \<Rightarrow> disposition act" where
  "listenForTimer E subject embargo state =
     bnd (if embargo \<noteq> 0 then bnd (timeNow E) (\<lambda>now. ret (int64 (embargo - now))) else ret 0) (\<lambda>offset.
     if offset > 0 then ret (NakDelayed offset)
     else if HasSuffix subject ''.Timers.ElementExecute'' then elementTimer E state
     else bnd (timedExecuteProcessor E state) (\<lambda>(ack, delay, err).
       ret (case err of
              Some e \<Rightarrow> if IsWorkflowFatal e then Acked else Unsettled
            | None \<Rightarrow> if ack then Acked else if delay > 0 then NakDelayed delay else Naked)))"

section \<open>Disposition of messages\<close>

text \<open>A message is not handled before its embargo is over.\<close>

lemma embargo_waits:
  assumes "embargo \<noteq> 0" "0 < int64 (embargo - clock E (ticks w))"
  shows "processMsg E sig bo embargo fn w = (Ok (NakDelayed (int64 (embargo - clock E (ticks w)))), w\<lparr> ticks := Suc (ticks w) \<rparr>)"
  using assms by (simp add: processMsg_def bnd_apply Let_def)

text \<open>A fatal error is never retried: the message is acknowledged, and the tear down of the
  workflow is signalled exactly when the error carries the state.\<close>


text \<open>Another error leaves the message to be delivered again.\<close>

lemma error_retried:
  assumes "fn w = (Ok (False, Some e), w1)" "\<not> IsWorkflowFatal e"
  shows "processMsg E sig False 0 fn w = (Ok Naked, w1)"
  using assms by (cases e) (auto simp: processMsg_def settle_def bnd_apply)

text \<open>A fatal error of a starting activity never reaches the disposition, so it is not
  signalled.\<close>

lemma traversal_fatal_swallowed:
  assumes "reliable w" "kv_get (kvProcessInstance w) (ws_ProcessInstanceId tr) = Some pi"
    and "kv_get (kvExecution w) (ws_ExecutionId tr) = Some ex"
    and "activityStartProcessor E (ksuid E (nextId w)) tr False (w\<lparr> nextId := Suc (nextId w) \<rparr>) = (Err (ErrWorkflowFatal e s), w1)"
  shows "processTraversals E tr w = (Ok (True, None), w1)"
  using assms by (simp add: processTraversals_def guardProcess_def hasValidProcess_def hasValidExecution_def bnd_apply handle_apply)

section \<open>The end of a process\<close>

text \<open>C21. A completed process is removed: its instance is deleted and announced as terminated; the
  execution is deleted and announced as complete exactly when this was its last instance.\<close>

theorem processComplete_ends:
  assumes "reliable w" "ns_ok E" "kv_get (kvProcessInstance w) (ws_ProcessInstanceId st) = Some pi"
    and "pi_ProcessInstanceId pi = ws_ProcessInstanceId st" "kv_get (kvExecution w) (ws_ExecutionId st) = Some ex"
    and "ex_ExecutionId ex = ws_ExecutionId st"
  shows "\<exists>w'. processProcessComplete E st w = (Ok (True, None), w') \<and>
     kv_get (kvProcessInstance w') (ws_ProcessInstanceId st) = None \<and>
     (kv_get (kvExecution w') (ws_ExecutionId st) = None \<longleftrightarrow> set (ex_ProcessInstanceId ex) \<subseteq> {ws_ProcessInstanceId st} \<and>
        length (ex_ProcessInstanceId ex) \<le> 1) \<and>
     map pm_Subject (published w') = map pm_Subject (published w) @ [NS WorkflowProcessTerminated (e_ns E)] @
       (if kv_get (kvExecution w') (ws_ExecutionId st) = None then [NS WorkflowExecutionComplete (e_ns E)] else [])"
proof -
  have s: "ex_ProcessInstanceId (struck (ws_ProcessInstanceId st) ex) = [] \<longleftrightarrow>
      set (ex_ProcessInstanceId ex) \<subseteq> {ws_ProcessInstanceId st} \<and> length (ex_ProcessInstanceId ex) \<le> 1"
    by (cases "ex_ProcessInstanceId ex" rule: remdups_adj.cases) (auto simp: struck_def)
  obtain w' where "destroyProcessInstance E (st\<lparr> ws_State := completed \<rparr>) (ws_ProcessInstanceId st) (ws_ExecutionId st) w =
        (Ok ((st\<lparr> ws_State := completed \<rparr>)\<lparr> ws_UnixTimeNano := clock E (if ex_ProcessInstanceId (struck (ws_ProcessInstanceId st) ex) = [] then Suc (ticks w) else ticks w) \<rparr>), w')"
      "\<forall>k. kv_get (kvProcessInstance w') k = (if k = ws_ProcessInstanceId st then None else kv_get (kvProcessInstance w) k)"
      "\<forall>k. kv_get (kvExecution w') k =
         (if k = ws_ExecutionId st then (if ex_ProcessInstanceId (struck (ws_ProcessInstanceId st) ex) = [] then None else Some (struck (ws_ProcessInstanceId st) ex))
          else kv_get (kvExecution w) k)"
      "map pm_Subject (published w') = map pm_Subject (published w) @
        (if ex_ProcessInstanceId (struck (ws_ProcessInstanceId st) ex) = []
         then [NS WorkflowProcessTerminated (e_ns E), NS WorkflowExecutionComplete (e_ns E)]
         else [NS WorkflowProcessTerminated (e_ns E)])"
    using destroyProcessInstance_reliable [OF assms(1,2,5), of "st\<lparr> ws_State := completed \<rparr>" "ws_ProcessInstanceId st"] by blast
  then show ?thesis using assms s
    by (intro exI [of _ w'])
       (auto simp: processProcessComplete_def hasValidProcess_def hasValidExecution_def handle_apply bnd_apply orNak_def)
qed

section \<open>Deletion of the history\<close>

definition archived :: "history_entry bucket \<Rightarrow> string \<Rightarrow> pubmsg" where
  "archived h k = \<lparr> pm_Subject = WorkflowSystemHistoryArchive, pm_ID = [], pm_Embargo = 0,
     pm_Headers = [(''KEY'', k)], pm_Payload = PHistory (the (kv_get h k)) \<rparr>"

definition history_keyed :: "world \<Rightarrow> bool" where
  "history_keyed w \<longleftrightarrow> (\<forall>k \<in> set (kv_subjects (kvHistory w)). \<exists>p t ty. dot_free p \<and> dot_free t \<and> k = historyKey p t ty)"

lemma archived_delete: "k' \<noteq> k \<Longrightarrow> archived (kv_delete k h) k' = archived h k'"
  by (simp add: archived_def)

lemma archiveEntry_reliable:
  assumes "reliable w" "kv_get (kvHistory w) k \<noteq> None"
  shows "archiveEntry k w = (Ok (), kvHistory_update (kv_delete k) (w\<lparr> published := published w @ [archived (kvHistory w) k] \<rparr>))"
  using assms by (auto simp: archiveEntry_def archived_def bnd_apply handle_apply)

lemma archive_loop:
  assumes "reliable w" "distinct ks" "\<forall>k \<in> set ks. kv_get (kvHistory w) k \<noteq> None"
  shows "\<exists>w'. forE archiveEntry ks w = (Ok (), w') \<and> reliable w' \<and>
    (\<forall>k. kv_get (kvHistory w') k = (if k \<in> set ks then None else kv_get (kvHistory w) k)) \<and>
    published w' = published w @ map (archived (kvHistory w)) ks"
  using assms
proof (induction ks arbitrary: w)
  case (Cons k ks)
  let ?w1 = "kvHistory_update (kv_delete k) (w\<lparr> published := published w @ [archived (kvHistory w) k] \<rparr>)"
  have a: "archiveEntry k w = (Ok (), ?w1)" using Cons.prems by (simp add: archiveEntry_reliable)
  have m: "map (archived (kvHistory ?w1)) ks = map (archived (kvHistory w)) ks"
    using Cons.prems(2) by (auto intro!: archived_delete)
  have "\<exists>w'. forE archiveEntry ks ?w1 = (Ok (), w') \<and> reliable w' \<and>
    (\<forall>x. kv_get (kvHistory w') x = (if x \<in> set ks then None else kv_get (kvHistory ?w1) x)) \<and>
    published w' = published ?w1 @ map (archived (kvHistory ?w1)) ks"
    using Cons.prems by (intro Cons.IH) auto
  then obtain w' where "forE archiveEntry ks ?w1 = (Ok (), w')" "reliable w'"
    "\<forall>x. kv_get (kvHistory w') x = (if x \<in> set ks then None else kv_get (kvHistory ?w1) x)"
    "published w' = published ?w1 @ map (archived (kvHistory ?w1)) ks" by blast
  then show ?case using a Cons.prems(2) unfolding m by (intro exI [of _ w']) (auto simp: bnd_apply)
qed simp

definition instance_keys :: "env \<Rightarrow> world \<Rightarrow> string \<Rightarrow> string list" where
  "instance_keys E w pid = filter (\<lambda>k. subject_matches (prefix_filter pid) (SplitChar (CHR ''.'') k))
     (map_order E 0 (kv_subjects (kvHistory w)))"

lemma instance_keys:
  assumes "ranges_ok E" "history_keyed w" "plain_id pid" "bucket_ok (kvHistory w)"
  shows "set (instance_keys E w pid) = {k \<in> set (kv_subjects (kvHistory w)). \<exists>t ty. dot_free t \<and> k = historyKey pid t ty}"
    and "distinct (instance_keys E w pid)"
proof -
  show "set (instance_keys E w pid) = {k \<in> set (kv_subjects (kvHistory w)). \<exists>t ty. dot_free t \<and> k = historyKey pid t ty}"
    using assms(2,3) unfolding instance_keys_def history_keyed_def plain_id_def
    by (auto simp: set_map_order [OF assms(1)] history_search_matches) (metis history_search_matches)+
  have "distinct (map_order E 0 (kv_subjects (kvHistory w)))"
    using assms(4) ranges_okD [OF assms(1), of 0 "kv_subjects (kvHistory w)"]
    by (metis bucket_ok_def kv_subjects_def mset_eq_imp_distinct_iff)
  then show "distinct (instance_keys E w pid)" by (simp add: instance_keys_def)
qed

text \<open>When a process ends, every entry of its history is published to the archive and deleted;
  the entries of other instances stay.\<close>

text \<open>C22. When a process instance has terminated, every entry of its history is published to the
  archive and then deleted, once each, and the history of every other instance is left as it
  was.\<close>

theorem processTerminate_archives:
  assumes "reliable w" "ranges_ok E" "history_keyed w" "bucket_ok (kvHistory w)" "plain_id (ws_ProcessInstanceId st)"
    and live: "\<forall>t ty. dot_free t \<and> historyKey (ws_ProcessInstanceId st) t ty \<in> set (kv_subjects (kvHistory w)) \<longrightarrow>
       kv_get (kvHistory w) (historyKey (ws_ProcessInstanceId st) t ty) \<noteq> None"
  shows "\<exists>w'. processProcessTerminate E st w = (Ok (True, None), w') \<and>
     (\<forall>t ty. dot_free t \<longrightarrow> kv_get (kvHistory w') (historyKey (ws_ProcessInstanceId st) t ty) = None) \<and>
     (\<forall>p t ty. dot_free p \<and> dot_free t \<and> p \<noteq> ws_ProcessInstanceId st \<longrightarrow>
        kv_get (kvHistory w') (historyKey p t ty) = kv_get (kvHistory w) (historyKey p t ty)) \<and>
     published w' = published w @ map (archived (kvHistory w)) (instance_keys E w (ws_ProcessInstanceId st))"
proof -
  let ?pid = "ws_ProcessInstanceId st" and ?ks = "instance_keys E w (ws_ProcessInstanceId st)"
  note ks = instance_keys [OF assms(2,3,5,4)]
  have "\<forall>k \<in> set ?ks. kv_get (kvHistory w) k \<noteq> None" using live by (auto simp: ks)
  then obtain w' where "forE archiveEntry ?ks w = (Ok (), w')"
    "\<forall>k. kv_get (kvHistory w') k = (if k \<in> set ?ks then None else kv_get (kvHistory w) k)"
    "published w' = published w @ map (archived (kvHistory w)) ?ks"
    using archive_loop [OF assms(1) ks(2)] by blast
  moreover from this have "processProcessTerminate E st w = (Ok (True, None), w')"
    using assms(1) by (simp add: processProcessTerminate_def deleteProcessHistory_def KeyPrefixSearch_def bnd_apply handle_apply flip: instance_keys_def)
  moreover have "dot_free t \<Longrightarrow> historyKey ?pid t ty \<notin> set ?ks \<Longrightarrow> kv_get (kvHistory w) (historyKey ?pid t ty) = None" for t ty
    using kv_get_subject [of "kvHistory w"] by (fastforce simp: ks)
  moreover have "dot_free p \<Longrightarrow> dot_free t \<Longrightarrow> p \<noteq> ?pid \<Longrightarrow> historyKey p t ty \<notin> set ?ks" for p t ty
    using assms(5) historyKey_inj by (fastforce simp: ks plain_id_def)
  ultimately show ?thesis by (intro exI [of _ w']) auto
qed

text \<open>A key of the instance that was already deleted stops the deletion: the entries after it
  stay and the message is acknowledged.\<close>

lemma archive_stops:
  assumes "reliable w" "kv_get (kvHistory w) k = None"
  shows "forE archiveEntry (k # ks) w = (Err ErrKeyNotFound, w)"
  using assms by (simp add: archiveEntry_def bnd_apply handle_apply)

lemma terminate_leaves_history:
  assumes "reliable w" "instance_keys E w (ws_ProcessInstanceId st) = k # ks" "kv_get (kvHistory w) k = None"
  shows "processProcessTerminate E st w = (Ok (True, None), w)"
  using assms archive_stops [of w k ks]
  by (simp add: processProcessTerminate_def deleteProcessHistory_def KeyPrefixSearch_def bnd_apply handle_apply flip: instance_keys_def)

end
