(* ===== verification/Evolution.thy ===== *)
theory Evolution
  imports Handlers
begin

text \<open>
  What no handler of the engine ever does, whatever calls fail and in whatever order messages
  are delivered: take back a published message, change a stored definition, its versions, a
  task specification or a message type, or make the cache hold another workflow than the stored
  one.  The cached workflow may differ from the stored one in what the engine fills in: the
  version of a service task and the connection of a link throw event.

  \<open>evolves\<close> is the relation between the world before and after; every operation of the engine
  is shown to respect it by composition, and the step relation of the engine, which delivers
  any published message to any consumer any number of times, inherits it.
\<close>

section \<open>The relation\<close>

text \<open>What the engine may fill in: the version of a service task and the outbound connection of a
  link throw event.  The cache is faithful when it holds the stored workflows up to that.\<close>

definition as_stored :: "elem_data \<Rightarrow> elem_data" where
  "as_stored d = d\<lparr> el_Version := (if el_Type d = ServiceTask then None else el_Version d),
     el_Outbound := (if el_Type d = LinkIntermediateThrowEvent then None else el_Outbound d) \<rparr>"

definition cache_faithful :: "world \<Rightarrow> bool" where
  "cache_faithful w \<longleftrightarrow> (\<forall>k v. map_of (sCache w) k = Some v \<longrightarrow>
     (\<exists>s. kv_get (kvDefinition w) k = Some s \<and> mapWorkflow as_stored v = mapWorkflow as_stored s))"

lemma mapElement_comp:
  "mapElement g (mapElement f e) = mapElement (g \<circ> f) e" "mapProcess g (mapProcess f p) = mapProcess (g \<circ> f) p"
  by (induction e and p) (auto simp: option.map_comp intro: option.map_cong)

lemma mapWorkflow_same:
  assumes "\<And>d. g (f d) = g d" shows "mapWorkflow g (mapWorkflow f wkf) = mapWorkflow g wkf"
proof -
  have "g \<circ> f = g" using assms by auto
  then show ?thesis by (simp add: mapWorkflow_def mapElement_comp case_prod_unfold)
qed

definition evolves :: "world \<Rightarrow> world \<Rightarrow> bool" where
  "evolves a b \<longleftrightarrow> prefix (published a) (published b) \<and> kvDefinition b = kvDefinition a \<and>
     kvVersion b = kvVersion a \<and> kvProcess b = kvProcess a \<and> kvTaskSpec b = kvTaskSpec a \<and>
     kvTaskSpecVer b = kvTaskSpecVer a \<and> kvMsgTypes b = kvMsgTypes a \<and>
     (cache_faithful a \<longrightarrow> cache_faithful b) \<and> nextId a \<le> nextId b"

interpretation ev: step_rel evolves
proof
  show "evolves w w" for w by (simp add: evolves_def)
  show "evolves a c" if "evolves a b" "evolves b c" for a b c
    using that by (auto simp: evolves_def)
qed

text \<open>A bucket is quiet when writing to it respects the relation.\<close>

definition quiet :: "'v kvref \<Rightarrow> bool" where
  "quiet B \<longleftrightarrow> (\<forall>f w. evolves w (snd B f w))"

lemma quiet_buckets [simp]:
  "quiet JobB" "quiet TrackingB" "quiet ExecutionB" "quiet ProcessInstanceB" "quiet GatewayB" "quiet HistoryB"
  "quiet MessagesB" "quiet UserTasksB" "quiet OwnerIDB" "quiet OwnerNameB" "quiet FatalErrorB" "quiet LockB" "quiet ClientsB" "quiet ClientTaskB"
  by (simp_all add: quiet_def evolves_def cache_faithful_def)

lemma evolves_writes [simp]:
  "evolves w w" "evolves w (consumers_update h w)" "evolves w (txBuckets_update f w)" "evolves w (planAcks_update g w)" "evolves w (published_update (\<lambda>_. published w @ ms) w)"
  by (simp_all add: evolves_def cache_faithful_def)

lemmas op_splits = option.splits res.splits prod.splits list.splits sum.splits gateway_type.splits payload.splits party.splits bool.splits int_kind.splits workflow_timer_type.splits val.splits handling_strategy.splits if_splits

section \<open>The storage helpers\<close>

lemma ev_io [along_intros]: "along evolves io"
  by (rule alongI) (auto simp: io_def evolves_def cache_faithful_def split: list.splits option.splits)

lemma ev_KvsFor [along_intros]: "along evolves KvsFor" by (simp add: KvsFor_def ev_io)

lemma ev_newID [along_intros]: "along evolves (newID E)"
  by (rule alongI) (simp add: evolves_def cache_faithful_def)

lemma ev_timeNow [along_intros]: "along evolves (timeNow E)"
  by (rule alongI) (simp add: evolves_def cache_faithful_def)

lemma ev_modify [along_intros]: "(\<And>w. evolves w (f w)) \<Longrightarrow> along evolves (modify f)"
  by (rule alongI) simp

lemma ev_LoadObj [along_intros]: "along evolves (LoadObj B k)"
  unfolding LoadObj_def by (rule ev.along_bnd [OF ev_io]) (auto simp: along_def ev.rel_refl split: option.splits)

lemma ev_SaveObj [along_intros]: "quiet B \<Longrightarrow> along evolves (SaveObj B k v)"
  unfolding SaveObj_def quiet_def by (intro ev.along_bnd ev_io ev_modify) auto

lemma ev_DeleteObj [along_intros]: "quiet B \<Longrightarrow> along evolves (DeleteObj B k)"
  unfolding DeleteObj_def quiet_def by (intro ev.along_bnd ev_io ev_modify) auto

lemma ev_CreateObj [along_intros]: "quiet B \<Longrightarrow> along evolves (CreateObj B k v)"
  unfolding CreateObj_def quiet_def
  by (intro ev.along_bnd ev_io) (auto simp: along_def split: prod.splits)

lemma ev_UpdateObjA [along_intros]:
  "quiet B \<Longrightarrow> (\<And>v. along evolves (f v)) \<Longrightarrow> along evolves (UpdateObjA B k msg f)"
  unfolding UpdateObjA_def by (intro along_intros; (assumption | simp split: if_splits)?) (auto intro!: along_intros)

lemma ev_UpdateObjM [along_intros]: "quiet B \<Longrightarrow> along evolves (UpdateObjM B k msg f)"
  unfolding UpdateObjM_def by (intro along_intros)

lemma ev_UpdateObj [along_intros]: "quiet B \<Longrightarrow> along evolves (UpdateObj B k msg f)"
  unfolding UpdateObj_def by (auto intro!: along_intros split: option.splits)

lemma ev_Pair [along_intros]: "along evolves (Pair r)"
  by (simp add: along_def ev.rel_refl)

lemma ev_prune_deleted [along_intros]: "along evolves (prune_deleted B ks)"
  by (induction ks) (auto intro!: along_intros)

lemma ev_KeyPrefixSearch [along_intros]: "along evolves (KeyPrefixSearch E B pre srt excl)"
  unfolding KeyPrefixSearch_def Let_def by (auto intro!: along_intros split: option.splits)

lemma ev_stream_each [along_intros]: "(\<And>k. along evolves (f k)) \<Longrightarrow> along evolves (stream_each f ks)"
  by (induction ks) (auto intro!: along_intros)


section \<open>Entities\<close>

lemma ev_openUserTask [along_intros]: "along evolves (openUserTask E owner tid)"
  by (auto simp: openUserTask_def Let_def intro!: along_intros split: op_splits)

lemma ev_closeTaskFor [along_intros]: "along evolves (closeTaskFor trackingID retErr i)"
  by (auto simp: closeTaskFor_def Let_def intro!: along_intros split: op_splits)

lemma ev_closeUserTask [along_intros]: "along evolves (closeUserTask E trackingID)"
  by (auto simp: closeUserTask_def Let_def intro!: along_intros split: op_splits)

lemma ev_PublishWorkflowState [along_intros]: "along evolves (PublishWorkflowState E stateName state opts)"
  by (auto simp: PublishWorkflowState_def Let_def intro!: along_intros split: op_splits)

lemma ev_PublishMsg [along_intros]: "along evolves (PublishMsg E subject sharMsg)"
  by (auto simp: PublishMsg_def Let_def intro!: along_intros split: op_splits)

lemma ev_signaFatalError [along_intros]: "along evolves (signaFatalError E state strategy)"
  by (auto simp: signaFatalError_def Let_def intro!: along_intros split: op_splits)

lemma ev_SignalFatalErrorTeardown [along_intros]: "along evolves (SignalFatalErrorTeardown E state)"
  by (auto simp: SignalFatalErrorTeardown_def Let_def intro!: along_intros split: op_splits)

lemma ev_SignalFatalErrorPause [along_intros]: "along evolves (SignalFatalErrorPause E state)"
  by (auto simp: SignalFatalErrorPause_def Let_def intro!: along_intros split: op_splits)


lemma ev_GetWorkflow [along_intros]: "along evolves (GetWorkflow E k)"
  by (rule alongI)
     (auto simp: GetWorkflow_def Cacheable_def KvsFor_def LoadObj_def io_def bnd_apply handle_apply evolves_def
        cache_faithful_def split: option.splits list.splits if_splits)

lemma ev_getWorkflowNameFor [along_intros]: "along evolves (getWorkflowNameFor processId)"
  by (auto simp: getWorkflowNameFor_def Let_def intro!: along_intros split: op_splits)

lemma ev_getWorkflowVersions [along_intros]: "along evolves (getWorkflowVersions workflowName)"
  by (auto simp: getWorkflowVersions_def Let_def intro!: along_intros split: op_splits)

lemma ev_getElement [along_intros]: "along evolves (getElement E state)"
  by (auto simp: getElement_def Let_def intro!: along_intros split: op_splits)

lemma ev_GetExecution [along_intros]: "along evolves (GetExecution executionID)"
  by (auto simp: GetExecution_def Let_def intro!: along_intros split: op_splits)

lemma ev_EnsureTxBucket [along_intros]: "along evolves (EnsureTxBucket E name)"
  by (auto simp: EnsureTxBucket_def Let_def intro!: along_intros split: op_splits)

lemma ev_createExecution [along_intros]: "along evolves (createExecution E execution)"
  by (auto simp: createExecution_def Let_def intro!: along_intros split: op_splits)

lemma ev_deleteExecution [along_intros]: "along evolves (deleteExecution E state)"
  by (auto simp: deleteExecution_def Let_def intro!: along_intros split: op_splits)

lemma ev_GetProcessInstance [along_intros]: "along evolves (GetProcessInstance processInstanceID)"
  by (auto simp: GetProcessInstance_def Let_def intro!: along_intros split: op_splits)

lemma ev_createProcessInstance [along_intros]: "along evolves (createProcessInstance E executionId parentProcessID parentElementID processId workflowName workflowId headers)"
  by (auto simp: createProcessInstance_def Let_def intro!: along_intros split: op_splits)

lemma ev_destroyProcessInstance [along_intros]: "along evolves (destroyProcessInstance E state processInstanceId executionId)"
  by (auto simp: destroyProcessInstance_def Let_def intro!: along_intros split: op_splits)

lemma ev_xDestroyProcessInstance [along_intros]: "along evolves (xDestroyProcessInstance E state)"
  by (auto simp: xDestroyProcessInstance_def Let_def intro!: along_intros split: op_splits)

lemma ev_hasValidExecution [along_intros]: "along evolves (hasValidExecution executionId)"
  by (auto simp: hasValidExecution_def Let_def intro!: along_intros split: op_splits)

lemma ev_hasValidProcess [along_intros]: "along evolves (hasValidProcess processInstanceId executionId)"
  by (auto simp: hasValidProcess_def Let_def intro!: along_intros split: op_splits)

lemma ev_createJob [along_intros]: "along evolves (createJob E job)"
  by (auto simp: createJob_def Let_def intro!: along_intros split: op_splits)

lemma ev_GetJob [along_intros]: "along evolves (GetJob trackingID)"
  by (auto simp: GetJob_def Let_def intro!: along_intros split: op_splits)

lemma ev_DeleteJob [along_intros]: "along evolves (DeleteJob trackingID)"
  by (auto simp: DeleteJob_def Let_def intro!: along_intros split: op_splits)

lemma ev_OwnerID [along_intros]: "along evolves (OwnerID E name)"
  by (auto simp: OwnerID_def Let_def intro!: along_intros split: op_splits)


section \<open>History and task specifications\<close>

lemma ev_RecordHistory [along_intros]: "along evolves (RecordHistory state historyType)"
  by (auto simp: RecordHistory_def Let_def intro!: along_intros split: op_splits)

lemma ev_RecordHistoryProcessStart [along_intros]: "along evolves (RecordHistoryProcessStart state)"
  by (auto simp: RecordHistoryProcessStart_def Let_def intro!: along_intros split: op_splits)

lemma ev_RecordHistoryActivityExecute [along_intros]: "along evolves (RecordHistoryActivityExecute state)"
  by (auto simp: RecordHistoryActivityExecute_def Let_def intro!: along_intros split: op_splits)

lemma ev_RecordHistoryActivityComplete [along_intros]: "along evolves (RecordHistoryActivityComplete state)"
  by (auto simp: RecordHistoryActivityComplete_def Let_def intro!: along_intros split: op_splits)

lemma ev_RecordHistoryJobExecute [along_intros]: "along evolves (RecordHistoryJobExecute state)"
  by (auto simp: RecordHistoryJobExecute_def Let_def intro!: along_intros split: op_splits)

lemma ev_RecordHistoryJobComplete [along_intros]: "along evolves (RecordHistoryJobComplete state)"
  by (auto simp: RecordHistoryJobComplete_def Let_def intro!: along_intros split: op_splits)

lemma ev_RecordHistoryJobAbort [along_intros]: "along evolves (RecordHistoryJobAbort state)"
  by (auto simp: RecordHistoryJobAbort_def Let_def intro!: along_intros split: op_splits)

lemma ev_RecordHistoryProcessComplete [along_intros]: "along evolves (RecordHistoryProcessComplete state)"
  by (auto simp: RecordHistoryProcessComplete_def Let_def intro!: along_intros split: op_splits)

lemma ev_RecordHistoryProcessAbort [along_intros]: "along evolves (RecordHistoryProcessAbort state)"
  by (auto simp: RecordHistoryProcessAbort_def Let_def intro!: along_intros split: op_splits)

lemma ev_RecordHistoryProcessSpawn [along_intros]: "along evolves (RecordHistoryProcessSpawn state)"
  by (auto simp: RecordHistoryProcessSpawn_def Let_def intro!: along_intros split: op_splits)

lemma ev_RecordHistoryCompensationCheckpoint [along_intros]: "along evolves (RecordHistoryCompensationCheckpoint state)"
  by (auto simp: RecordHistoryCompensationCheckpoint_def Let_def intro!: along_intros split: op_splits)

lemma ev_GetProcessHistory [along_intros]: "along evolves (GetProcessHistory E processInstanceId)"
  by (auto simp: GetProcessHistory_def Let_def intro!: along_intros split: op_splits)

lemma ev_GetProcessHistoryItem [along_intros]: "along evolves (GetProcessHistoryItem processInstanceID trackingID historyType)"
  by (auto simp: GetProcessHistoryItem_def Let_def intro!: along_intros split: op_splits)

lemma ev_GetTaskSpecVersions [along_intros]: "along evolves (GetTaskSpecVersions name)"
  by (auto simp: GetTaskSpecVersions_def Let_def intro!: along_intros split: op_splits)

lemma ev_GetTaskSpecUID [along_intros]: "along evolves (GetTaskSpecUID name)"
  by (auto simp: GetTaskSpecUID_def Let_def intro!: along_intros split: op_splits)

lemma ev_GetTaskSpecByUID [along_intros]: "along evolves (GetTaskSpecByUID uid)"
  by (auto simp: GetTaskSpecByUID_def Let_def intro!: along_intros split: op_splits)

lemma ev_ConnPublish [along_intros]: "along evolves (ConnPublish subject hdrs pl)"
  by (auto simp: ConnPublish_def Let_def intro!: along_intros split: op_splits)

lemma ev_checkProcessTaskDeprecation [along_intros]: "along evolves (checkProcessTaskDeprecation wkf processId)"
  by (auto simp: checkProcessTaskDeprecation_def Let_def intro!: along_intros split: op_splits)


section \<open>Jobs\<close>

lemma ev_evaluateOwners [along_intros]: "along evolves (evaluateOwners E owners vars)"
  by (auto simp: evaluateOwners_def Let_def intro!: along_intros split: op_splits)

lemma ev_jobOwners [along_intros]: "along evolves (jobOwners E el v job)"
  by (auto simp: jobOwners_def Let_def intro!: along_intros split: op_splits)

lemma ev_jobSubject [along_intros]: "along evolves (jobSubject el subject)"
  by (auto simp: jobSubject_def Let_def intro!: along_intros split: op_splits)

lemma ev_startJob [along_intros]: "along evolves (startJob E subject job el v opts)"
  by (auto simp: startJob_def Let_def intro!: along_intros split: op_splits)

lemma ev_PersistFatalError [along_intros]: "along evolves (PersistFatalError fatalError)"
  by (auto simp: PersistFatalError_def Let_def intro!: along_intros split: op_splits)

lemma ev_DeleteFatalError [along_intros]: "along evolves (DeleteFatalError state)"
  by (auto simp: DeleteFatalError_def Let_def intro!: along_intros split: op_splits)

lemma ev_tearDownWorkflow [along_intros]: "along evolves (tearDownWorkflow E state)"
  by (auto simp: tearDownWorkflow_def Let_def intro!: along_intros split: op_splits)


section \<open>Traversals and gateways\<close>

lemma ev_elementName [along_intros]: "along evolves (elementName E ws)"
  by (auto simp: elementName_def Let_def intro!: along_intros split: op_splits)

lemma ev_traverseBranch [along_intros]: "along evolves (traverseBranch E trackingID els recip gwIID state x0)"
  by (auto simp: traverseBranch_def Let_def intro!: along_intros split: op_splits)

lemma ev_openGateway [along_intros]: "along evolves (openGateway E gwIID targets state)"
  by (auto simp: openGateway_def Let_def intro!: along_intros split: op_splits)

lemma ev_traverse [along_intros]: "along evolves (traverse E trackingID outbound els state)"
  by (auto simp: traverse_def Let_def intro!: along_intros split: op_splits)

lemma ev_completeActivity [along_intros]: "along evolves (completeActivity E state)"
  by (auto simp: completeActivity_def Let_def intro!: along_intros split: op_splits)

lemma ev_orNak [along_intros]:
  "along evolves m \<Longrightarrow> (\<And>v. along evolves (f v)) \<Longrightarrow> along evolves (orNak m f)"
  by (auto simp: orNak_def intro!: along_intros)

lemma ev_guardProcess [along_intros]:
  "(\<And>v. along evolves (f v)) \<Longrightarrow> along evolves (guardProcess st nak f)"
  by (auto simp: guardProcess_def intro!: along_intros split: prod.splits if_splits)

lemma ev_GetGatewayInstance [along_intros]: "along evolves (GetGatewayInstance gatewayInstanceID)"
  by (auto simp: GetGatewayInstance_def Let_def intro!: along_intros split: op_splits)

lemma ev_processGatewayActivation [along_intros]: "along evolves (processGatewayActivation E job)"
  by (auto simp: processGatewayActivation_def Let_def intro!: along_intros split: op_splits)

lemma ev_completeGateway [along_intros]: "along evolves (completeGateway E job)"
  by (auto simp: completeGateway_def Let_def intro!: along_intros split: op_splits)

lemma ev_mergeAndComplete [along_intros]: "along evolves (mergeAndComplete E gw job)"
  by (auto simp: mergeAndComplete_def Let_def intro!: along_intros split: op_splits)

lemma ev_gatewayDecide [along_intros]: "along evolves (gatewayDecide E spec gatewayIID gw job)"
  by (auto simp: gatewayDecide_def Let_def intro!: along_intros split: op_splits)

lemma ev_gatewayExecProcessor [along_intros]: "along evolves (gatewayExecProcessor E job)"
  by (auto simp: gatewayExecProcessor_def Let_def intro!: along_intros split: op_splits)


section \<open>Compensation\<close>

lemma ev_CreateConsumer [along_intros]: "along evolves (CreateConsumer name)"
  by (auto simp: CreateConsumer_def Let_def intro!: along_intros split: op_splits)

lemma ev_planEntry [along_intros]: "along evolves (planEntry els forCompensation entry)"
  by (auto simp: planEntry_def Let_def intro!: along_intros split: op_splits)

lemma ev_publishStep [along_intros]: "along evolves (publishStep E subject len x0)"
  by (auto simp: publishStep_def Let_def intro!: along_intros split: op_splits)

lemma ev_Compensate [along_intros]: "along evolves (Compensate E state)"
  by (auto simp: Compensate_def Let_def intro!: along_intros split: op_splits)

lemma ev_fetchPlan [along_intros]: "along evolves (fetchPlan name subject)"
  by (auto simp: fetchPlan_def Let_def intro!: along_intros split: op_splits)

lemma ev_ackPlan [along_intros]: "along evolves (ackPlan name)"
  by (auto simp: ackPlan_def Let_def intro!: along_intros split: op_splits)

lemma ev_headerInt [along_intros]: "along evolves (headerInt m h)"
  by (auto simp: headerInt_def Let_def intro!: along_intros split: op_splits)

lemma ev_runStep [along_intros]: "along evolves (runStep E state els jobExecuteHistoryID step steps)"
  by (auto simp: runStep_def Let_def intro!: along_intros split: op_splits)

lemma ev_processProcessCompensate [along_intros]: "along evolves (processProcessCompensate E state)"
  by (auto simp: processProcessCompensate_def Let_def intro!: along_intros split: op_splits)

lemma ev_finishCompensation [along_intros]: "along evolves (finishCompensation E els cid state)"
  by (auto simp: finishCompensation_def Let_def intro!: along_intros split: op_splits)

lemma ev_compensationJobComplete [along_intros]: "along evolves (compensationJobComplete E job)"
  by (auto simp: compensationJobComplete_def Let_def intro!: along_intros split: op_splits)


section \<open>Messages\<close>

lemma ev_hasAllReceivers [along_intros]: "along evolves (hasAllReceivers x messageName)"
  by (auto simp: hasAllReceivers_def Let_def intro!: along_intros split: op_splits)

lemma ev_deliverTo [along_intros]: "along evolves (deliverTo E vs rs)"
  by (induction rs) (auto intro!: along_intros)

lemma ev_recipients [along_intros]: "along evolves (recipients E justArrived receiverName x)"
  by (auto simp: recipients_def Let_def intro!: along_intros split: op_splits)

lemma ev_attemptMessageDelivery [along_intros]: "along evolves (attemptMessageDelivery E x receiverName justArrived messageName correlationKey)"
  by (auto simp: attemptMessageDelivery_def Let_def intro!: along_intros split: op_splits)

lemma ev_handleMessageExchange [along_intros]: "along evolves (handleMessageExchange E pty setPartyFn elementId x messageName correlationKey)"
  by (auto simp: handleMessageExchange_def Let_def intro!: along_intros split: op_splits)

lemma ev_processMessage [along_intros]: "along evolves (processMessage E inst)"
  by (auto simp: processMessage_def Let_def intro!: along_intros split: op_splits)

lemma ev_awaitMessageProcessor [along_intros]: "along evolves (awaitMessageProcessor E job)"
  by (auto simp: awaitMessageProcessor_def Let_def intro!: along_intros split: op_splits)


section \<open>Launching\<close>

lemma ev_expectVars [along_intros]: "along evolves (expectVars E vs xs)"
  by (induction xs) (auto intro!: along_intros split: option.splits if_splits)

lemma ev_forEachStartElement [along_intros]:
  "(\<And>e. along evolves (f e)) \<Longrightarrow> along evolves (forEachStartElement pr f)"
  by (auto simp: forEachStartElement_def intro!: along_intros)

lemma ev_startElement [along_intros]: "along evolves (startElement E ID prId workflowName wfID executionId vrs pid e)"
  by (auto simp: startElement_def Let_def intro!: along_intros split: op_splits)

lemma ev_launchProcess [along_intros]: "along evolves (launchProcess E ID prId pr workflowName wfID executionId vrs parentpiID parentElID headers)"
  by (auto simp: launchProcess_def Let_def intro!: along_intros split: op_splits)

lemma ev_rollBackLaunch [along_intros]: "along evolves (rollBackLaunch E e)"
  by (auto simp: rollBackLaunch_def Let_def intro!: along_intros split: op_splits)

lemma ev_launchDefinition [along_intros]: "along evolves (launchDefinition E processId)"
  by (auto simp: launchDefinition_def Let_def intro!: along_intros split: op_splits)

lemma ev_launchExecution [along_intros]: "along evolves (launchExecution E workflowName wfID wkf vrs headers parentpiID)"
  by (auto simp: launchExecution_def Let_def intro!: along_intros split: op_splits)

lemma ev_launchProcesses [along_intros]: "along evolves (launchProcesses wkf processId)"
  by (auto simp: launchProcesses_def Let_def intro!: along_intros split: op_splits)

lemma ev_LaunchWithParent [along_intros]: "along evolves (LaunchWithParent E processId ID vrs headers parentpiID parentElID)"
  by (auto simp: LaunchWithParent_def Let_def intro!: along_intros split: op_splits)


section \<open>The activity life cycle\<close>

lemma ev_timerDue [along_intros]: "along evolves (timerDue E i vrs)"
  by (auto simp: timerDue_def Let_def intro!: along_intros split: op_splits)

lemma ev_startTimer [along_intros]: "along evolves (startTimer E traversal newState i)"
  by (auto simp: startTimer_def Let_def intro!: along_intros split: op_splits)

lemma ev_writeElement:
  assumes "\<And>d. el_Type d = el_Type el \<Longrightarrow> as_stored (f d) = as_stored d"
  shows "along evolves (writeElement wid el f)"
proof (rule alongI)
  fix w
  let ?g = "\<lambda>d. if el_Id d = el_Id el \<and> el_Type d = el_Type el then f d else d"
  have m: "mapWorkflow as_stored (mapWorkflow ?g v) = mapWorkflow as_stored v" for v
    using assms by (intro mapWorkflow_same) simp
  show "evolves w (snd (writeElement wid el f w))" by (auto simp: writeElement_def evolves_def cache_faithful_def map_of_cached m)
qed

lemma ev_serviceVersion: "el_Type el = ServiceTask \<Longrightarrow> along evolves (serviceVersion wid el)"
  by (auto simp: serviceVersion_def as_stored_def intro!: along_intros ev_writeElement split: option.splits)

lemma ev_timerEmbargo [along_intros]: "along evolves (timerEmbargo E el vrs)"
  by (auto simp: timerEmbargo_def Let_def intro!: along_intros split: op_splits)

lemma ev_startIntermediateTimer [along_intros]: "along evolves (startIntermediateTimer E el traversal newState)"
  by (auto simp: startIntermediateTimer_def Let_def intro!: along_intros split: op_splits)

lemma ev_startDispatch [along_intros]: "along evolves (startDispatch E pi el traversal newState)"
proof (cases "el_Type el = ServiceTask")
  case True
  then have "el_Type el \<noteq> StartEvent" "el_Type el \<noteq> Gateway" by (simp_all add: element_type_defs)
  with True show ?thesis unfolding startDispatch_def Let_def
    by (simp only: if_False if_True simp_thms) (intro ev.along_bnd ev_serviceVersion along_intros; assumption)
next
  case False
  then show ?thesis unfolding startDispatch_def Let_def
    by (simp only: if_False) (auto intro!: along_intros split: option.splits)
qed

lemma ev_startFinish [along_intros]: "along evolves (startFinish E pi els el status newState)"
  by (auto simp: startFinish_def Let_def intro!: along_intros split: op_splits)

lemma ev_activityStartProcessor [along_intros]: "along evolves (activityStartProcessor E newActivityID traversal traverseOnly)"
  by (auto simp: activityStartProcessor_def Let_def intro!: along_intros split: op_splits)

lemma ev_completeJobProcessor [along_intros]: "along evolves (completeJobProcessor E job)"
  by (auto simp: completeJobProcessor_def Let_def intro!: along_intros split: op_splits)

lemma ev_linkTargets [along_intros]: "along evolves (linkTargets E wid els el)"
  by (auto simp: linkTargets_def Let_def as_stored_def intro!: along_intros ev_writeElement split: option.splits prod.splits)

lemma ev_completeParentJob [along_intros]: "along evolves (completeParentJob E state pi jobID)"
  by (auto simp: completeParentJob_def Let_def intro!: along_intros split: op_splits)

lemma ev_activityCompleteProcessor [along_intros]: "along evolves (activityCompleteProcessor E state)"
  by (auto simp: activityCompleteProcessor_def Let_def intro!: along_intros split: op_splits)

lemma ev_launchProcessor [along_intros]: "along evolves (launchProcessor E state)"
  by (auto simp: launchProcessor_def Let_def intro!: along_intros split: op_splits)

lemma ev_newTraceID [along_intros]: "along evolves (newTraceID E)"
  by (rule alongI) (auto simp: newTraceID_def evolves_def cache_faithful_def)

lemma ev_fireTimer [along_intros]: "along evolves (fireTimer E wkf els el state newTimer fireNext)"
  by (auto simp: fireTimer_def Let_def intro!: along_intros split: op_splits)

lemma ev_timedExecuteProcessor [along_intros]: "along evolves (timedExecuteProcessor E state)"
  by (auto simp: timedExecuteProcessor_def Let_def intro!: along_intros split: op_splits)


section \<open>The message handlers\<close>

lemma ev_settle [along_intros]:
  "(\<And>g s. sig = Some g \<Longrightarrow> along evolves (g s)) \<Longrightarrow> along evolves (settle sig bo r)"
  by (auto simp: settle_def intro!: along_intros split: goerr.splits option.splits prod.splits if_splits)

lemma ev_processMsg [along_intros]:
  "(\<And>g s. sig = Some g \<Longrightarrow> along evolves (g s)) \<Longrightarrow> along evolves m \<Longrightarrow> along evolves (processMsg E sig bo emb m)"
  by (auto simp: processMsg_def Let_def intro!: along_intros split: option.splits prod.splits if_splits)

lemma ev_deleteJob [along_intros]: "along evolves (deleteJob E state)"
  by (auto simp: deleteJob_def Let_def intro!: along_intros split: op_splits)

lemma ev_archiveEntry [along_intros]: "along evolves (archiveEntry k)"
  by (auto simp: archiveEntry_def Let_def intro!: along_intros split: op_splits)

lemma ev_deleteProcessHistory [along_intros]: "along evolves (deleteProcessHistory E processId)"
  by (auto simp: deleteProcessHistory_def Let_def intro!: along_intros split: op_splits)

lemma ev_processTraversals [along_intros]: "along evolves (processTraversals E traversal)"
  by (auto simp: processTraversals_def Let_def intro!: along_intros split: op_splits)

lemma ev_track [along_intros]: "along evolves (track sj p)"
  by (auto simp: track_def Let_def intro!: along_intros split: op_splits)

lemma ev_processCompletedJobs [along_intros]: "along evolves (processCompletedJobs E job)"
  by (auto simp: processCompletedJobs_def Let_def intro!: along_intros split: op_splits)

lemma ev_processWorkflowEvents [along_intros]: "along evolves (processWorkflowEvents E subject job)"
  by (auto simp: processWorkflowEvents_def Let_def intro!: along_intros split: op_splits)

lemma ev_processActivities [along_intros]: "along evolves (processActivities E subject activity)"
  by (auto simp: processActivities_def Let_def intro!: along_intros split: op_splits)

lemma ev_processLaunch [along_intros]: "along evolves (processLaunch E job)"
  by (auto simp: processLaunch_def Let_def intro!: along_intros split: op_splits)

lemma ev_processJobAbort [along_intros]: "along evolves (processJobAbort E subject state)"
  by (auto simp: processJobAbort_def Let_def intro!: along_intros split: op_splits)

lemma ev_processProcessComplete [along_intros]: "along evolves (processProcessComplete E state)"
  by (auto simp: processProcessComplete_def Let_def intro!: along_intros split: op_splits)

lemma ev_processProcessTerminate [along_intros]: "along evolves (processProcessTerminate E state)"
  by (auto simp: processProcessTerminate_def Let_def intro!: along_intros split: op_splits)

lemma ev_processGeneralAbort [along_intros]: "along evolves (processGeneralAbort E subject state)"
  by (auto simp: processGeneralAbort_def Let_def intro!: along_intros split: op_splits)

lemma ev_processFatalError [along_intros]: "along evolves (processFatalError E fatalErr)"
  by (auto simp: processFatalError_def Let_def intro!: along_intros split: op_splits)

lemma ev_processJobRetry [along_intros]: "along evolves (processJobRetry E state)"
  by (auto simp: processJobRetry_def Let_def intro!: along_intros split: op_splits)

lemma ev_elementTimer [along_intros]: "along evolves (elementTimer E state)"
  by (auto simp: elementTimer_def Let_def intro!: along_intros split: op_splits)

lemma ev_listenForTimer [along_intros]: "along evolves (listenForTimer E subject embargo state)"
  by (auto simp: listenForTimer_def Let_def intro!: along_intros split: op_splits)


end
