(* ===== verification/Dispatch.thy ===== *)
theory Dispatch
  imports Evolution
begin

text \<open>
  The consumers \<open>StartProcessing\<close> sets up on the \<open>WORKFLOW\<close> stream (\<open>engine.go\<close>), and the step
  relation of a running server: any consumer may receive any message of the stream that its
  filter matches, any number of times and in any order, clients call the API in between, calls
  to NATS fail, and the process may be restarted.

  One namespace is modelled: the filters admit every namespace and each message is handled in
  its own.
\<close>

section \<open>The wildcard subjects\<close>

definition WorkFlowJobAbortAll :: string where "WorkFlowJobAbortAll = wsubj ''.State.Job.Abort.*''"
definition WorkFlowJobCompleteAll :: string where "WorkFlowJobCompleteAll = wsubj ''.State.Job.Complete.*''"
definition WorkflowActivityAll :: string where "WorkflowActivityAll = wsubj ''.State.Activity.>''"
definition WorkflowGeneralAbortAll :: string where "WorkflowGeneralAbortAll = wsubj ''.State.*.Abort''"
definition WorkflowExecutionAll :: string where "WorkflowExecutionAll = wsubj ''.State.Execution.>''"

section \<open>The consumers\<close>

record consumer =
  cn_Durable :: string
  cn_Filter :: string
  cn_Handler :: "pubmsg \<Rightarrow> disposition act"

text \<open>A handler of \<open>common.Process\<close>: the embargo, the handler on the decoded state, and the
  disposition with the signal function the consumer passes.\<close>

type_synonym signal_fn = "(workflow_state \<Rightarrow> unit act) option"

definition onState :: "env \<Rightarrow> signal_fn \<Rightarrow> (pubmsg \<Rightarrow> workflow_state \<Rightarrow> ack_err act) \<Rightarrow> pubmsg \<Rightarrow> disposition act" where
  "onState E sig h m =
     processMsg E sig False (pm_Embargo m)
       (orNak (lift_res (decodeState (pm_Payload m))) (h m))"

definition decodeMessage :: "payload \<Rightarrow> (goerr, message_instance) res" where
  "decodeMessage p = (case p of PMessage s \<Rightarrow> Ok s | _ \<Rightarrow> Err (ErrOther ''proto: cannot parse invalid wire-format data''))"

definition decodeFatal :: "payload \<Rightarrow> (goerr, fatal_error) res" where
  "decodeFatal p = (case p of PFatal s \<Rightarrow> Ok s | _ \<Rightarrow> Err (ErrOther ''proto: cannot parse invalid wire-format data''))"

definition timerListener :: "env \<Rightarrow> pubmsg \<Rightarrow> disposition act" where
  "timerListener E m =
     (case decodeState (pm_Payload m) of
        Ok state \<Rightarrow> listenForTimer E (pm_Subject m) (pm_Embargo m) state
      | _ \<Rightarrow> ret Acked)"

definition stateConsumer :: "env \<Rightarrow> signal_fn \<Rightarrow> string \<Rightarrow> string \<Rightarrow> (pubmsg \<Rightarrow> workflow_state \<Rightarrow> ack_err act) \<Rightarrow> consumer" where
  "stateConsumer E sig durable subject h =
     \<lparr> cn_Durable = durable, cn_Filter = NS subject ''*'', cn_Handler = onState E sig h \<rparr>"

definition StartProcessing :: "env \<Rightarrow> consumer list" where
  "StartProcessing E =
    (let teardown = Some (SignalFatalErrorTeardown E) in
    [ stateConsumer E teardown ''Traversal'' WorkflowTraversalExecute (\<lambda>_. processTraversals E),
      stateConsumer E teardown ''JobAbortConsumer'' WorkFlowJobAbortAll (\<lambda>m. processJobAbort E (pm_Subject m)),
      stateConsumer E teardown ''GeneralAbortConsumer'' WorkflowGeneralAbortAll (\<lambda>m. processGeneralAbort E (pm_Subject m)),
      \<lparr> cn_Durable = ''Tracking'', cn_Filter = ''WORKFLOW.>'',
        cn_Handler = (\<lambda>m. processMsg E teardown False (pm_Embargo m)
                            (track (pm_Subject m) (pm_Payload m))) \<rparr>,
      stateConsumer E teardown ''WorkflowConsumer'' WorkflowExecutionAll (\<lambda>m. processWorkflowEvents E (pm_Subject m)),
      \<lparr> cn_Durable = ''Message'', cn_Filter = NS WorkflowMessage ''*'',
        cn_Handler = (\<lambda>m. processMsg E teardown False (pm_Embargo m)
                            (orNak (lift_res (decodeMessage (pm_Payload m))) (processMessage E))) \<rparr>,
      \<lparr> cn_Durable = ''workflowTimers'', cn_Filter = NS (wsubj ''.Timers.>'') ''*'', cn_Handler = timerListener E \<rparr>,
      stateConsumer E teardown ''JobCompleteConsumer'' WorkFlowJobCompleteAll (\<lambda>_. processCompletedJobs E),
      stateConsumer E teardown ''ActivityConsumer'' WorkflowActivityAll (\<lambda>m. processActivities E (pm_Subject m)),
      stateConsumer E teardown ''LaunchConsumer'' WorkflowJobLaunchExecute (\<lambda>_. processLaunch E),
      stateConsumer E teardown ''ProcessCompleteConsumer'' WorkflowProcessComplete (\<lambda>_. processProcessComplete E),
      stateConsumer E None ''ProcessCompensateConsumer'' WorkflowProcessCompensate (\<lambda>_. processProcessCompensate E),
      stateConsumer E teardown ''ProcessTerminateConsumer'' WorkflowProcessTerminated (\<lambda>_. processProcessTerminate E),
      stateConsumer E teardown ''GatewayActivateConsumer'' WorkflowJobGatewayTaskActivate (\<lambda>_. processGatewayActivation E),
      stateConsumer E teardown ''AwaitMessageConsumer'' WorkflowJobAwaitMessageExecute (\<lambda>_. awaitMessageProcessor E),
      stateConsumer E teardown ''GatewayExecuteConsumer'' WorkflowJobGatewayTaskExecute (\<lambda>_. gatewayExecProcessor E),
      stateConsumer E teardown ''GatewayReEnterConsumer'' WorkflowJobGatewayTaskReEnter (\<lambda>_. gatewayExecProcessor E),
      \<lparr> cn_Durable = ''FatalErrorConsumer'', cn_Filter = NS WorkflowSystemProcessFatalError ''*'',
        cn_Handler = (\<lambda>m. processMsg E None False (pm_Embargo m)
                            (orNak (lift_res (decodeFatal (pm_Payload m))) (processFatalError E))) \<rparr>,
      stateConsumer E None ''JobRetryConsumer'' WorkflowJobRetry (\<lambda>_. processJobRetry E) ])"

definition receives :: "consumer \<Rightarrow> pubmsg \<Rightarrow> bool" where
  "receives c m = subject_matches (SplitChar (CHR ''.'') (cn_Filter c)) (SplitChar (CHR ''.'') (pm_Subject m))"

section \<open>The requests of clients\<close>

text \<open>The calls of the API that concern running executions.  Calls that register workflows and
  task specifications are not steps of this relation.\<close>

datatype request =
    RLaunch string bytes bytes
  | RCompleteManualTask workflow_state bytes
  | RCompleteServiceTask workflow_state bytes
  | RCompleteSendMessageTask workflow_state bytes
  | RCompleteUserTask workflow_state bytes
  | RCancelProcessInstance workflow_state
  | RHandleWorkflowError string bytes workflow_state
  | RRetryActivity workflow_state
  | RSendMessage message_instance

primrec serve :: "env \<Rightarrow> request \<Rightarrow> unit act" where
  "serve E (RLaunch processId vrs headers) = bnd (Launch E processId vrs headers) (\<lambda>_. ret ())"
| "serve E (RCompleteManualTask job vs) = CompleteManualTask E job vs"
| "serve E (RCompleteServiceTask job vs) = CompleteServiceTask E job vs"
| "serve E (RCompleteSendMessageTask job vs) = CompleteSendMessageTask E job vs"
| "serve E (RCompleteUserTask job vs) = CompleteUserTask E job vs"
| "serve E (RCancelProcessInstance state) = CancelProcessInstance E state"
| "serve E (RHandleWorkflowError code vs state) = HandleWorkflowError E code vs state"
| "serve E (RRetryActivity state) = RetryActivity E state"
| "serve E (RSendMessage inst) = PublishMsg E (NS WorkflowMessage (e_ns E)) (PMessage inst)"

section \<open>The step relation\<close>

inductive server_step :: "env \<Rightarrow> world \<Rightarrow> world \<Rightarrow> bool" for E where
  deliver: "m \<in> set (published w) \<Longrightarrow> c \<in> set (StartProcessing E) \<Longrightarrow> receives c m \<Longrightarrow>
            cn_Handler c m w = (r, w') \<Longrightarrow> server_step E w w'"
| request: "serve E q w = (r, w') \<Longrightarrow> server_step E w w'"
| outage: "server_step E w (w\<lparr> faults := fs \<rparr>)"
| restart: "server_step E w (w\<lparr> sCache := [] \<rparr>)"

inductive_cases server_stepE: "server_step E w w'"

section \<open>Every step evolves the world\<close>

lemma ev_onState [along_intros]: "(\<And>s. along evolves (h m s)) \<Longrightarrow> (\<And>g s. sig = Some g \<Longrightarrow> along evolves (g s)) \<Longrightarrow> along evolves (onState E sig h m)"
  by (auto simp: onState_def intro!: along_intros)

lemma ev_timerListener [along_intros]: "along evolves (timerListener E m)"
  unfolding timerListener_def by (auto intro!: along_intros split: res.splits)

lemma ev_consumer: "c \<in> set (StartProcessing E) \<Longrightarrow> along evolves (cn_Handler c m)"
  by (auto simp: StartProcessing_def stateConsumer_def Let_def intro!: along_intros)

lemma ev_checkedJob [along_intros]: "along evolves (checkedJob E job vs)"
  by (auto simp: checkedJob_def Let_def intro!: along_intros split: option.splits res.splits)

lemma ev_completions [along_intros]:
  "along evolves (CompleteManualTask E job vs)" "along evolves (CompleteServiceTask E job vs)"
  "along evolves (CompleteSendMessageTask E job vs)" "along evolves (CompleteUserTask E job vs)"
  by (auto simp: CompleteManualTask_def CompleteServiceTask_def CompleteSendMessageTask_def CompleteUserTask_def Let_def
      intro!: along_intros split: option.splits res.splits)

lemma ev_CancelProcessInstance [along_intros]: "along evolves (CancelProcessInstance E st)"
  by (auto simp: CancelProcessInstance_def intro!: along_intros)

lemma ev_RetryActivity [along_intros]: "along evolves (RetryActivity E st)"
  by (auto simp: RetryActivity_def intro!: along_intros)

lemma ev_unknownError [along_intros]: "along evolves (unknownError E code st)"
  by (auto simp: unknownError_def Let_def intro!: along_intros)

lemma ev_handleCaught [along_intros]: "along evolves (handleCaught E wkf els ce vs st)"
  by (auto simp: handleCaught_def Let_def intro!: along_intros split: option.splits res.splits)

lemma ev_HandleWorkflowError [along_intros]: "along evolves (HandleWorkflowError E code vs st)"
  by (auto simp: HandleWorkflowError_def Let_def intro!: along_intros split: option.splits res.splits prod.splits)

lemma ev_Launch [along_intros]: "along evolves (Launch E p vs hs)"
  by (auto simp: Launch_def intro!: along_intros)

lemma ev_serve: "along evolves (serve E q)"
  by (cases q) (auto intro!: along_intros)

lemma server_step_evolves: "server_step E w w' \<Longrightarrow> evolves w w'"
proof (induction rule: server_step.induct)
  case (deliver m w c r w')
  then show ?case using alongD [OF ev_consumer [of c E m]] by blast
next
  case (request q w r w')
  then show ?case using alongD [OF ev_serve] by blast
qed (simp_all add: evolves_def cache_faithful_def)


end
