(* ===== verification/Saga.thy ===== *)
theory Saga
  imports Compensation
begin

text \<open>
  The whole of a compensation: the plan that \<open>Compensate\<close> publishes is run by the consumer of
  \<open>compensation.go\<close>, step by step, each step waiting for the completion of the service task it
  started.  The theorem shows that every completed job of the process that has a compensating
  task is compensated exactly once, the latest first, and that the process then ends.
\<close>

section \<open>The rounds\<close>

text \<open>One round: the message that asks for a step is handled, a worker completes the job with
  variables of its own, and the completion is handled.  The state that is published last asks for
  the next step.\<close>

fun comp_rounds :: "env \<Rightarrow> bytes list \<Rightarrow> workflow_state \<Rightarrow> world \<Rightarrow> (workflow_state list \<times> world) option" where
  "comp_rounds E [] s w = Some ([], w)"
| "comp_rounds E (nv # nvs) s w =
     (case processProcessCompensate E s w of
        (Ok (True, None), w1) \<Rightarrow>
          (case state_of (last (published w1)) of
             None \<Rightarrow> None
           | Some job \<Rightarrow>
               (case compensationJobComplete E (job\<lparr> ws_Vars := nv \<rparr>) w1 of
                  (Ok _, w2) \<Rightarrow>
                    (case state_of (last (published w2)) of
                       None \<Rightarrow> None
                     | Some s2 \<Rightarrow> map_option (\<lambda>(js, w3). (job # js, w3)) (comp_rounds E nvs s2 w2))
                | _ \<Rightarrow> None))
      | _ \<Rightarrow> None)"

section \<open>What is compensated\<close>

text \<open>The job of a history entry can be undone: its compensating element is a service task with
  a known specification, whose transformations can be evaluated.\<close>

definition undoable :: "env \<Rightarrow> world \<Rightarrow> (string \<times> element) list \<Rightarrow> string \<Rightarrow> string \<Rightarrow> bool" where
  "undoable E w els wid key \<longleftrightarrow> (\<exists>entry el v spec e.
     kv_get (kvHistory w) key = Some entry \<and> compensator els entry = Some el \<and> he_WorkflowId entry = Some wid \<and>
     map_of els (el_Id el) = Some e \<and> el_data e = el \<and>
     el_Type el = ServiceTask \<and> el_Iteration el = None \<and> el_Version el = Some v \<and> \<not> ContainsS v ''%s'' \<and>
     kv_get (kvTaskSpec w) v = Some spec \<and> (\<forall>vs. \<exists>r. InputVars E vs [] el = Ok r) \<and>
     (\<forall>a b. \<exists>r. OutputVars E a b (el_OutputTransform el) = Ok r))"

text \<open>The job undoes step \<open>i\<close> of \<open>n\<close>, which the history records under the key.\<close>

definition undoes :: "(string \<times> element) list \<Rightarrow> history_entry bucket \<Rightarrow> nat \<Rightarrow> nat \<Rightarrow> string \<Rightarrow> workflow_state \<Rightarrow> bool" where
  "undoes els h n i key job \<longleftrightarrow> (\<exists>entry el. kv_get h key = Some entry \<and> compensator els entry = Some el \<and>
     ws_ElementId job = el_Id el \<and> ws_State job = compensating \<and>
     ws_Compensation job = Some \<lparr> cp_Step = int i, cp_TotalSteps = int n, cp_ForTrackingId = TID (he_Id entry) \<rparr>)"

lemma undoes_cong: "kv_get h key = kv_get h' key \<Longrightarrow> undoes els h n i key job \<longleftrightarrow> undoes els h' n i key job"
  by (simp add: undoes_def)

definition old_key :: "env \<Rightarrow> world \<Rightarrow> string \<Rightarrow> string \<Rightarrow> string \<Rightarrow> bool" where
  "old_key E w pid sid key \<longleftrightarrow> (\<forall>m \<ge> nextId w. key \<noteq> historyKey pid (ksuid E m) jobExecute) \<and>
     key \<noteq> historyKey pid sid compensationCheckpoint"

definition saga_frame :: "env \<Rightarrow> string \<Rightarrow> string \<Rightarrow> world \<Rightarrow> world \<Rightarrow> bool" where
  "saga_frame E pid sid w w' \<longleftrightarrow> kvTaskSpec w' = kvTaskSpec w \<and> consumers w' = consumers w \<and> nextId w \<le> nextId w' \<and>
     (\<forall>key. old_key E w pid sid key \<longrightarrow> kv_get (kvHistory w') key = kv_get (kvHistory w) key)"

lemma old_key_mono: "nextId w \<le> nextId w' \<Longrightarrow> old_key E w pid sid key \<Longrightarrow> old_key E w' pid sid key"
  by (auto simp: old_key_def)

lemma saga_frame_trans: "saga_frame E pid sid a b \<Longrightarrow> saga_frame E pid sid b c \<Longrightarrow> saga_frame E pid sid a c"
  by (auto simp: saga_frame_def dest: old_key_mono)

lemma undoable_frame:
  "saga_frame E pid sid w w' \<Longrightarrow> old_key E w pid sid key \<Longrightarrow> undoable E w els wid key \<Longrightarrow> undoable E w' els wid key"
  unfolding undoable_def saga_frame_def by simp

section \<open>A step of the plan\<close>

text \<open>The subject of a service task is not that of a plan.\<close>

lemma NS_dotted:
  assumes "ns_ok E" "\<not> ContainsS s ''%s''"
  shows "NS (''WORKFLOW.'' @ e_ns E @ CHR ''.'' # s) ns = ''WORKFLOW.'' @ e_ns E @ CHR ''.'' # s"
  using NS_NS [OF assms, of ns] by (simp add: NS_wsubj)

lemma planSubject_text: "planSubject E sid = ''WORKFLOW.'' @ e_ns E @ ''.Compensate.'' @ sid"
  using NS_wsubj [of "''.Compensate.''" "e_ns E"] by (simp add: planSubject_def wsubj_def)

lemma task_subject_NS:
  assumes "ns_ok E" "\<not> ContainsS v ''%s''"
  shows "NS (task_subject spec (NS WorkflowJobServiceTaskExecute (e_ns E) @ ''.'' @ v)) (e_ns E) =
      task_subject spec (NS WorkflowJobServiceTaskExecute (e_ns E) @ ''.'' @ v)"
    and "task_subject spec (NS WorkflowJobServiceTaskExecute (e_ns E) @ ''.'' @ v) \<noteq> planSubject E sid"
    and "task_subject spec (NS WorkflowJobServiceTaskExecute (e_ns E) @ ''.'' @ v) \<noteq> NS WorkflowJobUserTaskExecute (e_ns E)"
proof -
  define t where "t = (if (case ts_Behaviour spec of None \<Rightarrow> False | Some b \<Rightarrow> tb_Mock b) then ''.Mock'' else [])"
  have t: "task_subject spec (NS WorkflowJobServiceTaskExecute (e_ns E) @ ''.'' @ v) =
      ''WORKFLOW.'' @ e_ns E @ CHR ''.'' # ''State.Job.Execute.ServiceTask'' @ CHR ''.'' # v @ t" "t = [] \<or> t = CHR ''.'' # ''Mock''"
    by (simp_all add: task_subject_def WorkflowJobServiceTaskExecute_def NS_wsubj t_def)
  have "\<not> ContainsS ''Mock'' ''%s''" "\<not> ContainsS ''State.Job.Execute.ServiceTask'' ''%s''" by (simp_all add: HasPrefix_def)
  then have "\<not> ContainsS (v @ t) ''%s''" using t(2) assms(2) by (metis ContainsS_dot append_Nil2)
  then have "\<not> ContainsS (''State.Job.Execute.ServiceTask'' @ CHR ''.'' # v @ t) ''%s''"
    using \<open>\<not> ContainsS ''State.Job.Execute.ServiceTask'' ''%s''\<close> unfolding ContainsS_dot by simp
  from NS_dotted [OF assms(1) this] show "NS (task_subject spec (NS WorkflowJobServiceTaskExecute (e_ns E) @ ''.'' @ v)) (e_ns E) =
      task_subject spec (NS WorkflowJobServiceTaskExecute (e_ns E) @ ''.'' @ v)" unfolding t(1) by simp
  show "task_subject spec (NS WorkflowJobServiceTaskExecute (e_ns E) @ ''.'' @ v) \<noteq> planSubject E sid"
    "task_subject spec (NS WorkflowJobServiceTaskExecute (e_ns E) @ ''.'' @ v) \<noteq> NS WorkflowJobUserTaskExecute (e_ns E)"
    unfolding t(1) by (simp_all add: planSubject_text WorkflowJobUserTaskExecute_def NS_wsubj)
qed

text \<open>What a step leaves for its completion.\<close>

definition step_started :: "env \<Rightarrow> (string \<times> element) list \<Rightarrow> workflow_state \<Rightarrow> nat \<Rightarrow> workflow_state \<Rightarrow> world \<Rightarrow> world \<Rightarrow> bool" where
  "step_started E els s k job w w1 \<longleftrightarrow> (\<exists>m jid cp. published w1 = published w @ [m] \<and> state_of m = Some job \<and>
     pm_Subject m \<noteq> planSubject E (TID (ws_Id s)) \<and>
     ws_Id job = Push (ws_Id s) jid \<and> ws_ProcessInstanceId job = ws_ProcessInstanceId s \<and>
     ws_WorkflowId job = ws_WorkflowId s \<and> ws_ProcessId job = ws_ProcessId s \<and> comp_ready w1 job els \<and>
     kv_get (kvHistory w1) (historyKey (ws_ProcessInstanceId s) (TID (ws_Id s)) compensationCheckpoint) = Some cp \<and>
     planAcks w1 = AList.update (consumerPrefix @ TID (ws_Id s)) (Suc k) (planAcks w) \<and>
     saga_frame E (ws_ProcessInstanceId s) (TID (ws_Id s)) w w1)"

lemma runStep_started:
  assumes "comp_ready w s els" "ns_ok E" "undoable E w els (ws_WorkflowId s) key"
    and "dot_free (ws_ProcessInstanceId s)" "dot_free (TID (ws_Id s))" "\<forall>m. dot_free (ksuid E m)"
  shows "\<exists>job w1 m jid cp. runStep E s els key (int k) (int n) w = (Ok (True, None), w1) \<and> undoes els (kvHistory w) n k key job \<and>
     published w1 = published w @ [m] \<and> state_of m = Some job \<and> pm_Subject m \<noteq> planSubject E (TID (ws_Id s)) \<and>
     ws_Id job = Push (ws_Id s) jid \<and> ws_ProcessInstanceId job = ws_ProcessInstanceId s \<and>
     ws_WorkflowId job = ws_WorkflowId s \<and> ws_ProcessId job = ws_ProcessId s \<and> comp_ready w1 job els \<and>
     kv_get (kvHistory w1) (historyKey (ws_ProcessInstanceId s) (TID (ws_Id s)) compensationCheckpoint) = Some cp \<and>
     planAcks w1 = planAcks w \<and> saga_frame E (ws_ProcessInstanceId s) (TID (ws_Id s)) w w1"
proof -
  obtain entry el v spec e where u: "kv_get (kvHistory w) key = Some entry" "compensator els entry = Some el"
    "he_WorkflowId entry = Some (ws_WorkflowId s)" "map_of els (el_Id el) = Some e" "el_data e = el" "el_Type el = ServiceTask"
    "el_Iteration el = None" "el_Version el = Some v" "\<not> ContainsS v ''%s''" "kv_get (kvTaskSpec w) v = Some spec"
    "\<forall>vs. \<exists>r. InputVars E vs [] el = Ok r"
    using assms(3) by (auto simp: undoable_def)
  obtain r where r: "InputVars E (ws_Vars s) [] el = Ok r" using u(11) by blast
  note ready = assms(1) [unfolded comp_ready_def]
  let ?pid = "ws_ProcessInstanceId s" and ?sid = "TID (ws_Id s)"
  let ?c = "compensationJob s entry (ws_WorkflowId s) el (clock E (ticks w)) (int k) (int n)"
  let ?w0 = "kvHistory_update (kv_put (historyKey ?pid ?sid compensationCheckpoint) (history_of ?c compensationCheckpoint)) (w\<lparr> ticks := Suc (ticks w) \<rparr>)"
  let ?jid = "ksuid E (nextId w)"
  let ?subj = "task_subject spec (NS WorkflowJobServiceTaskExecute (e_ns E) @ ''.'' @ v)"
  let ?j = "prepared el r ?jid ?c"
  let ?job = "?j\<lparr> ws_UnixTimeNano := clock E (Suc (ticks w)) \<rparr>"
  let ?w1 = "kvHistory_update (kv_put (historyKey ?pid ?jid jobExecute) (history_of ?job jobExecute))
      (pubW E ?subj ?j no_opts (kvJob_update (kv_put ?jid ?j) (?w0\<lparr> nextId := Suc (nextId w) \<rparr>)))"
  have v: "ws_ExecuteVersion ?c = v" "ws_Id ?c = ws_Id s" "ws_ProcessInstanceId ?c = ?pid" "ws_ElementType ?c = ServiceTask"
    using u by (simp_all add: compensationJob_def)
  have n: "NS ?subj (e_ns E) = ?subj" "?subj \<noteq> NS WorkflowJobUserTaskExecute (e_ns E)"
    using task_subject_NS [OF assms(2) u(9)] by simp_all
  have sj: "startJob E (NS WorkflowJobServiceTaskExecute (e_ns E) @ ''.'' @ v) ?c el (ws_Vars s) no_opts ?w0 = (Ok ?job, ?w1)"
    using startJob_service [of ?w0 el v spec E "ws_Vars s" r "NS WorkflowJobServiceTaskExecute (e_ns E) @ ''.'' @ v" ?c no_opts] ready u r n v
    by simp
  have run: "runStep E s els key (int k) (int n) w = (Ok (True, None), ?w1)"
    using ready u sj v by (simp add: runStep_def orNak_def handle_apply bnd_apply Let_def RecordHistoryCompensationCheckpoint_def)
  have "comp_ready ?w1 ?job els"
    using ready by (auto simp: comp_ready_def cache_coherent_def prepared_version [OF u(8)] compensationJob_def)
  moreover have "historyKey ?pid ?sid compensationCheckpoint \<noteq> historyKey ?pid ?jid jobExecute"
    using historyKey_inj [of ?pid ?sid ?pid ?jid compensationCheckpoint jobExecute] assms(4-6) by auto
  moreover have "saga_frame E ?pid ?sid w ?w1" by (auto simp: saga_frame_def old_key_def)
  ultimately show ?thesis using run u(1,2) n(1) task_subject_NS(2) [OF assms(2) u(9), of spec ?sid]
    by (intro exI [of _ ?job] exI [of _ ?w1] exI [of _ "state_msg E ?subj ?j no_opts (kvJob_update (kv_put ?jid ?j) (?w0\<lparr> nextId := Suc (nextId w) \<rparr>))"]
          exI [of _ ?jid] exI [of _ "history_of ?c compensationCheckpoint"])
       (auto simp: undoes_def state_of_def state_msg_def prepared_version [OF u(8)] compensationJob_def)
qed

section \<open>The rounds of a plan\<close>

text \<open>Where the compensation ends: the activity that started it is recorded in the history and
  is an end event of the process.\<close>

definition ends_at :: "env \<Rightarrow> world \<Rightarrow> (string \<times> element) list \<Rightarrow> workflow_state \<Rightarrow> string \<Rightarrow> bool" where
  "ends_at E w els st eid \<longleftrightarrow> (\<exists>act en e0.
     kv_get (kvHistory w) (historyKey (ws_ProcessInstanceId st) (TID (ws_Id st)) activityExecute) = Some act \<and>
     he_ElementId act = Some eid \<and> he_ElementName act = Some en \<and> map_of els eid = Some e0 \<and>
     el_Type (el_data e0) = CompensateEndEvent \<and> (\<forall>a. \<exists>r. OutputVars E a [] (el_OutputTransform (el_data e0)) = Ok r))"

definition saga_ids :: "env \<Rightarrow> workflow_state \<Rightarrow> bool" where
  "saga_ids E st \<longleftrightarrow> dot_free (ws_ProcessInstanceId st) \<and> dot_free (TID (ws_Id st)) \<and> (\<forall>m. dot_free (ksuid E m))"

text \<open>Before step \<open>k\<close> of the plan.\<close>

definition comp_inv :: "env \<Rightarrow> (string \<times> element) list \<Rightarrow> comp_step list \<Rightarrow> workflow_state \<Rightarrow> string \<Rightarrow> nat \<Rightarrow> workflow_state \<Rightarrow> world \<Rightarrow> bool" where
  "comp_inv E els plan st eid k s w \<longleftrightarrow> comp_ready w s els \<and> ws_Id s = ws_Id st \<and>
     ws_ProcessInstanceId s = ws_ProcessInstanceId st \<and> ws_WorkflowId s = ws_WorkflowId st \<and>
     consumerPrefix @ TID (ws_Id st) \<in> set (consumers w) \<and>
     planMessages w (planSubject E (TID (ws_Id st))) = plan_msgs E (planSubject E (TID (ws_Id st))) plan \<and>
     alist_get (planAcks w) 0 (consumerPrefix @ TID (ws_Id st)) = k \<and> ends_at E w els st eid \<and>
     (\<forall>key \<in> set (map snd plan). undoable E w els (ws_WorkflowId st) key \<and>
        old_key E w (ws_ProcessInstanceId st) (TID (ws_Id st)) key)"

lemma old_activity: "saga_ids E st \<Longrightarrow> old_key E w (ws_ProcessInstanceId st) (TID (ws_Id st)) (historyKey (ws_ProcessInstanceId st) (TID (ws_Id st)) activityExecute)"
  unfolding old_key_def saga_ids_def
  using historyKey_inj [of "ws_ProcessInstanceId st" "TID (ws_Id st)" "ws_ProcessInstanceId st"] by blast

lemma comp_inv_step:
  assumes "comp_inv E els plan st eid k s w" "saga_ids E st" "ns_ok E" "k < length plan" "int (length plan) \<le> max_int64"
  shows "\<exists>job w1. processProcessCompensate E s w = (Ok (True, None), w1) \<and>
     undoes els (kvHistory w) (length plan) k (snd (plan ! k)) job \<and> step_started E els s k job w w1 \<and> ends_at E w1 els st eid"
proof -
  note inv = assms(1) [unfolded comp_inv_def]
  let ?n = "consumerPrefix @ TID (ws_Id s)" and ?key = "snd (plan ! k)"
  have st: "ws_Id s = ws_Id st" "ws_ProcessInstanceId s = ws_ProcessInstanceId st" "ws_WorkflowId s = ws_WorkflowId st" using inv by simp_all
  obtain c where c: "processProcessCompensate E s w = runStep E s els ?key (int k) (int (length plan))
       (w\<lparr> sCache := c, planAcks := AList.update ?n (Suc k) (planAcks w) \<rparr>)"
     "comp_ready (w\<lparr> sCache := c, planAcks := AList.update ?n (Suc k) (planAcks w) \<rparr>) s els"
    using compensate_step [of w s els E plan k] inv assms(4,5) by (auto simp: comp_ready_def cache_coherent_def)
  let ?w0 = "w\<lparr> sCache := c, planAcks := AList.update ?n (Suc k) (planAcks w) \<rparr>"
  have "?key \<in> set (map snd plan)" using assms(4) by simp
  then have u: "undoable E ?w0 els (ws_WorkflowId s) ?key" using inv st by (auto simp: undoable_def)
  obtain job w1 m jid cp where r: "runStep E s els ?key (int k) (int (length plan)) ?w0 = (Ok (True, None), w1)"
    "undoes els (kvHistory w) (length plan) k ?key job" "published w1 = published w @ [m]" "state_of m = Some job"
    "pm_Subject m \<noteq> planSubject E (TID (ws_Id s))" "ws_Id job = Push (ws_Id s) jid" "ws_ProcessInstanceId job = ws_ProcessInstanceId s"
    "ws_WorkflowId job = ws_WorkflowId s" "ws_ProcessId job = ws_ProcessId s" "comp_ready w1 job els"
    "kv_get (kvHistory w1) (historyKey (ws_ProcessInstanceId s) (TID (ws_Id s)) compensationCheckpoint) = Some cp"
    "planAcks w1 = AList.update ?n (Suc k) (planAcks w)" "saga_frame E (ws_ProcessInstanceId s) (TID (ws_Id s)) ?w0 w1"
    using runStep_started [OF c(2) assms(3) u, of k "length plan"] assms(2) st by (auto simp: saga_ids_def)
  have f: "saga_frame E (ws_ProcessInstanceId s) (TID (ws_Id s)) w w1"
    using r(13) by (simp add: saga_frame_def old_key_def)
  have "ends_at E w1 els st eid" using inv f old_activity [OF assms(2), of w] st by (simp add: ends_at_def saga_frame_def)
  then show ?thesis using c(1) r f unfolding step_started_def by auto
qed

lemma compensate_subject: "NS WorkflowProcessCompensate (e_ns E) \<noteq> planSubject E sid"
  unfolding planSubject_text by (simp add: WorkflowProcessCompensate_def NS_wsubj)

text \<open>A step that is not the last one leads to the next.\<close>

lemma comp_inv_next:
  assumes "comp_inv E els plan st eid k s w" "saga_ids E st" "ns_ok E" "Suc k < length plan"
    and "undoes els (kvHistory w) (length plan) k (snd (plan ! k)) job" "step_started E els s k job w w1" "ends_at E w1 els st eid"
  shows "\<exists>s2 w2. compensationJobComplete E (job\<lparr> ws_Vars := nv \<rparr>) w1 = (Ok (), w2) \<and>
     state_of (last (published w2)) = Some s2 \<and> comp_inv E els plan st eid (Suc k) s2 w2 \<and>
     saga_frame E (ws_ProcessInstanceId st) (TID (ws_Id st)) w w2"
proof -
  note inv = assms(1) [unfolded comp_inv_def]
  have st: "ws_Id s = ws_Id st" "ws_ProcessInstanceId s = ws_ProcessInstanceId st" "ws_WorkflowId s = ws_WorkflowId st" using inv by simp_all
  obtain m jid cp where j: "published w1 = published w @ [m]" "state_of m = Some job" "pm_Subject m \<noteq> planSubject E (TID (ws_Id st))"
    "ws_Id job = Push (ws_Id st) jid" "ws_ProcessInstanceId job = ws_ProcessInstanceId st" "ws_WorkflowId job = ws_WorkflowId st"
    "comp_ready w1 job els" "kv_get (kvHistory w1) (historyKey (ws_ProcessInstanceId st) (TID (ws_Id st)) compensationCheckpoint) = Some cp"
    "planAcks w1 = AList.update (consumerPrefix @ TID (ws_Id st)) (Suc k) (planAcks w)"
    "saga_frame E (ws_ProcessInstanceId st) (TID (ws_Id st)) w w1"
    using assms(6) st unfolding step_started_def by auto
  obtain entry el where u: "kv_get (kvHistory w) (snd (plan ! k)) = Some entry" "compensator els entry = Some el" "ws_ElementId job = el_Id el"
    "ws_Compensation job = Some \<lparr> cp_Step = int k, cp_TotalSteps = int (length plan), cp_ForTrackingId = TID (he_Id entry) \<rparr>"
    using assms(5) by (auto simp: undoes_def)
  have "snd (plan ! k) \<in> set (map snd plan)" using assms(4) by simp
  then obtain e where e: "map_of els (el_Id el) = Some e" "el_data e = el" "\<forall>a b. \<exists>r. OutputVars E a b (el_OutputTransform el) = Ok r"
    using inv u unfolding undoable_def by auto
  obtain r where r: "OutputVars E nv (he_Vars cp) (el_OutputTransform el) = Ok r" using e(3) by blast
  have rdy: "comp_ready w1 (job\<lparr> ws_Vars := nv \<rparr>) els" using j(7) by (simp add: comp_ready_def)
  let ?s2 = "job\<lparr> ws_Vars := r, ws_Id := ws_Id st \<rparr>"
  obtain c where c: "compensationJobComplete E (job\<lparr> ws_Vars := nv \<rparr>) w1 =
      (Ok (), pubW E WorkflowProcessCompensate ?s2 no_opts (w1\<lparr> sCache := c \<rparr>))" "cache_coherent (w1\<lparr> sCache := c \<rparr>)"
    using compensation_next [OF rdy assms(3), of e cp r] j u e r assms(4) by auto
  let ?w2 = "pubW E WorkflowProcessCompensate ?s2 no_opts (w1\<lparr> sCache := c \<rparr>)"
  have f: "saga_frame E (ws_ProcessInstanceId st) (TID (ws_Id st)) w ?w2" using j(10) by (simp add: saga_frame_def)
  have "comp_ready ?w2 (?s2\<lparr> ws_UnixTimeNano := clock E (ticks w1) \<rparr>) els" using j(7) c(2) by (auto simp: comp_ready_def cache_coherent_def)
  moreover have "planMessages ?w2 (planSubject E (TID (ws_Id st))) = planMessages w (planSubject E (TID (ws_Id st)))"
    using j(1,3) compensate_subject by (simp add: planMessages_def state_msg_def)
  moreover have "ends_at E ?w2 els st eid" using assms(7) by (simp add: ends_at_def)
  moreover have "\<forall>key \<in> set (map snd plan). undoable E ?w2 els (ws_WorkflowId st) key \<and> old_key E ?w2 (ws_ProcessInstanceId st) (TID (ws_Id st)) key"
    using inv undoable_frame [OF f] old_key_mono [of w ?w2] f unfolding saga_frame_def by blast
  moreover have "consumers ?w2 = consumers w" "planAcks ?w2 = planAcks w1" using f by (simp_all add: saga_frame_def)
  ultimately have "comp_inv E els plan st eid (Suc k) (?s2\<lparr> ws_UnixTimeNano := clock E (ticks w1) \<rparr>) ?w2"
    using inv j unfolding comp_inv_def by simp
  then show ?thesis using c(1) f
    by (intro exI [of _ "?s2\<lparr> ws_UnixTimeNano := clock E (ticks w1) \<rparr>"] exI [of _ ?w2]) (simp add: state_of_def state_msg_def)
qed

text \<open>The end of the process: the activity that started the compensation is completed, and then
  the process.\<close>

definition process_ended :: "env \<Rightarrow> workflow_state \<Rightarrow> string \<Rightarrow> world \<Rightarrow> bool" where
  "process_ended E st eid w \<longleftrightarrow> (\<exists>ms m1 m2 s1 s2. published w = ms @ [m1, m2] \<and>
     pm_Subject m1 = NS WorkflowActivityComplete (e_ns E) \<and> state_of m1 = Some s1 \<and> ws_Id s1 = ws_Id st \<and> ws_ElementId s1 = eid \<and>
     pm_Subject m2 = NS WorkflowProcessComplete (e_ns E) \<and> state_of m2 = Some s2 \<and>
     ws_Id s2 = [ws_ProcessInstanceId st] \<and> ws_State s2 = completed)"

lemma comp_inv_last:
  assumes "comp_inv E els plan st eid k s w" "ns_ok E" "Suc k = length plan"
    and "undoes els (kvHistory w) (length plan) k (snd (plan ! k)) job" "step_started E els s k job w w1" "ends_at E w1 els st eid"
  shows "\<exists>s2 w2. compensationJobComplete E (job\<lparr> ws_Vars := nv \<rparr>) w1 = (Ok (), w2) \<and>
     state_of (last (published w2)) = Some s2 \<and> process_ended E st eid w2"
proof -
  note inv = assms(1) [unfolded comp_inv_def]
  have st: "ws_Id s = ws_Id st" "ws_ProcessInstanceId s = ws_ProcessInstanceId st" "ws_WorkflowId s = ws_WorkflowId st" using inv by simp_all
  obtain m jid cp where j: "ws_Id job = Push (ws_Id st) jid" "ws_ProcessInstanceId job = ws_ProcessInstanceId st"
    "comp_ready w1 job els" "kv_get (kvHistory w1) (historyKey (ws_ProcessInstanceId st) (TID (ws_Id st)) compensationCheckpoint) = Some cp"
    using assms(5) st unfolding step_started_def by auto
  obtain entry el where u: "kv_get (kvHistory w) (snd (plan ! k)) = Some entry" "compensator els entry = Some el" "ws_ElementId job = el_Id el"
    "ws_Compensation job = Some \<lparr> cp_Step = int k, cp_TotalSteps = int (length plan), cp_ForTrackingId = TID (he_Id entry) \<rparr>"
    using assms(4) by (auto simp: undoes_def)
  have "snd (plan ! k) \<in> set (map snd plan)" using assms(3) by simp
  then obtain e where e: "map_of els (el_Id el) = Some e" "el_data e = el" "\<forall>a b. \<exists>r. OutputVars E a b (el_OutputTransform el) = Ok r"
    using inv u unfolding undoable_def by auto
  obtain act en e0 where a: "kv_get (kvHistory w1) (historyKey (ws_ProcessInstanceId st) (TID (ws_Id st)) activityExecute) = Some act"
     "he_ElementId act = Some eid" "he_ElementName act = Some en" "map_of els eid = Some e0" "el_Type (el_data e0) = CompensateEndEvent"
     "\<forall>a. \<exists>r. OutputVars E a [] (el_OutputTransform (el_data e0)) = Ok r"
    using assms(6) unfolding ends_at_def by auto
  obtain r where r: "OutputVars E nv (he_Vars cp) (el_OutputTransform el) = Ok r" using e(3) by blast
  obtain lv where lv: "OutputVars E r [] (el_OutputTransform (el_data e0)) = Ok lv" using a(6) by blast
  have rdy: "comp_ready w1 (job\<lparr> ws_Vars := nv \<rparr>) els" using j(3) by (simp add: comp_ready_def)
  have n: "int k = int (length plan) - 1" using assms(3) by linarith
  have h: "map_of els (ws_ElementId (job\<lparr> ws_Vars := nv \<rparr>)) = Some e"
    "kv_get (kvHistory w1) (historyKey (ws_ProcessInstanceId (job\<lparr> ws_Vars := nv \<rparr>)) (TID (Pop (ws_Id (job\<lparr> ws_Vars := nv \<rparr>)))) compensationCheckpoint) = Some cp"
    "OutputVars E (ws_Vars (job\<lparr> ws_Vars := nv \<rparr>)) (he_Vars cp) (el_OutputTransform (el_data e)) = Ok r"
    "ws_Compensation (job\<lparr> ws_Vars := nv \<rparr>) = Some \<lparr> cp_Step = int k, cp_TotalSteps = int (length plan), cp_ForTrackingId = TID (he_Id entry) \<rparr>"
    "cp_Step \<lparr> cp_Step = int k, cp_TotalSteps = int (length plan), cp_ForTrackingId = TID (he_Id entry) \<rparr> =
       cp_TotalSteps \<lparr> cp_Step = int k, cp_TotalSteps = int (length plan), cp_ForTrackingId = TID (he_Id entry) \<rparr> - 1"
    "kv_get (kvHistory w1) (historyKey (ws_ProcessInstanceId (job\<lparr> ws_Vars := nv \<rparr>)) (TID (Pop (ws_Id (job\<lparr> ws_Vars := nv \<rparr>)))) activityExecute) = Some act"
    using j u e r a(1) n by simp_all
  obtain w2 m1 m2 s1 s2 where "compensationJobComplete E (job\<lparr> ws_Vars := nv \<rparr>) w1 = (Ok (), w2)" "published w2 = published w1 @ [m1, m2]"
    "pm_Subject m1 = NS WorkflowActivityComplete (e_ns E)" "pm_Payload m1 = PState s1" "ws_Id s1 = ws_Id st" "ws_ElementId s1 = eid"
    "pm_Subject m2 = NS WorkflowProcessComplete (e_ns E)" "pm_Payload m2 = PState s2" "ws_Id s2 = [ws_ProcessInstanceId st]" "ws_State s2 = completed"
    using compensation_last [OF rdy assms(2) h a(2-5) lv] j by auto
  then show ?thesis unfolding process_ended_def by (auto simp: state_of_def)
qed

lemma comp_rounds_run:
  assumes "comp_inv E els plan st eid k s w" "saga_ids E st" "ns_ok E" "int (length plan) \<le> max_int64"
    and "k + length nvs = length plan" "nvs \<noteq> []"
  shows "\<exists>jobs w'. comp_rounds E nvs s w = Some (jobs, w') \<and> length jobs = length nvs \<and>
     (\<forall>i < length jobs. undoes els (kvHistory w) (length plan) (k + i) (snd (plan ! (k + i))) (jobs ! i)) \<and> process_ended E st eid w'"
  using assms
proof (induction nvs arbitrary: k s w)
  case (Cons nv nvs)
  have k: "k < length plan" using Cons.prems(5) by simp
  obtain job w1 where j: "processProcessCompensate E s w = (Ok (True, None), w1)"
    "undoes els (kvHistory w) (length plan) k (snd (plan ! k)) job" "step_started E els s k job w w1" "ends_at E w1 els st eid"
    using comp_inv_step [OF Cons.prems(1-3) k Cons.prems(4)] by blast
  have l: "state_of (last (published w1)) = Some job" using j(3) by (auto simp: step_started_def)
  show ?case
  proof (cases "nvs = []")
    case True
    then have "Suc k = length plan" using Cons.prems(5) by simp
    then obtain s2 w2 where "compensationJobComplete E (job\<lparr> ws_Vars := nv \<rparr>) w1 = (Ok (), w2)" "state_of (last (published w2)) = Some s2"
        "process_ended E st eid w2"
      using comp_inv_last [OF Cons.prems(1,3) _ j(2-4)] by blast
    then show ?thesis using True j(1,2) l by (intro exI [of _ "[job]"] exI [of _ w2]) simp
  next
    case False
    then have "Suc k < length plan" using Cons.prems(5) by (cases nvs) auto
    then obtain s2 w2 where n: "compensationJobComplete E (job\<lparr> ws_Vars := nv \<rparr>) w1 = (Ok (), w2)" "state_of (last (published w2)) = Some s2"
        "comp_inv E els plan st eid (Suc k) s2 w2" "saga_frame E (ws_ProcessInstanceId st) (TID (ws_Id st)) w w2"
      using comp_inv_next [OF Cons.prems(1-3) _ j(2-4)] by blast
    obtain jobs w' where r: "comp_rounds E nvs s2 w2 = Some (jobs, w')" "length jobs = length nvs"
        "\<forall>i < length jobs. undoes els (kvHistory w2) (length plan) (Suc k + i) (snd (plan ! (Suc k + i))) (jobs ! i)" "process_ended E st eid w'"
      using Cons.IH [OF n(3) Cons.prems(2-4)] Cons.prems(5) False by auto
    have "undoes els (kvHistory w) (length plan) (Suc k + i) (snd (plan ! (Suc k + i))) (jobs ! i)" if "i < length jobs" for i
    proof -
      have "snd (plan ! (Suc k + i)) \<in> set (map snd plan)" using that r(2) Cons.prems(5) by simp
      then have "kv_get (kvHistory w2) (snd (plan ! (Suc k + i))) = kv_get (kvHistory w) (snd (plan ! (Suc k + i)))"
        using Cons.prems(1) n(4) unfolding comp_inv_def saga_frame_def by blast
      then show ?thesis using r(3) that undoes_cong by blast
    qed
    then have "\<forall>i < length (job # jobs). undoes els (kvHistory w) (length plan) (k + i) (snd (plan ! (k + i))) ((job # jobs) ! i)"
      using j(2) by (auto simp: less_Suc_eq_0_disj)
    then show ?thesis using j(1) l n(1,2) r by (intro exI [of _ "job # jobs"] exI [of _ w']) auto
  qed
qed simp

section \<open>Compensation\<close>


text \<open>A compensating element that is not a service task is not run: the step is acknowledged,
  nothing is published, and the compensation never goes on.\<close>

lemma non_service_stalls:
  assumes "reliable w" "kv_get (kvHistory w) key = Some entry" "compensator els entry = Some el" "he_WorkflowId entry = Some wid"
    and "el_Type el \<noteq> ServiceTask"
  shows "\<exists>w'. runStep E s els key k n w = (Ok (True, None), w') \<and> published w' = published w"
  using assms by (simp add: runStep_def orNak_def handle_apply bnd_apply Let_def RecordHistoryCompensationCheckpoint_def compensationJob_def)

end
