(* ===== verification/Samples.thy ===== *)
theory Samples
  imports Dispatch Saga
begin

text \<open>
  A concrete environment, workflow and world.  The environment shows that the hypotheses the
  theorems name can hold together: unique ids, map ranges, a codec for string variables and an
  expression engine for variables and boolean literals.  The workflow forks and joins, with a
  manual task on each branch.
\<close>

section \<open>A codec for maps of strings\<close>

fun pairs_of :: "string list \<Rightarrow> vmap" where
  "pairs_of (k # v # xs) = (k, VString v) # pairs_of xs"
| "pairs_of _ = []"

fun texts_of :: "vmap \<Rightarrow> string list option" where
  "texts_of [] = Some []"
| "texts_of ((k, VString v) # m) =
     (if CHR 0x0A \<in> set k \<or> CHR 0x0A \<in> set v then None else map_option (\<lambda>xs. k # v # xs) (texts_of m))"
| "texts_of _ = None"

definition marshal_text :: "vmap \<Rightarrow> (goerr, bytes) res" where
  "marshal_text m = (case texts_of m of
     None \<Rightarrow> Err (ErrOther ''msgpack'')
   | Some [] \<Rightarrow> Ok ''0''
   | Some xs \<Rightarrow> Ok (CHR ''1'' # Join [CHR 0x0A] xs))"

definition unmarshal_text :: "bytes \<Rightarrow> (goerr, vmap) res" where
  "unmarshal_text b = (case b of
     c # s \<Rightarrow> if c = CHR ''0'' then Ok [] else Ok (pairs_of (SplitChar (CHR 0x0A) s))
   | [] \<Rightarrow> Err (ErrOther ''msgpack''))"

lemma pairs_of_texts: "texts_of m = Some xs \<Longrightarrow> pairs_of xs = m"
  by (induction m arbitrary: xs rule: texts_of.induct) (auto split: if_splits)

lemma texts_of_free: "texts_of m = Some xs \<Longrightarrow> x \<in> set xs \<Longrightarrow> CHR 0x0A \<notin> set x"
  by (induction m arbitrary: xs rule: texts_of.induct) (auto split: if_splits)

lemma unmarshal_marshal: "marshal_text m = Ok b \<Longrightarrow> b \<noteq> [] \<and> unmarshal_text b = Ok m"
proof -
  assume m: "marshal_text m = Ok b"
  then obtain xs where xs: "texts_of m = Some xs" by (auto simp: marshal_text_def split: option.splits)
  show ?thesis
  proof (cases xs)
    case Nil
    then show ?thesis using m xs pairs_of_texts [OF xs] by (auto simp: marshal_text_def unmarshal_text_def)
  next
    case (Cons y ys)
    then have "SplitChar (CHR 0x0A) (Join [CHR 0x0A] xs) = xs"
      using texts_of_free [OF xs] by (intro Split_Join) auto
    then show ?thesis using m xs Cons pairs_of_texts [OF xs] by (auto simp: marshal_text_def unmarshal_text_def)
  qed
qed

section \<open>The environment\<close>

definition run_text :: "string \<Rightarrow> vmap \<Rightarrow> (goerr, val) res" where
  "run_text e vs =
     (if e = ''true'' then Ok (VBool True) else if e = ''false'' then Ok (VBool False)
      else case map_of vs (TrimSpace e) of Some v \<Rightarrow> Ok v | None \<Rightarrow> Ok VNil)"

definition E0 :: env where
  "E0 = \<lparr> e_ns = ''default'', e_trace = ''trace'', ksuid = show_nat, clock = (\<lambda>n. int n), expr_compile = (\<lambda>_. None),
     expr_run = run_text, expr_idents = (\<lambda>e. Ok [TrimSpace e]), mp_marshal = marshal_text, mp_unmarshal = unmarshal_text,
     mp_wire = (\<lambda>v. v), json_workflow = (\<lambda>_. Ok ''{}''), sha256 = (\<lambda>b. b), cache_admits = (\<lambda>_. True),
     map_order = (\<lambda>_ ks. ks), fmt_float = (\<lambda>_. ''0''), trace_id = show_nat \<rparr>"

lemma E0_sel [simp]:
  "e_ns E0 = ''default''" "e_trace E0 = ''trace''" "ksuid E0 = show_nat" "clock E0 = (\<lambda>n. int n)"
  "expr_compile E0 = (\<lambda>_. None)" "expr_run E0 = run_text" "expr_idents E0 = (\<lambda>e. Ok [TrimSpace e])"
  "mp_marshal E0 = marshal_text" "mp_unmarshal E0 = unmarshal_text" "mp_wire E0 = (\<lambda>v. v)"
  "json_workflow E0 = (\<lambda>_. Ok ''{}'')" "sha256 E0 = (\<lambda>b. b)" "cache_admits E0 = (\<lambda>_. True)"
  "map_order E0 = (\<lambda>_ ks. ks)" "fmt_float E0 = (\<lambda>_. ''0'')" "trace_id E0 = show_nat"
  by (simp_all add: E0_def)

lemma E0_ok [simp]: "fresh_ids E0" "ranges_ok E0" "codec_ok E0" "ns_ok E0"
proof -
  show "fresh_ids E0" by (auto simp: fresh_ids_def dest: show_nat_inj)
  show "ranges_ok E0" by (simp add: ranges_ok_def)
  show "codec_ok E0" using unmarshal_marshal by (fastforce simp: codec_ok_def option.map_ident)
  show "ns_ok E0" by code_simp
qed

section \<open>The workflow\<close>

definition node :: "string \<Rightarrow> string \<Rightarrow> target list \<Rightarrow> elem_data" where
  "node i ty ts = \<lparr> el_Id = i, el_Name = i, el_Type = ty, el_Documentation = [], el_Execute = [], el_Outbound = Some \<lparr> tgs_Target = ts, tgs_DefaultTarget = - 1 \<rparr>,
     el_CompensateWith = None, el_Msg = [], el_Candidates = [], el_CandidateGroups = [], el_Errors = [], el_Error = None,
     el_InputTransform = [], el_OutputTransform = [], el_Timer = None, el_BoundaryTimer = [], el_Gateway = None,
     el_Iteration = None, el_Version = None, el_RetryBehaviour = None, el_IsForCompensation = False \<rparr>"

definition edge :: "string \<Rightarrow> string \<Rightarrow> target" where
  "edge i t = \<lparr> tg_Id = i, tg_Conditions = [], tg_Target = t \<rparr>"

definition pgate :: "gateway_direction \<Rightarrow> string \<Rightarrow> gateway_spec" where
  "pgate d r = \<lparr> gw_Type = parallel, gw_Direction = d, gw_ReciprocalId = r, gw_FixedExpectations = [] \<rparr>"

definition els0 :: "element list" where
  "els0 = map (\<lambda>d. Elem d None)
     [node ''start'' StartEvent [edge ''s1'' ''fork''],
      (node ''fork'' Gateway [edge ''b1'' ''ta'', edge ''b2'' ''tb''])\<lparr> el_Gateway := Some (pgate divergent ''join'') \<rparr>,
      node ''ta'' ManualTask [edge ''j1'' ''join''], node ''tb'' ManualTask [edge ''j2'' ''join''],
      (node ''join'' Gateway [edge ''e1'' ''end''])\<lparr> el_Gateway := Some (pgate convergent ''fork'') \<rparr>,
      node ''end'' EndEvent []]"

definition pr0 :: process where "pr0 = Proc els0 ''p'' None"

definition wf0 :: workflow where
  "wf0 = empty_workflow\<lparr> wf_Name := ''flow'', wf_Process := [(''p'', pr0)], wf_Collaboration := Some [] \<rparr>"

section \<open>The world\<close>

definition ex0 :: execution where
  "ex0 = \<lparr> ex_ExecutionId = ''e'', ex_WorkflowId = ''wf'', ex_WorkflowName = ''flow'', ex_ProcessInstanceId = [''i''] \<rparr>"

definition pi0 :: process_instance where
  "pi0 = \<lparr> pi_ProcessInstanceId = ''i'', pi_ExecutionId = ''e'', pi_ParentProcessId = Some [], pi_ParentElementId = Some [],
     pi_WorkflowId = ''wf'', pi_WorkflowName = ''flow'', pi_ProcessId = ''p'', pi_GatewayComplete = [], pi_Headers = [] \<rparr>"

definition registered :: world where
  "registered = empty_world\<lparr> kvDefinition := kv_put ''wf'' wf0 empty_bucket,
     kvVersion := kv_put ''flow'' \<lparr> wvs_Version = [\<lparr> wv_Id = ''wf'', wv_Sha256 = [], wv_Number = 1 \<rparr>], wvs_IsExecutionDisabled = False \<rparr> empty_bucket,
     kvProcess := kv_put ''p'' ''flow'' empty_bucket \<rparr>"

definition running :: world where
  "running = registered\<lparr> kvExecution := kv_put ''e'' ex0 empty_bucket, kvProcessInstance := kv_put ''i'' pi0 empty_bucket \<rparr>"

definition st0 :: workflow_state where
  "st0 = empty_state\<lparr> ws_WorkflowId := ''wf'', ws_ExecutionId := ''e'', ws_ProcessInstanceId := ''i'', ws_ProcessId := ''p'',
     ws_WorkflowName := ''flow'', ws_Vars := ''0'' \<rparr>"

lemmas sample_defs = node_def edge_def pgate_def els0_def pr0_def wf0_def ex0_def pi0_def registered_def running_def st0_def
  empty_world_def empty_state_def empty_workflow_def

lemma registered_reliable [simp]: "reliable registered" "reliable running"
  by (simp_all add: sample_defs)

lemma registered_coherent [simp]: "cache_coherent registered" "cache_coherent running"
  by (simp_all add: cache_coherent_def sample_defs)

lemma registered_get [simp]:
  "kv_get (kvDefinition registered) k = (if k = ''wf'' then Some wf0 else None)"
  "kv_get (kvDefinition running) k = (if k = ''wf'' then Some wf0 else None)"
  "kv_get (kvExecution running) k = (if k = ''e'' then Some ex0 else None)"
  "kv_get (kvProcessInstance running) k = (if k = ''i'' then Some pi0 else None)"
  "kv_get (kvProcess registered) k = (if k = ''p'' then Some ''flow'' else None)"
  by (simp_all add: registered_def running_def)

end
