(* ===== verification/Witnesses.thy ===== *)
theory Witnesses
  imports Samples
begin

text \<open>
  The theorems of the components applied to the sample environment, workflow and worlds: their
  hypotheses hold together there, and the operations give the stated result.
\<close>

section \<open>The server\<close>

definition m_activity :: pubmsg where
  "m_activity = \<lparr> pm_Subject = NS WorkflowActivityExecute ''default'', pm_ID = [], pm_Embargo = 0, pm_Headers = [], pm_Payload = PState st0 \<rparr>"


section \<open>Gateways\<close>

definition arriving :: "string \<Rightarrow> bytes \<Rightarrow> workflow_state" where
  "arriving b vs = st0\<lparr> ws_ElementId := ''join'', ws_ElementType := Gateway, ws_Vars := vs, ws_Id := [''i'', b],
     ws_SatisfiesGatewayExpectation := [(''join'', [''g,'' @ b])], ws_GatewayExpectations := [(''g'', [''b1'', ''b2''])] \<rparr>"

definition forked :: world where
  "forked = running\<lparr> kvGateway := kv_put ''g'' \<lparr> gt_MetExpectations = [], gt_Vars = [''0''], gt_Visits = 0 \<rparr> empty_bucket \<rparr>"

lemma forked_ready: "gw_ready forked (arriving b vs) parallel"
  by (simp add: gw_ready_def forked_def arriving_def st0_def cache_coherent_def sample_defs)

lemma arriving_route:
  "GetGatewayInstanceID (arriving ''b1'' vs) = Ok (''g'', ''b1'')" "GetGatewayInstanceID (arriving ''b2'' vs) = Ok (''g'', ''b2'')"
  by (simp_all add: GetGatewayInstanceID_def arriving_def)

definition both :: "workflow_state list" where "both = [arriving ''b1'' ''0''] @ [arriving ''b2'' ''0'']"

theorem arrivals_join_witness:
  "\<exists>w' st m. arrivals E0 both forked = (Ok [(True, None), (True, None)], w') \<and> m \<in> set (published w') \<and>
     pm_Subject m = NS WorkflowActivityComplete ''default'' \<and> state_of m = Some st \<and> ws_Vars st = ''0''"
proof -
  have a: "arrival (arriving ''b1'' v) = (''b1'', v)" "arrival (arriving ''b2'' v) = (''b2'', v)" for v
    by (simp_all add: arrival_def arriving_route) (simp_all add: arriving_def)
  have h: "\<forall>job \<in> set both. gw_ready forked job parallel \<and> arrives_at ''g'' [''b1'', ''b2''] job"
    by (auto simp: both_def forked_ready arrives_at_def arriving_route) (simp_all add: arriving_def)
  have g: "gw_ok (gw_of forked ''g'')" "gw_met (gw_of forked ''g'') = {}"
    by (simp_all add: gw_of_def forked_def gw_ok_def gw_met_def)
  have p: "fst ` arrival ` set [arriving ''b1'' ''0''] \<subset> set [''b1'', ''b2'']"
    by (auto simp: a)
  have m: "mergeGatewayVars E0 (fold gw_arrive (map arrival both) (gw_of forked ''g'')) = Ok ''0''"
    by code_simp
  obtain w' ms m st where "arrivals E0 both forked = (Ok (replicate (Suc (length [arriving ''b1'' ''0''])) (True, None)), w')"
    "published w' = published forked @ ms @ [m]" "pm_Subject m = NS WorkflowActivityComplete (e_ns E0)" "state_of m = Some st" "ws_Vars st = ''0''"
    using arrivals_join [OF h [unfolded both_def] _ E0_ok(4) g _ p _ m [unfolded both_def]] unfolding both_def
    by (auto simp: a)
  then show ?thesis by (intro exI [of _ w'] exI [of _ st] exI [of _ m]) (simp add: numeral_2_eq_2)
qed

section \<open>Launching\<close>

lemma registered_launchable: "launchable registered ''p'' ''flow'' ''wf'' wf0"
  by (simp add: launchable_def tasks_current_def) (simp add: sample_defs subject_defs StartEvent_def Gateway_def ManualTask_def EndEvent_def ServiceTask_def)

lemma launch_pr0: "launchProcesses wf0 ''p'' = ret [pr0]"
  by (rule ext) (simp add: launchProcesses_def wf0_def empty_workflow_def bnd_apply)

lemma vars_given_pr0: "\<forall>pr \<in> set [pr0]. vars_given E0 ''0'' pr"
  by (simp add: vars_given_def Decode_def unmarshal_text_def) (simp add: startElements_def sample_defs rangeMap_def)

theorem Launch_ok_witness: "\<exists>w'. Launch E0 ''p'' ''0'' [] registered = (Ok (show_nat 0, ''wf''), w') \<and> length (published w') \<ge> 1"
proof -
  have "nextId registered = 0" by (simp add: sample_defs)
  then show ?thesis
    using Launch_ok [OF registered_launchable E0_ok(4,1) launch_pr0 vars_given_pr0, of "[]"] by auto
qed


definition disabled :: world where
  "disabled = registered\<lparr> kvVersion := kv_put ''flow'' \<lparr> wvs_Version = [], wvs_IsExecutionDisabled = True \<rparr> empty_bucket \<rparr>"

theorem Launch_disabled_witness:
  "fst (LaunchWithParent E0 ''p'' [] ''0'' [] [] [] disabled) = Err (ErrOther ''the workflow is not executable'')"
  using Launch_disabled [of disabled "''p''" "''flow''" "\<lparr> wvs_Version = [], wvs_IsExecutionDisabled = True \<rparr>" E0 "[]" "''0''" "[]" "[]" "[]"]
  by (auto simp: disabled_def)

section \<open>Jobs and activities\<close>

definition act0 :: workflow_state where
  "act0 = st0\<lparr> ws_Id := [''i'', ''a''], ws_ElementId := ''ta'', ws_ElementType := ManualTask \<rparr>"

definition job0 :: workflow_state where
  "job0 = act0\<lparr> ws_Id := [''i'', ''a'', ''j''], ws_State := completed \<rparr>"

definition busy :: world where
  "busy = running\<lparr> kvHistory := kv_put (historyKey ''i'' ''a'' activityExecute) (history_of act0 activityExecute) empty_bucket,
     kvJob := kv_put ''j'' job0 empty_bucket \<rparr>"

lemmas id_defs = TID_def Pop_def Push_def

definition elem0 :: "string \<Rightarrow> element option" where
  "elem0 k = find (\<lambda>e. el_Id (el_data e) = k) els0"

lemma table0: "map_of (ElementTable (\<lambda>ks. ks) wf0) k = elem0 k"
  by (simp add: ElementTable_def elem0_def sample_defs rangeMap_def)

lemma act0_sel [simp]:
  "ws_Id act0 = [''i'', ''a'']" "ws_ElementId act0 = ''ta''" "ws_ElementType act0 = ManualTask" "ws_Vars act0 = ''0''"
  "ws_ProcessInstanceId act0 = ''i''" "ws_ExecutionId act0 = ''e''" "ws_WorkflowId act0 = ''wf''" "ws_ProcessId act0 = ''p''"
  "ws_State act0 = executing"
  by (simp_all add: act0_def sample_defs)

lemma id_sel [simp]: "TID [''i'', ''a''] = ''a''" "Pop [''i'', ''a''] = [''i'']" "TID [''i'', ''a'', ''j''] = ''j''" "Pop [''i'', ''a'', ''j''] = [''i'', ''a'']"
  by (simp_all add: id_defs)

lemma elem0_ta: "elem0 ''ta'' = Some (Elem (node ''ta'' ManualTask [edge ''j1'' ''join'']) None)"
  by (simp add: elem0_def sample_defs)

lemma busy_sel [simp]: "reliable busy" "cache_coherent busy" "kvProcessInstance busy = kvProcessInstance running"
  "kvExecution busy = kvExecution running" "kvDefinition busy = kvDefinition running"
  "kv_get (kvHistory busy) k = (if k = historyKey ''i'' ''a'' activityExecute then Some (history_of act0 activityExecute) else None)"
  "kv_get (kvJob busy) k = (if k = ''j'' then Some job0 else None)" "published busy = []"
  by (simp_all add: busy_def cache_coherent_def) (simp_all add: sample_defs)

lemma job0_ready: "\<exists>old. job_ready E0 busy job0 old (node ''ta'' ManualTask [edge ''j1'' ''join'']) \<and> ws_Vars old = ''0''"
  by (simp add: job_ready_def table0 workfFlowStateFrom_def)
     (simp add: job0_def act0_def st0_def id_defs elem0_def sample_defs history_of_def)

theorem completeJob_witness:
  "\<exists>w' m s. completeJobProcessor E0 job0 busy = (Ok (), w') \<and> published w' = [m] \<and>
     pm_Subject m = NS WorkflowActivityComplete ''default'' \<and> pm_Payload m = PState s \<and> ws_Id s = [''i'', ''a''] \<and>
     kv_get (kvJob w') ''j'' = None"
proof -
  obtain old where o: "job_ready E0 busy job0 old (node ''ta'' ManualTask [edge ''j1'' ''join''])" "ws_Vars old = ''0''"
    using job0_ready by blast
  have "OutputVars E0 (ws_Vars job0) (ws_Vars old) (el_OutputTransform (node ''ta'' ManualTask [edge ''j1'' ''join''])) = Ok ''0''"
    by (simp add: OutputVars_def node_def o(2))
  from completeJob_ok [OF o(1) E0_ok(4) this] show ?thesis by (auto simp: job0_def id_defs)
qed

theorem activityComplete_witness:
  "\<exists>m w' gw st'. activityCompleteProcessor E0 act0 busy = (Ok (), w') \<and> published w' = [m] \<and>
     branch_msg E0 wf0 [''i''] (ElementTable (\<lambda>ks. ks) wf0) None gw st' (''j1'', ''join'') m"
proof -
  let ?ob = "\<lparr> tgs_Target = [edge ''j1'' ''join''], tgs_DefaultTarget = - 1 \<rparr>"
  have t: "trav_inv wf0 (ws_WorkflowId act0) busy" by (simp add: trav_inv_def)
  have h: "kv_get (kvProcessInstance busy) (ws_ProcessInstanceId act0) = Some pi0"
    "kv_get (kvHistory busy) (historyKey (ws_ProcessInstanceId act0) (TID (ws_Id act0)) activityExecute) = Some (history_of act0 activityExecute)"
    "he_CancellationState (history_of act0 activityExecute) = Some executing"
    by (simp_all add: history_of_def)
  have e: "map_of (ElementTable (map_order E0 12) wf0) (ws_ElementId act0) = Some (Elem (node ''ta'' ManualTask [edge ''j1'' ''join'']) None)"
    by (simp add: table0 elem0_ta)
  have ty: "el_Type (el_data (Elem (node ''ta'' ManualTask [edge ''j1'' ''join'']) None)) \<noteq> LinkIntermediateThrowEvent"
    "ws_ElementType act0 \<notin> {EndEvent, CompensateEndEvent}"
    by (simp_all add: node_def element_type_defs)
  have o: "el_Outbound (el_data (Elem (node ''ta'' ManualTask [edge ''j1'' ''join'']) None)) = Some ?ob"
    "reciprocatedDivergent (el_data (Elem (node ''ta'' ManualTask [edge ''j1'' ''join'']) None)) = Ok None"
    by (simp_all add: node_def reciprocatedDivergent_def element_type_defs)
  have "chooseTargets E0 ''0'' ?ob = Ok [(''j1'', ''join'')]" by code_simp
  then have c: "chooseTargets E0 (ws_Vars act0) ?ob = Ok [(''j1'', ''join'')]" by simp
  have "resolves wf0 (ElementTable (\<lambda>ks. ks) wf0) act0 ''join''"
    by (simp add: resolves_def table0) (simp add: elem0_def sample_defs solitaryConvergent_def)
  then have r: "\<forall>(b, elID) \<in> set (rangeMap (map_order E0 8) [(''j1'', ''join'')]). resolves wf0 (ElementTable (map_order E0 12) wf0) act0 elID"
    by (simp add: rangeMap_def)
  from activityComplete_traverses [OF t E0_ok(4) h e ty o(1) c o(2) r] show ?thesis
    by (simp add: rangeMap_def list_all2_Cons1) blast
qed

lemma ta_ready: "start_ready E0 running (act0\<lparr> ws_Id := [''i'', ''t''] \<rparr>) pi0 wf0 (node ''ta'' ManualTask [edge ''j1'' ''join''])"
  by (simp add: start_ready_def table0 elem0_ta) (simp add: pi0_def)

theorem activityStart_manual_witness:
  "\<exists>w' jid job. activityStartProcessor E0 ''a'' (act0\<lparr> ws_Id := [''i'', ''t''] \<rparr>) False running = (Ok (), w') \<and>
     length (published w') = 3 \<and> kv_get (kvJob w') jid = Some job \<and> ws_Id job = [''i'', ''a'', jid]"
proof -
  have v: "InputVars E0 (ws_Vars (act0\<lparr> ws_Id := [''i'', ''t''] \<rparr>)) [] (node ''ta'' ManualTask [edge ''j1'' ''join'']) = Ok []"
    by (simp add: InputVars_def node_def)
  have n: "el_BoundaryTimer (node ''ta'' ManualTask [edge ''j1'' ''join'']) = []" "el_Type (node ''ta'' ManualTask [edge ''j1'' ''join'']) = ManualTask"
    "el_Iteration (node ''ta'' ManualTask [edge ''j1'' ''join'']) = None" by (simp_all add: node_def)
  obtain w' jid job where r: "activityStartProcessor E0 ''a'' (act0\<lparr> ws_Id := [''i'', ''t''] \<rparr>) False running = (Ok (), w')"
    "map pm_Subject (published w') = map pm_Subject (published running) @
       map (\<lambda>n. NS n (e_ns E0)) [WorkflowActivityExecute, WorkflowTraversalComplete, WorkflowJobManualTaskExecute]"
    "\<forall>k. kv_get (kvJob w') k = (if k = jid then Some job else kv_get (kvJob running) k)"
    "ws_Id job = Push (Push (Pop (ws_Id (act0\<lparr> ws_Id := [''i'', ''t''] \<rparr>))) ''a'') jid"
    using activityStart_manual [OF ta_ready E0_ok(4) n v] by blast
  have "published running = []" by (simp add: sample_defs)
  then have "length (published w') = 3" using arg_cong [OF r(2), of length] by simp
  then show ?thesis using r by (intro exI [of _ w'] exI [of _ jid] exI [of _ job]) (simp add: id_defs)
qed


section \<open>The end of a process\<close>

theorem processComplete_witness:
  "\<exists>w'. processProcessComplete E0 st0 running = (Ok (True, None), w') \<and> kv_get (kvProcessInstance w') ''i'' = None \<and>
     kv_get (kvExecution w') ''e'' = None"
proof -
  have "kv_get (kvProcessInstance running) (ws_ProcessInstanceId st0) = Some pi0" "pi_ProcessInstanceId pi0 = ws_ProcessInstanceId st0"
    "kv_get (kvExecution running) (ws_ExecutionId st0) = Some ex0" "ex_ExecutionId ex0 = ws_ExecutionId st0"
    by (simp_all add: st0_def pi0_def ex0_def)
  from processComplete_ends [OF registered_reliable(2) E0_ok(4) this] show ?thesis
    by (auto simp: st0_def ex0_def)
qed

theorem processTerminate_witness:
  "\<exists>w'. processProcessTerminate E0 st0 busy = (Ok (True, None), w') \<and> length (published w') = 1 \<and>
     kv_get (kvHistory w') (historyKey ''i'' ''a'' activityExecute) = None"
proof -
  have s: "kv_subjects (kvHistory busy) = [historyKey ''i'' ''a'' activityExecute]"
    by (simp add: busy_def kv_subjects_def kv_put_def kv_write_def empty_bucket_def)
  have b: "bucket_ok (kvHistory busy)" by (simp add: busy_def)
  have "\<exists>p t ty. dot_free p \<and> dot_free t \<and> historyKey ''i'' ''a'' activityExecute = historyKey p t ty"
    by (rule exI [of _ "''i''"], rule exI [of _ "''a''"]) auto
  then have k: "history_keyed busy" by (simp add: history_keyed_def s)
  have p: "plain_id (ws_ProcessInstanceId st0)" by (simp add: plain_id_def st0_def)
  have i: "instance_keys E0 busy ''i'' = [historyKey ''i'' ''a'' activityExecute]"
    unfolding instance_keys_def s by code_simp
  have l: "\<forall>t ty. dot_free t \<and> historyKey (ws_ProcessInstanceId st0) t ty \<in> set (kv_subjects (kvHistory busy)) \<longrightarrow>
       kv_get (kvHistory busy) (historyKey (ws_ProcessInstanceId st0) t ty) \<noteq> None" by (simp add: s)
  have "ws_ProcessInstanceId st0 = ''i''" "dot_free ''a''" by (simp_all add: st0_def)
  then show ?thesis using processTerminate_archives [OF busy_sel(1) E0_ok(2) k b p l] by (auto simp: i)
qed

section \<open>Failures\<close>

definition torn :: fatal_error where
  "torn = \<lparr> fe_HandlingStrategy = Pause, fe_WorkflowState = act0 \<rparr>"


theorem tearDown_witness:
  "\<exists>w'. tearDownWorkflow E0 st0 running = (Ok (True, None), w') \<and> kv_get (kvExecution w') ''e'' = None \<and>
     kv_get (kvProcessInstance w') ''i'' = None"
proof -
  have "kv_get (kvExecution running) (ws_ExecutionId st0) = Some ex0" "ex_ExecutionId ex0 = ws_ExecutionId st0"
    "distinct (ex_ProcessInstanceId ex0)" "ex_ProcessInstanceId ex0 \<noteq> []"
    by (simp_all add: st0_def ex0_def)
  from tearDownWorkflow_reliable [OF registered_reliable(2) E0_ok(4) this] show ?thesis by (auto simp: st0_def ex0_def)
qed

theorem destroy_linked_witness:
  "\<exists>r w'. destroyProcessInstance E0 st0 ''i'' ''e'' running = (r, w') \<and> instances_linked w' \<and> executions_keyed w'"
proof -
  obtain r w' where d: "destroyProcessInstance E0 st0 ''i'' ''e'' running = (r, w')" by fastforce
  have "kv_get (kvExecution running) ''e'' = Some ex0" "instances_linked running" "executions_keyed running"
    by (simp_all add: instances_linked_def executions_keyed_def) (simp_all add: pi0_def ex0_def)
  from destroyProcessInstance_linked [OF registered_reliable(2) E0_ok(4) this d, of pi0] d show ?thesis
    by (auto simp: pi0_def)
qed

theorem CompleteServiceTask_witness:
  "CompleteServiceTask E0 job0 ''0'' running =
     (Ok (), pubW E0 (NS WorkflowJobServiceTaskAbort ''default'') job0 no_opts running)"
proof -
  have "ws_State job0 \<noteq> compensating"
    "kv_get (kvHistory running) (historyKey (ws_ProcessInstanceId job0) (ParentID (ws_Id job0)) activityExecute) = None"
    by (simp add: job0_def) (simp add: sample_defs)
  from CompleteServiceTask_stale [OF registered_reliable(2) this, of E0 "''0''"] show ?thesis by simp
qed

section \<open>Messages\<close>

definition catch0 :: elem_data where
  "catch0 = (node ''c'' MessageIntermediateCatchEvent [])\<lparr> el_Msg := ''order'', el_Execute := ''id'' \<rparr>"

definition wfm :: workflow where
  "wfm = empty_workflow\<lparr> wf_Name := ''flow'', wf_Process := [(''p'', Proc [Elem catch0 None] ''p'' None)], wf_Collaboration := Some [] \<rparr>"

definition order_key :: bytes where "order_key = ''1id'' @ [CHR 0x0A] @ ''7''"

definition waiting :: workflow_state where
  "waiting = act0\<lparr> ws_Id := [''i'', ''a'', ''j''], ws_ElementId := ''c'', ws_ElementType := MessageIntermediateCatchEvent, ws_Vars := order_key \<rparr>"

definition order7 :: message_instance where
  "order7 = \<lparr> mi_Name = ''order'', mi_CorrelationKey = ''7'', mi_Vars = ''0'' \<rparr>"

definition receivers0 :: message_receivers where
  "receivers0 = \<lparr> mrs_MessageReceiver = [\<lparr> mr_Id = ''c'', mr_ProcessIdToStart = [] \<rparr>], mrs_AssociatedWorkflowName = ''flow'' \<rparr>"

definition awaited :: world where
  "awaited = running\<lparr> kvDefinition := kv_put ''wf'' wfm empty_bucket, kvJob := kv_put ''j'' waiting empty_bucket,
     kvMsgTypes := kv_put ''order'' receivers0 empty_bucket \<rparr>"

lemma awaited_sel [simp]: "reliable awaited" "kv_get (kvMsgTypes awaited) ''order'' = Some receivers0" "kv_get (kvMessages awaited) k = None"
  "kv_get (kvJob awaited) k = (if k = ''j'' then Some waiting else None)" "published awaited = []"
  by (simp_all add: awaited_def) (simp_all add: sample_defs)

lemma awaited_concerns: "concerns E0 awaited ''order'' ''7'' (InAwait waiting)" "concerns E0 awaited ''order'' ''7'' (InMessage order7)"
proof -
  have "correlationKeyOf E0 catch0 waiting = Ok ''7''" by code_simp
  moreover have "map_of (ElementTable (\<lambda>ks. ks) wfm) ''c'' = Some (Elem catch0 None)"
    by (simp add: ElementTable_def wfm_def empty_workflow_def rangeMap_def catch0_def node_def)
  moreover have "el_Msg catch0 = ''order''" by (simp add: catch0_def)
  ultimately show "concerns E0 awaited ''order'' ''7'' (InAwait waiting)"
    by (simp add: concerns_def awaited_def) (simp add: waiting_def)
  show "concerns E0 awaited ''order'' ''7'' (InMessage order7)" by (simp add: concerns_def order7_def)
qed

theorem inbounds_witness:
  "\<exists>w' m r. inbounds E0 [InMessage order7, InAwait waiting] awaited = (Ok [(True, None), (True, None)], w') \<and>
     published w' = [m] \<and> delivery E0 awaited ''0'' r m \<and> rc_Id r = ''j'' \<and> kv_get (kvMessages w') ''order-7'' = None"
proof -
  have c: "\<forall>i \<in> set [InMessage order7, InAwait waiting]. concerns E0 awaited ''order'' ''7'' i"
    using awaited_concerns by simp
  have k: "messageKeyFrom [''order'', ''7''] = ''order-7''" by (simp add: messageKeyFrom_def)
  have t: "TID (ws_Id waiting) = ''j''" "mi_Vars order7 = ''0''" by (simp_all add: waiting_def order7_def)
  obtain w' ms rs where "inbounds E0 [InMessage order7, InAwait waiting] awaited = (Ok [(True, None), (True, None)], w')"
    "published w' = ms" "mset (map rc_Id rs) = {# ''j'' #}" "list_all2 (delivery E0 awaited ''0'') rs ms"
    "kv_get (kvMessages w') ''order-7'' = None"
    using inbounds_deliver [OF awaited_sel(1) E0_ok(4,2) awaited_sel(2), of "''7''" "[InMessage order7, InAwait waiting]" order7 "[waiting]"] c
    by (auto simp: k t receivers0_def waiting_def [THEN arg_cong, of ws_ElementId])
  moreover from this obtain r where "rs = [r]" "rc_Id r = ''j''" by (cases rs) auto
  ultimately show ?thesis by (auto simp: list_all2_Cons1)
qed

theorem inbound_refines_witness:
  "\<exists>w'. handleInbound E0 (InMessage order7) awaited = (Ok (True, None), w') \<and> published w' = [] \<and>
     kv_get (kvMessages w') ''order-7'' = xstep receivers0 (event_of ''7'' (InMessage order7)) None"
proof -
  have k: "messageKeyFrom [''order'', ''7''] = ''order-7''" by (simp add: messageKeyFrom_def)
  have x: "xdeliver E0 (event_of ''7'' (InMessage order7)) (xput (event_of ''7'' (InMessage order7)) None) = []"
    by (simp add: xdeliver_def xput_def event_of_def empty_exchange_def setSender_def)
  have h: "\<forall>r \<in> set (xdeliver E0 (event_of ''7'' (InMessage order7)) (xput (event_of ''7'' (InMessage order7)) (kv_get (kvMessages awaited) (messageKeyFrom [''order'', ''7''])))).
       kv_get (kvJob awaited) (rc_Id r) \<noteq> None" by (simp add: x)
  from inbound_refines [OF awaited_sel(1) E0_ok(4) awaited_sel(2) awaited_concerns(2) h] show ?thesis by (auto simp: x k)
qed

section \<open>The store\<close>

theorem updateKV_witness:
  "\<exists>c v. kv_steps (kv_put ''k'' (1::nat) empty_bucket) c \<and> kv_get c ''k'' = Some v \<and> Suc v = 3 \<and>
     the (updateKV 3 (\<lambda>n. if n = 0 then kv_put ''k'' 2 else (\<lambda>b. b)) 0 ''k'' (\<lambda>v. Ok (Suc v)) (kv_put ''k'' (1::nat) empty_bucket)) = (Ok 3, kv_put ''k'' 3 c)"
proof -
  let ?o = "\<lambda>n. if n = 0 then kv_put ''k'' 2 else (\<lambda>b :: nat bucket. b)" and ?b = "kv_put ''k'' (1::nat) empty_bucket"
  have o: "kv_steps c (?o i c)" for i c by (auto simp: kv_put_def intro: kv_steps.intros)
  have b: "bucket_ok ?b" by simp
  have "updateKV 3 ?o 0 ''k'' (\<lambda>v. Ok (Suc v)) ?b = Some (Ok 3, kv_put ''k'' 3 (kv_put ''k'' 2 ?b))" by code_simp
  from updateKV_atomic [OF o b this] this show ?thesis by auto
qed

theorem updateKV_returns_witness:
  "updateKV 3 (\<lambda>n. if n = 0 then kv_put ''k'' 2 else (\<lambda>b. b)) 0 ''k'' (\<lambda>v. Ok (Suc v)) (kv_put ''k'' (1::nat) empty_bucket) \<noteq> None"
  by (rule updateKV_returns [of 0 1]) simp_all


section \<open>Owners and user tasks\<close>

theorem OwnerID_witness:
  "\<exists>w'. OwnerID E0 ''ann'' running = (Ok (show_nat 0), w') \<and> OwnerID E0 ''ann'' w' = (Ok (show_nat 0), w') \<and> OwnerName (show_nat 0) w' = (Ok ''ann'', w')"
proof -
  have n: "kv_get (kvOwnerID running) (if ''ann'' = [] then ''AnyUser'' else ''ann'') = None" "nextId running = 0" "kv_get (kvOwnerID running) ''ann'' = None"
    by (simp_all add: sample_defs)
  then obtain w' where w': "OwnerID E0 ''ann'' running = (Ok (show_nat 0), w')" by (auto simp: OwnerID_def Let_def bnd_apply handle_apply)
  from OwnerID_roundtrip [OF registered_reliable(2) n(1) this] w' show ?thesis by auto
qed

definition tasked :: world where
  "tasked = running\<lparr> kvJob := kv_put ''j'' (job0\<lparr> ws_Owners := [''o''] \<rparr>) empty_bucket, kvUserTasks := kv_put ''o'' [''h'', ''j''] empty_bucket \<rparr>"

theorem closeUserTask_witness: "\<exists>w'. closeUserTask E0 ''j'' tasked = (Ok (), w') \<and> tasks_of w' ''o'' = [''h'']"
proof -
  have "reliable tasked" "kv_get (kvJob tasked) ''j'' = Some (job0\<lparr> ws_Owners := [''o''] \<rparr>)"
    "distinct (ws_Owners (job0\<lparr> ws_Owners := [''o''] \<rparr>) @ ws_Groups (job0\<lparr> ws_Owners := [''o''] \<rparr>))" "tasks_of tasked ''o'' = [''h'', ''j'']"
    by (simp_all add: tasked_def tasks_of_def job0_def act0_def) (simp_all add: sample_defs)
  then show ?thesis using closeUserTask_reliable [of tasked "''j''" "job0\<lparr> ws_Owners := [''o''] \<rparr>" E0] by auto
qed

section \<open>Variables, routing and merging\<close>

theorem OutputVars_witness:
  "\<exists>b vs. OutputVars E0 order_key ''0'' [(''x'', ''= id'')] = Ok b \<and> Decode E0 [] b = Ok vs \<and> map_of vs ''x'' = Some (VString ''7'')"
proof -
  have o: "OutputVars E0 order_key ''0'' [(''x'', ''= id'')] = Ok (''1x'' @ [CHR 0x0A] @ ''7'')" by code_simp
  have d: "Decode E0 [] order_key = Ok [(''id'', VString ''7'')]" "Decode E0 [] ''0'' = Ok []" by code_simp+
  have v: "EvalAny E0 ''= id'' [(''id'', VString ''7'')] = Ok (VString ''7'')" by code_simp
  show ?thesis using OutputVars_spec [OF E0_ok(2,3) _ _ d _ o] o v by auto
qed

theorem CheckVars_witness:
  "CheckVars E0 (act0\<lparr> ws_Vars := order_key \<rparr>) (node ''x'' EndEvent []) = Ok () \<and>
   CheckVars E0 (act0\<lparr> ws_Vars := ''0'' \<rparr>) ((node ''x'' EndEvent [])\<lparr> el_OutputTransform := [(''x'', ''= id'')] \<rparr>) \<noteq> Ok ()"
proof
  have d: "Decode E0 [] (ws_Vars (act0\<lparr> ws_Vars := order_key \<rparr>)) = Ok [(''id'', VString ''7'')]" "Decode E0 [] (ws_Vars (act0\<lparr> ws_Vars := ''0'' \<rparr>)) = Ok []"
    by code_simp+
  show "CheckVars E0 (act0\<lparr> ws_Vars := order_key \<rparr>) (node ''x'' EndEvent []) = Ok ()"
    using CheckVars_Ok_iff [OF E0_ok(2) _ d(1), of "node ''x'' EndEvent []"] by (simp add: node_def)
  have "GetVariables E0 ''= id'' = Ok [''id'']" by code_simp
  then show "CheckVars E0 (act0\<lparr> ws_Vars := ''0'' \<rparr>) ((node ''x'' EndEvent [])\<lparr> el_OutputTransform := [(''x'', ''= id'')] \<rparr>) \<noteq> Ok ()"
    using CheckVars_Ok_iff [OF E0_ok(2) _ d(2), of "(node ''x'' EndEvent [])\<lparr> el_OutputTransform := [(''x'', ''= id'')] \<rparr>"] by simp
qed


theorem merge_order_witness:
  "\<exists>p q a b. mergeGatewayVars E0 \<lparr> gt_MetExpectations = [], gt_Vars = [''0'', order_key, ''0''], gt_Visits = 0 \<rparr> = Ok p \<and>
     mergeGatewayVars E0 \<lparr> gt_MetExpectations = [], gt_Vars = [''0'', ''0'', order_key], gt_Visits = 0 \<rparr> = Ok q \<and>
     Decode E0 [] p = Ok a \<and> Decode E0 [] q = Ok b \<and> map_of a = map_of b"
proof -
  let ?g = "\<lparr> gt_MetExpectations = [], gt_Vars = [''0'', order_key, ''0''], gt_Visits = 0 \<rparr> :: gateway"
  let ?h = "\<lparr> gt_MetExpectations = [], gt_Vars = [''0'', ''0'', order_key], gt_Visits = 0 \<rparr> :: gateway"
  have m: "mergeGatewayVars E0 ?g = Ok order_key" "mergeGatewayVars E0 ?h = Ok order_key" by code_simp+
  have d: "Decode E0 [] ''0'' = Ok []" "Decode E0 [] order_key = Ok [(''id'', VString ''7'')]" by code_simp+
  have c: "x = y" if "b \<in> set [order_key, ''0'']" "c \<in> set [order_key, ''0'']" "changed [] (decoded E0 b) k = Some x"
    "changed [] (decoded E0 c) k = Some y" for b c k x y
    using that by (auto simp: changed_def decoded_def d split: if_splits option.splits)
  have "mset [order_key, ''0''] = mset [''0'', order_key]" by simp
  from merge_order [OF E0_ok(2,3) d(1) this _ c, where g = ?g and h = ?h] m show ?thesis by auto
qed

section \<open>History\<close>

lemma busy_wf: "history_wf busy"
proof -
  have s: "kv_subjects (kvHistory busy) = [historyKey ''i'' ''a'' activityExecute]"
    by (simp add: busy_def kv_subjects_def kv_put_def kv_write_def empty_bucket_def)
  have "\<exists>p t ty. dot_free p \<and> dot_free t \<and> historyKey ''i'' ''a'' activityExecute = historyKey p t ty"
    by (rule exI [of _ "''i''"], rule exI [of _ "''a''"]) auto
  then show ?thesis by (simp add: history_wf_def s)
qed


section \<open>Task specifications\<close>

definition spec0 :: "task_spec" where
  "spec0 = \<lparr> ts_Version = ''1'', ts_Kind = ''ServiceTask'', ts_Metadata = Some \<lparr> tm_Uid = [], tm_Type = ''pay'', tm_Version = ''1'', tm_Short = [], tm_Description = [] \<rparr>,
     ts_Behaviour = Some \<lparr> tb_DefaultRetry = None, tb_EstimatedMaxDuration = 0, tb_Unsafe = False, tb_Mock = False, tb_Deprecated = True, tb_MockBehaviour = None \<rparr>,
     ts_Parameters = None, ts_Events = None \<rparr>"

theorem PutTaskSpec_witness:
  "\<exists>w' uid. PutTaskSpec E0 spec0 registered = (Ok uid, w') \<and> versions_of w' ''pay'' = [uid] \<and> kv_get (kvTaskSpec w') uid \<noteq> None"
proof -
  have "versions_of registered ''pay'' = []" by (simp add: versions_of_def sample_defs)
  then show ?thesis
    using PutTaskSpec_reliable [OF registered_reliable(1), of spec0 "\<lparr> tm_Uid = [], tm_Type = ''pay'', tm_Version = ''1'', tm_Short = [], tm_Description = [] \<rparr>" E0]
    by (auto simp: spec0_def)
qed

definition pay :: element where
  "pay = Elem ((node ''pay'' ServiceTask [])\<lparr> el_Version := Some ''u'' \<rparr>) None"

theorem deprecation_witness:
  "fst (checkProcessTaskDeprecation (wf0\<lparr> wf_Process := [(''p'', Proc [pay] ''p'' None)] \<rparr>) ''p''
     (registered\<lparr> kvTaskSpec := kv_put ''u'' spec0 empty_bucket \<rparr>)) \<noteq> Ok ()"
  using checkProcessTaskDeprecation_blocks [of "registered\<lparr> kvTaskSpec := kv_put ''u'' spec0 empty_bucket \<rparr>"
      "wf0\<lparr> wf_Process := [(''p'', Proc [pay] ''p'' None)] \<rparr>" "''p''" "Proc [pay] ''p'' None" pay "''u''" spec0]
  by (simp add: pay_def node_def spec0_def)

section \<open>Encodings\<close>

theorem Parse_print_witness: "ParseISO8601 (print_duration 1 0 0 2 3 0 4) =
    Ok \<lparr> du_Y = 1, du_M = 0, du_W = 0, du_D = 2, du_TH = 3, du_TM = 0, du_TS = 4 \<rparr>"
  using Parse_print [of 1 0 0 2 3 0 4] by (simp add: max_int64_def)

theorem Encode62_witness: "Encode62 [0, 1] \<noteq> Encode62 [1, 0]"
  using Encode62_inj [of "[0, 1]" "[1, 0]"] by auto

end
