(* ===== verification/Witness_Saga.thy ===== *)
theory Witness_Saga
  imports Witnesses
begin

text \<open>
  A booking that is cancelled: the process of the sample ran the service task \<open>book\<close>, whose
  compensating task is \<open>cancel\<close>, and reached a compensation end event.
\<close>

definition book :: element where
  "book = Elem ((node ''book'' ServiceTask [])\<lparr> el_Version := Some ''u'', el_CompensateWith := Some ''cancel'' \<rparr>) None"

definition cancel :: element where
  "cancel = Elem ((node ''cancel'' ServiceTask [])\<lparr> el_Version := Some ''u'' \<rparr>) None"

definition undo :: element where
  "undo = Elem (node ''undo'' CompensateEndEvent []) None"

definition wfs :: workflow where
  "wfs = empty_workflow\<lparr> wf_Name := ''flow'', wf_Process := [(''p'', Proc [book, cancel, undo] ''p'' None)], wf_Collaboration := Some [] \<rparr>"

definition undoing :: workflow_state where
  "undoing = act0\<lparr> ws_Id := [''i'', ''x''], ws_ElementId := ''undo'', ws_ElementType := CompensateEndEvent \<rparr>"

definition booked :: "string list \<Rightarrow> workflow_state" where
  "booked i = act0\<lparr> ws_Id := i, ws_ElementId := ''book'', ws_ElementType := ServiceTask \<rparr>"

definition cancelling :: world where
  "cancelling = running\<lparr> kvDefinition := kv_put ''wf'' wfs empty_bucket, kvTaskSpec := kv_put ''u'' spec0 empty_bucket,
     kvHistory := fold (\<lambda>(t, ty, s). kv_put (historyKey ''i'' t ty) (history_of s ty))
       [(''b'', activityExecute, booked [''i'', ''b'']), (''j'', jobExecute, booked [''i'', ''b'', ''j'']),
        (''b'', activityComplete, booked [''i'', ''b'']), (''x'', activityExecute, undoing)] empty_bucket \<rparr>"

definition els_s :: "(string \<times> element) list" where
  "els_s = IndexProcessElements [book, cancel, undo] []"

lemma keys_distinct [simp]:
  assumes "dot_free t" "dot_free t'"
  shows "historyKey ''i'' t ty = historyKey ''i'' t' ty' \<longleftrightarrow> t = t' \<and> ty = ty'"
  using historyKey_inj [of "''i''" t "''i''" t' ty ty'] assms by auto

lemma cancelling_sel [simp]: "reliable cancelling" "cache_coherent cancelling" "kvDefinition cancelling = kv_put ''wf'' wfs empty_bucket"
  "kvTaskSpec cancelling = kv_put ''u'' spec0 empty_bucket" "published cancelling = []" "planAcks cancelling = []"
  by (simp_all add: cancelling_def cache_coherent_def sample_defs)

lemma cancelling_hist:
  "kv_get (kvHistory cancelling) k =
     (if k = historyKey ''i'' ''x'' activityExecute then Some (history_of undoing activityExecute)
      else if k = historyKey ''i'' ''b'' activityComplete then Some (history_of (booked [''i'', ''b'']) activityComplete)
      else if k = historyKey ''i'' ''j'' jobExecute then Some (history_of (booked [''i'', ''b'', ''j'']) jobExecute)
      else if k = historyKey ''i'' ''b'' activityExecute then Some (history_of (booked [''i'', ''b'']) activityExecute) else None)"
  by (simp add: cancelling_def)

lemma cancelling_ready: "comp_ready cancelling undoing els_s"
  by (simp add: comp_ready_def els_s_def undoing_def wfs_def empty_workflow_def)

lemma compensable_code [code]:
  "compensable h els e \<longleftrightarrow> \<not> he_Compensating e \<and> he_ItemType e = jobExecute \<and>
     (case (Option.bind (he_ElementId e) (map_of els), he_ProcessInstanceId e) of
        (Some el, Some pid) \<Rightarrow> el_CompensateWith (el_data el) \<noteq> None \<and> kv_get h (historyKey pid (ParentID (he_Id e)) activityComplete) \<noteq> None
      | _ \<Rightarrow> False)"
  by (auto simp: compensable_def split: option.splits Option.bind_splits)

lemma cancelling_plan: "plan_of E0 (kvHistory cancelling) els_s ''i'' = [(0, historyKey ''i'' ''j'' jobExecute)]"
  by code_simp

lemma show_nat_old [simp]: "''j'' \<noteq> show_nat m" "dot_free (show_nat m)"
proof -
  have d: "is_digit c" if "c \<in> set (show_nat m)" for c using that by (rule show_nat_all_digits)
  have n: "\<not> is_digit (CHR ''j'')" "\<not> is_digit (CHR ''.'')" by code_simp+
  show "''j'' \<noteq> show_nat m" using d n(1) by (metis list.set_intros(1))
  show "dot_free (show_nat m)" using d n(2) by blast
qed

lemma cancel_undoable: "undoable E0 cancelling els_s ''wf'' (historyKey ''i'' ''j'' jobExecute)"
proof -
  have "compensator els_s (history_of (booked [''i'', ''b'', ''j'']) jobExecute) = Some (el_data cancel)" by code_simp
  moreover have "map_of els_s ''cancel'' = Some cancel" by code_simp
  moreover have "InputVars E0 vs [] (el_data cancel) = Ok []" "OutputVars E0 a b (el_OutputTransform (el_data cancel)) = Ok b" for vs a b
    by (simp_all add: InputVars_def OutputVars_def cancel_def node_def)
  ultimately show ?thesis unfolding undoable_def
    by (intro exI [of _ "history_of (booked [''i'', ''b'', ''j'']) jobExecute"] exI [of _ "el_data cancel"] exI [of _ "''u''"] exI [of _ spec0] exI [of _ cancel])
       (simp add: cancelling_hist, simp add: history_of_def booked_def cancel_def node_def HasPrefix_def)
qed

lemma undo_ends: "ends_at E0 cancelling els_s undoing ''undo''"
proof -
  have "map_of els_s ''undo'' = Some undo" by code_simp
  then show ?thesis unfolding ends_at_def
    by (simp add: cancelling_hist undoing_def history_of_def TID_def) (simp add: OutputVars_def undo_def node_def)
qed


end
