(* ===== verification/Registration.thy ===== *)
theory Registration
  imports Launch
begin

text \<open>
  Registration of workflows: \<open>LoadWorkflow\<close>, \<open>storeWorkflow\<close> and what they call in
  \<open>internal/server/workflow/operations.go\<close>, the hash of \<open>common/workflow/workflow.go\<close>, and the
  queries over what is registered.

  The lemmas show what a registration stores, that registering the same workflow again changes
  nothing and gives the same id, and that what was registered can be launched.
\<close>

section \<open>Names have one owner\<close>

text \<open>A failure of the lookup other than a missing key is a nil dereference.\<close>

definition validateUniqueProcessIdFor :: "env \<Rightarrow> workflow \<Rightarrow> unit act" where
  "validateUniqueProcessIdFor E wkf =
     bnd KvsFor (\<lambda>_.
     bnd (foldE (\<lambda>existing processId.
            handle (LoadObj ProcessB processId)
              (\<lambda>e. if e = ErrKeyNotFound then ret existing else panic)
              (\<lambda>wfName. ret (if wfName \<noteq> wf_Name wkf then existing @ [(processId, wfName)] else existing)))
          [] (map_order E 14 (map fst (wf_Process wkf)))) (\<lambda>existing.
     if existing \<noteq> [] then fail (ErrOther ''These process names already exist under different workflows'') else ret ()))"

definition validateUniqueMessageNames :: "workflow \<Rightarrow> unit act" where
  "validateUniqueMessageNames wkf =
     bnd KvsFor (\<lambda>_.
     bnd (foldE (\<lambda>existing msgType.
            handle (LoadObj MsgTypesB (el_Name msgType))
              (\<lambda>_. ret existing)
              (\<lambda>messageReceivers. ret (if mrs_AssociatedWorkflowName messageReceivers \<noteq> wf_Name wkf
                 then existing @ [el_Name msgType] else existing)))
          [] (wf_Messages wkf)) (\<lambda>existing.
     if existing \<noteq> [] then fail (ErrOther ''these messages already exist for other workflows'') else ret ()))"

definition populateMetadata :: "workflow \<Rightarrow> workflow" where
  "populateMetadata wkf = wkf\<lparr> wf_Process := map (\<lambda>(k, pr).
     (k, Proc (pr_Elements pr) (pr_Id pr) (Some (list_ex (\<lambda>e. el_Type (el_data e) = TimedStartEvent) (pr_Elements pr)))))
     (wf_Process wkf) \<rparr>"

section \<open>Service tasks\<close>

definition checkInputs :: "task_spec \<Rightarrow> elem_data \<Rightarrow> unit act" where
  "checkInputs def j =
     (case ts_Parameters def of
        None \<Rightarrow> ret ()
      | Some ps \<Rightarrow>
          if list_ex (\<lambda>val. pa_Mandatory val \<and> map_of (el_InputTransform j) (pa_Name val) = None) (tp_Input ps)
          then fail (ErrOther ''mandatory input parameter was expected for service task'') else ret ())"

text \<open>The variables that the output transformation mentions.\<close>

definition outVariables :: "env \<Rightarrow> elem_data \<Rightarrow> string list act" where
  "outVariables E j =
     foldE (\<lambda>outVars (varN, exp).
       handle (lift_res (GetVariables E exp))
         (\<lambda>_. fail (ErrOther ''an error occurred getting the variables from the output expression''))
         (\<lambda>vs. ret (outVars @ vs)))
       [] (rangeMap (map_order E 16) (el_OutputTransform j))"

definition checkOutputs :: "task_spec \<Rightarrow> string list \<Rightarrow> unit act" where
  "checkOutputs def outVars =
     (case ts_Parameters def of
        None \<Rightarrow> ret ()
      | Some ps \<Rightarrow>
          if list_ex (\<lambda>val. pa_Mandatory val \<and> pa_Name val \<notin> set outVars) (tp_Output ps)
          then fail (ErrOther ''mandatory output parameter was expected for service task'') else ret ())"

text \<open>The number of retries of the element overrides the one of the specification.  A specification
  without a behaviour, and a number to override without a default retry, are nil dereferences.\<close>

definition mergeRetry :: "task_spec \<Rightarrow> elem_data \<Rightarrow> elem_data act" where
  "mergeRetry def j =
     (case ts_Behaviour def of
        None \<Rightarrow> panic
      | Some b \<Rightarrow>
          (case el_RetryBehaviour j of
             None \<Rightarrow> ret (j\<lparr> el_RetryBehaviour := tb_DefaultRetry b \<rparr>)
           | Some r \<Rightarrow>
               if rt_Number r = 0 then ret (j\<lparr> el_RetryBehaviour := tb_DefaultRetry b \<rparr>)
               else (case tb_DefaultRetry b of
                       None \<Rightarrow> panic
                     | Some d \<Rightarrow> ret (j\<lparr> el_RetryBehaviour := Some (d\<lparr> rt_Number := rt_Number r \<rparr>) \<rparr>))))"

definition checkExceeded :: "workflow \<Rightarrow> string list \<Rightarrow> elem_data \<Rightarrow> unit act" where
  "checkExceeded wkf outVars j =
     (case Option.bind (el_RetryBehaviour j) rt_DefaultExceeded of
        None \<Rightarrow> panic
      | Some x \<Rightarrow>
          (case rx_Action x of
             SetVariableValue \<Rightarrow>
               if rx_Variable x \<in> set outVars then ret ()
               else fail (ErrOther ''retry exceeded output parameter is not handled'')
           | ThrowWorkflowError \<Rightarrow>
               (case find (\<lambda>e. er_Code e = rx_ErrorCode x) (wf_Errors wkf) of
                  None \<Rightarrow> fail (ErrOther ''retry exceeded error code is not declared'')
                | Some wfErr \<Rightarrow>
                    if list_ex (\<lambda>e. ce_ErrorId e = er_Id wfErr) (el_Errors j) then ret ()
                    else fail (ErrOther ''retry exceeded error code can be thrown but is not handled''))
           | _ \<Rightarrow> ret ()))"

text \<open>A failure of the lookup of the UID other than a missing key leaves the empty UID.\<close>

definition processServiceTask :: "env \<Rightarrow> (string \<Rightarrow> unit act) \<Rightarrow> workflow \<Rightarrow> elem_data \<Rightarrow> elem_data act" where
  "processServiceTask E svcTaskConsFn wkf j =
     bnd (handle (GetTaskSpecUID (el_Execute j)) (\<lambda>e. if e = ErrKeyNotFound then fail e else ret []) ret) (\<lambda>uid.
     let j = j\<lparr> el_Version := Some uid \<rparr>
     in bnd (GetTaskSpecByUID uid) (\<lambda>def.
        bnd (checkInputs def j) (\<lambda>_.
        bnd (outVariables E j) (\<lambda>outVars.
        bnd (checkOutputs def outVars) (\<lambda>_.
        bnd (mergeRetry def j) (\<lambda>j.
        bnd (checkExceeded wkf outVars j) (\<lambda>_.
        bnd (svcTaskConsFn uid) (\<lambda>_. ret j))))))))"

definition processElement :: "env \<Rightarrow> (string \<Rightarrow> unit act) \<Rightarrow> workflow \<Rightarrow> element list \<Rightarrow> element \<Rightarrow> element list act" where
  "processElement E svcTaskConsFn wkf done e =
     (if el_Type (el_data e) = ServiceTask
      then bnd (processServiceTask E svcTaskConsFn wkf (el_data e)) (\<lambda>d. ret (done @ [Elem d (el_Process e)]))
      else ret (done @ [e]))"

definition processOne :: "env \<Rightarrow> (string \<Rightarrow> unit act) \<Rightarrow> (workflow \<Rightarrow> process \<Rightarrow> unit act) \<Rightarrow> workflow \<Rightarrow> string \<times> process \<Rightarrow> workflow act" where
  "processOne E svcTaskConsFn wfProcessMappingFn wkf = (\<lambda>(k, i).
     bnd (foldE (processElement E svcTaskConsFn wkf) [] (pr_Elements i)) (\<lambda>es.
     let i = Proc es (pr_Id i) (pr_TimedStart i);
         wkf = wkf\<lparr> wf_Process := AList.update k i (wf_Process wkf) \<rparr>
     in bnd (wfProcessMappingFn wkf i) (\<lambda>_. ret wkf)))"

definition ProcessServiceTasks :: "env \<Rightarrow> (string \<Rightarrow> unit act) \<Rightarrow> (workflow \<Rightarrow> process \<Rightarrow> unit act) \<Rightarrow> workflow \<Rightarrow> workflow act" where
  "ProcessServiceTasks E svcTaskConsFn wfProcessMappingFn wkf =
     foldE (processOne E svcTaskConsFn wfProcessMappingFn) wkf (rangeMap (map_order E 15) (wf_Process wkf))"

section \<open>Storing\<close>

definition GetHash :: "env \<Rightarrow> workflow \<Rightarrow> (goerr, bytes) res" where
  "GetHash E wkf =
     (case json_workflow E (wkf\<lparr> wf_GzipSource := [],
             wf_Process := map (\<lambda>(k, pr). (k, Proc (pr_Elements pr) (pr_Id pr) None)) (wf_Process wkf) \<rparr>) of
        Ok b \<Rightarrow> Ok (sha256 E b)
      | Err e \<Rightarrow> Err e
      | Panic \<Rightarrow> Panic)"

text \<open>\<open>UpdateObj\<close> with a function that also assigns variables of the caller.\<close>

definition UpdateObjC :: "'v kvref \<Rightarrow> string \<Rightarrow> 'v \<Rightarrow> ('v \<Rightarrow> ('v \<times> 'c) act) \<Rightarrow> 'c act" where
  "UpdateObjC B k msg updateFn =
     bnd (handle (LoadObj B k) (\<lambda>e. if e = ErrKeyNotFound then SaveObj B k msg else ret ()) (\<lambda>_. ret ())) (\<lambda>_.
     bnd (LoadObj B k) (\<lambda>v.
     bnd (updateFn v) (\<lambda>(uv, c).
     bnd (SaveObj B k uv) (\<lambda>_. ret c))))"

text \<open>The version under the hash: the last one when it has the hash, or a new one.  The result is
  the id of the workflow and whether it is new.\<close>

definition storeVersion :: "string \<Rightarrow> bytes \<Rightarrow> workflow \<Rightarrow> workflow_versions \<Rightarrow> (workflow_versions \<times> string \<times> bool) act" where
  "storeVersion wfID hash wkf v =
     (let n = length (wvs_Version v)
      in if n \<noteq> 0 \<and> hash = wv_Sha256 (wvs_Version v ! (n - 1)) then ret (v, wv_Id (wvs_Version v ! (n - 1)), False)
         else bnd (SaveObj DefinitionB wfID wkf) (\<lambda>_.
              ret (v\<lparr> wvs_Version := wvs_Version v @ [\<lparr> wv_Id = wfID, wv_Sha256 = hash, wv_Number = int n + 1 \<rparr>] \<rparr>, wfID, True)))"

definition ensureMessageBucket :: "env \<Rightarrow> workflow \<Rightarrow> elem_data \<Rightarrow> unit act" where
  "ensureMessageBucket E wkf m =
     bnd (handle (SaveObj MsgTypesB (el_Name m)
            (case map_of (wf_MessageReceivers wkf) (el_Name m) of
               Some receivers \<Rightarrow> receivers
             | None \<Rightarrow> \<lparr> mrs_MessageReceiver = [], mrs_AssociatedWorkflowName = [] \<rparr>))
            (\<lambda>e. fail (ErrWorkflowFatal e None)) ret) (\<lambda>_.
     bnd (newID E) (\<lambda>ks.
     bnd (SaveObj ClientTaskB (wf_Name wkf @ ''_'' @ el_Name m) ks) (\<lambda>_.
     bnd io (\<lambda>_.
     modify (\<lambda>w. w\<lparr> consumers := List.insert (''ServiceTask_'' @ e_ns E @ ''_'' @ wf_Name wkf @ ''_'' @ el_Name m) (consumers w) \<rparr>)))))"

definition ensureMessageBuckets :: "env \<Rightarrow> workflow \<Rightarrow> unit act" where
  "ensureMessageBuckets E wkf = bnd KvsFor (\<lambda>_. forE (ensureMessageBucket E wkf) (wf_Messages wkf))"

definition forEachTimedStartElement :: "process \<Rightarrow> (element \<Rightarrow> unit act) \<Rightarrow> unit act" where
  "forEachTimedStartElement pr fn = forE fn (filter (\<lambda>e. el_Type (el_data e) = TimedStartEvent) (pr_Elements pr))"

definition startTimedElement :: "env \<Rightarrow> string \<Rightarrow> workflow \<Rightarrow> process \<Rightarrow> element \<Rightarrow> unit act" where
  "startTimedElement E wfID wkf pr e =
     bnd (timeNow E) (\<lambda>now.
     bnd (PublishWorkflowState E (NS WorkflowTimedExecute (e_ns E))
            (empty_state\<lparr> ws_Id := [], ws_WorkflowId := wfID, ws_ExecutionId := [], ws_ElementId := el_Id (el_data e),
               ws_ElementName := el_Name (el_data e), ws_UnixTimeNano := now,
               ws_Timer := Some \<lparr> wt_LastFired = 0, wt_Count = 0 \<rparr>, ws_Vars := [],
               ws_WorkflowName := wf_Name wkf, ws_ProcessId := pr_Id pr \<rparr>) no_opts) (\<lambda>_. ret ()))"

definition createWorkflowProcessMapping :: "workflow \<Rightarrow> process \<Rightarrow> unit act" where
  "createWorkflowProcessMapping wkf i = SaveObj ProcessB (pr_Id i) (wf_Name wkf)"

text \<open>What a new version is given: the buckets and consumers of its messages, and a timer for every
  timed start event.\<close>

definition openVersion :: "env \<Rightarrow> string \<Rightarrow> workflow \<Rightarrow> string act" where
  "openVersion E wfID wkf =
     bnd (ensureMessageBuckets E wkf) (\<lambda>_.
     bnd (forE (\<lambda>(k, pr). forEachTimedStartElement pr (startTimedElement E wfID wkf pr))
            (rangeMap (map_order E 17) (wf_Process wkf))) (\<lambda>_.
     ret wfID))"

definition storeWorkflow :: "env \<Rightarrow> workflow \<Rightarrow> string act" where
  "storeWorkflow E wkf =
     bnd (validateUniqueProcessIdFor E wkf) (\<lambda>_.
     bnd (validateUniqueMessageNames wkf) (\<lambda>_.
     let wkf = populateMetadata wkf
     in bnd KvsFor (\<lambda>_.
        bnd (newID E) (\<lambda>wfID.
        bnd (ProcessServiceTasks E (ensureServiceTaskConsumer E) createWorkflowProcessMapping wkf) (\<lambda>wkf.
        bnd (lift_res (GetHash E wkf)) (\<lambda>hash.
        bnd (handle (UpdateObjC VersionB (wf_Name wkf) empty_versions (storeVersion wfID hash wkf))
               (\<lambda>_. fail (ErrOther ''update workflow version'')) ret) (\<lambda>(wfID, newWf).
        if \<not> newWf then ret wfID else openVersion E wfID wkf)))))))"

definition LoadWorkflow :: "env \<Rightarrow> workflow \<Rightarrow> string act" where
  "LoadWorkflow E m = storeWorkflow E m"

section \<open>Queries\<close>

text \<open>A workflow that could not be loaded is reported with the versions of the one before it; an
  empty list of versions is an index out of range.\<close>

definition listWorkflow :: "workflow_versions \<times> (string \<times> int) list \<times> goerr list \<Rightarrow> string
    \<Rightarrow> (workflow_versions \<times> (string \<times> int) list \<times> goerr list) act" where
  "listWorkflow = (\<lambda>(v, res, errs) k.
     bnd (handle (LoadObj VersionB k) (\<lambda>e. ret (v, if e = ErrNoKeysFound then None else Some [e])) (\<lambda>v. ret (v, Some []))) (\<lambda>(v, r).
     case r of
       None \<Rightarrow> ret (v, res, errs)
     | Some es \<Rightarrow>
         if wvs_Version v = [] then panic
         else ret (v, res @ [(k, wv_Number (last (wvs_Version v)))], errs @ es)))"

definition ListWorkflows :: "((string \<times> int) list \<times> goerr list) act" where
  "ListWorkflows =
     handle KvsFor (\<lambda>e. ret ([], [e])) (\<lambda>_.
     bnd (handle (KeysOf VersionB) (\<lambda>e. if e = ErrNoKeysFound then ret (Inr []) else ret (Inl e)) (\<lambda>ks. ret (Inr ks))) (\<lambda>r.
     case r of
       Inl e \<Rightarrow> ret ([], [e])
     | Inr ks \<Rightarrow> bnd (foldE listWorkflow (empty_versions, [], []) ks) (\<lambda>(_, res, errs). ret (res, errs))))"

text \<open>An execution that could not be loaded has no workflow id.\<close>

fun listExecutions :: "workflow_version list \<Rightarrow> string list \<Rightarrow> (string \<times> int) list \<Rightarrow> ((string \<times> int) list \<times> goerr list) act" where
  "listExecutions ver [] res = ret (res, [])"
| "listExecutions ver (k # ks) res =
     bnd (handle (LoadObj ExecutionB k) (\<lambda>e. ret ([], Some e)) (\<lambda>v. ret (ex_WorkflowId v, None))) (\<lambda>(wid, err).
     case map_of (rev (map (\<lambda>v. (wv_Id v, v)) ver)) wid of
       Some wv \<Rightarrow>
         if err = Some ErrKeyNotFound then ret (res, [ErrKeyNotFound])
         else listExecutions ver ks (res @ [(k, wv_Number wv)])
     | None \<Rightarrow> listExecutions ver ks res)"

definition ListExecutions :: "string \<Rightarrow> ((string \<times> int) list \<times> goerr list) act" where
  "ListExecutions workflowName =
     handle KvsFor (\<lambda>e. ret ([], [e])) (\<lambda>_.
     handle (LoadObj VersionB workflowName) (\<lambda>e. ret ([], [e])) (\<lambda>wfv.
     bnd (handle (KeysOf ExecutionB) (\<lambda>e. if e = ErrNoKeysFound then ret (Inr []) else ret (Inl e)) (\<lambda>ks. ret (Inr ks))) (\<lambda>r.
     case r of
       Inl e \<Rightarrow> ret ([], [e])
     | Inr ks \<Rightarrow> listExecutions (wvs_Version wfv) ks [])))"

text \<open>The error that is wrapped when no receiver starts a process is nil, so the wrapped error is
  none of the errors of the store.\<close>

definition GetProcessIdFor :: "string \<Rightarrow> string act" where
  "GetProcessIdFor startEventMessageName =
     bnd KvsFor (\<lambda>_.
     bnd (handle (LoadObj MsgTypesB startEventMessageName) (\<lambda>e. fail e) (\<lambda>r. ret (mrs_MessageReceiver r))) (\<lambda>rs.
     case find (\<lambda>r. mr_ProcessIdToStart r \<noteq> []) rs of
       Some r \<Rightarrow> ret (mr_ProcessIdToStart r)
     | None \<Rightarrow> fail (ErrOther ''no message receivers'')))"

section \<open>Validation\<close>

definition names_free :: "world \<Rightarrow> workflow \<Rightarrow> bool" where
  "names_free w wkf \<longleftrightarrow>
     (\<forall>p \<in> fst ` set (wf_Process wkf). kv_get (kvProcess w) p = None \<or> kv_get (kvProcess w) p = Some (wf_Name wkf)) \<and>
     (\<forall>m \<in> set (wf_Messages wkf). \<forall>r. kv_get (kvMsgTypes w) (el_Name m) = Some r \<longrightarrow> mrs_AssociatedWorkflowName r = wf_Name wkf)"

lemma foldE_collect:
  assumes "\<And>a x. x \<in> set xs \<Longrightarrow> f a x w = (Ok (a @ g x), w)"
  shows "foldE f acc xs w = (Ok (acc @ concat (map g xs)), w)"
  using assms by (induction xs arbitrary: acc) (simp_all add: bnd_apply)

lemma validateProcess_reliable:
  assumes "reliable w" "ranges_ok E"
  shows "validateUniqueProcessIdFor E wkf w =
     (if \<forall>p \<in> fst ` set (wf_Process wkf). kv_get (kvProcess w) p = None \<or> kv_get (kvProcess w) p = Some (wf_Name wkf) then Ok ()
      else Err (ErrOther ''These process names already exist under different workflows''), w)"
proof -
  let ?g = "\<lambda>p. case kv_get (kvProcess w) p of Some n \<Rightarrow> if n \<noteq> wf_Name wkf then [(p, n)] else [] | None \<Rightarrow> []"
  have f: "foldE (\<lambda>existing processId. handle (LoadObj ProcessB processId)
              (\<lambda>e. if e = ErrKeyNotFound then ret existing else panic)
              (\<lambda>wfName. ret (if wfName \<noteq> wf_Name wkf then existing @ [(processId, wfName)] else existing))) [] ps w =
      (Ok ([] @ concat (map ?g ps)), w)" for ps
    using assms(1) by (intro foldE_collect) (auto simp: handle_apply split: option.splits)
  have g: "?g p = [] \<longleftrightarrow> kv_get (kvProcess w) p = None \<or> kv_get (kvProcess w) p = Some (wf_Name wkf)" for p
    by (cases "kv_get (kvProcess w) p") auto
  have "concat (map ?g (map_order E 14 (map fst (wf_Process wkf)))) = [] \<longleftrightarrow>
      (\<forall>p \<in> fst ` set (wf_Process wkf). kv_get (kvProcess w) p = None \<or> kv_get (kvProcess w) p = Some (wf_Name wkf))"
    by (simp only: concat_eq_Nil_conv set_map ball_simps g set_map_order [OF assms(2)])
  then show ?thesis using assms(1) by (simp add: validateUniqueProcessIdFor_def bnd_apply f)
qed

lemma validateMessages_reliable:
  assumes "reliable w"
  shows "validateUniqueMessageNames wkf w =
     (if \<forall>m \<in> set (wf_Messages wkf). \<forall>r. kv_get (kvMsgTypes w) (el_Name m) = Some r \<longrightarrow> mrs_AssociatedWorkflowName r = wf_Name wkf
      then Ok () else Err (ErrOther ''these messages already exist for other workflows''), w)"
proof -
  let ?g = "\<lambda>m. case kv_get (kvMsgTypes w) (el_Name m) of Some r \<Rightarrow> if mrs_AssociatedWorkflowName r \<noteq> wf_Name wkf then [el_Name m] else [] | None \<Rightarrow> []"
  have f: "foldE (\<lambda>existing msgType. handle (LoadObj MsgTypesB (el_Name msgType)) (\<lambda>_. ret existing)
              (\<lambda>messageReceivers. ret (if mrs_AssociatedWorkflowName messageReceivers \<noteq> wf_Name wkf
                 then existing @ [el_Name msgType] else existing))) [] ms w = (Ok ([] @ concat (map ?g ms)), w)" for ms
    using assms(1) by (intro foldE_collect) (auto simp: handle_apply split: option.splits)
  have g: "?g m = [] \<longleftrightarrow> (\<forall>r. kv_get (kvMsgTypes w) (el_Name m) = Some r \<longrightarrow> mrs_AssociatedWorkflowName r = wf_Name wkf)" for m
    by (cases "kv_get (kvMsgTypes w) (el_Name m)") auto
  have "concat (map ?g (wf_Messages wkf)) = [] \<longleftrightarrow> (\<forall>m \<in> set (wf_Messages wkf). \<forall>r. kv_get (kvMsgTypes w) (el_Name m) = Some r \<longrightarrow>
      mrs_AssociatedWorkflowName r = wf_Name wkf)" by (simp only: concat_eq_Nil_conv set_map ball_simps g)
  then show ?thesis using assms(1) by (simp add: validateUniqueMessageNames_def bnd_apply f)
qed

section \<open>Service tasks\<close>

text \<open>The service task of an element is registered and its parameters and errors are handled.\<close>

definition serviceable :: "env \<Rightarrow> world \<Rightarrow> workflow \<Rightarrow> elem_data \<Rightarrow> bool" where
  "serviceable E w wkf j \<longleftrightarrow> (\<exists>ids spec b d outs. kv_get (kvTaskSpecVer w) (el_Execute j) = Some ids \<and> ids \<noteq> [] \<and>
     kv_get (kvTaskSpec w) (last ids) = Some spec \<and> ts_Behaviour spec = Some b \<and> tb_DefaultRetry b = Some d \<and>
     (\<forall>w. checkInputs spec j w = (Ok (), w)) \<and> (\<forall>w. outVariables E j w = (Ok outs, w)) \<and> (\<forall>w. checkOutputs spec outs w = (Ok (), w)) \<and>
     (\<forall>w. checkExceeded wkf outs (j\<lparr> el_RetryBehaviour := Some d \<rparr>) w = (Ok (), w)))"

definition serviced :: "world \<Rightarrow> elem_data \<Rightarrow> elem_data" where
  "serviced w j =
     (if el_Type j = ServiceTask then
        (let uid = last (the (kv_get (kvTaskSpecVer w) (el_Execute j)));
             d = the (tb_DefaultRetry (the (ts_Behaviour (the (kv_get (kvTaskSpec w) uid)))))
         in j\<lparr> el_Version := Some uid, el_RetryBehaviour := Some (case el_RetryBehaviour j of
               Some r \<Rightarrow> if rt_Number r = 0 then d else d\<lparr> rt_Number := rt_Number r \<rparr> | None \<Rightarrow> d) \<rparr>)
      else j)"

lemma check_version [simp]: "checkInputs spec (j\<lparr> el_Version := v \<rparr>) = checkInputs spec j" "outVariables E (j\<lparr> el_Version := v \<rparr>) = outVariables E j"
  by (simp_all add: checkInputs_def outVariables_def split: option.splits)

lemma check_exceeded_number [simp]:
  "checkExceeded wkf outs (j\<lparr> el_Version := v, el_RetryBehaviour := r \<rparr>) = checkExceeded wkf outs (j\<lparr> el_RetryBehaviour := r \<rparr>)"
  "checkExceeded wkf outs (j\<lparr> el_RetryBehaviour := Some (d\<lparr> rt_Number := n \<rparr>) \<rparr>) = checkExceeded wkf outs (j\<lparr> el_RetryBehaviour := Some d \<rparr>)"
  by (simp_all add: checkExceeded_def Option.bind_def split: option.splits retry_error_action.splits)

lemma processServiceTask_reliable:
  assumes "reliable w" "serviceable E w wkf j" "el_Type j = ServiceTask"
  shows "\<exists>uid. processServiceTask E cons wkf j w = bnd (cons uid) (\<lambda>_. ret (serviced w j)) w"
proof -
  obtain ids spec b d outs where s: "kv_get (kvTaskSpecVer w) (el_Execute j) = Some ids" "ids \<noteq> []"
     "kv_get (kvTaskSpec w) (last ids) = Some spec" "ts_Behaviour spec = Some b" "tb_DefaultRetry b = Some d"
     "\<forall>w. checkInputs spec j w = (Ok (), w)" "\<forall>w. outVariables E j w = (Ok outs, w)" "\<forall>w. checkOutputs spec outs w = (Ok (), w)"
     "\<forall>w. checkExceeded wkf outs (j\<lparr> el_RetryBehaviour := Some d \<rparr>) w = (Ok (), w)"
    using assms(2) unfolding serviceable_def by blast
  have "GetTaskSpecUID (el_Execute j) w = (Ok (last ids), w)"
    using assms(1) s by (simp add: GetTaskSpecUID_def GetTaskSpecVersions_def bnd_apply last_conv_nth)
  moreover have "GetTaskSpecByUID (last ids) w = (Ok spec, w)" using assms(1) s by (simp add: GetTaskSpecByUID_def bnd_apply)
  moreover have "mergeRetry spec (j\<lparr> el_Version := Some (last ids) \<rparr>) w = (Ok (serviced w j), w)"
    using s assms(3) by (simp add: mergeRetry_def serviced_def Let_def split: option.splits)
  moreover have "checkExceeded wkf outs (serviced w j) w = (Ok (), w)"
    using s assms(3) by (simp add: serviced_def Let_def split: option.splits)
  ultimately show ?thesis using s
    by (intro exI [of _ "last ids"]) (simp add: processServiceTask_def handle_apply bnd_apply Let_def)
qed

lemma serviceable_frame [simp]:
  "serviceable E (w\<lparr> consumers := cs \<rparr>) = serviceable E w" "serviceable E (w\<lparr> kvProcess := b \<rparr>) = serviceable E w"
  "serviceable E (w\<lparr> nextId := n \<rparr>) = serviceable E w" "serviced (w\<lparr> nextId := n \<rparr>) = serviced w"
  "serviced (w\<lparr> consumers := cs \<rparr>) = serviced w" "serviced (w\<lparr> kvProcess := b \<rparr>) = serviced w"
  by (simp_all add: serviceable_def serviced_def fun_eq_iff)

lemma serviceable_process [simp]: "serviceable E w (wkf\<lparr> wf_Process := ps \<rparr>) j = serviceable E w wkf j"
proof -
  have "checkExceeded (wkf\<lparr> wf_Process := ps \<rparr>) outs j = checkExceeded wkf outs j" for outs j
    by (simp add: checkExceeded_def split: option.splits retry_error_action.splits)
  then show ?thesis by (simp add: serviceable_def)
qed

definition serviced_element :: "world \<Rightarrow> element \<Rightarrow> element" where
  "serviced_element w e = Elem (serviced w (el_data e)) (el_Process e)"

lemma serviced_other: "el_Type (el_data e) \<noteq> ServiceTask \<Longrightarrow> serviced_element w e = e"
  by (cases e) (simp add: serviced_element_def serviced_def)

lemma processElement_reliable:
  assumes "reliable w" "el_Type (el_data e) = ServiceTask \<longrightarrow> serviceable E w wkf (el_data e)"
  shows "\<exists>cs. processElement E (ensureServiceTaskConsumer E) wkf acc e w = (Ok (acc @ [serviced_element w e]), w\<lparr> consumers := cs \<rparr>)"
proof (cases "el_Type (el_data e) = ServiceTask")
  case True
  then obtain uid where "processServiceTask E (ensureServiceTaskConsumer E) wkf (el_data e) w =
      bnd (ensureServiceTaskConsumer E uid) (\<lambda>_. ret (serviced w (el_data e))) w"
    using processServiceTask_reliable [OF assms(1)] assms(2) by blast
  then show ?thesis using assms(1) True
    by (auto simp: processElement_def ensureServiceTaskConsumer_def serviced_element_def bnd_apply)
next
  case False
  then show ?thesis by (intro exI [of _ "consumers w"]) (simp add: processElement_def serviced_other)
qed

lemma processElements_reliable:
  assumes "reliable w" "\<forall>e \<in> set es. el_Type (el_data e) = ServiceTask \<longrightarrow> serviceable E w wkf (el_data e)"
  shows "\<exists>cs. foldE (processElement E (ensureServiceTaskConsumer E) wkf) acc es w = (Ok (acc @ map (serviced_element w) es), w\<lparr> consumers := cs \<rparr>)"
  using assms
proof (induction es arbitrary: acc w)
  case Nil
  then show ?case by (intro exI [of _ "consumers w"]) simp
next
  case (Cons e es)
  obtain cs where p: "processElement E (ensureServiceTaskConsumer E) wkf acc e w = (Ok (acc @ [serviced_element w e]), w\<lparr> consumers := cs \<rparr>)"
    using processElement_reliable [OF Cons.prems(1), of e E wkf acc] Cons.prems(2) by auto
  have "serviced_element (w\<lparr> consumers := cs \<rparr>) = serviced_element w" by (simp add: serviced_element_def fun_eq_iff)
  then show ?case using Cons.IH [of "w\<lparr> consumers := cs \<rparr>" "acc @ [serviced_element w e]"] Cons.prems p by (simp add: bnd_apply)
qed

definition serviced_process :: "world \<Rightarrow> process \<Rightarrow> process" where
  "serviced_process w i = Proc (map (serviced_element w) (pr_Elements i)) (pr_Id i) (pr_TimedStart i)"

definition process_ok :: "env \<Rightarrow> world \<Rightarrow> workflow \<Rightarrow> process \<Rightarrow> bool" where
  "process_ok E w wkf i \<longleftrightarrow> (\<forall>e \<in> set (pr_Elements i). el_Type (el_data e) = ServiceTask \<longrightarrow> serviceable E w wkf (el_data e))"

lemma processOne_reliable:
  assumes "reliable w" "process_ok E w wkf i"
  shows "\<exists>cs. processOne E (ensureServiceTaskConsumer E) createWorkflowProcessMapping wkf (k, i) w =
     (Ok (wkf\<lparr> wf_Process := AList.update k (serviced_process w i) (wf_Process wkf) \<rparr>),
      w\<lparr> consumers := cs, kvProcess := kv_put (pr_Id i) (wf_Name wkf) (kvProcess w) \<rparr>)"
proof -
  obtain cs where "foldE (processElement E (ensureServiceTaskConsumer E) wkf) [] (pr_Elements i) w =
      (Ok ([] @ map (serviced_element w) (pr_Elements i)), w\<lparr> consumers := cs \<rparr>)"
    using processElements_reliable [OF assms(1), of "pr_Elements i" E wkf "[]"] assms(2) unfolding process_ok_def by blast
  then show ?thesis using assms(1)
    by (intro exI [of _ cs]) (simp add: processOne_def bnd_apply Let_def createWorkflowProcessMapping_def serviced_process_def)
qed

lemma process_frame:
  "serviced_process (w\<lparr> consumers := cs, kvProcess := b \<rparr>) = serviced_process w"
  "process_ok E (w\<lparr> consumers := cs, kvProcess := b \<rparr>) = process_ok E w"
  "process_ok E w (wkf\<lparr> wf_Process := ps \<rparr>) = process_ok E w wkf"
  by (simp_all add: serviced_process_def serviced_element_def process_ok_def fun_eq_iff)

lemma ProcessServiceTasks_loop:
  assumes "reliable w" "\<forall>(k, i) \<in> set L. process_ok E w wkf i"
  shows "\<exists>cs b. foldE (processOne E (ensureServiceTaskConsumer E) createWorkflowProcessMapping) (wkf\<lparr> wf_Process := ps \<rparr>) L w =
      (Ok (wkf\<lparr> wf_Process := fold (\<lambda>(k, i). AList.update k (serviced_process w i)) L ps \<rparr>), w\<lparr> consumers := cs, kvProcess := b \<rparr>) \<and>
     (\<forall>p. kv_get b p = (if p \<in> pr_Id ` snd ` set L then Some (wf_Name wkf) else kv_get (kvProcess w) p))"
  using assms
proof (induction L arbitrary: ps w)
  case Nil
  then show ?case by (intro exI [of _ "consumers w"] exI [of _ "kvProcess w"]) simp
next
  case (Cons x L)
  obtain k i where x: "x = (k, i)" by (cases x)
  obtain cs where p: "processOne E (ensureServiceTaskConsumer E) createWorkflowProcessMapping (wkf\<lparr> wf_Process := ps \<rparr>) (k, i) w =
     (Ok (wkf\<lparr> wf_Process := AList.update k (serviced_process w i) ps \<rparr>),
      w\<lparr> consumers := cs, kvProcess := kv_put (pr_Id i) (wf_Name wkf) (kvProcess w) \<rparr>)"
    using processOne_reliable [OF Cons.prems(1), of E "wkf\<lparr> wf_Process := ps \<rparr>" i k] Cons.prems(2) x by (auto simp: process_frame)
  let ?w1 = "w\<lparr> consumers := cs, kvProcess := kv_put (pr_Id i) (wf_Name wkf) (kvProcess w) \<rparr>"
  have "reliable ?w1" "\<forall>(k, i) \<in> set L. process_ok E ?w1 wkf i" using Cons.prems by (auto simp: process_frame)
  from Cons.IH [OF this, of "AList.update k (serviced_process w i) ps"] obtain cs2 b where r:
    "foldE (processOne E (ensureServiceTaskConsumer E) createWorkflowProcessMapping) (wkf\<lparr> wf_Process := AList.update k (serviced_process w i) ps \<rparr>) L ?w1 =
      (Ok (wkf\<lparr> wf_Process := fold (\<lambda>(k, i). AList.update k (serviced_process w i)) L (AList.update k (serviced_process w i) ps) \<rparr>), ?w1\<lparr> consumers := cs2, kvProcess := b \<rparr>)"
     "\<forall>p. kv_get b p = (if p \<in> pr_Id ` snd ` set L then Some (wf_Name wkf) else kv_get (kvProcess ?w1) p)"
    unfolding process_frame by blast
  then show ?case using x p by (intro exI [of _ cs2] exI [of _ b]) (auto simp: bnd_apply)
qed

text \<open>Every process is updated, in whatever order the map is ranged over.\<close>

lemma update_as_map:
  assumes "distinct (map fst m)" "k \<in> fst ` set m"
  shows "AList.update k v m = map (\<lambda>(k', i). (k', if k' = k then v else i)) m"
  using assms by (induction m) (auto simp: image_iff split: prod.splits intro!: map_idI [symmetric])

lemma fold_update_map:
  assumes "distinct (map fst m)" "distinct (map fst L)" "fst ` set L \<subseteq> fst ` set m"
  shows "fold (\<lambda>(k, i). AList.update k (f i)) L m = map (\<lambda>(k, i). (k, case map_of L k of Some j \<Rightarrow> f j | None \<Rightarrow> i)) m"
  using assms
proof (induction L arbitrary: m)
  case (Cons x L)
  obtain k i where x: "x = (k, i)" by (cases x)
  let ?m = "map (\<lambda>(k', j). (k', if k' = k then f i else j)) m"
  have u: "AList.update k (f i) m = ?m" using Cons.prems x by (intro update_as_map) auto
  have fm: "map fst ?m = map fst m" by auto
  then have sm: "fst ` set ?m = fst ` set m" by (metis list.set_map)
  have k: "map_of L k = None" using Cons.prems(2) x by (simp add: map_of_eq_None_iff)
  have "fold (\<lambda>(k, i). AList.update k (f i)) L ?m = map (\<lambda>(k, i). (k, case map_of L k of Some j \<Rightarrow> f j | None \<Rightarrow> i)) ?m"
    using Cons.prems x by (intro Cons.IH) (simp_all only: fm sm, auto)
  then show ?case using u k x by (auto split: option.splits)
qed (simp add: case_prod_unfold)

lemma ProcessServiceTasks_reliable:
  assumes "reliable w" "ranges_ok E" "distinct (map fst (wf_Process wkf))" "\<forall>(k, i) \<in> set (wf_Process wkf). process_ok E w wkf i"
  shows "\<exists>cs b. ProcessServiceTasks E (ensureServiceTaskConsumer E) createWorkflowProcessMapping wkf w =
      (Ok (wkf\<lparr> wf_Process := map (\<lambda>(k, i). (k, serviced_process w i)) (wf_Process wkf) \<rparr>), w\<lparr> consumers := cs, kvProcess := b \<rparr>) \<and>
     (\<forall>p. kv_get b p = (if p \<in> pr_Id ` snd ` set (wf_Process wkf) then Some (wf_Name wkf) else kv_get (kvProcess w) p))"
proof -
  let ?m = "wf_Process wkf" and ?L = "rangeMap (map_order E 15) (wf_Process wkf)"
  note o = ranges_okD [OF assms(2), of 15 "map fst ?m"]
  have L: "set ?L = set ?m" "distinct (map fst ?L)" "map_of ?L = map_of ?m"
    using set_rangeMap [of "map_order E 15" ?m, OF o assms(3)] distinct_rangeMap [of "map_order E 15" ?m, OF o assms(3)]
      map_of_rangeMap [of "map_order E 15" ?m, OF o assms(3)] .
  have "fold (\<lambda>(k, i). AList.update k (serviced_process w i)) ?L ?m =
      map (\<lambda>(k, i). (k, case map_of ?m k of Some j \<Rightarrow> serviced_process w j | None \<Rightarrow> i)) ?m"
    using fold_update_map [OF assms(3) L(2), of "serviced_process w"] L by simp
  also have "\<dots> = map (\<lambda>(k, i). (k, serviced_process w i)) ?m"
    using assms(3) by (auto simp: map_of_is_SomeI)
  finally have f: "fold (\<lambda>(k, i). AList.update k (serviced_process w i)) ?L ?m = map (\<lambda>(k, i). (k, serviced_process w i)) ?m" .
  have "wkf = wkf\<lparr> wf_Process := ?m \<rparr>" by simp
  then show ?thesis using ProcessServiceTasks_loop [OF assms(1), of ?L E wkf ?m] assms(4) L(1)
    unfolding ProcessServiceTasks_def f by (metis (no_types, lifting))
qed

section \<open>What a registration stores\<close>

definition as_registered :: "world \<Rightarrow> workflow \<Rightarrow> workflow" where
  "as_registered w wkf = (populateMetadata wkf)\<lparr> wf_Process :=
     map (\<lambda>(k, i). (k, serviced_process w i)) (wf_Process (populateMetadata wkf)) \<rparr>"

definition receivers_of :: "workflow \<Rightarrow> string \<Rightarrow> message_receivers" where
  "receivers_of wkf n = (case map_of (wf_MessageReceivers wkf) n of
     Some r \<Rightarrow> r | None \<Rightarrow> \<lparr> mrs_MessageReceiver = [], mrs_AssociatedWorkflowName = [] \<rparr>)"

lemma ensureMessageBucket_reliable:
  assumes "reliable w"
  shows "\<exists>c cs. ensureMessageBucket E wkf m w = (Ok (), w\<lparr> kvMsgTypes := kv_put (el_Name m) (receivers_of wkf (el_Name m)) (kvMsgTypes w),
     kvClientTask := c, consumers := cs, nextId := Suc (nextId w) \<rparr>)"
proof -
  have "kvMsgTypes_update (kv_put k v) w = w\<lparr> kvMsgTypes := kv_put k v (kvMsgTypes w) \<rparr>"
    "kvClientTask_update (kv_put k x) w = w\<lparr> kvClientTask := kv_put k x (kvClientTask w) \<rparr>" for k v x w by (cases w, simp)+
  then show ?thesis using assms
    by (intro exI [of _ "kv_put (wf_Name wkf @ ''_'' @ el_Name m) (ksuid E (nextId w)) (kvClientTask w)"]
          exI [of _ "List.insert (''ServiceTask_'' @ e_ns E @ ''_'' @ wf_Name wkf @ ''_'' @ el_Name m) (consumers w)"])
       (cases w, simp add: ensureMessageBucket_def receivers_of_def handle_apply bnd_apply)
qed

lemma ensureMessageBuckets_reliable:
  assumes "reliable w"
  shows "\<exists>b c cs n. forE (ensureMessageBucket E wkf) ms w = (Ok (), w\<lparr> kvMsgTypes := b, kvClientTask := c, consumers := cs, nextId := n \<rparr>) \<and>
     nextId w \<le> n \<and> (\<forall>k. kv_get b k = (if k \<in> el_Name ` set ms then Some (receivers_of wkf k) else kv_get (kvMsgTypes w) k))"
  using assms
proof (induction ms arbitrary: w)
  case Nil
  then show ?case by (intro exI [of _ "kvMsgTypes w"] exI [of _ "kvClientTask w"] exI [of _ "consumers w"] exI [of _ "nextId w"]) simp
next
  case (Cons m ms)
  obtain c cs where e: "ensureMessageBucket E wkf m w = (Ok (), w\<lparr> kvMsgTypes := kv_put (el_Name m) (receivers_of wkf (el_Name m)) (kvMsgTypes w),
     kvClientTask := c, consumers := cs, nextId := Suc (nextId w) \<rparr>)" using ensureMessageBucket_reliable [OF Cons.prems] by blast
  let ?w1 = "w\<lparr> kvMsgTypes := kv_put (el_Name m) (receivers_of wkf (el_Name m)) (kvMsgTypes w), kvClientTask := c, consumers := cs, nextId := Suc (nextId w) \<rparr>"
  obtain b c2 cs2 n where "forE (ensureMessageBucket E wkf) ms ?w1 = (Ok (), ?w1\<lparr> kvMsgTypes := b, kvClientTask := c2, consumers := cs2, nextId := n \<rparr>)"
     "nextId ?w1 \<le> n" "\<forall>k. kv_get b k = (if k \<in> el_Name ` set ms then Some (receivers_of wkf k) else kv_get (kvMsgTypes ?w1) k)"
    using Cons.IH [of ?w1] Cons.prems by auto
  then show ?case using e by (intro exI [of _ b] exI [of _ c2] exI [of _ cs2] exI [of _ n]) (auto simp: bnd_apply)
qed

text \<open>The timed start events, in the order they are published, and the message of each.\<close>

definition timed_starts :: "env \<Rightarrow> workflow \<Rightarrow> (process \<times> element) list" where
  "timed_starts E wkf = concat (map (\<lambda>(k, pr). map (Pair pr) (filter (\<lambda>e. el_Type (el_data e) = TimedStartEvent) (pr_Elements pr)))
     (rangeMap (map_order E 17) (wf_Process wkf)))"

definition timed_msg :: "env \<Rightarrow> string \<Rightarrow> workflow \<Rightarrow> process \<times> element \<Rightarrow> pubmsg \<Rightarrow> bool" where
  "timed_msg E wfID wkf = (\<lambda>(pr, e) m. \<exists>s. pm_Subject m = NS WorkflowTimedExecute (e_ns E) \<and> pm_Payload m = PState s \<and>
     ws_WorkflowId s = wfID \<and> ws_ElementId s = el_Id (el_data e) \<and> ws_ProcessId s = pr_Id pr \<and> ws_WorkflowName s = wf_Name wkf \<and>
     ws_Id s = [] \<and> ws_Vars s = [] \<and> ws_Timer s = Some \<lparr> wt_LastFired = 0, wt_Count = 0 \<rparr>)"

definition timed_frame :: "world \<Rightarrow> world \<Rightarrow> bool" where
  "timed_frame w w' \<longleftrightarrow> (\<exists>ms t n. w' = w\<lparr> published := published w @ ms, ticks := t, nextId := n \<rparr> \<and> nextId w \<le> n)"

lemma timed_frame_refl: "timed_frame w w" unfolding timed_frame_def by (intro exI [of _ "[]"] exI [of _ "ticks w"] exI [of _ "nextId w"]) simp

lemma timed_frame_trans: "timed_frame a b \<Longrightarrow> timed_frame b c \<Longrightarrow> timed_frame a c"
proof -
  assume "timed_frame a b" "timed_frame b c"
  then obtain ms t n ms' t' n' where "b = a\<lparr> published := published a @ ms, ticks := t, nextId := n \<rparr>" "nextId a \<le> n"
    "c = b\<lparr> published := published b @ ms', ticks := t', nextId := n' \<rparr>" "nextId b \<le> n'" unfolding timed_frame_def by blast
  then show ?thesis unfolding timed_frame_def by (intro exI [of _ "ms @ ms'"] exI [of _ t'] exI [of _ n']) simp
qed

lemma startTimedElement_reliable:
  assumes "reliable w" "ns_ok E"
  shows "\<exists>w' m. startTimedElement E wfID wkf pr e w = (Ok (), w') \<and> timed_frame w w' \<and> published w' = published w @ [m] \<and>
     timed_msg E wfID wkf (pr, e) m"
proof -
  have n: "NS (NS WorkflowTimedExecute (e_ns E)) (e_ns E) = NS WorkflowTimedExecute (e_ns E)"
    using NS_NS [OF assms(2), of "''Timers.WorkflowExecute''"] by (simp add: subject_defs HasPrefix_def)
  let ?s = "empty_state\<lparr> ws_Id := [], ws_WorkflowId := wfID, ws_ExecutionId := [], ws_ElementId := el_Id (el_data e),
     ws_ElementName := el_Name (el_data e), ws_UnixTimeNano := clock E (ticks w),
     ws_Timer := Some \<lparr> wt_LastFired = 0, wt_Count = 0 \<rparr>, ws_Vars := [], ws_WorkflowName := wf_Name wkf, ws_ProcessId := pr_Id pr \<rparr>"
  let ?w = "w\<lparr> ticks := Suc (ticks w) \<rparr>"
  have "startTimedElement E wfID wkf pr e w = (Ok (), pubW E (NS WorkflowTimedExecute (e_ns E)) ?s no_opts ?w)"
    using assms by (simp add: startTimedElement_def bnd_apply)
  moreover have "timed_frame w (pubW E (NS WorkflowTimedExecute (e_ns E)) ?s no_opts ?w)"
    unfolding timed_frame_def pubW_def
    by (intro exI [of _ "[state_msg E (NS WorkflowTimedExecute (e_ns E)) ?s no_opts ?w]"] exI [of _ "Suc (Suc (ticks w))"] exI [of _ "Suc (nextId w)"]) simp
  ultimately show ?thesis using n
    by (intro exI [of _ "pubW E (NS WorkflowTimedExecute (e_ns E)) ?s no_opts ?w"]
         exI [of _ "state_msg E (NS WorkflowTimedExecute (e_ns E)) ?s no_opts ?w"]) (simp add: timed_msg_def)
qed

lemma startTimedElements_reliable:
  assumes "reliable w" "ns_ok E"
  shows "\<exists>w' ms. forE (\<lambda>(pr, e). startTimedElement E wfID wkf pr e) L w = (Ok (), w') \<and> timed_frame w w' \<and>
     published w' = published w @ ms \<and> list_all2 (timed_msg E wfID wkf) L ms"
  using assms
proof (induction L arbitrary: w)
  case Nil
  then show ?case by (intro exI [of _ w] exI [of _ "[]"]) (simp add: timed_frame_refl)
next
  case (Cons x L)
  obtain pr e where x: "x = (pr, e)" by (cases x)
  obtain w1 m where 1: "startTimedElement E wfID wkf pr e w = (Ok (), w1)" "timed_frame w w1" "published w1 = published w @ [m]"
     "timed_msg E wfID wkf (pr, e) m" using startTimedElement_reliable [OF Cons.prems, of wfID wkf pr e] by auto
  have "reliable w1" using 1(2) Cons.prems(1) by (auto simp: timed_frame_def)
  then obtain w2 ms where 2: "forE (\<lambda>(pr, e). startTimedElement E wfID wkf pr e) L w1 = (Ok (), w2)" "timed_frame w1 w2"
     "published w2 = published w1 @ ms" "list_all2 (timed_msg E wfID wkf) L ms" using Cons.IH [of w1] Cons.prems(2) by auto
  show ?case using x 1 2 timed_frame_trans [OF 1(2) 2(2)] by (intro exI [of _ w2] exI [of _ "m # ms"]) (simp add: bnd_apply)
qed

lemma forE_pairs: "forE (\<lambda>(k, x). forE (g x) (h x)) L = forE (\<lambda>(x, y). g x y) (concat (map (\<lambda>(k, x). map (Pair x) (h x)) L))"
proof -
  have "forE (\<lambda>(x, y). g x y) (map (Pair x) ys) = forE (g x) ys" for x ys by (induction ys) simp_all
  then show ?thesis by (induction L) (auto simp: forE_append)
qed

lemma openVersion_reliable:
  assumes "reliable w" "ns_ok E"
  shows "\<exists>b c cs n w' ms. openVersion E wfID wkf w = (Ok wfID, w') \<and>
     timed_frame (w\<lparr> kvMsgTypes := b, kvClientTask := c, consumers := cs, nextId := n \<rparr>) w' \<and> nextId w \<le> n \<and>
     (\<forall>k. kv_get b k = (if k \<in> el_Name ` set (wf_Messages wkf) then Some (receivers_of wkf k) else kv_get (kvMsgTypes w) k)) \<and>
     published w' = published w @ ms \<and> list_all2 (timed_msg E wfID wkf) (timed_starts E wkf) ms"
proof -
  obtain b c cs n where 1: "forE (ensureMessageBucket E wkf) (wf_Messages wkf) w = (Ok (), w\<lparr> kvMsgTypes := b, kvClientTask := c, consumers := cs, nextId := n \<rparr>)"
     "nextId w \<le> n" "\<forall>k. kv_get b k = (if k \<in> el_Name ` set (wf_Messages wkf) then Some (receivers_of wkf k) else kv_get (kvMsgTypes w) k)"
    using ensureMessageBuckets_reliable [OF assms(1)] by blast
  let ?w = "w\<lparr> kvMsgTypes := b, kvClientTask := c, consumers := cs, nextId := n \<rparr>"
  obtain w' ms where 2: "forE (\<lambda>(pr, e). startTimedElement E wfID wkf pr e) (timed_starts E wkf) ?w = (Ok (), w')" "timed_frame ?w w'"
     "published w' = published ?w @ ms" "list_all2 (timed_msg E wfID wkf) (timed_starts E wkf) ms"
    using startTimedElements_reliable [of ?w E wfID wkf "timed_starts E wkf"] assms by auto
  have "forE (\<lambda>(k, pr). forEachTimedStartElement pr (startTimedElement E wfID wkf pr)) (rangeMap (map_order E 17) (wf_Process wkf)) =
      forE (\<lambda>(pr, e). startTimedElement E wfID wkf pr e) (timed_starts E wkf)"
    unfolding forEachTimedStartElement_def timed_starts_def by (rule forE_pairs)
  then have "openVersion E wfID wkf w = (Ok wfID, w')"
    using assms(1) 1(1) 2(1) by (simp add: openVersion_def ensureMessageBuckets_def bnd_apply)
  then show ?thesis using 1 2 by (intro exI [of _ b] exI [of _ c] exI [of _ cs] exI [of _ n] exI [of _ w'] exI [of _ ms]) simp
qed

text \<open>A workflow that can be registered: its names are free or its own, its service tasks are
  registered, and it can be hashed.\<close>

definition registrable :: "env \<Rightarrow> world \<Rightarrow> workflow \<Rightarrow> bytes \<Rightarrow> bool" where
  "registrable E w wkf hash \<longleftrightarrow> reliable w \<and> distinct (map fst (wf_Process wkf)) \<and> names_free w wkf \<and>
     (\<forall>(k, i) \<in> set (wf_Process wkf). process_ok E w wkf i) \<and> GetHash E (as_registered w wkf) = Ok hash"

definition stored_versions :: "world \<Rightarrow> string \<Rightarrow> workflow_versions" where
  "stored_versions w n = (case kv_get (kvVersion w) n of Some v \<Rightarrow> v | None \<Rightarrow> empty_versions)"

lemma serviced_process_nextId [simp]: "serviced_process (w\<lparr> nextId := n \<rparr>) = serviced_process w" "process_ok E (w\<lparr> nextId := n \<rparr>) = process_ok E w"
  by (simp_all add: serviced_process_def serviced_element_def process_ok_def fun_eq_iff)

lemma populate_sel [simp]: "wf_Name (populateMetadata wkf) = wf_Name wkf" "wf_Messages (populateMetadata wkf) = wf_Messages wkf"
  "map fst (wf_Process (populateMetadata wkf)) = map fst (wf_Process wkf)"
  "wf_Name (as_registered w wkf) = wf_Name wkf" "wf_Messages (as_registered w wkf) = wf_Messages wkf"
  "wf_MessageReceivers (as_registered w wkf) = wf_MessageReceivers wkf"
  "receivers_of (as_registered w wkf) = receivers_of wkf"
  "pr_Id ` snd ` set (wf_Process (populateMetadata wkf)) = pr_Id ` snd ` set (wf_Process wkf)"
  by (simp_all add: populateMetadata_def as_registered_def receivers_of_def image_image case_prod_unfold comp_def fun_eq_iff)

lemma storeWorkflow_prepared:
  assumes "registrable E w wkf hash" "ranges_ok E"
  defines "wfID \<equiv> ksuid E (nextId w)"
  shows "\<exists>cs b. storeWorkflow E wkf w =
      bnd (handle (UpdateObjC VersionB (wf_Name wkf) empty_versions (storeVersion wfID hash (as_registered w wkf)))
             (\<lambda>_. fail (ErrOther ''update workflow version'')) ret)
        (\<lambda>(wfID, newWf). if \<not> newWf then ret wfID else openVersion E wfID (as_registered w wkf))
        (w\<lparr> nextId := Suc (nextId w), consumers := cs, kvProcess := b \<rparr>) \<and>
     (\<forall>p. kv_get b p = (if p \<in> pr_Id ` snd ` set (wf_Process wkf) then Some (wf_Name wkf) else kv_get (kvProcess w) p))"
proof -
  have r: "reliable w" "distinct (map fst (wf_Process wkf))" "names_free w wkf" "GetHash E (as_registered w wkf) = Ok hash"
    "\<forall>(k, i) \<in> set (wf_Process wkf). process_ok E w wkf i" using assms(1) by (auto simp: registrable_def)
  have v: "validateUniqueProcessIdFor E wkf w = (Ok (), w)" "validateUniqueMessageNames wkf w = (Ok (), w)"
    using validateProcess_reliable [OF r(1) assms(2)] validateMessages_reliable [OF r(1)] r(3) by (simp_all add: names_free_def)
  let ?w = "w\<lparr> nextId := Suc (nextId w) \<rparr>"
  have "\<forall>(k, i) \<in> set (wf_Process (populateMetadata wkf)). process_ok E ?w (populateMetadata wkf) i"
    using r(5) by (auto simp: populateMetadata_def process_ok_def)
  then obtain cs b where "ProcessServiceTasks E (ensureServiceTaskConsumer E) createWorkflowProcessMapping (populateMetadata wkf) ?w =
      (Ok (as_registered w wkf), ?w\<lparr> consumers := cs, kvProcess := b \<rparr>)"
     "\<forall>p. kv_get b p = (if p \<in> pr_Id ` snd ` set (wf_Process wkf) then Some (wf_Name wkf) else kv_get (kvProcess ?w) p)"
    using ProcessServiceTasks_reliable [of ?w E "populateMetadata wkf"] r(1,2) assms(2) unfolding as_registered_def by auto
  then show ?thesis using v r(1,4)
    by (intro exI [of _ cs] exI [of _ b]) (simp add: storeWorkflow_def bnd_apply Let_def wfID_def)
qed

lemma UpdateVersion_reliable:
  assumes "reliable w" "\<And>w. reliable w \<Longrightarrow> f (stored_versions old n) w = (Ok (v, c), w\<lparr> kvDefinition := g (kvDefinition w) \<rparr>)"
    and "kvVersion w = kvVersion old"
  shows "\<exists>b. UpdateObjC VersionB n empty_versions f w = (Ok c, w\<lparr> kvDefinition := g (kvDefinition w), kvVersion := b \<rparr>) \<and>
     (\<forall>k. kv_get b k = (if k = n then Some v else kv_get (kvVersion old) k))"
proof (cases "kv_get (kvVersion old) n")
  case None
  let ?w = "kvVersion_update (kv_put n empty_versions) w"
  have "f empty_versions ?w = (Ok (v, c), ?w\<lparr> kvDefinition := g (kvDefinition ?w) \<rparr>)"
    using assms(2) [of ?w] assms(1) None by (simp add: stored_versions_def)
  then show ?thesis using assms(1,3) None
    by (intro exI [of _ "kv_put n v (kv_put n empty_versions (kvVersion w))"]) (cases w, simp add: UpdateObjC_def handle_apply bnd_apply)
next
  case (Some u)
  then show ?thesis using assms(1,3) assms(2) [of w]
    by (intro exI [of _ "kv_put n v (kvVersion w)"]) (cases w, simp add: UpdateObjC_def handle_apply bnd_apply stored_versions_def)
qed

text \<open>The version that a registration adds.\<close>

definition add_version :: "workflow_versions \<Rightarrow> string \<Rightarrow> bytes \<Rightarrow> workflow_versions" where
  "add_version v wfID hash = v\<lparr> wvs_Version := wvs_Version v @
     [\<lparr> wv_Id = wfID, wv_Sha256 = hash, wv_Number = int (length (wvs_Version v)) + 1 \<rparr>] \<rparr>"

definition latest_is :: "workflow_versions \<Rightarrow> bytes \<Rightarrow> bool" where
  "latest_is v hash \<longleftrightarrow> wvs_Version v \<noteq> [] \<and> wv_Sha256 (last (wvs_Version v)) = hash"

lemma storeVersion_cases:
  assumes "reliable w"
  shows "\<not> latest_is v hash \<Longrightarrow> storeVersion wfID hash wkf v w =
     (Ok (add_version v wfID hash, wfID, True), w\<lparr> kvDefinition := kv_put wfID wkf (kvDefinition w) \<rparr>)"
    and "latest_is v hash \<Longrightarrow> storeVersion wfID hash wkf v w = (Ok (v, wv_Id (last (wvs_Version v)), False), w)"
  using assms by (cases w, auto simp: storeVersion_def latest_is_def add_version_def Let_def bnd_apply last_conv_nth)

lemma new_version [simp]: "latest_is (add_version v i hash) hash" "wvs_Version (add_version v i hash) \<noteq> []"
  "wv_Id (last (wvs_Version (add_version v i hash))) = i" "wvs_IsExecutionDisabled (add_version v i hash) = wvs_IsExecutionDisabled v"
  by (simp_all add: latest_is_def add_version_def)

text \<open>The workflow is stored, and nothing else changes.\<close>

lemma LoadWorkflow_new:
  assumes "registrable E w wkf hash" "ranges_ok E" "ns_ok E" "\<not> latest_is (stored_versions w (wf_Name wkf)) hash"
  defines "wfID \<equiv> ksuid E (nextId w)"
  shows "\<exists>w' ms. LoadWorkflow E wkf w = (Ok wfID, w') \<and>
     (\<forall>k. kv_get (kvDefinition w') k = (if k = wfID then Some (as_registered w wkf) else kv_get (kvDefinition w) k)) \<and>
     (\<forall>k. kv_get (kvVersion w') k =
        (if k = wf_Name wkf then Some (add_version (stored_versions w (wf_Name wkf)) wfID hash) else kv_get (kvVersion w) k)) \<and>
     (\<forall>p. kv_get (kvProcess w') p =
        (if p \<in> pr_Id ` snd ` set (wf_Process wkf) then Some (wf_Name wkf) else kv_get (kvProcess w) p)) \<and>
     (\<forall>k. kv_get (kvMsgTypes w') k =
        (if k \<in> el_Name ` set (wf_Messages wkf) then Some (receivers_of wkf k) else kv_get (kvMsgTypes w) k)) \<and>
     published w' = published w @ ms \<and>
     list_all2 (timed_msg E wfID (as_registered w wkf)) (timed_starts E (as_registered w wkf)) ms \<and>
     reliable w' \<and> kvTaskSpec w' = kvTaskSpec w \<and> kvTaskSpecVer w' = kvTaskSpecVer w \<and> sCache w' = sCache w"
proof -
  let ?r = "as_registered w wkf" and ?v = "stored_versions w (wf_Name wkf)"
  obtain cs b where 1: "storeWorkflow E wkf w =
      bnd (handle (UpdateObjC VersionB (wf_Name wkf) empty_versions (storeVersion wfID hash ?r))
             (\<lambda>_. fail (ErrOther ''update workflow version'')) ret)
        (\<lambda>(wfID, newWf). if \<not> newWf then ret wfID else openVersion E wfID ?r)
        (w\<lparr> nextId := Suc (nextId w), consumers := cs, kvProcess := b \<rparr>)"
     "\<forall>p. kv_get b p = (if p \<in> pr_Id ` snd ` set (wf_Process wkf) then Some (wf_Name wkf) else kv_get (kvProcess w) p)"
    using storeWorkflow_prepared [OF assms(1,2)] unfolding wfID_def by blast
  let ?w1 = "w\<lparr> nextId := Suc (nextId w), consumers := cs, kvProcess := b \<rparr>"
  have r: "reliable ?w1" using assms(1) by (simp add: registrable_def)
  obtain vb where 2: "UpdateObjC VersionB (wf_Name wkf) empty_versions (storeVersion wfID hash ?r) ?w1 =
      (Ok (wfID, True), ?w1\<lparr> kvDefinition := kv_put wfID ?r (kvDefinition ?w1), kvVersion := vb \<rparr>)"
     "\<forall>k. kv_get vb k = (if k = wf_Name wkf then Some (add_version ?v wfID hash) else kv_get (kvVersion w) k)"
    using UpdateVersion_reliable [where f = "storeVersion wfID hash ?r" and old = w and n = "wf_Name wkf" and g = "kv_put wfID ?r",
        OF r storeVersion_cases(1) [OF _ assms(4)]] by auto
  let ?w2 = "?w1\<lparr> kvDefinition := kv_put wfID ?r (kvDefinition ?w1), kvVersion := vb \<rparr>"
  have r2: "reliable ?w2" using r by simp
  obtain mb c cs2 n w' ms where 3: "openVersion E wfID ?r ?w2 = (Ok wfID, w')"
     "timed_frame (?w2\<lparr> kvMsgTypes := mb, kvClientTask := c, consumers := cs2, nextId := n \<rparr>) w'"
     "\<forall>k. kv_get mb k = (if k \<in> el_Name ` set (wf_Messages ?r) then Some (receivers_of ?r k) else kv_get (kvMsgTypes ?w2) k)"
     "published w' = published ?w2 @ ms" "list_all2 (timed_msg E wfID ?r) (timed_starts E ?r) ms"
    using openVersion_reliable [OF r2 assms(3), of wfID ?r] by blast
  have f: "kvDefinition w' = kv_put wfID ?r (kvDefinition w)" "kvVersion w' = vb" "kvProcess w' = b" "kvMsgTypes w' = mb"
    "reliable w'" "kvTaskSpec w' = kvTaskSpec w" "kvTaskSpecVer w' = kvTaskSpecVer w" "sCache w' = sCache w"
    using 3(2) r by (auto simp: timed_frame_def)
  show ?thesis using 1 2 3 f by (intro exI [of _ w'] exI [of _ ms]) (simp add: LoadWorkflow_def handle_apply bnd_apply)
qed

text \<open>A workflow whose latest version has its hash has that version's id.\<close>

lemma LoadWorkflow_again:
  assumes "registrable E w wkf hash" "ranges_ok E" "latest_is (stored_versions w (wf_Name wkf)) hash"
  shows "\<exists>w'. LoadWorkflow E wkf w = (Ok (wv_Id (last (wvs_Version (stored_versions w (wf_Name wkf))))), w') \<and>
     kvDefinition w' = kvDefinition w \<and> kv_get (kvVersion w') = kv_get (kvVersion w) \<and> kvMsgTypes w' = kvMsgTypes w \<and>
     published w' = published w"
proof -
  let ?r = "as_registered w wkf" and ?v = "stored_versions w (wf_Name wkf)" and ?i = "ksuid E (nextId w)"
  obtain cs b where 1: "storeWorkflow E wkf w =
      bnd (handle (UpdateObjC VersionB (wf_Name wkf) empty_versions (storeVersion ?i hash ?r))
             (\<lambda>_. fail (ErrOther ''update workflow version'')) ret)
        (\<lambda>(wfID, newWf). if \<not> newWf then ret wfID else openVersion E wfID ?r)
        (w\<lparr> nextId := Suc (nextId w), consumers := cs, kvProcess := b \<rparr>)"
    using storeWorkflow_prepared [OF assms(1,2)] by blast
  let ?w1 = "w\<lparr> nextId := Suc (nextId w), consumers := cs, kvProcess := b \<rparr>"
  have r: "reliable ?w1" using assms(1) by (simp add: registrable_def)
  have s: "storeVersion ?i hash ?r ?v u = (Ok (?v, wv_Id (last (wvs_Version ?v)), False), u\<lparr> kvDefinition := id (kvDefinition u) \<rparr>)"
    if "reliable u" for u using storeVersion_cases(2) [OF that assms(3)] by simp
  obtain vb where 2: "UpdateObjC VersionB (wf_Name wkf) empty_versions (storeVersion ?i hash ?r) ?w1 =
      (Ok (wv_Id (last (wvs_Version ?v)), False), ?w1\<lparr> kvVersion := vb \<rparr>)"
     "\<forall>k. kv_get vb k = (if k = wf_Name wkf then Some ?v else kv_get (kvVersion w) k)"
    using UpdateVersion_reliable [where f = "storeVersion ?i hash ?r" and old = w and n = "wf_Name wkf" and g = id, OF r s] by auto
  have "kv_get (kvVersion w) (wf_Name wkf) = Some ?v"
    using assms(3) by (cases "kv_get (kvVersion w) (wf_Name wkf)") (auto simp: stored_versions_def latest_is_def empty_versions_def)
  then have "kv_get vb = kv_get (kvVersion w)" using 2(2) by (auto simp: fun_eq_iff)
  then show ?thesis using 1 2(1) by (intro exI [of _ "?w1\<lparr> kvVersion := vb \<rparr>"]) (simp add: LoadWorkflow_def handle_apply bnd_apply)
qed

lemma specs_kept:
  assumes "kvTaskSpec w' = kvTaskSpec w" "kvTaskSpecVer w' = kvTaskSpecVer w"
  shows "as_registered w' = as_registered w" "process_ok E w' = process_ok E w"
proof -
  have "serviced w' = serviced w" "serviceable E w' = serviceable E w"
    using assms by (simp_all add: serviced_def serviceable_def fun_eq_iff Let_def cong: if_cong)
  then have "serviced_element w' = serviced_element w" "process_ok E w' = process_ok E w"
    by (simp_all add: serviced_element_def process_ok_def fun_eq_iff)
  moreover from this(1) have "serviced_process w' = serviced_process w" by (simp add: serviced_process_def fun_eq_iff)
  ultimately show "as_registered w' = as_registered w" "process_ok E w' = process_ok E w" by (simp_all add: as_registered_def fun_eq_iff)
qed

text \<open>The receivers of a message that the workflow does not receive have no owner.\<close>

lemma LoadWorkflow_orphan:
  assumes "reliable w" "ranges_ok E" "m \<in> set (wf_Messages wkf)" "kv_get (kvMsgTypes w) (el_Name m) = Some (receivers_of wkf (el_Name m))"
    and "map_of (wf_MessageReceivers wkf) (el_Name m) = None" "wf_Name wkf \<noteq> []"
  shows "\<exists>e. LoadWorkflow E wkf w = (Err e, w)"
proof -
  have "\<not> (\<forall>m \<in> set (wf_Messages wkf). \<forall>r. kv_get (kvMsgTypes w) (el_Name m) = Some r \<longrightarrow> mrs_AssociatedWorkflowName r = wf_Name wkf)"
    using assms(3-6) by (auto simp: receivers_of_def intro!: bexI [of _ m])
  then have "validateUniqueMessageNames wkf w = (Err (ErrOther ''these messages already exist for other workflows''), w)"
    using validateMessages_reliable [OF assms(1), of wkf] by (simp only: if_False)
  then show ?thesis using validateProcess_reliable [OF assms(1,2), of wkf] by (simp add: LoadWorkflow_def storeWorkflow_def bnd_apply)
qed


text \<open>The latest specifications of the tasks of a process are in use.\<close>

definition tasks_in_use :: "world \<Rightarrow> process \<Rightarrow> bool" where
  "tasks_in_use w pr \<longleftrightarrow> (\<forall>e \<in> set (pr_Elements pr). \<forall>ids spec b. kv_get (kvTaskSpecVer w) (el_Execute (el_data e)) = Some ids \<longrightarrow>
     kv_get (kvTaskSpec w) (last ids) = Some spec \<longrightarrow> ts_Behaviour spec = Some b \<longrightarrow> \<not> tb_Deprecated b)"

lemma serviced_current:
  assumes "process_ok E w wkf pr" "tasks_in_use w pr"
  shows "tasks_current w (serviced_process w pr)"
proof -
  have "\<exists>v st. el_Version (serviced w (el_data e)) = Some v \<and> kv_get (kvTaskSpec w) v = Some st \<and>
      \<not> (case ts_Behaviour st of None \<Rightarrow> False | Some b \<Rightarrow> tb_Deprecated b)"
    if e: "e \<in> set (pr_Elements pr)" "el_Type (el_data e) = ServiceTask" for e
  proof -
    obtain ids spec b where s: "kv_get (kvTaskSpecVer w) (el_Execute (el_data e)) = Some ids" "kv_get (kvTaskSpec w) (last ids) = Some spec"
       "ts_Behaviour spec = Some b" using assms(1) e unfolding process_ok_def serviceable_def by blast
    then have "\<not> tb_Deprecated b" using assms(2) e(1) unfolding tasks_in_use_def by blast
    then show ?thesis using s e(2) by (simp add: serviced_def Let_def)
  qed
  moreover have "el_Type (serviced w j) = el_Type j" for j by (simp add: serviced_def Let_def)
  ultimately show ?thesis by (simp add: tasks_current_def serviced_process_def serviced_element_def)
qed

lemma map_of_as_registered:
  "map_of (wf_Process wkf) pid = Some pr \<Longrightarrow> map_of (wf_Process (as_registered w wkf)) pid =
     Some (serviced_process w (Proc (pr_Elements pr) (pr_Id pr) (Some (list_ex (\<lambda>e. el_Type (el_data e) = TimedStartEvent) (pr_Elements pr)))))"
  by (simp add: as_registered_def populateMetadata_def map_of_map del: map_map)

text \<open>C7. A process of a workflow that was just registered can be launched: the launch finds the
  workflow that was stored, with the versions of its service tasks, under the id that the
  registration returned.\<close>

theorem registered_launches:
  assumes "registrable E w wkf hash" "ranges_ok E" "ns_ok E" "\<not> latest_is (stored_versions w (wf_Name wkf)) hash"
    and "cache_coherent w" "kv_get (kvDefinition w) (ksuid E (nextId w)) = None" "\<not> wvs_IsExecutionDisabled (stored_versions w (wf_Name wkf))"
    and "map_of (wf_Process wkf) (pr_Id pr) = Some pr" "tasks_in_use w pr"
  defines "wfID \<equiv> ksuid E (nextId w)"
  shows "\<exists>w' c. LoadWorkflow E wkf w = (Ok wfID, w') \<and> launchable w' (pr_Id pr) (wf_Name wkf) wfID (as_registered w wkf) \<and>
     launchDefinition E (pr_Id pr) w' = (Ok (wf_Name wkf, wfID, as_registered w wkf), w'\<lparr> sCache := c \<rparr>)"
proof -
  obtain w' where 1: "LoadWorkflow E wkf w = (Ok wfID, w')"
     "\<forall>k. kv_get (kvDefinition w') k = (if k = wfID then Some (as_registered w wkf) else kv_get (kvDefinition w) k)"
     "\<forall>k. kv_get (kvVersion w') k =
        (if k = wf_Name wkf then Some (add_version (stored_versions w (wf_Name wkf)) wfID hash) else kv_get (kvVersion w) k)"
     "\<forall>p. kv_get (kvProcess w') p =
        (if p \<in> pr_Id ` snd ` set (wf_Process wkf) then Some (wf_Name wkf) else kv_get (kvProcess w) p)"
     "reliable w'" "kvTaskSpec w' = kvTaskSpec w" "sCache w' = sCache w"
    using LoadWorkflow_new [OF assms(1-4)] unfolding wfID_def by blast
  have p: "(pr_Id pr, pr) \<in> set (wf_Process wkf)" using assms(8) by (rule map_of_SomeD)
  then have "process_ok E w wkf pr" using assms(1) by (auto simp: registrable_def)
  from serviced_current [OF this assms(9)] have "tasks_current w' (serviced_process w (Proc (pr_Elements pr) (pr_Id pr) t))" for t
    using 1(6) by (simp add: tasks_current_def serviced_process_def)
  moreover have "cache_coherent w'" using assms(5,6) 1(2,7) unfolding cache_coherent_def wfID_def by (metis option.distinct(1))
  moreover have "kv_get (kvProcess w') (pr_Id pr) = Some (wf_Name wkf)" using 1(4) p by force
  ultimately have l: "launchable w' (pr_Id pr) (wf_Name wkf) wfID (as_registered w wkf)"
    using 1(2,3,5) assms(7) map_of_as_registered [OF assms(8)] by (simp add: launchable_def)
  from launchDefinition_ok [OF l] obtain c where "launchDefinition E (pr_Id pr) w' = (Ok (wf_Name wkf, wfID, as_registered w wkf), w'\<lparr> sCache := c \<rparr>)"
    by blast
  then show ?thesis using 1(1) l by blast
qed

section \<open>What is listed\<close>

lemma listExecutions_reliable:
  assumes "reliable w" "\<forall>k \<in> set ks. kv_get (kvExecution w) k \<noteq> None" "distinct (map wv_Id ver)"
  shows "\<exists>out. listExecutions ver ks res w = (Ok (res @ out, []), w) \<and>
     set out = {(k, n). k \<in> set ks \<and> (\<exists>ex v. kv_get (kvExecution w) k = Some ex \<and> v \<in> set ver \<and> wv_Id v = ex_WorkflowId ex \<and> wv_Number v = n)} \<and>
     map fst out = filter (\<lambda>k. \<exists>ex. kv_get (kvExecution w) k = Some ex \<and> ex_WorkflowId ex \<in> wv_Id ` set ver) ks"
  using assms(2)
proof (induction ks arbitrary: res)
  case (Cons k ks)
  have d: "map_of (rev (map (\<lambda>v. (wv_Id v, v)) ver)) i = Some v \<longleftrightarrow> v \<in> set ver \<and> wv_Id v = i" for i v
    using assms(3) by (auto simp: map_of_eq_Some_iff rev_map [symmetric] comp_def)
  obtain ex where x: "kv_get (kvExecution w) k = Some ex" using Cons.prems by auto
  show ?case
  proof (cases "map_of (rev (map (\<lambda>v. (wv_Id v, v)) ver)) (ex_WorkflowId ex)")
    case None
    then have n: "\<forall>v \<in> set ver. wv_Id v \<noteq> ex_WorkflowId ex" "ex_WorkflowId ex \<notin> wv_Id ` set ver" by (auto simp: map_of_eq_None_iff image_iff)
    obtain out where "listExecutions ver ks res w = (Ok (res @ out, []), w)"
       "set out = {(k, n). k \<in> set ks \<and> (\<exists>ex v. kv_get (kvExecution w) k = Some ex \<and> v \<in> set ver \<and> wv_Id v = ex_WorkflowId ex \<and> wv_Number v = n)}"
       "map fst out = filter (\<lambda>k. \<exists>ex. kv_get (kvExecution w) k = Some ex \<and> ex_WorkflowId ex \<in> wv_Id ` set ver) ks"
      using Cons.IH [of res] Cons.prems by auto
    then show ?thesis using x None n assms(1) by (intro exI [of _ out]) (auto simp: handle_apply bnd_apply)
  next
    case (Some v)
    obtain out where o: "listExecutions ver ks (res @ [(k, wv_Number v)]) w = (Ok ((res @ [(k, wv_Number v)]) @ out, []), w)"
       "set out = {(k, n). k \<in> set ks \<and> (\<exists>ex v. kv_get (kvExecution w) k = Some ex \<and> v \<in> set ver \<and> wv_Id v = ex_WorkflowId ex \<and> wv_Number v = n)}"
       "map fst out = filter (\<lambda>k. \<exists>ex. kv_get (kvExecution w) k = Some ex \<and> ex_WorkflowId ex \<in> wv_Id ` set ver) ks"
      using Cons.IH [of "res @ [(k, wv_Number v)]"] Cons.prems by auto
    have v: "v \<in> set ver" "wv_Id v = ex_WorkflowId ex" using Some by (simp_all add: d)
    have n: "wv_Number u = wv_Number v" if "u \<in> set ver" "wv_Id u = ex_WorkflowId ex" for u
      using assms(3) v that inj_onD [of wv_Id "set ver" u v] by (simp add: distinct_map)
    have i: "ex_WorkflowId ex \<in> wv_Id ` set ver" using v by force
    have "listExecutions ver (k # ks) res w = (Ok (res @ (k, wv_Number v) # out, []), w)"
      using x Some assms(1) o(1) by (simp add: handle_apply bnd_apply)
    moreover have "set ((k, wv_Number v) # out) = {(k', n). k' \<in> set (k # ks) \<and>
         (\<exists>ex v. kv_get (kvExecution w) k' = Some ex \<and> v \<in> set ver \<and> wv_Id v = ex_WorkflowId ex \<and> wv_Number v = n)}"
      using o(2) x v by (auto dest: n)
    moreover have "map fst ((k, wv_Number v) # out) =
         filter (\<lambda>k. \<exists>ex. kv_get (kvExecution w) k = Some ex \<and> ex_WorkflowId ex \<in> wv_Id ` set ver) (k # ks)"
      using o(3) x i by simp
    ultimately show ?thesis by blast
  qed
qed simp

theorem ListExecutions_lists:
  assumes "reliable w" "kv_get (kvVersion w) n = Some wfv" "distinct (map wv_Id (wvs_Version wfv))"
  shows "\<exists>res. ListExecutions n w = (Ok (res, []), w) \<and>
     set res = {(k, i). \<exists>ex v. kv_get (kvExecution w) k = Some ex \<and> v \<in> set (wvs_Version wfv) \<and> wv_Id v = ex_WorkflowId ex \<and> wv_Number v = i}"
proof -
  let ?ks = "kv_keys (kvExecution w)"
  obtain out where o: "listExecutions (wvs_Version wfv) ?ks [] w = (Ok ([] @ out, []), w)"
     "set out = {(k, i). k \<in> set ?ks \<and> (\<exists>ex v. kv_get (kvExecution w) k = Some ex \<and> v \<in> set (wvs_Version wfv) \<and> wv_Id v = ex_WorkflowId ex \<and> wv_Number v = i)}"
    using listExecutions_reliable [OF assms(1) _ assms(3), of ?ks "[]"] by (auto simp: in_kv_keys)
  have "handle (KeysOf ExecutionB) (\<lambda>e. if e = ErrNoKeysFound then ret (Inr []) else ret (Inl e)) (\<lambda>ks. ret (Inr ks)) w = (Ok (Inr ?ks), w)"
    using assms(1) by (cases "?ks = []") (simp_all add: KeysOf_def Let_def handle_apply bnd_apply)
  then show ?thesis using assms(1,2) o
    by (intro exI [of _ out]) (auto simp: ListExecutions_def bnd_apply handle_apply in_kv_keys)
qed

text \<open>A name without versions, such as the one that disabling an unknown workflow leaves, makes the
  listing of all workflows panic.\<close>

lemma ListWorkflows_panics:
  assumes "reliable w" "kv_get (kvVersion w) n = Some wfv" "wvs_Version wfv = []"
  shows "ListWorkflows w = (Panic, w)"
proof -
  have f: "foldE listWorkflow s ks w = (Panic, w)" if "n \<in> set ks" "\<forall>k \<in> set ks. kv_get (kvVersion w) k \<noteq> None" for s ks
    using that
  proof (induction ks arbitrary: s)
    case (Cons k ks)
    obtain v res errs where s: "s = (v, res, errs)" by (cases s)
    obtain u where "kv_get (kvVersion w) k = Some u" using Cons.prems by auto
    then show ?case using Cons assms s by (cases "wvs_Version u = []") (auto simp: listWorkflow_def handle_apply bnd_apply)
  qed simp
  have k: "n \<in> set (kv_keys (kvVersion w))" "\<forall>k \<in> set (kv_keys (kvVersion w)). kv_get (kvVersion w) k \<noteq> None"
    using assms(2) by (auto simp: in_kv_keys)
  then have "kv_keys (kvVersion w) \<noteq> []" by auto
  then show ?thesis using assms(1) f [OF k] by (simp add: ListWorkflows_def KeysOf_def Let_def handle_apply bnd_apply)
qed

end
