(* ===== verification/Witness_Registration.thy ===== *)
theory Witness_Registration
  imports Samples Registration
begin

text \<open>
  A workflow that is registered for the first time: a timed start, a service task whose
  parameters are mandatory, and a message with a receiver.
\<close>

definition pay_spec :: task_spec where
  "pay_spec = \<lparr> ts_Version = ''1'', ts_Kind = ''ServiceTask'', ts_Metadata = None,
     ts_Behaviour = Some \<lparr> tb_DefaultRetry = Some \<lparr> rt_Number = 3, rt_Strategy = Linear, rt_InitMilli = 0, rt_IntervalMilli = 1000,
         rt_MaxMilli = 5000, rt_DefaultExceeded = Some \<lparr> rx_Action = SetVariableValue, rx_Variable = ''paid'', rx_VariableType = ''bool'',
           rx_VariableValue = ''false'', rx_ErrorCode = [] \<rparr> \<rparr>,
       tb_EstimatedMaxDuration = 1000, tb_Unsafe = False, tb_Mock = False, tb_Deprecated = False, tb_MockBehaviour = None \<rparr>,
     ts_Parameters = Some \<lparr>
       tp_Input = [\<lparr> pa_Name = ''sum'', pa_Type = ''int'', pa_Collection = False, pa_Mandatory = True, pa_ValidateExpr = [], pa_Example = [] \<rparr>],
       tp_Output = [\<lparr> pa_Name = ''paid'', pa_Type = ''bool'', pa_Collection = False, pa_Mandatory = True, pa_ValidateExpr = [], pa_Example = [] \<rparr>] \<rparr>,
     ts_Events = None \<rparr>"

definition pay :: elem_data where
  "pay = (node ''pay'' ServiceTask [])\<lparr> el_Execute := ''Pay'', el_InputTransform := [(''sum'', ''=sum'')],
     el_OutputTransform := [(''done'', ''=paid'')] \<rparr>"

definition pr_pay :: process where
  "pr_pay = Proc [Elem (node ''daily'' TimedStartEvent [edge ''d1'' ''pay'']) None, Elem pay None] ''q'' None"

definition wf_pay :: workflow where
  "wf_pay = empty_workflow\<lparr> wf_Name := ''payments'', wf_Process := [(''q'', pr_pay)], wf_Messages := [node ''paid'' [] []],
     wf_MessageReceivers := [(''paid'', \<lparr> mrs_MessageReceiver = [\<lparr> mr_Id = ''pay'', mr_ProcessIdToStart = [] \<rparr>],
        mrs_AssociatedWorkflowName = ''payments'' \<rparr>)], wf_Collaboration := Some [] \<rparr>"

definition offering :: world where
  "offering = empty_world\<lparr> kvTaskSpec := kv_put ''u2'' pay_spec empty_bucket, kvTaskSpecVer := kv_put ''Pay'' [''u1'', ''u2''] empty_bucket \<rparr>"

lemma offering_get [simp]: "reliable offering" "kv_get (kvTaskSpec offering) k = (if k = ''u2'' then Some pay_spec else None)"
  "kv_get (kvTaskSpecVer offering) k = (if k = ''Pay'' then Some [''u1'', ''u2''] else None)" "nextId offering = 0" "published offering = []"
  "kv_get (kvVersion offering) k = None" "kv_get (kvMsgTypes offering) k = None" "kv_get (kvProcess offering) k = None"
  "kv_get (kvDefinition offering) k = None" "sCache offering = []"
  by (simp_all add: offering_def empty_world_def)

lemma pay_serviceable: "serviceable E0 offering wf_pay pay"
  unfolding serviceable_def
  by (rule exI [of _ "[''u1'', ''u2'']"], rule exI [of _ pay_spec], rule exI [of _ "the (ts_Behaviour pay_spec)"],
      rule exI [of _ "the (tb_DefaultRetry (the (ts_Behaviour pay_spec)))"], rule exI [of _ "[''paid'']"])
     (simp add: pay_def node_def pay_spec_def checkInputs_def checkOutputs_def checkExceeded_def outVariables_def rangeMap_def GetVariables_def
        TrimSpace_def is_space_def handle_apply bnd_apply)

lemma pay_registrable: "registrable E0 offering wf_pay ''{}''" "\<not> latest_is (stored_versions offering (wf_Name wf_pay)) ''{}''"
  "\<not> wvs_IsExecutionDisabled (stored_versions offering (wf_Name wf_pay))"
proof -
  have "process_ok E0 offering wf_pay pr_pay"
    using pay_serviceable by (simp add: process_ok_def pr_pay_def node_def TimedStartEvent_def ServiceTask_def)
  then show "registrable E0 offering wf_pay ''{}''" by (simp add: registrable_def wf_pay_def names_free_def GetHash_def)
qed (simp_all add: stored_versions_def latest_is_def empty_versions_def)


theorem registered_launches_witness:
  "\<exists>w' c. LoadWorkflow E0 wf_pay offering = (Ok ''0'', w') \<and>
     launchDefinition E0 ''q'' w' = (Ok (''payments'', ''0'', as_registered offering wf_pay), w'\<lparr> sCache := c \<rparr>)"
proof -
  have i: "show_nat 0 = ''0''" by code_simp
  have h: "cache_coherent offering" "kv_get (kvDefinition offering) (ksuid E0 (nextId offering)) = None"
    "map_of (wf_Process wf_pay) (pr_Id pr_pay) = Some pr_pay" "tasks_in_use offering pr_pay"
    by (simp_all add: cache_coherent_def wf_pay_def pr_pay_def tasks_in_use_def pay_spec_def)
  show ?thesis
    using registered_launches [OF pay_registrable(1) E0_ok(2,4) pay_registrable(2) h(1,2) pay_registrable(3) h(3,4)]
    by (auto simp: i wf_pay_def pr_pay_def)
qed

theorem ListExecutions_lists_witness: "\<exists>res. ListExecutions ''flow'' running = (Ok (res, []), running) \<and> set res = {(''e'', 1)}"
proof -
  have v: "kv_get (kvVersion running) ''flow'' =
      Some \<lparr> wvs_Version = [\<lparr> wv_Id = ''wf'', wv_Sha256 = [], wv_Number = 1 \<rparr>], wvs_IsExecutionDisabled = False \<rparr>"
    by (simp add: running_def registered_def)
  show ?thesis using ListExecutions_lists [OF registered_reliable(2) v] by (auto simp: ex0_def split: if_splits)
qed

end
