(* ===== verification/Task_Validation.thy ===== *)
theory Task_Validation
  imports Registration
begin

text \<open>
  The validation of task specifications, \<open>common/validation/service_task.go\<close>, and what a
  registration may rely on when the specifications it meets were validated.

  \<open>spec_sound\<close> is what the registration of a workflow dereferences.  The lemmas show that a valid
  specification has it, that storing a valid specification keeps it for all stored ones, and
  that no registration panics while it holds.
\<close>

section \<open>The validation\<close>

definition validNATSName :: "string \<Rightarrow> bool" where
  "validNATSName name = (\<not> list_ex (\<lambda>c. c = CHR ''.'' \<or> c = CHR '' '') name)"

definition validName :: "string \<Rightarrow> (goerr, unit) res" where
  "validName name = (if \<not> validNATSName name then Err (ErrOther ''bad name'') else Ok ())"

definition validVersion :: "string \<Rightarrow> (goerr, unit) res" where
  "validVersion version = Ok ()"

definition validExpName :: "string \<Rightarrow> (goerr, unit) res" where
  "validExpName name =
     (let valid = ''abcdefghijklmnopqrstuvwxyzABCDEFGHIJKLMNOPQRSTUVWXYZ0123456789_''
      in if list_ex (\<lambda>c. c \<notin> set valid) name then Err (ErrOther ''name may not contain'')
         else if name = [] then Panic
         else if name ! 0 \<in> set ''0123456789'' then Err (ErrOther ''name may not start with a digit'')
         else Ok ())"

text \<open>An expression that is given must compile.\<close>

definition validExpr :: "env \<Rightarrow> string \<Rightarrow> (goerr, unit) res" where
  "validExpr E ex = (case expr_compile E (TrimPrefix ex ''='') of Some e \<Rightarrow> Err e | None \<Rightarrow> Ok ())"

definition bind_res :: "('e, 'a) res \<Rightarrow> ('a \<Rightarrow> ('e, 'b) res) \<Rightarrow> ('e, 'b) res" where
  "bind_res r f = (case r of Ok x \<Rightarrow> f x | Err e \<Rightarrow> Err e | Panic \<Rightarrow> Panic)"

fun validInputs :: "env \<Rightarrow> bool \<Rightarrow> parameter list \<Rightarrow> (goerr, unit) res" where
  "validInputs E mock [] = Ok ()"
| "validInputs E mock (v # vs) =
     bind_res (if pa_ValidateExpr v \<noteq> [] then validExpr E (pa_ValidateExpr v) else Ok ()) (\<lambda>_.
     bind_res (validExpName (pa_Name v)) (\<lambda>_.
     bind_res (if pa_Example v = []
               then if mock then Err (ErrOther ''task is placeholder, but no example was given'') else Ok ()
               else validExpr E (pa_Example v)) (\<lambda>_.
     validInputs E mock vs)))"

definition validMock :: "env \<Rightarrow> task_behaviour \<Rightarrow> (goerr, unit) res" where
  "validMock E b =
     (case tb_MockBehaviour b of
        None \<Rightarrow> Ok ()
      | Some (errorCodeExpr, fatalErrorExpr) \<Rightarrow>
          bind_res (if errorCodeExpr \<noteq> [] then validExpr E errorCodeExpr else Ok ()) (\<lambda>_.
          if fatalErrorExpr \<noteq> [] then validExpr E fatalErrorExpr else Ok ()))"

definition validRetry :: "task_retry \<Rightarrow> (goerr, unit) res" where
  "validRetry retry =
     (if rt_DefaultExceeded retry = None then Err (ErrOther ''no default exceeded behaviour given for retry'')
      else if rt_IntervalMilli retry = 0 then Err (ErrOther ''the retry interval must be non-zero'')
      else if rt_MaxMilli retry = 0 \<or> rt_MaxMilli retry \<le> rt_IntervalMilli retry
      then Err (ErrOther ''the retry interval must be non-zero and larger than the interval'')
      else Ok ())"

definition ValidateTaskSpec :: "env \<Rightarrow> task_spec \<Rightarrow> (goerr, unit) res" where
  "ValidateTaskSpec E td =
     (if ts_Version td \<noteq> ''1.0'' then Err (ErrOther ''spec version not found'')
      else case ts_Metadata td of
        None \<Rightarrow> Err (ErrOther ''task metadata section not found'')
      | Some md \<Rightarrow>
          bind_res (validName (tm_Type md)) (\<lambda>_.
          bind_res (validVersion (tm_Version md)) (\<lambda>_.
          case ts_Behaviour td of
            None \<Rightarrow> Err (ErrOther ''task behaviour section not found'')
          | Some b \<Rightarrow>
              if tb_EstimatedMaxDuration b = 0 then Err (ErrOther ''task estimated duration not provided'')
              else case tb_DefaultRetry b of
                None \<Rightarrow> Err (ErrOther ''no default retry given'')
              | Some retry \<Rightarrow>
                  bind_res (validRetry retry) (\<lambda>_.
                  bind_res (validMock E b) (\<lambda>_.
                  case ts_Parameters td of
                    None \<Rightarrow> Ok ()
                  | Some ps \<Rightarrow> validInputs E (tb_Mock b) (tp_Input ps))))))"

section \<open>Operations that never panic\<close>

text \<open>\<open>calm P m\<close>: from a world with \<open>P\<close> the operation does not panic, and it keeps \<open>P\<close>.\<close>

named_theorems calm_intros

definition calm :: "('w \<Rightarrow> bool) \<Rightarrow> ('w, 'e, 'a) op \<Rightarrow> bool" where
  "calm P m \<longleftrightarrow> (\<forall>w. P w \<longrightarrow> fst (m w) \<noteq> Panic \<and> P (snd (m w)))"

lemma calmI: "(\<And>w. P w \<Longrightarrow> fst (m w) \<noteq> Panic \<and> P (snd (m w))) \<Longrightarrow> calm P m"
  by (simp add: calm_def)

lemma calm_ret [calm_intros]: "calm P (ret x)" by (simp add: calm_def)
lemma calm_fail [calm_intros]: "calm P (fail e)" by (simp add: calm_def)
lemma calm_lift [calm_intros]: "r \<noteq> Panic \<Longrightarrow> calm P (lift_res r)" by (simp add: calm_def)
lemma calm_modify [calm_intros]: "(\<And>w. P w \<Longrightarrow> P (f w)) \<Longrightarrow> calm P (modify f)" by (simp add: calm_def)

lemma calm_bnd [calm_intros]: "calm P m \<Longrightarrow> (\<And>x. calm P (f x)) \<Longrightarrow> calm P (bnd m f)"
  by (fastforce simp: calm_def bnd_apply split: prod.splits res.splits)

lemma calm_handle [calm_intros]: "calm P m \<Longrightarrow> (\<And>e. calm P (h e)) \<Longrightarrow> (\<And>x. calm P (f x)) \<Longrightarrow> calm P (handle m h f)"
  by (fastforce simp: calm_def handle_apply split: prod.splits res.splits)

lemma calm_foldE [calm_intros]: "(\<And>a x. x \<in> set xs \<Longrightarrow> calm P (f a x)) \<Longrightarrow> calm P (foldE f acc xs)"
  by (induction xs arbitrary: acc) (auto intro!: calm_intros)

lemma calm_forE [calm_intros]: "(\<And>x. x \<in> set xs \<Longrightarrow> calm P (f x)) \<Longrightarrow> calm P (forE f xs)"
  by (induction xs) (auto intro!: calm_intros)

lemma calm_if [calm_intros]: "(b \<Longrightarrow> calm P m) \<Longrightarrow> (\<not> b \<Longrightarrow> calm P n) \<Longrightarrow> calm P (if b then m else n)" by simp

lemma calm_option [calm_intros]: "(x = None \<Longrightarrow> calm P m) \<Longrightarrow> (\<And>y. x = Some y \<Longrightarrow> calm P (f y)) \<Longrightarrow> calm P (case x of None \<Rightarrow> m | Some y \<Rightarrow> f y)"
  by (cases x) simp_all

lemma calm_prod [calm_intros]: "(\<And>a b. x = (a, b) \<Longrightarrow> calm P (f a b)) \<Longrightarrow> calm P (case x of (a, b) \<Rightarrow> f a b)"
  by (cases x) simp

section \<open>What registration dereferences\<close>

definition spec_sound :: "task_spec \<Rightarrow> bool" where
  "spec_sound spec \<longleftrightarrow> (\<exists>b d x. ts_Behaviour spec = Some b \<and> tb_DefaultRetry b = Some d \<and> rt_DefaultExceeded d = Some x)"

definition specs_sound :: "world \<Rightarrow> bool" where
  "specs_sound w \<longleftrightarrow> (\<forall>n ids. kv_get (kvTaskSpecVer w) n = Some ids \<longrightarrow>
     ids \<noteq> [] \<and> (\<forall>u \<in> set ids. \<exists>spec. kv_get (kvTaskSpec w) u = Some spec \<and> spec_sound spec))"

lemma bind_res_Ok: "bind_res r f = Ok y \<longleftrightarrow> (\<exists>x. r = Ok x \<and> f x = Ok y)"
  by (cases r) (simp_all add: bind_res_def)

lemma ValidateTaskSpec_sound:
  assumes "ValidateTaskSpec E td = Ok ()"
  shows "spec_sound td" "ts_Metadata td \<noteq> None"
  using assms by (auto simp: ValidateTaskSpec_def spec_sound_def validRetry_def bind_res_Ok split: if_splits option.splits)

text \<open>The libraries that registration calls report their failures as errors.\<close>

definition libraries_calm :: "env \<Rightarrow> bool" where
  "libraries_calm E \<longleftrightarrow> (\<forall>e. expr_idents E e \<noteq> Panic) \<and> (\<forall>m. json_workflow E m \<noteq> Panic)"

abbreviation sound_world :: "world \<Rightarrow> bool" where
  "sound_world w \<equiv> reliable w \<and> specs_sound w"

lemma sound_frame [simp]: "specs_sound (w\<lparr> consumers := a \<rparr>) = specs_sound w" "specs_sound (w\<lparr> nextId := n \<rparr>) = specs_sound w"
  "specs_sound (kvProcess_update f w) = specs_sound w" "specs_sound (kvVersion_update g w) = specs_sound w"
  "specs_sound (kvDefinition_update h w) = specs_sound w"
  by (simp_all add: specs_sound_def)

lemma calm_LoadObj [calm_intros]: "calm sound_world (LoadObj B k)"
  by (rule calmI) (auto split: option.splits)

lemma calm_io [calm_intros]: "calm sound_world io" by (rule calmI) simp
lemma calm_KvsFor [calm_intros]: "calm sound_world KvsFor" by (rule calmI) simp
lemma calm_newID [calm_intros]: "calm sound_world (newID E)" by (rule calmI) simp

lemma calm_SaveObj [calm_intros]:
  "calm sound_world (SaveObj ProcessB k i)" "calm sound_world (SaveObj VersionB k v)" "calm sound_world (SaveObj DefinitionB k d)"
  by (auto intro!: calmI)

lemma calm_ensureConsumer [calm_intros]: "calm sound_world (ensureServiceTaskConsumer E uid)"
  unfolding ensureServiceTaskConsumer_def by (intro calm_intros) simp

lemma calm_checks [calm_intros]:
  "calm sound_world (checkInputs spec j)" "calm sound_world (checkOutputs spec outs)"
  unfolding checkInputs_def checkOutputs_def by (intro calm_intros)+

lemma calm_outVariables [calm_intros]: "libraries_calm E \<Longrightarrow> calm sound_world (outVariables E j)"
  unfolding outVariables_def by (intro calm_intros) (auto simp: GetVariables_def libraries_calm_def Let_def)

lemma calm_retry:
  assumes "spec_sound spec" "\<And>j. calm sound_world (k j)"
  shows "calm sound_world (bnd (mergeRetry spec j) (\<lambda>j. bnd (checkExceeded wkf outs j) (\<lambda>_. k j)))"
proof -
  obtain b d x where s: "ts_Behaviour spec = Some b" "tb_DefaultRetry b = Some d" "rt_DefaultExceeded d = Some x"
    using assms(1) unfolding spec_sound_def by blast
  then have m: "\<exists>r. mergeRetry spec j = ret (j\<lparr> el_RetryBehaviour := Some r \<rparr>) \<and> rt_DefaultExceeded r = Some x"
    by (cases "el_RetryBehaviour j") (auto simp: mergeRetry_def)
  then obtain r where r: "mergeRetry spec j = ret (j\<lparr> el_RetryBehaviour := Some r \<rparr>)" "rt_DefaultExceeded r = Some x" by blast
  have "calm sound_world (checkExceeded wkf outs (j\<lparr> el_RetryBehaviour := Some r \<rparr>))"
    using r(2) by (auto simp: checkExceeded_def intro!: calm_intros split: retry_error_action.splits)
  then show ?thesis unfolding r(1) ret_bnd by (intro calm_intros assms(2))
qed

lemma calm_processServiceTask [calm_intros]:
  assumes "libraries_calm E" "\<And>uid. calm sound_world (cons uid)"
  shows "calm sound_world (processServiceTask E cons wkf j)"
proof (rule calmI)
  fix w assume w: "sound_world w"
  show "fst (processServiceTask E cons wkf j w) \<noteq> Panic \<and> sound_world (snd (processServiceTask E cons wkf j w))"
  proof (cases "kv_get (kvTaskSpecVer w) (el_Execute j)")
    case None
    then show ?thesis using w by (simp add: processServiceTask_def GetTaskSpecUID_def GetTaskSpecVersions_def bnd_apply handle_apply)
  next
    case (Some ids)
    then obtain spec where s: "ids \<noteq> []" "kv_get (kvTaskSpec w) (last ids) = Some spec" "spec_sound spec"
      using w unfolding specs_sound_def by (meson last_in_set)
    have "GetTaskSpecUID (el_Execute j) w = (Ok (last ids), w)" "GetTaskSpecByUID (last ids) w = (Ok spec, w)"
      using w Some s by (simp_all add: GetTaskSpecUID_def GetTaskSpecVersions_def GetTaskSpecByUID_def bnd_apply last_conv_nth)
    then have "processServiceTask E cons wkf j w =
        bnd (checkInputs spec (j\<lparr> el_Version := Some (last ids) \<rparr>)) (\<lambda>_.
        bnd (outVariables E (j\<lparr> el_Version := Some (last ids) \<rparr>)) (\<lambda>outVars.
        bnd (checkOutputs spec outVars) (\<lambda>_.
        bnd (mergeRetry spec (j\<lparr> el_Version := Some (last ids) \<rparr>)) (\<lambda>j.
        bnd (checkExceeded wkf outVars j) (\<lambda>_.
        bnd (cons (last ids)) (\<lambda>_. ret j)))))) w"
      by (simp add: processServiceTask_def handle_apply Let_def)
    moreover have "calm sound_world (bnd (checkInputs spec (j\<lparr> el_Version := Some (last ids) \<rparr>)) (\<lambda>_.
        bnd (outVariables E (j\<lparr> el_Version := Some (last ids) \<rparr>)) (\<lambda>outVars.
        bnd (checkOutputs spec outVars) (\<lambda>_.
        bnd (mergeRetry spec (j\<lparr> el_Version := Some (last ids) \<rparr>)) (\<lambda>j.
        bnd (checkExceeded wkf outVars j) (\<lambda>_.
        bnd (cons (last ids)) (\<lambda>_. ret j)))))))"
      by (intro calm_intros calm_retry assms s(3))
    ultimately show ?thesis using w by (simp add: calm_def)
  qed
qed

lemma calm_ProcessServiceTasks:
  assumes "libraries_calm E" "\<And>uid. calm sound_world (cons uid)" "\<And>wkf i. calm sound_world (mapping wkf i)"
  shows "calm sound_world (ProcessServiceTasks E cons mapping wkf)"
  unfolding ProcessServiceTasks_def processOne_def processElement_def Let_def
  by (intro calm_intros assms)

lemma calm_UpdateObjC:
  "(\<And>v. calm sound_world (f v)) \<Longrightarrow> calm sound_world (UpdateObjC VersionB k msg f)"
  unfolding UpdateObjC_def by (intro calm_intros)

lemma calm_storeVersion: "calm sound_world (storeVersion wfID hash wkf v)"
  unfolding storeVersion_def Let_def by (intro calm_intros)

lemma calm_openVersion: "ns_ok E \<Longrightarrow> calm sound_world (openVersion E wfID wkf)"
proof (rule calmI)
  fix w assume "ns_ok E" and w: "sound_world w"
  from openVersion_reliable [OF _ this(1), of w wfID wkf] w obtain b c cs n w' where "openVersion E wfID wkf w = (Ok wfID, w')"
     "timed_frame (w\<lparr> kvMsgTypes := b, kvClientTask := c, consumers := cs, nextId := n \<rparr>) w'" by blast
  then show "fst (openVersion E wfID wkf w) \<noteq> Panic \<and> sound_world (snd (openVersion E wfID wkf w))"
    using w by (clarsimp simp: timed_frame_def specs_sound_def)
qed

lemma calm_LoadWorkflow:
  assumes "libraries_calm E" "ranges_ok E" "ns_ok E"
  shows "calm sound_world (LoadWorkflow E wkf)"
proof -
  have v: "calm sound_world (validateUniqueProcessIdFor E wkf)" "calm sound_world (validateUniqueMessageNames wkf)"
    by (auto intro!: calmI simp: validateProcess_reliable assms(2) validateMessages_reliable split: if_splits)
  have m: "calm sound_world (createWorkflowProcessMapping wkf i)" for wkf i
    unfolding createWorkflowProcessMapping_def by (intro calm_intros)
  have h: "GetHash E wkf \<noteq> Panic" for wkf using assms(1) by (auto simp: GetHash_def libraries_calm_def split: res.splits)
  show ?thesis unfolding LoadWorkflow_def storeWorkflow_def Let_def
    by (intro calm_intros v m h calm_ProcessServiceTasks calm_UpdateObjC calm_storeVersion calm_openVersion assms)
qed

lemma PutTaskSpec_sound:
  assumes "sound_world w" "spec_sound td" "ts_Metadata td = Some md"
  shows "\<exists>uid w'. PutTaskSpec E td w = (Ok uid, w') \<and> sound_world w'"
proof -
  let ?u = "EncodeToString (sha256 E (uid_preimage td md))"
  let ?td = "td\<lparr> ts_Metadata := Some (md\<lparr> tm_Uid := ?u \<rparr>) \<rparr>"
  let ?old = "case kv_get (kvTaskSpecVer w) (tm_Type md) of Some ids \<Rightarrow> ids | None \<Rightarrow> []"
  have "\<exists>w'. PutTaskSpec E td w = (Ok ?u, w') \<and> reliable w' \<and>
      kv_get (kvTaskSpec w') = (kv_get (kvTaskSpec w))(?u \<mapsto> ?td) \<and>
      kv_get (kvTaskSpecVer w') = (kv_get (kvTaskSpecVer w))(tm_Type md \<mapsto> ?old @ [?u])"
    using assms(1,3)
    by (auto simp: PutTaskSpec_def CreateUID_def ensureServiceTaskConsumer_def UpdateObjA_def putVersion_def
      ConnPublish_def bnd_apply handle_apply Let_def fun_eq_iff split: option.splits)
  then obtain w' where w': "PutTaskSpec E td w = (Ok ?u, w')" "reliable w'"
    "kv_get (kvTaskSpec w') = (kv_get (kvTaskSpec w))(?u \<mapsto> ?td)"
    "kv_get (kvTaskSpecVer w') = (kv_get (kvTaskSpecVer w))(tm_Type md \<mapsto> ?old @ [?u])" by blast
  have "spec_sound ?td" using assms(2) by (simp add: spec_sound_def)
  then have "specs_sound w'" using assms(1) unfolding specs_sound_def w'(3,4)
    by (auto split: option.splits if_splits) (metis (no_types, lifting))
  then show ?thesis using w' by blast
qed

text \<open>C9. A task specification that passes validation can be stored, and while every specification was
  validated no registration of a workflow panics: the specifications that it reads have the
  sections that it dereferences.\<close>

theorem validated_specs_safe:
  assumes "reliable w" "specs_sound w" "ValidateTaskSpec E td = Ok ()"
    and "libraries_calm E" "ranges_ok E" "ns_ok E"
  shows "\<exists>uid w'. PutTaskSpec E td w = (Ok uid, w') \<and> reliable w' \<and> specs_sound w' \<and>
     fst (LoadWorkflow E wkf w') \<noteq> Panic \<and> reliable (snd (LoadWorkflow E wkf w')) \<and> specs_sound (snd (LoadWorkflow E wkf w'))"
proof -
  obtain md where "ts_Metadata td = Some md" using ValidateTaskSpec_sound(2) [OF assms(3)] by blast
  from PutTaskSpec_sound [OF _ ValidateTaskSpec_sound(1) [OF assms(3)] this] assms(1,2)
  obtain uid w' where w': "PutTaskSpec E td w = (Ok uid, w')" "sound_world w'" by blast
  then show ?thesis using calm_LoadWorkflow [OF assms(4-6), of wkf] unfolding calm_def by blast
qed

end
