(* ===== verification/Api.thy ===== *)
theory Api
  imports Task_Validation
begin

text \<open>
  The API of the server: the authorisation of \<open>server/api/auth.go\<close>, the endpoints of
  \<open>server/api/functions.go\<close>, and the listener of \<open>server/api/listener.go\<close> that decodes a request,
  calls its endpoint and answers.  The two functions that authenticate and authorise a caller are
  given to the server; they are fields of \<open>api\<close>, with the version library and the decoding
  of process headers.

  What is shown of them is in \<open>Access\<close>.
\<close>

section \<open>Operations that only the API calls\<close>

definition WorkflowTelemetryLog :: string where "WorkflowTelemetryLog = ''WORKFLOW_TELEMETRY.Log''"

definition Heartbeat :: "heartbeat_request \<Rightarrow> unit act" where
  "Heartbeat req = bnd KvsFor (\<lambda>_. SaveObj ClientsB (hb_Host req @ ''-'' @ hb_Id req) req)"

definition Log :: "log_request \<Rightarrow> unit act" where
  "Log req = ConnPublish WorkflowTelemetryLog [] (PLog req)"

definition NoOpWorkFlowProcessMappingFn :: "workflow \<Rightarrow> process \<Rightarrow> unit act" where
  "NoOpWorkFlowProcessMappingFn wkf i = ret ()"

definition NoOpServiceTaskConsumerFn :: "string \<Rightarrow> unit act" where
  "NoOpServiceTaskConsumerFn uid = ret ()"

text \<open>The start parameters are appended once more for every element of the process.\<close>

fun startVars :: "env \<Rightarrow> string list \<Rightarrow> string list \<Rightarrow> (goerr, string list) res" where
  "startVars E [] startParam = Ok startParam"
| "startVars E (ex # exs) startParam = bind_res (GetVariables E ex) (\<lambda>v. startVars E exs (fold List.insert v startParam))"

fun gatherParams :: "env \<Rightarrow> element list \<Rightarrow> string list \<Rightarrow> string list \<Rightarrow> (goerr, string list) res" where
  "gatherParams E [] startParam params = Ok params"
| "gatherParams E (e # es) startParam params =
     bind_res (if el_Type (el_data e) = StartEvent
               then startVars E (map snd (rangeMap (map_order E 20) (el_OutputTransform (el_data e)))) startParam
               else Ok startParam) (\<lambda>startParam.
     gatherParams E es startParam (params @ map_order E 19 startParam))"

type_synonym executable_process = "string \<times> string \<times> string list"

fun executableItems :: "env \<Rightarrow> workflow \<Rightarrow> process list \<Rightarrow> (goerr, unit) res \<times> executable_process list" where
  "executableItems E wkf [] = (Ok (), [])"
| "executableItems E wkf (p # ps) =
     (case gatherParams E (pr_Elements p) [] [] of
        Err e \<Rightarrow> (Err e, [])
      | Panic \<Rightarrow> (Panic, [])
      | Ok params \<Rightarrow> (case executableItems E wkf ps of (r, items) \<Rightarrow> (r, (pr_Id p, wf_Name wkf, params) # items)))"

fun listExecutable :: "env \<Rightarrow> string list \<Rightarrow> executable_process list \<Rightarrow> goerr list \<Rightarrow> (executable_process list \<times> goerr list) act" where
  "listExecutable E [] res errs = ret (res, errs)"
| "listExecutable E (k # ks) res errs =
     bnd (handle (LoadObj VersionB k)
            (\<lambda>e. ret (if e = ErrKeyNotFound then None else Some (empty_versions, [e]))) (\<lambda>v. ret (Some (v, [])))) (\<lambda>r.
     case r of
       None \<Rightarrow> listExecutable E ks res errs
     | Some (wfv, es) \<Rightarrow>
         if wvs_Version wfv = [] then panic
         else bnd (handle (LoadObj DefinitionB (wv_Id (last (wvs_Version wfv))))
                     (\<lambda>e. ret (if e = ErrKeyNotFound then None else Some (empty_workflow, [e]))) (\<lambda>m. ret (Some (m, [])))) (\<lambda>r.
              case r of
                None \<Rightarrow> listExecutable E ks res (errs @ es)
              | Some (wkf, es2) \<Rightarrow>
                  (case executableItems E wkf (map snd (rangeMap (map_order E 18) (wf_Process wkf))) of
                     (Ok _, items) \<Rightarrow> listExecutable E ks (res @ items) (errs @ es @ es2)
                   | (Err e, items) \<Rightarrow> ret (res @ items, errs @ es @ es2 @ [e])
                   | (Panic, items) \<Rightarrow> panic)))"

definition ListExecutableProcesses :: "env \<Rightarrow> (executable_process list \<times> goerr list) act" where
  "ListExecutableProcesses E =
     handle KvsFor (\<lambda>e. ret ([], [e])) (\<lambda>_.
     handle (KeysOf VersionB) (\<lambda>e. ret ([], [e])) (\<lambda>ks. listExecutable E ks [] []))"

section \<open>Authorisation\<close>

text \<open>\<open>ap_AuthN\<close> is given the headers of a request and says whether and as whom the caller is
  authenticated; \<open>ap_AuthZ\<close>, when there is one, is also given the function, the name of a
  workflow and the user.  \<open>ap_default\<close> is what \<open>ListExecutions\<close> sends in the default
  namespace, when that is not the namespace of the model.\<close>

record api =
  ap_AuthN :: "(string \<times> string) list \<Rightarrow> (goerr, bool \<times> string) res"
  ap_AuthZ :: "((string \<times> string) list \<Rightarrow> string \<Rightarrow> string \<Rightarrow> string \<Rightarrow> (goerr, bool) res) option"
  ap_Headers :: "bytes \<Rightarrow> (goerr, (string \<times> string) list) res"
  ap_NewVersion :: "string \<Rightarrow> (goerr, string) res"
  ap_Equal :: "string \<Rightarrow> string \<Rightarrow> bool"
  ap_GreaterThan :: "string \<Rightarrow> string \<Rightarrow> bool"
  ap_LessThan :: "string \<Rightarrow> string \<Rightarrow> bool"
  ap_Version :: string
  ap_default :: "string \<Rightarrow> (string \<times> int) list \<times> goerr list"

text \<open>What the context of a call holds: the headers of the request and its subject.\<close>

record api_ctx =
  cx_Headers :: "(string \<times> string) list"
  cx_APIFunc :: string

definition authenticate :: "api \<Rightarrow> api_ctx \<Rightarrow> (goerr, string) res" where
  "authenticate A cx =
     (case ap_AuthN A (cx_Headers cx) of
        Ok (authenticated, user) \<Rightarrow> if \<not> authenticated then Err ErrApiAuthNFail else Ok user
      | Err _ \<Rightarrow> Err ErrApiAuthNFail
      | Panic \<Rightarrow> Panic)"

definition authorize :: "api \<Rightarrow> api_ctx \<Rightarrow> string \<Rightarrow> (goerr, unit) res" where
  "authorize A cx workflowName =
     (case authenticate A cx of
        Err _ \<Rightarrow> Err ErrApiAuthNFail
      | Panic \<Rightarrow> Panic
      | Ok user \<Rightarrow>
          (case ap_AuthZ A of
             None \<Rightarrow> Ok ()
           | Some fn \<Rightarrow>
               (case fn (cx_Headers cx) (cx_APIFunc cx) workflowName user of
                  Ok authorized \<Rightarrow> if \<not> authorized then Err ErrApiAuthZFail else Ok ()
                | Err _ \<Rightarrow> Err ErrApiAuthZFail
                | Panic \<Rightarrow> Panic)))"

text \<open>The failure to authorise is fatal.\<close>

definition authorized :: "api \<Rightarrow> api_ctx \<Rightarrow> string \<Rightarrow> unit act" where
  "authorized A cx name = handle (lift_res (authorize A cx name)) (\<lambda>e. fail (ErrWorkflowFatal e None)) ret"

definition authFromJobID :: "api \<Rightarrow> env \<Rightarrow> api_ctx \<Rightarrow> string \<Rightarrow> workflow_state act" where
  "authFromJobID A E cx trackingID =
     bnd (GetJob trackingID) (\<lambda>job.
     bnd (GetWorkflow E (ws_WorkflowId job)) (\<lambda>wkf.
     bnd (authorized A cx (wf_Name wkf)) (\<lambda>_. ret job)))"

definition authFromExecutionID :: "api \<Rightarrow> api_ctx \<Rightarrow> string \<Rightarrow> execution act" where
  "authFromExecutionID A cx executionID =
     bnd (GetExecution executionID) (\<lambda>execution.
     bnd (authorized A cx (ex_WorkflowName execution)) (\<lambda>_. ret execution))"

definition authFromProcessInstanceID :: "api \<Rightarrow> api_ctx \<Rightarrow> string \<Rightarrow> process_instance act" where
  "authFromProcessInstanceID A cx instanceID =
     bnd (GetProcessInstance instanceID) (\<lambda>pi.
     bnd (authorized A cx (pi_WorkflowName pi)) (\<lambda>_. ret pi))"

definition authForNonWorkflow :: "api \<Rightarrow> api_ctx \<Rightarrow> unit act" where
  "authForNonWorkflow A cx = authorized A cx []"

definition authForNamedWorkflow :: "api \<Rightarrow> api_ctx \<Rightarrow> string \<Rightarrow> unit act" where
  "authForNamedWorkflow A cx name = authorized A cx name"

definition authForWorkflowId :: "api \<Rightarrow> env \<Rightarrow> api_ctx \<Rightarrow> string \<Rightarrow> unit act" where
  "authForWorkflowId A E cx workflowId =
     bnd (GetWorkflow E workflowId) (\<lambda>wkf. authorized A cx (wf_Name wkf))"

section \<open>Endpoints\<close>

text \<open>A message in a request that may be absent is an option; reading it when it is absent is a nil
  dereference.\<close>

text \<open>A streaming endpoint sends results and errors; an error of the authorisation is sent alone.\<close>

definition streaming :: "'a act \<Rightarrow> ('a \<Rightarrow> ('b list \<times> goerr list) act) \<Rightarrow> ('b list \<times> goerr list) act" where
  "streaming auth fn = handle auth (\<lambda>e. ret ([], [e])) fn"

definition sent :: "'a streamed act \<Rightarrow> ('a list \<times> goerr list) act" where
  "sent m = bnd m (\<lambda>(xs, err). ret (xs, case err of None \<Rightarrow> [] | Some e \<Rightarrow> [e]))"

definition ep_getProcessInstanceStatus :: "api \<Rightarrow> env \<Rightarrow> api_ctx \<Rightarrow> string \<Rightarrow> (history_entry list \<times> goerr list) act" where
  "ep_getProcessInstanceStatus A E cx i =
     streaming (authFromProcessInstanceID A cx i) (\<lambda>_. sent (GetActiveEntries E i))"

definition ep_listExecutionProcesses :: "api \<Rightarrow> api_ctx \<Rightarrow> string \<Rightarrow> string list act" where
  "ep_listExecutionProcesses A cx i =
     bnd (authFromExecutionID A cx i) (\<lambda>inst. ListExecutionProcesses (ex_ExecutionId inst))"

definition ep_listWorkflows :: "api \<Rightarrow> api_ctx \<Rightarrow> ((string \<times> int) list \<times> goerr list) act" where
  "ep_listWorkflows A cx = streaming (authForNonWorkflow A cx) (\<lambda>_. ListWorkflows)"

definition ep_listExecutableProcesses :: "api \<Rightarrow> env \<Rightarrow> api_ctx \<Rightarrow> (executable_process list \<times> goerr list) act" where
  "ep_listExecutableProcesses A E cx = streaming (authForNonWorkflow A cx) (\<lambda>_. ListExecutableProcesses E)"

definition ep_launchProcess :: "api \<Rightarrow> env \<Rightarrow> api_ctx \<Rightarrow> string \<Rightarrow> bytes \<Rightarrow> bytes \<Rightarrow> (string \<times> string) act" where
  "ep_launchProcess A E cx processId vrs hs =
     bnd (authForNamedWorkflow A cx processId) (\<lambda>_. Launch E processId vrs hs)"

definition ep_sendMessage :: "api \<Rightarrow> env \<Rightarrow> api_ctx \<Rightarrow> string \<Rightarrow> string \<Rightarrow> bytes \<Rightarrow> (string \<times> string) act" where
  "ep_sendMessage A E cx name correlationKey vrs =
     (if correlationKey = [] then
        bnd (GetProcessIdFor name) (\<lambda>processId. ep_launchProcess A E cx processId vrs [])
      else
        bnd (PublishMsg E (NS WorkflowMessage (e_ns E))
               (PMessage \<lparr> mi_Name = name, mi_CorrelationKey = correlationKey, mi_Vars = vrs \<rparr>)) (\<lambda>_.
        ret ([], [])))"

definition ep_completeManualTask :: "api \<Rightarrow> env \<Rightarrow> api_ctx \<Rightarrow> string \<Rightarrow> bytes \<Rightarrow> unit act" where
  "ep_completeManualTask A E cx tid vrs = bnd (authFromJobID A E cx tid) (\<lambda>job. CompleteManualTask E job vrs)"

definition ep_completeServiceTask :: "api \<Rightarrow> env \<Rightarrow> api_ctx \<Rightarrow> string \<Rightarrow> bytes \<Rightarrow> unit act" where
  "ep_completeServiceTask A E cx tid vrs = bnd (authFromJobID A E cx tid) (\<lambda>job. CompleteServiceTask E job vrs)"

definition ep_completeSendMessageTask :: "api \<Rightarrow> env \<Rightarrow> api_ctx \<Rightarrow> string \<Rightarrow> bytes \<Rightarrow> unit act" where
  "ep_completeSendMessageTask A E cx tid vrs = bnd (authFromJobID A E cx tid) (\<lambda>job. CompleteSendMessageTask E job vrs)"

definition ep_completeUserTask :: "api \<Rightarrow> env \<Rightarrow> api_ctx \<Rightarrow> string \<Rightarrow> bytes \<Rightarrow> unit act" where
  "ep_completeUserTask A E cx tid vrs = bnd (authFromJobID A E cx tid) (\<lambda>job. CompleteUserTask E job vrs)"

definition ep_getCompensationInputVariables :: "api \<Rightarrow> api_ctx \<Rightarrow> string \<Rightarrow> string \<Rightarrow> bytes act" where
  "ep_getCompensationInputVariables A cx pid tid =
     bnd (authFromProcessInstanceID A cx pid) (\<lambda>_. GetCompensationInputVariables pid tid)"

definition ep_getCompensationOutputVariables :: "api \<Rightarrow> api_ctx \<Rightarrow> string \<Rightarrow> string \<Rightarrow> bytes act" where
  "ep_getCompensationOutputVariables A cx pid tid =
     bnd (authFromProcessInstanceID A cx pid) (\<lambda>_. GetCompensationOutputVariables pid tid)"

definition ep_storeWorkflow :: "api \<Rightarrow> env \<Rightarrow> api_ctx \<Rightarrow> workflow option \<Rightarrow> string act" where
  "ep_storeWorkflow A E cx m =
     (case m of
        None \<Rightarrow> panic
      | Some wkf \<Rightarrow> bnd (authForNamedWorkflow A cx (wf_Name wkf)) (\<lambda>_. LoadWorkflow E wkf))"

definition ep_cancelProcessInstance :: "api \<Rightarrow> env \<Rightarrow> api_ctx \<Rightarrow> string \<Rightarrow> cancellation_state \<Rightarrow> wf_error option \<Rightarrow> unit act" where
  "ep_cancelProcessInstance A E cx i st err =
     bnd (authFromProcessInstanceID A cx i) (\<lambda>inst.
     CancelProcessInstance E (empty_state\<lparr> ws_ExecutionId := pi_ExecutionId inst,
       ws_ProcessInstanceId := pi_ProcessInstanceId inst, ws_State := st, ws_Error := err \<rparr>))"

text \<open>A failed authorisation is sent, and the executions are listed all the same.  A failed
  authentication leaves a context without a namespace, which is the default one.\<close>

definition ep_listExecution :: "api \<Rightarrow> env \<Rightarrow> api_ctx \<Rightarrow> string \<Rightarrow> ((string \<times> int) list \<times> goerr list) act" where
  "ep_listExecution A E cx workflowName =
     handle (authForNamedWorkflow A cx workflowName)
       (\<lambda>e. if e = ErrWorkflowFatal ErrApiAuthNFail None \<and> e_ns E \<noteq> ''default''
             then ret (case ap_default A workflowName of (res, errs) \<Rightarrow> (res, e # errs))
             else bnd (ListExecutions workflowName) (\<lambda>(res, errs). ret (res, e # errs)))
       (\<lambda>_. ListExecutions workflowName)"

definition ep_handleWorkflowFatalError :: "api \<Rightarrow> env \<Rightarrow> api_ctx \<Rightarrow> workflow_state option \<Rightarrow> unit act" where
  "ep_handleWorkflowFatalError A E cx state =
     (case state of
        None \<Rightarrow> panic
      | Some st \<Rightarrow> bnd (lift_res (authorize A cx (ws_WorkflowName st))) (\<lambda>_. SignalFatalErrorPause E st))"

definition ep_handleWorkflowError :: "api \<Rightarrow> env \<Rightarrow> api_ctx \<Rightarrow> string \<Rightarrow> string \<Rightarrow> bytes \<Rightarrow> bool act" where
  "ep_handleWorkflowError A E cx tid errorCode vrs =
     bnd (authFromJobID A E cx tid) (\<lambda>job.
     if errorCode = [] then fail ErrMissingErrorCode
     else handle (HandleWorkflowError E errorCode vrs job)
            (\<lambda>e. if e = ErrUnhandledWorkflowError then ret False else fail e) (\<lambda>_. ret True))"

definition ep_listUserTaskIDs :: "api \<Rightarrow> env \<Rightarrow> api_ctx \<Rightarrow> string \<Rightarrow> string list act" where
  "ep_listUserTaskIDs A E cx owner =
     bnd (authForNonWorkflow A cx) (\<lambda>_.
     bnd (OwnerID E owner) (\<lambda>oid.
     handle (GetUserTaskIDs oid) (\<lambda>e. if e = ErrKeyNotFound then ret [] else fail e) ret))"

record user_task =
  ut_TrackingId :: string
  ut_Owner :: string
  ut_Name :: string
  ut_Description :: string
  ut_Vars :: bytes

definition ep_getUserTask :: "api \<Rightarrow> env \<Rightarrow> api_ctx \<Rightarrow> string \<Rightarrow> string \<Rightarrow> user_task act" where
  "ep_getUserTask A E cx tid owner =
     bnd (authFromJobID A E cx tid) (\<lambda>job.
     bnd (GetWorkflow E (ws_WorkflowId job)) (\<lambda>wkf.
     case map_of (ElementTable (map_order E 21) wkf) (ws_ElementId job) of
       None \<Rightarrow> panic
     | Some el \<Rightarrow> ret \<lparr> ut_TrackingId = TID (ws_Id job), ut_Owner = owner, ut_Name = el_Name (el_data el),
                      ut_Description = el_Documentation (el_data el), ut_Vars = ws_Vars job \<rparr>))"

definition ep_getJob :: "api \<Rightarrow> env \<Rightarrow> api_ctx \<Rightarrow> string \<Rightarrow> workflow_state act" where
  "ep_getJob A E cx jobId = authFromJobID A E cx jobId"

definition ep_getWorkflowVersions :: "api \<Rightarrow> api_ctx \<Rightarrow> string \<Rightarrow> (workflow_version list \<times> goerr list) act" where
  "ep_getWorkflowVersions A cx name =
     streaming (authForNamedWorkflow A cx name) (\<lambda>_.
       handle (StreamWorkflowVersions name) (\<lambda>e. ret ([], [e])) (\<lambda>vs. ret (vs, [])))"

definition ep_getWorkflow :: "api \<Rightarrow> env \<Rightarrow> api_ctx \<Rightarrow> string \<Rightarrow> workflow act" where
  "ep_getWorkflow A E cx i = bnd (authForNonWorkflow A cx) (\<lambda>_. GetWorkflow E i)"

definition ep_getProcessHistory :: "api \<Rightarrow> env \<Rightarrow> api_ctx \<Rightarrow> string \<Rightarrow> (history_entry list \<times> goerr list) act" where
  "ep_getProcessHistory A E cx i =
     streaming (authFromProcessInstanceID A cx i) (\<lambda>_. sent (GetProcessHistory E i))"

record fatal_error_request =
  fr_WfName :: string
  fr_WfId :: string
  fr_ExecutionId :: string
  fr_ProcessInstanceId :: string

definition fatalErrorKeyPrefixBuilder :: "fatal_error_request \<Rightarrow> string" where
  "fatalErrorKeyPrefixBuilder req =
     Join ''.'' (map (\<lambda>segment. if segment = [] then ''*'' else segment)
       [fr_WfName req, fr_WfId req, fr_ExecutionId req, fr_ProcessInstanceId req])"

definition validateGetFatalErrorRequest :: "fatal_error_request \<Rightarrow> (goerr, unit) res" where
  "validateGetFatalErrorRequest req =
     (if fr_WfName req = [] \<and> fr_WfId req = [] \<and> fr_ExecutionId req = [] \<and> fr_ProcessInstanceId req = []
      then Err (ErrOther ''at least one of workflow name, execution id or process instance id must be specified'')
      else if fr_WfName req = ''*'' \<and> fr_WfId req = ''*'' \<and> fr_ExecutionId req = ''*'' \<and> fr_ProcessInstanceId req = ''*''
      then Err (ErrOther ''all parameters cannot be wildcards'')
      else Ok ())"

text \<open>When no parameter is specific nobody is asked, and the context is nil: reading the namespace
  from it is a nil dereference.\<close>

definition ep_getFatalErrors :: "api \<Rightarrow> env \<Rightarrow> api_ctx \<Rightarrow> fatal_error_request \<Rightarrow> (fatal_error list \<times> goerr list) act" where
  "ep_getFatalErrors A E cx req =
     streaming (lift_res (validateGetFatalErrorRequest req)) (\<lambda>_.
       let specific = (\<lambda>p. p \<noteq> [] \<and> p \<noteq> ''*'')
       in streaming
            (if specific (fr_WfName req) then bnd (authForNamedWorkflow A cx (fr_WfName req)) (\<lambda>_. ret True)
             else if specific (fr_WfId req) then bnd (authForWorkflowId A E cx (fr_WfId req)) (\<lambda>_. ret True)
             else if specific (fr_ExecutionId req) then bnd (authFromExecutionID A cx (fr_ExecutionId req)) (\<lambda>_. ret True)
             else if specific (fr_ProcessInstanceId req)
             then bnd (authFromProcessInstanceID A cx (fr_ProcessInstanceId req)) (\<lambda>_. ret True)
             else ret False) (\<lambda>authCtx.
            if \<not> authCtx then panic else sent (GetFatalErrors E (fatalErrorKeyPrefixBuilder req))))"

definition ep_retryActivity :: "api \<Rightarrow> env \<Rightarrow> api_ctx \<Rightarrow> workflow_state option \<Rightarrow> unit act" where
  "ep_retryActivity A E cx state =
     (case state of
        None \<Rightarrow> panic
      | Some st \<Rightarrow> bnd (authForNamedWorkflow A cx (ws_WorkflowName st)) (\<lambda>_. RetryActivity E st))"

text \<open>The versions of \<open>common/setup/upgrader\<close>, from the names of its patches.\<close>

definition versions :: "api \<Rightarrow> string list" where
  "versions A = List.map_filter (\<lambda>v. case ap_NewVersion A v of Ok ver \<Rightarrow> Some ver | _ \<Rightarrow> None) [''v1.1.503'']"

fun scanVersions :: "api \<Rightarrow> string option \<Rightarrow> string list \<Rightarrow> string option" where
  "scanVersions A minVersion [] = minVersion"
| "scanVersions A minVersion (test # ts) =
     (case minVersion of
        None \<Rightarrow> scanVersions A (Some test) ts
      | Some m \<Rightarrow>
          if ap_GreaterThan A test m then scanVersions A (Some test) ts
          else if ap_LessThan A test m then minVersion
          else scanVersions A minVersion ts)"

definition GetCompatibleVersion :: "api \<Rightarrow> string option" where
  "GetCompatibleVersion A = scanVersions A None (rev (versions A))"

definition IsCompatible :: "api \<Rightarrow> string \<Rightarrow> bool \<times> string" where
  "IsCompatible A v =
     (let minVersion = (case GetCompatibleVersion A of None \<Rightarrow> v | Some m \<Rightarrow> m) in (ap_Equal A minVersion v, minVersion))"

definition ep_versionInfo :: "api \<Rightarrow> api_ctx \<Rightarrow> string \<Rightarrow> (string \<times> string \<times> bool) act" where
  "ep_versionInfo A cx compatibleVersion =
     bnd (lift_res (authenticate A cx)) (\<lambda>_.
     if compatibleVersion = [] then fail (ErrOther ''client version too old'')
     else bnd (lift_res (ap_NewVersion A compatibleVersion)) (\<lambda>v.
          let (ok, ver) = IsCompatible A v in ret (ap_Version A, ver, ok)))"

definition ep_registerTask :: "api \<Rightarrow> env \<Rightarrow> api_ctx \<Rightarrow> task_spec option \<Rightarrow> string act" where
  "ep_registerTask A E cx spec =
     bnd (authForNonWorkflow A cx) (\<lambda>_.
     case spec of
       None \<Rightarrow> panic
     | Some td \<Rightarrow> bnd (lift_res (ValidateTaskSpec E td)) (\<lambda>_. PutTaskSpec E td))"

definition ep_deprecateServiceTask :: "api \<Rightarrow> env \<Rightarrow> api_ctx \<Rightarrow> string \<Rightarrow> (usage_report \<times> bool) act" where
  "ep_deprecateServiceTask A E cx name =
     bnd (authForNonWorkflow A cx) (\<lambda>_.
     bnd (GetTaskSpecUsage E [name]) (\<lambda>usage.
     if length (ur_ExecutingWorkflow usage) + length (ur_ExecutingProcessInstance usage) > 0 then ret (usage, False)
     else bnd (DeprecateTaskSpec [name]) (\<lambda>_. ret (usage, True))))"

definition ep_getTaskSpec :: "api \<Rightarrow> api_ctx \<Rightarrow> string \<Rightarrow> task_spec act" where
  "ep_getTaskSpec A cx uid = bnd (authForNonWorkflow A cx) (\<lambda>_. GetTaskSpecByUID uid)"

definition ep_getTaskSpecVersions :: "api \<Rightarrow> api_ctx \<Rightarrow> string \<Rightarrow> string list act" where
  "ep_getTaskSpecVersions A cx name = bnd (authForNonWorkflow A cx) (\<lambda>_. GetTaskSpecVersions name)"

definition ep_getTaskSpecUsage :: "api \<Rightarrow> env \<Rightarrow> api_ctx \<Rightarrow> string \<Rightarrow> usage_report act" where
  "ep_getTaskSpecUsage A E cx i = bnd (authForNonWorkflow A cx) (\<lambda>_. GetTaskSpecUsage E [i])"

definition ep_listTaskSpecUIDs :: "api \<Rightarrow> api_ctx \<Rightarrow> bool \<Rightarrow> string list act" where
  "ep_listTaskSpecUIDs A cx includeDeprecated = bnd (authForNonWorkflow A cx) (\<lambda>_. ListTaskSpecUIDs includeDeprecated)"

definition ep_heartbeat :: "heartbeat_request \<Rightarrow> unit act" where
  "ep_heartbeat req = Heartbeat req"

definition ep_log :: "log_request \<Rightarrow> unit act" where
  "ep_log req = Log req"

definition ep_resolveWorkflow :: "env \<Rightarrow> workflow option \<Rightarrow> workflow act" where
  "ep_resolveWorkflow E m =
     (case m of
        None \<Rightarrow> panic
      | Some wkf \<Rightarrow> ProcessServiceTasks E NoOpServiceTaskConsumerFn NoOpWorkFlowProcessMappingFn wkf)"

definition ep_getProcessHeaders :: "api \<Rightarrow> api_ctx \<Rightarrow> string \<Rightarrow> (string \<times> string) list act" where
  "ep_getProcessHeaders A cx i =
     bnd (authFromProcessInstanceID A cx i) (\<lambda>pi.
     if length (pi_Headers pi) = 0 then ret [] else lift_res (ap_Headers A (pi_Headers pi)))"

definition ep_disableWorkflow :: "api \<Rightarrow> api_ctx \<Rightarrow> string \<Rightarrow> unit act" where
  "ep_disableWorkflow A cx name = bnd (authForNamedWorkflow A cx name) (\<lambda>_. DisableWorkflow name)"

definition ep_enableWorkflow :: "api \<Rightarrow> api_ctx \<Rightarrow> string \<Rightarrow> unit act" where
  "ep_enableWorkflow A cx name = bnd (authForNamedWorkflow A cx name) (\<lambda>_. EnableWorkflow name)"

section \<open>Requests\<close>

text \<open>One constructor for every endpoint that \<open>StartListening\<close> registers, with the fields of its request.\<close>

datatype api_request =
    StoreWorkflow "workflow option"
  | CancelInstance string cancellation_state "wf_error option"
  | LaunchProcess string bytes bytes
  | SendMessage string string bytes
  | CompleteManual string bytes
  | CompleteService string bytes
  | CompleteUser string bytes
  | GetUserTask string string
  | GetJobRequest string
  | HandleError string string bytes
  | HandleFatalError "workflow_state option"
  | CompleteSendMessage string bytes
  | GetWorkflowRequest string
  | GetVersionInfo string
  | RegisterTask "task_spec option"
  | GetTaskSpec string
  | DeprecateServiceTask string
  | GetSpecUsage string
  | HeartbeatRequest heartbeat_request
  | LogRequest log_request
  | ResolveWorkflow "workflow option"
  | ListProcesses string
  | ListSpecUIDs bool
  | GetSpecVersions string
  | GetCompensationInputs string string
  | GetCompensationOutputs string string
  | ListUserTasks string
  | Retry "workflow_state option"
  | GetProcessHeaders string
  | Disable string
  | Enable string
  | GetWorkflowVersions string
  | GetInstanceStatus string
  | ListWorkflowsRequest
  | ListExecution string
  | GetHistory string
  | ListExecutable
  | GetFatalErrorsRequest fatal_error_request

datatype api_response =
    REmpty
  | RName string
  | RNames "string list"
  | RLaunched string string
  | RHandled bool
  | RUserTask user_task
  | RJob workflow_state
  | RWorkflow workflow
  | RVersion string string bool
  | RSpec task_spec
  | RUsage usage_report
  | RDeprecated usage_report bool
  | RVars bytes
  | RHeaders "(string \<times> string) list"
  | RHistory "history_entry list" "goerr list"
  | RNumbered "(string \<times> int) list" "goerr list"
  | RVersions "workflow_version list" "goerr list"
  | RExecutable "executable_process list" "goerr list"
  | RFatalErrors "fatal_error list" "goerr list"

definition answer :: "('a \<Rightarrow> api_response) \<Rightarrow> 'a act \<Rightarrow> api_response act" where
  "answer f m = bnd m (\<lambda>x. ret (f x))"

fun endpoint :: "api \<Rightarrow> env \<Rightarrow> api_ctx \<Rightarrow> api_request \<Rightarrow> api_response act" where
  "endpoint A E cx (StoreWorkflow m) = answer RName (ep_storeWorkflow A E cx m)"
| "endpoint A E cx (CancelInstance i st err) = answer (\<lambda>_. REmpty) (ep_cancelProcessInstance A E cx i st err)"
| "endpoint A E cx (LaunchProcess i vrs hs) = answer (\<lambda>(x, wid). RLaunched x wid) (ep_launchProcess A E cx i vrs hs)"
| "endpoint A E cx (SendMessage n key vrs) = answer (\<lambda>(x, wid). RLaunched x wid) (ep_sendMessage A E cx n key vrs)"
| "endpoint A E cx (CompleteManual tid vrs) = answer (\<lambda>_. REmpty) (ep_completeManualTask A E cx tid vrs)"
| "endpoint A E cx (CompleteService tid vrs) = answer (\<lambda>_. REmpty) (ep_completeServiceTask A E cx tid vrs)"
| "endpoint A E cx (CompleteUser tid vrs) = answer (\<lambda>_. REmpty) (ep_completeUserTask A E cx tid vrs)"
| "endpoint A E cx (GetUserTask tid owner) = answer RUserTask (ep_getUserTask A E cx tid owner)"
| "endpoint A E cx (GetJobRequest tid) = answer RJob (ep_getJob A E cx tid)"
| "endpoint A E cx (HandleError tid code vrs) = answer RHandled (ep_handleWorkflowError A E cx tid code vrs)"
| "endpoint A E cx (HandleFatalError st) = answer (\<lambda>_. REmpty) (ep_handleWorkflowFatalError A E cx st)"
| "endpoint A E cx (CompleteSendMessage tid vrs) = answer (\<lambda>_. REmpty) (ep_completeSendMessageTask A E cx tid vrs)"
| "endpoint A E cx (GetWorkflowRequest i) = answer RWorkflow (ep_getWorkflow A E cx i)"
| "endpoint A E cx (GetVersionInfo v) = answer (\<lambda>(s, m, ok). RVersion s m ok) (ep_versionInfo A cx v)"
| "endpoint A E cx (RegisterTask td) = answer RName (ep_registerTask A E cx td)"
| "endpoint A E cx (GetTaskSpec uid) = answer RSpec (ep_getTaskSpec A cx uid)"
| "endpoint A E cx (DeprecateServiceTask n) = answer (\<lambda>(u, ok). RDeprecated u ok) (ep_deprecateServiceTask A E cx n)"
| "endpoint A E cx (GetSpecUsage i) = answer RUsage (ep_getTaskSpecUsage A E cx i)"
| "endpoint A E cx (HeartbeatRequest r) = answer (\<lambda>_. REmpty) (ep_heartbeat r)"
| "endpoint A E cx (LogRequest r) = answer (\<lambda>_. REmpty) (ep_log r)"
| "endpoint A E cx (ResolveWorkflow m) = answer RWorkflow (ep_resolveWorkflow E m)"
| "endpoint A E cx (ListProcesses i) = answer RNames (ep_listExecutionProcesses A cx i)"
| "endpoint A E cx (ListSpecUIDs d) = answer RNames (ep_listTaskSpecUIDs A cx d)"
| "endpoint A E cx (GetSpecVersions n) = answer RNames (ep_getTaskSpecVersions A cx n)"
| "endpoint A E cx (GetCompensationInputs i tid) = answer RVars (ep_getCompensationInputVariables A cx i tid)"
| "endpoint A E cx (GetCompensationOutputs i tid) = answer RVars (ep_getCompensationOutputVariables A cx i tid)"
| "endpoint A E cx (ListUserTasks owner) = answer RNames (ep_listUserTaskIDs A E cx owner)"
| "endpoint A E cx (Retry st) = answer (\<lambda>_. REmpty) (ep_retryActivity A E cx st)"
| "endpoint A E cx (GetProcessHeaders i) = answer RHeaders (ep_getProcessHeaders A cx i)"
| "endpoint A E cx (Disable n) = answer (\<lambda>_. REmpty) (ep_disableWorkflow A cx n)"
| "endpoint A E cx (Enable n) = answer (\<lambda>_. REmpty) (ep_enableWorkflow A cx n)"
| "endpoint A E cx (GetWorkflowVersions n) = answer (\<lambda>(r, es). RVersions r es) (ep_getWorkflowVersions A cx n)"
| "endpoint A E cx (GetInstanceStatus i) = answer (\<lambda>(r, es). RHistory r es) (ep_getProcessInstanceStatus A E cx i)"
| "endpoint A E cx ListWorkflowsRequest = answer (\<lambda>(r, es). RNumbered r es) (ep_listWorkflows A cx)"
| "endpoint A E cx (ListExecution n) = answer (\<lambda>(r, es). RNumbered r es) (ep_listExecution A E cx n)"
| "endpoint A E cx (GetHistory i) = answer (\<lambda>(r, es). RHistory r es) (ep_getProcessHistory A E cx i)"
| "endpoint A E cx ListExecutable = answer (\<lambda>(r, es). RExecutable r es) (ep_listExecutableProcesses A E cx)"
| "endpoint A E cx (GetFatalErrorsRequest r) = answer (\<lambda>(r, es). RFatalErrors r es) (ep_getFatalErrors A E cx r)"

end
