(* ===== verification/Access.thy ===== *)
theory Access
  imports Api
begin

text \<open>
  Access control: what a request does when the caller is not authorised.

  \<open>reads\<close> is what a check does to the world, \<open>access_check\<close> the contract of a check, interpreted on
  the four that look the owner of a resource up.  \<open>permitted\<close> says whose approval a request needs, in
  terms of what is stored.  A request that is not permitted is refused and changes
  nothing; the requests that are permitted to anybody are listed.
\<close>

section \<open>Reading without writing\<close>

definition reads :: "world \<Rightarrow> world \<Rightarrow> bool" where
  "reads w w' \<longleftrightarrow> w' = w\<lparr> sCache := sCache w', faults := faults w' \<rparr> \<and> (cache_coherent w \<longrightarrow> cache_coherent w')"

interpretation rd: step_rel reads
proof unfold_locales
  show "reads w w" for w by (simp add: reads_def)
  show "reads a c" if ab: "reads a b" and bc: "reads b c" for a b c
  proof -
    obtain x y where "b = a\<lparr> sCache := x, faults := y \<rparr>" using ab unfolding reads_def by blast
    moreover obtain x' y' where "c = b\<lparr> sCache := x', faults := y' \<rparr>" using bc unfolding reads_def by blast
    ultimately have "c = a\<lparr> sCache := sCache c, faults := faults c \<rparr>" by simp
    then show ?thesis using ab bc by (simp add: reads_def)
  qed
qed

lemma reads_io [along_intros]: "along reads io"
  by (rule alongI) (auto simp: io_def reads_def cache_coherent_def split: list.splits option.splits)

lemma reads_LoadObj [along_intros]: "along reads (LoadObj B k)"
  unfolding LoadObj_def by (intro along_intros) (auto intro!: alongI simp: rd.rel_refl split: option.splits)

lemma reads_KvsFor [along_intros]: "along reads KvsFor" unfolding KvsFor_def by (rule reads_io)

lemma reads_if [along_intros]: "along reads m \<Longrightarrow> along reads n \<Longrightarrow> along reads (if b then m else n)" by simp

text \<open>What a lookup returns is what is stored.\<close>

lemma LoadObj_Ok: "LoadObj B k w = (Ok v, w') \<Longrightarrow> w' = w\<lparr> faults := faults w' \<rparr> \<and> kv_get (fst B w') k = Some v"
  by (auto simp: LoadObj_def bnd_apply io_def split: list.splits option.splits prod.splits res.splits)

lemma lookup_Ok:
  assumes "bnd KvsFor (\<lambda>_. handle (LoadObj (sel, upd) k) (\<lambda>e. if e = ErrKeyNotFound then fail x else fail e) ret) w = (Ok v, w')"
    and "\<And>w f. sel (w\<lparr> faults := f \<rparr>) = sel w"
  shows "reads w w' \<and> kv_get (sel w) k = Some v"
proof -
  obtain u w1 where 1: "KvsFor w = (Ok u, w1)"
    "handle (LoadObj (sel, upd) k) (\<lambda>e. if e = ErrKeyNotFound then fail x else fail e) ret w1 = (Ok v, w')"
    using assms(1) by (rule bnd_OkE)
  then have 2: "LoadObj (sel, upd) k w1 = (Ok v, w')"
    by (auto simp: handle_apply split: prod.splits res.splits if_splits)
  have r: "reads w w1" "reads w1 w'" using alongD [OF reads_KvsFor 1(1)] alongD [OF reads_LoadObj 2] .
  have "w1 = w\<lparr> faults := faults w1 \<rparr>" using 1(1) by (auto simp: KvsFor_def io_def split: list.splits option.splits)
  then obtain f where "w1 = w\<lparr> faults := f \<rparr>" by blast
  moreover obtain f' where "w' = w1\<lparr> faults := f' \<rparr>" using LoadObj_Ok [OF 2] by blast
  ultimately have "sel w' = sel w" by (simp add: assms(2))
  then show ?thesis using LoadObj_Ok [OF 2] rd.rel_trans [OF r] by simp
qed

lemma GetJob_Ok: "GetJob tid w = (Ok job, w') \<Longrightarrow> reads w w' \<and> kv_get (kvJob w) tid = Some job"
  unfolding GetJob_def by (rule lookup_Ok) simp_all
lemma GetExecution_Ok: "GetExecution i w = (Ok x, w') \<Longrightarrow> reads w w' \<and> kv_get (kvExecution w) i = Some x"
  unfolding GetExecution_def by (rule lookup_Ok) simp_all
lemma GetProcessInstance_Ok: "GetProcessInstance i w = (Ok x, w') \<Longrightarrow> reads w w' \<and> kv_get (kvProcessInstance w) i = Some x"
  unfolding GetProcessInstance_def by (rule lookup_Ok) simp_all

lemma reads_lookups [along_intros]: "along reads (GetJob i)" "along reads (GetExecution i)" "along reads (GetProcessInstance i)"
  unfolding GetJob_def GetExecution_def GetProcessInstance_def by (intro along_intros)+

lemma GetWorkflow_cases:
  assumes "cache_coherent w"
  shows "reads w (snd (GetWorkflow E i w))" "GetWorkflow E i w = (Ok wkf, w') \<Longrightarrow> kv_get (kvDefinition w) i = Some wkf"
proof -
  let ?load = "bnd KvsFor (\<lambda>_. handle (LoadObj DefinitionB i) (\<lambda>e. if e = ErrKeyNotFound then fail ErrWorkflowNotFound else fail e) ret)"
  have al: "along reads ?load" by (intro along_intros)
  obtain r w1 where l: "?load w = (r, w1)" by fastforce
  have rw: "reads w w1" using alongD [OF al l] .
  have ok: "kv_get (kvDefinition w) i = Some v" if "r = Ok v" for v
    using lookup_Ok [of kvDefinition kvDefinition_update i ErrWorkflowNotFound w v w1] l that by simp
  have up: "reads w (w1\<lparr> sCache := AList.update i v (sCache w1) \<rparr>)" if "r = Ok v" for v
  proof -
    obtain c f where w1: "w1 = w\<lparr> sCache := c, faults := f \<rparr>" using rw unfolding reads_def by blast
    have "cache_coherent w1" using rw assms unfolding reads_def by blast
    then show ?thesis using ok [OF that] w1 by (simp add: reads_def cache_coherent_def)
  qed
  show "reads w (snd (GetWorkflow E i w))"
    using l rw up by (cases "map_of (sCache w) i"; cases r) (simp_all add: GetWorkflow_def Cacheable_def bnd_apply [of ?load] bnd_apply [of "asks _"]
        bnd_apply [of "modify _"] rd.rel_refl)
  show "kv_get (kvDefinition w) i = Some wkf" if "GetWorkflow E i w = (Ok wkf, w')"
    using l ok that assms
    by (cases "map_of (sCache w) i"; cases r)
       (auto simp: GetWorkflow_def Cacheable_def bnd_apply [of ?load] bnd_apply [of "asks _"] bnd_apply [of "modify _"] cache_coherent_def)
qed

section \<open>Checks\<close>

text \<open>A check only reads, and it succeeds only when access is permitted.\<close>

definition harmless :: "world \<Rightarrow> ('e, 'a) res \<times> world \<Rightarrow> bool" where
  "harmless w r \<longleftrightarrow> reads w (snd r) \<and> (\<forall>x. fst r \<noteq> Ok x)"

definition silent :: "world \<Rightarrow> ('e, 'b list \<times> goerr list) res \<times> world \<Rightarrow> bool" where
  "silent w r \<longleftrightarrow> reads w (snd r) \<and> (\<forall>xs es. fst r = Ok (xs, es) \<longrightarrow> xs = [] \<and> es \<noteq> [])"

locale access_check =
  fixes check :: "'a act" and permits :: "world \<Rightarrow> bool"
  assumes check_reads: "cache_coherent w \<Longrightarrow> reads w (snd (check w))"
    and check_sound: "cache_coherent w \<Longrightarrow> check w = (Ok x, w') \<Longrightarrow> permits w"
begin

lemma denied_check:
  assumes "cache_coherent w" "\<not> permits w"
  obtains r w' where "check w = (r, w')" "reads w w'" "\<forall>x. r \<noteq> Ok x"
  using check_reads [OF assms(1)] check_sound [OF assms(1)] assms(2) by (cases "check w") (metis snd_conv)

lemma denied:
  assumes "cache_coherent w" "\<not> permits w"
  shows "harmless w (bnd check f w)"
proof -
  obtain r w' where "check w = (r, w')" "reads w w'" "\<forall>x. r \<noteq> Ok x" using denied_check [OF assms] .
  then show ?thesis by (cases r) (simp_all add: harmless_def bnd_apply)
qed

lemma denied_stream:
  assumes "cache_coherent w" "\<not> permits w"
  shows "silent w (streaming check f w)"
proof -
  obtain r w' where "check w = (r, w')" "reads w w'" "\<forall>x. r \<noteq> Ok x" using denied_check [OF assms] .
  then show ?thesis by (cases r) (simp_all add: silent_def streaming_def handle_apply)
qed

end

lemma authorized_cases:
  "reads w (snd (authorized A cx n w))" "authorized A cx n w = (Ok x, w') \<Longrightarrow> authorize A cx n = Ok () \<and> w' = w"
  by (cases "authorize A cx n"; simp add: authorized_def handle_apply rd.rel_refl)+

lemma reads_authorized [along_intros]: "along reads (authorized A cx n)"
  by (rule alongI) (rule authorized_cases)

interpretation named: access_check "authorized A cx n" "\<lambda>_. authorize A cx n = Ok ()" for A cx n
  by unfold_locales (auto dest: authorized_cases(2) intro: authorized_cases(1))

definition job_permits :: "api \<Rightarrow> api_ctx \<Rightarrow> string \<Rightarrow> world \<Rightarrow> bool" where
  "job_permits A cx tid w \<longleftrightarrow> (\<exists>job wkf. kv_get (kvJob w) tid = Some job \<and>
     kv_get (kvDefinition w) (ws_WorkflowId job) = Some wkf \<and> authorize A cx (wf_Name wkf) = Ok ())"

definition execution_permits :: "api \<Rightarrow> api_ctx \<Rightarrow> string \<Rightarrow> world \<Rightarrow> bool" where
  "execution_permits A cx i w \<longleftrightarrow> (\<exists>x. kv_get (kvExecution w) i = Some x \<and> authorize A cx (ex_WorkflowName x) = Ok ())"

definition instance_permits :: "api \<Rightarrow> api_ctx \<Rightarrow> string \<Rightarrow> world \<Rightarrow> bool" where
  "instance_permits A cx i w \<longleftrightarrow> (\<exists>x. kv_get (kvProcessInstance w) i = Some x \<and> authorize A cx (pi_WorkflowName x) = Ok ())"

definition workflow_permits :: "api \<Rightarrow> api_ctx \<Rightarrow> string \<Rightarrow> world \<Rightarrow> bool" where
  "workflow_permits A cx i w \<longleftrightarrow> (\<exists>wkf. kv_get (kvDefinition w) i = Some wkf \<and> authorize A cx (wf_Name wkf) = Ok ())"

text \<open>A check reads when each of its parts does, from a world whose cache is coherent.\<close>

lemma reads_then:
  assumes "reads w (snd (m w))" "\<And>x w'. m w = (Ok x, w') \<Longrightarrow> reads w' (snd (f x w'))"
  shows "reads w (snd (bnd m f w))"
proof (cases "m w")
  case (Pair r w')
  then show ?thesis using assms by (cases r) (auto simp: bnd_apply intro: rd.rel_trans)
qed

lemma coherent_reads: "cache_coherent w \<Longrightarrow> reads w w' \<Longrightarrow> cache_coherent w'"
  unfolding reads_def by blast

lemma reads_kv:
  assumes "reads w w'"
  shows "kvJob w' = kvJob w" "kvDefinition w' = kvDefinition w" "kvExecution w' = kvExecution w" "kvProcessInstance w' = kvProcessInstance w"
proof -
  obtain c f where "w' = w\<lparr> sCache := c, faults := f \<rparr>" using assms unfolding reads_def by blast
  then show "kvJob w' = kvJob w" "kvDefinition w' = kvDefinition w" "kvExecution w' = kvExecution w" "kvProcessInstance w' = kvProcessInstance w"
    by simp_all
qed

interpretation by_job: access_check "authFromJobID A E cx tid" "job_permits A cx tid" for A E cx tid
proof unfold_locales
  fix w assume c: "cache_coherent w"
  show "reads w (snd (authFromJobID A E cx tid w))" unfolding authFromJobID_def
  proof (intro reads_then)
    show "reads w (snd (GetJob tid w))" using reads_lookups(1) by (simp add: along_def)
    fix job w1 assume "GetJob tid w = (Ok job, w1)"
    then have "cache_coherent w1" using coherent_reads [OF c] GetJob_Ok by blast
    then show "reads w1 (snd (GetWorkflow E (ws_WorkflowId job) w1))" by (rule GetWorkflow_cases)
  qed (simp_all add: authorized_cases rd.rel_refl)
  fix job w' assume "authFromJobID A E cx tid w = (Ok job, w')"
  then obtain j w1 wkf w2 x w3 where 1: "GetJob tid w = (Ok j, w1)" and 2: "GetWorkflow E (ws_WorkflowId j) w1 = (Ok wkf, w2)"
    and 3: "authorized A cx (wf_Name wkf) w2 = (Ok x, w3)" unfolding authFromJobID_def by (auto elim!: bnd_OkE)
  have "reads w w1" "kv_get (kvJob w) tid = Some j" using GetJob_Ok [OF 1] by auto
  moreover have "kv_get (kvDefinition w1) (ws_WorkflowId j) = Some wkf"
    using GetWorkflow_cases(2) [OF coherent_reads [OF c \<open>reads w w1\<close>] 2] .
  ultimately show "job_permits A cx tid w" using reads_kv [of w w1] authorized_cases(2) [OF 3] by (auto simp: job_permits_def)
qed

interpretation by_execution: access_check "authFromExecutionID A cx i" "execution_permits A cx i" for A cx i
proof unfold_locales
  show "reads w (snd (authFromExecutionID A cx i w))" for w
    using reads_lookups(2) unfolding authFromExecutionID_def by (intro reads_then) (simp_all add: along_def authorized_cases rd.rel_refl)
  show "execution_permits A cx i w" if "authFromExecutionID A cx i w = (Ok x, w')" for w x w'
    using that unfolding authFromExecutionID_def execution_permits_def
    by (auto elim!: bnd_OkE dest!: GetExecution_Ok authorized_cases(2))
qed

interpretation by_instance: access_check "authFromProcessInstanceID A cx i" "instance_permits A cx i" for A cx i
proof unfold_locales
  show "reads w (snd (authFromProcessInstanceID A cx i w))" for w
    using reads_lookups(3) unfolding authFromProcessInstanceID_def by (intro reads_then) (simp_all add: along_def authorized_cases rd.rel_refl)
  show "instance_permits A cx i w" if "authFromProcessInstanceID A cx i w = (Ok x, w')" for w x w'
    using that unfolding authFromProcessInstanceID_def instance_permits_def
    by (auto elim!: bnd_OkE dest!: GetProcessInstance_Ok authorized_cases(2))
qed

interpretation by_workflow: access_check "authForWorkflowId A E cx i" "workflow_permits A cx i" for A E cx i
proof unfold_locales
  fix w assume c: "cache_coherent w"
  show "reads w (snd (authForWorkflowId A E cx i w))" unfolding authForWorkflowId_def
    using c by (intro reads_then) (simp_all add: GetWorkflow_cases authorized_cases)
  show "workflow_permits A cx i w" if "authForWorkflowId A E cx i w = (Ok x, w')" for x w'
    using that c unfolding authForWorkflowId_def workflow_permits_def
    by (auto elim!: bnd_OkE dest!: GetWorkflow_cases(2) authorized_cases(2))
qed

section \<open>Who is asked\<close>

text \<open>Whose approval a request needs.  The last group is open to anybody, and for a launch the
  name that is asked about is the one of the process.\<close>

definition specific :: "string \<Rightarrow> bool" where
  "specific p \<longleftrightarrow> p \<noteq> [] \<and> p \<noteq> ''*''"

fun permitted :: "api \<Rightarrow> api_ctx \<Rightarrow> world \<Rightarrow> api_request \<Rightarrow> bool" where
  "permitted A cx w (CompleteManual tid vrs) = job_permits A cx tid w"
| "permitted A cx w (CompleteService tid vrs) = job_permits A cx tid w"
| "permitted A cx w (CompleteUser tid vrs) = job_permits A cx tid w"
| "permitted A cx w (CompleteSendMessage tid vrs) = job_permits A cx tid w"
| "permitted A cx w (GetUserTask tid owner) = job_permits A cx tid w"
| "permitted A cx w (GetJobRequest tid) = job_permits A cx tid w"
| "permitted A cx w (HandleError tid code vrs) = job_permits A cx tid w"
| "permitted A cx w (ListProcesses i) = execution_permits A cx i w"
| "permitted A cx w (CancelInstance i st err) = instance_permits A cx i w"
| "permitted A cx w (GetCompensationInputs i tid) = instance_permits A cx i w"
| "permitted A cx w (GetCompensationOutputs i tid) = instance_permits A cx i w"
| "permitted A cx w (GetProcessHeaders i) = instance_permits A cx i w"
| "permitted A cx w (GetInstanceStatus i) = instance_permits A cx i w"
| "permitted A cx w (GetHistory i) = instance_permits A cx i w"
| "permitted A cx w (StoreWorkflow m) = (\<exists>wkf. m = Some wkf \<and> authorize A cx (wf_Name wkf) = Ok ())"
| "permitted A cx w (HandleFatalError st) = (\<exists>s. st = Some s \<and> authorize A cx (ws_WorkflowName s) = Ok ())"
| "permitted A cx w (Retry st) = (\<exists>s. st = Some s \<and> authorize A cx (ws_WorkflowName s) = Ok ())"
| "permitted A cx w (Disable n) = (authorize A cx n = Ok ())"
| "permitted A cx w (Enable n) = (authorize A cx n = Ok ())"
| "permitted A cx w (GetWorkflowVersions n) = (authorize A cx n = Ok ())"
| "permitted A cx w (GetFatalErrorsRequest r) =
     (if specific (fr_WfName r) then authorize A cx (fr_WfName r) = Ok ()
      else if specific (fr_WfId r) then workflow_permits A cx (fr_WfId r) w
      else if specific (fr_ExecutionId r) then execution_permits A cx (fr_ExecutionId r) w
      else specific (fr_ProcessInstanceId r) \<and> instance_permits A cx (fr_ProcessInstanceId r) w)"
| "permitted A cx w (GetWorkflowRequest i) = (authorize A cx [] = Ok ())"
| "permitted A cx w (RegisterTask td) = (authorize A cx [] = Ok ())"
| "permitted A cx w (GetTaskSpec uid) = (authorize A cx [] = Ok ())"
| "permitted A cx w (DeprecateServiceTask n) = (authorize A cx [] = Ok ())"
| "permitted A cx w (GetSpecUsage i) = (authorize A cx [] = Ok ())"
| "permitted A cx w (ListSpecUIDs d) = (authorize A cx [] = Ok ())"
| "permitted A cx w (GetSpecVersions n) = (authorize A cx [] = Ok ())"
| "permitted A cx w (ListUserTasks owner) = (authorize A cx [] = Ok ())"
| "permitted A cx w ListWorkflowsRequest = (authorize A cx [] = Ok ())"
| "permitted A cx w ListExecutable = (authorize A cx [] = Ok ())"
| "permitted A cx w (GetVersionInfo v) = (\<exists>user. authenticate A cx = Ok user)"
| "permitted A cx w (LaunchProcess i vrs hs) = (authorize A cx i = Ok ())"
| "permitted A cx w (SendMessage n key vrs) = (key = [] \<longrightarrow> (\<exists>i. authorize A cx i = Ok ()))"
| "permitted A cx w (ListExecution n) = True"
| "permitted A cx w (HeartbeatRequest r) = True"
| "permitted A cx w (LogRequest r) = True"
| "permitted A cx w (ResolveWorkflow m) = True"

text \<open>A refusal: an error, or for a stream only errors, with nothing written.\<close>

fun no_results :: "api_response \<Rightarrow> bool" where
  "no_results (RHistory r es) = (r = [] \<and> es \<noteq> [])"
| "no_results (RNumbered r es) = (r = [] \<and> es \<noteq> [])"
| "no_results (RVersions r es) = (r = [] \<and> es \<noteq> [])"
| "no_results (RExecutable r es) = (r = [] \<and> es \<noteq> [])"
| "no_results (RFatalErrors r es) = (r = [] \<and> es \<noteq> [])"
| "no_results _ = False"

definition refused :: "world \<Rightarrow> (goerr, api_response) res \<times> world \<Rightarrow> bool" where
  "refused w r \<longleftrightarrow> reads w (snd r) \<and> (\<forall>x. fst r = Ok x \<longrightarrow> no_results x)"

lemma refused_answer: "harmless w (m w) \<Longrightarrow> refused w (answer f m w)"
  by (auto simp: harmless_def refused_def answer_def bnd_apply split: prod.splits res.splits)

lemma refused_stream:
  assumes "silent w (m w)" "\<And>xs es. no_results (f (xs, es)) \<longleftrightarrow> xs = [] \<and> es \<noteq> []"
  shows "refused w (answer f m w)"
proof (cases "m w")
  case (Pair r w')
  then show ?thesis using assms by (cases r) (auto simp: silent_def refused_def answer_def bnd_apply)
qed

lemmas job_endpoints = ep_completeManualTask_def ep_completeServiceTask_def ep_completeUserTask_def ep_completeSendMessageTask_def
  ep_getUserTask_def ep_handleWorkflowError_def
lemmas instance_endpoints = ep_cancelProcessInstance_def ep_getCompensationInputVariables_def ep_getCompensationOutputVariables_def
  ep_getProcessHeaders_def
lemmas stream_endpoints = ep_getProcessInstanceStatus_def ep_getProcessHistory_def ep_getWorkflowVersions_def ep_listWorkflows_def
  ep_listExecutableProcesses_def
lemmas named_endpoints = ep_disableWorkflow_def ep_enableWorkflow_def ep_getWorkflow_def ep_registerTask_def ep_getTaskSpec_def
  ep_deprecateServiceTask_def ep_getTaskSpecUsage_def ep_listTaskSpecUIDs_def ep_getTaskSpecVersions_def ep_listUserTaskIDs_def
  ep_launchProcess_def authForNonWorkflow_def authForNamedWorkflow_def

lemma harmless_panic: "harmless w (panic w)" by (simp add: harmless_def rd.rel_refl)

lemma harmless_lift: "\<forall>x. r \<noteq> Ok x \<Longrightarrow> harmless w (bnd (lift_res r) f w)"
  by (cases r) (simp_all add: harmless_def bnd_apply rd.rel_refl)

lemma harmless_then:
  assumes "reads w (snd (m w))" "\<And>x w'. m w = (Ok x, w') \<Longrightarrow> harmless w' (f x w')"
  shows "harmless w (bnd m f w)"
proof (cases "m w")
  case (Pair r w')
  then show ?thesis using assms by (cases r) (auto simp: harmless_def bnd_apply intro: rd.rel_trans)
qed

lemma bare_job: "cache_coherent w \<Longrightarrow> \<not> job_permits A cx tid w \<Longrightarrow> harmless w (authFromJobID A E cx tid w)"
  using by_job.denied [of w A cx tid E ret] by simp

lemma reads_GetProcessIdFor: "reads w (snd (GetProcessIdFor n w))"
proof -
  have "along reads (GetProcessIdFor n)" unfolding GetProcessIdFor_def
    by (intro along_intros) (auto intro!: along_intros split: option.splits)
  then show ?thesis by (simp add: along_def)
qed

lemma denied_message:
  assumes "cache_coherent w" "\<forall>i. authorize A cx i \<noteq> Ok ()"
  shows "harmless w (ep_sendMessage A E cx n [] vrs w)"
  unfolding ep_sendMessage_def simp_thms if_True
proof (rule harmless_then [OF reads_GetProcessIdFor])
  fix i w' assume "GetProcessIdFor n w = (Ok i, w')"
  then have "cache_coherent w'" using coherent_reads [OF assms(1)] reads_GetProcessIdFor [of w n] by simp
  then show "harmless w' (ep_launchProcess A E cx i vrs [] w')"
    using assms(2) by (auto simp: ep_launchProcess_def authForNamedWorkflow_def intro!: named.denied)
qed

lemma denied_fatal:
  assumes "cache_coherent w" "\<not> permitted A cx w (GetFatalErrorsRequest r)"
  shows "silent w (ep_getFatalErrors A E cx r w)"
proof (cases "validateGetFatalErrorRequest r")
  case (Ok x)
  have s: "(p \<noteq> [] \<and> p \<noteq> ''*'') = specific p" for p by (simp add: specific_def)
  have u: "silent w (streaming m f w)" if "harmless w (m w)" for m :: "bool act" and f :: "bool \<Rightarrow> (fatal_error list \<times> goerr list) act"
    using that by (auto simp: harmless_def silent_def streaming_def handle_apply split: prod.splits res.splits)
  have p: "silent w (streaming (ret False) (\<lambda>authCtx. if \<not> authCtx then panic else f authCtx) w)" for f :: "bool \<Rightarrow> (fatal_error list \<times> goerr list) act"
    by (simp add: silent_def streaming_def handle_apply rd.rel_refl)
  have "ep_getFatalErrors A E cx r w =
      streaming (if specific (fr_WfName r) then bnd (authForNamedWorkflow A cx (fr_WfName r)) (\<lambda>_. ret True)
             else if specific (fr_WfId r) then bnd (authForWorkflowId A E cx (fr_WfId r)) (\<lambda>_. ret True)
             else if specific (fr_ExecutionId r) then bnd (authFromExecutionID A cx (fr_ExecutionId r)) (\<lambda>_. ret True)
             else if specific (fr_ProcessInstanceId r)
             then bnd (authFromProcessInstanceID A cx (fr_ProcessInstanceId r)) (\<lambda>_. ret True)
             else ret False) (\<lambda>authCtx.
            if \<not> authCtx then panic else sent (GetFatalErrors E (fatalErrorKeyPrefixBuilder r))) w"
    using Ok by (simp add: ep_getFatalErrors_def streaming_def handle_apply s)
  then show ?thesis using assms
    by (auto simp: p authForNamedWorkflow_def intro!: u named.denied by_workflow.denied by_execution.denied by_instance.denied split: if_splits)
qed (simp_all add: ep_getFatalErrors_def silent_def streaming_def handle_apply rd.rel_refl)

lemma denied_streams:
  assumes "cache_coherent w"
  shows "\<not> permitted A cx w (GetWorkflowVersions n) \<Longrightarrow> refused w (endpoint A E cx (GetWorkflowVersions n) w)"
    "\<not> permitted A cx w (GetInstanceStatus i) \<Longrightarrow> refused w (endpoint A E cx (GetInstanceStatus i) w)"
    "\<not> permitted A cx w ListWorkflowsRequest \<Longrightarrow> refused w (endpoint A E cx ListWorkflowsRequest w)"
    "\<not> permitted A cx w (GetHistory i) \<Longrightarrow> refused w (endpoint A E cx (GetHistory i) w)"
    "\<not> permitted A cx w ListExecutable \<Longrightarrow> refused w (endpoint A E cx ListExecutable w)"
    "\<not> permitted A cx w (GetFatalErrorsRequest r) \<Longrightarrow> refused w (endpoint A E cx (GetFatalErrorsRequest r) w)"
  using assms
  by (auto simp: stream_endpoints authForNamedWorkflow_def authForNonWorkflow_def simp del: permitted.simps(21)
      intro!: refused_stream by_instance.denied_stream named.denied_stream denied_fatal)

text \<open>C8. A request whose caller is not permitted, by the workflow that the job, the execution, the
  instance or the definition it names belongs to, is refused: nothing is stored, published or
  returned, and only the workflow cache may change, for every endpoint that asks for an
  authorisation and stops when it fails.\<close>

theorem denied_request:
  assumes "cache_coherent w" "\<not> permitted A cx w req"
  shows "refused w (endpoint A E cx req w)"
  using assms
proof (cases req)
  case (GetWorkflowVersions n)
  then show ?thesis using denied_streams(1) assms by blast
next
  case (GetInstanceStatus i)
  then show ?thesis using denied_streams(2) assms by blast
next
  case ListWorkflowsRequest
  then show ?thesis using denied_streams(3) assms by blast
next
  case (GetHistory i)
  then show ?thesis using denied_streams(4) assms by blast
next
  case ListExecutable
  then show ?thesis using denied_streams(5) assms by blast
next
  case (GetFatalErrorsRequest r)
  then show ?thesis using denied_streams(6) assms by blast
qed (auto simp: job_endpoints instance_endpoints named_endpoints ep_getJob_def ep_listExecutionProcesses_def
        ep_storeWorkflow_def ep_handleWorkflowFatalError_def ep_retryActivity_def ep_versionInfo_def simp del: panic_apply
        intro!: refused_answer by_job.denied by_execution.denied by_instance.denied named.denied bare_job harmless_panic
          harmless_lift denied_message
        split: option.splits)

section \<open>Who is not asked\<close>

text \<open>A launch is authorised by the id of the process: what the workflow of the process allows is
  not asked.\<close>

lemma launch_asks_process:
  "authorize A cx i = Ok () \<Longrightarrow> ep_launchProcess A E cx i vrs hs = Launch E i vrs hs"
  by (simp add: ep_launchProcess_def authForNamedWorkflow_def authorized_def fun_eq_iff bnd_apply handle_apply)

text \<open>A message with a correlation key is published for any caller.\<close>

lemma message_unchecked:
  assumes "reliable w" "key \<noteq> []"
  shows "\<exists>w' m. ep_sendMessage A E cx n key vrs w = (Ok ([], []), w') \<and> published w' = published w @ [m] \<and>
     pm_Payload m = PMessage \<lparr> mi_Name = n, mi_CorrelationKey = key, mi_Vars = vrs \<rparr>"
  using assms by (simp add: ep_sendMessage_def PublishMsg_def bnd_apply)

text \<open>The executions of a workflow are listed for a caller who is not authorised.\<close>

lemma listing_unauthorised:
  assumes "authorize A cx n = Err ErrApiAuthZFail" "ListExecutions n w = (Ok (res, []), w')"
  shows "ep_listExecution A E cx n w = (Ok (res, [ErrWorkflowFatal ErrApiAuthZFail None]), w')"
  using assms by (simp add: ep_listExecution_def authForNamedWorkflow_def authorized_def handle_apply bnd_apply)

text \<open>A request for fatal errors whose only parameter is a wildcard passes validation and panics.\<close>

lemma wildcard_panics:
  "ep_getFatalErrors A E cx \<lparr> fr_WfName = ''*'', fr_WfId = [], fr_ExecutionId = [], fr_ProcessInstanceId = [] \<rparr> w = (Panic, w)"
  by (simp add: ep_getFatalErrors_def validateGetFatalErrorRequest_def streaming_def handle_apply)

text \<open>Deprecating a task by its name leaves every specification as it was.\<close>

lemma deprecate_by_name:
  assumes "reliable w" "authorize A cx [] = Ok ()" "GetTaskSpecUsage E [n] w = (Ok usage, w1)" "reliable w1" "kvTaskSpec w1 = kvTaskSpec w"
    and "ur_ExecutingWorkflow usage = []" "ur_ExecutingProcessInstance usage = []" "u \<noteq> n"
  shows "\<exists>w'. ep_deprecateServiceTask A E cx n w = (Ok (usage, True), w') \<and> kv_get (kvTaskSpec w') u = kv_get (kvTaskSpec w) u"
proof -
  obtain w' where w': "DeprecateTaskSpec [n] w1 = (Ok (), w')" "\<forall>v. v \<noteq> n \<longrightarrow> kv_get (kvTaskSpec w') v = kv_get (kvTaskSpec w1) v"
    using DeprecateTaskSpec_one [OF assms(4), of n] by auto
  then show ?thesis using assms
    by (intro exI [of _ w']) (simp add: ep_deprecateServiceTask_def authForNonWorkflow_def authorized_def bnd_apply handle_apply)
qed

end
