(* ===== verification/Headers.thy ===== *)
theory Headers
  imports Api
begin

text \<open>
  The headers of a NATS message and the values a context carries, \<open>common/header/header.go\<close>.  A
  header is an association list with the first value of every name, which is what \<open>Get\<close> reads;
  names are compared as they are written.

  The values that a caller puts into its context are the ones the other side reads from the
  message, whatever other headers the message has.
\<close>

section \<open>Values and headers\<close>

definition natsSharHeader :: string where "natsSharHeader = ''Shar-Header''"
definition NatsVersionHeader :: string where "NatsVersionHeader = ''Shar-Version''"
definition SharNamespace :: string where "SharNamespace = ''Shar-Namespace''"
definition NatsCompatHeader :: string where "NatsCompatHeader = ''Shar-Compat''"
definition CorrelationHeader :: string where "CorrelationHeader = ''cid''"

definition hdrGet :: "(string \<times> string) list \<Rightarrow> string \<Rightarrow> string" where
  "hdrGet hdr k = alist_get hdr [] k"

definition hdrAdd :: "string \<Rightarrow> string \<Rightarrow> (string \<times> string) list \<Rightarrow> (string \<times> string) list" where
  "hdrAdd k v hdr = (case map_of hdr k of None \<Rightarrow> AList.update k v hdr | Some _ \<Rightarrow> hdr)"

definition prefixSharHeader :: "string \<Rightarrow> string" where
  "prefixSharHeader key = natsSharHeader @ ''_'' @ key"

definition suffixOfSharHeader :: "string \<Rightarrow> string" where
  "suffixOfSharHeader key = TrimPrefix key (natsSharHeader @ ''_'')"

definition toMsg :: "env \<Rightarrow> (string \<times> string) list \<Rightarrow> (string \<times> string) list \<Rightarrow> (string \<times> string) list" where
  "toMsg E vals hdr = fold (\<lambda>(k, v). AList.update (prefixSharHeader k) v) (rangeMap (map_order E 22) vals) hdr"

definition fromMsg :: "env \<Rightarrow> (string \<times> string) list \<Rightarrow> (string \<times> string) list" where
  "fromMsg E hdr =
     fold (\<lambda>(k, v) m. if HasPrefix k natsSharHeader then AList.update (suffixOfSharHeader k) v m else m)
       (rangeMap (map_order E 23) hdr) []"

text \<open>The correlation id of the context, when it has one, is added.\<close>

definition FromCtxToMsgHeader :: "env \<Rightarrow> (string \<times> string) list \<Rightarrow> string option \<Rightarrow> (string \<times> string) list \<Rightarrow>
    (goerr, (string \<times> string) list) res" where
  "FromCtxToMsgHeader E vals cid hdr =
     (let hdr = toMsg E vals hdr
      in case cid of None \<Rightarrow> Err ErrMissingCorrelation | Some c \<Rightarrow> Ok (hdrAdd CorrelationHeader c hdr))"

definition FromMsgHeaderToCtx :: "env \<Rightarrow> (string \<times> string) list \<Rightarrow> (goerr, (string \<times> string) list \<times> string) res" where
  "FromMsgHeaderToCtx E hdr = Ok (fromMsg E hdr, hdrGet hdr CorrelationHeader)"

section \<open>Properties\<close>

lemma suffix_prefix [simp]: "suffixOfSharHeader (prefixSharHeader k) = k"
  by (simp add: suffixOfSharHeader_def prefixSharHeader_def TrimPrefix_def HasPrefix_def natsSharHeader_def)

lemma prefix_inj [simp]: "prefixSharHeader k = prefixSharHeader k' \<longleftrightarrow> k = k'"
  by (simp add: prefixSharHeader_def)

lemma prefix_shar [simp]: "HasPrefix (prefixSharHeader k) natsSharHeader"
  by (simp add: prefixSharHeader_def)

text \<open>The names of a message that are values are the ones with the prefix.\<close>

definition shar_only :: "(string \<times> string) list \<Rightarrow> bool" where
  "shar_only hdr \<longleftrightarrow> (\<forall>k \<in> fst ` set hdr. HasPrefix k natsSharHeader \<longrightarrow> (\<exists>k'. k = prefixSharHeader k'))"

lemma map_of_fold_set:
  "distinct (map fst vs) \<Longrightarrow> inj f \<Longrightarrow>
     map_of (fold (\<lambda>(k, v). AList.update (f k) v) vs hdr) =
       (\<lambda>x. if \<exists>k \<in> fst ` set vs. x = f k then map_of vs (inv f x) else map_of hdr x)"
proof (induction vs arbitrary: hdr)
  case Nil
  then show ?case by simp
next
  case (Cons kv vs)
  obtain k v where "kv = (k, v)" by force
  with Cons.prems have d: "k \<notin> fst ` set vs" "map_of vs k = None" "inj f" "inv f (f k) = k"
    by (auto simp: map_of_eq_None_iff)
  show ?case using Cons d \<open>kv = (k, v)\<close> by (auto simp: fun_eq_iff inj_eq)
qed

lemma map_of_fromMsg:
  assumes "ranges_ok E" "distinct (map fst hdr)" "shar_only hdr"
  shows "map_of (fromMsg E hdr) k = map_of hdr (prefixSharHeader k)"
proof -
  have o: "mset (map_order E 23 (map fst hdr)) = mset (map fst hdr)" using assms(1) by (simp add: ranges_ok_def)
  let ?r = "rangeMap (map_order E 23) hdr"
  have r: "distinct (map fst ?r)" "map_of ?r = map_of hdr" "set ?r = set hdr"
    using distinct_rangeMap [of "map_order E 23" hdr] map_of_rangeMap [of "map_order E 23" hdr]
      set_rangeMap [of "map_order E 23" hdr] o assms(2) by auto
  have "map_of (fold (\<lambda>(k, v) m. if HasPrefix k natsSharHeader then AList.update (suffixOfSharHeader k) v m else m) vs m) k =
      (case map_of vs (prefixSharHeader k) of Some v \<Rightarrow> Some v | None \<Rightarrow> map_of m k)"
    if "distinct (map fst vs)" "\<forall>k \<in> fst ` set vs. HasPrefix k natsSharHeader \<longrightarrow> (\<exists>k'. k = prefixSharHeader k')" for vs m
    using that
  proof (induction vs arbitrary: m)
    case (Cons kv vs)
    obtain x v where x: "kv = (x, v)" by force
    show ?case
    proof (cases "HasPrefix x natsSharHeader")
      case True
      then obtain y where "x = prefixSharHeader y" using Cons.prems x by auto
      moreover from this have "map_of vs (prefixSharHeader y) = None" using Cons.prems x by (simp add: map_of_eq_None_iff)
      ultimately show ?thesis using Cons.IH Cons.prems x by (auto split: option.splits)
    next
      case False
      moreover have "x \<noteq> prefixSharHeader k" using False prefix_shar by blast
      ultimately show ?thesis using Cons x by simp
    qed
  qed simp
  from this [of ?r "[]"] r assms(3) show ?thesis by (simp add: fromMsg_def shar_only_def split: option.splits)
qed

lemma toMsg_spec:
  assumes "ranges_ok E" "distinct (map fst vals)"
  shows "map_of (toMsg E vals []) (prefixSharHeader k) = map_of vals k"
    and "\<not> HasPrefix x natsSharHeader \<Longrightarrow> map_of (toMsg E vals []) x = None"
    and "distinct (map fst (toMsg E vals []))" "shar_only (toMsg E vals [])"
proof -
  let ?r = "rangeMap (map_order E 22) vals"
  have o: "mset (map_order E 22 (map fst vals)) = mset (map fst vals)" using assms(1) by (simp add: ranges_ok_def)
  then have r: "distinct (map fst ?r)" "map_of ?r = map_of vals" "set ?r = set vals"
    using distinct_rangeMap [of "map_order E 22" vals] map_of_rangeMap [of "map_order E 22" vals]
      set_rangeMap [of "map_order E 22" vals] assms(2) by auto
  have i: "inj prefixSharHeader" by (simp add: inj_def)
  have m: "map_of (toMsg E vals []) =
      (\<lambda>x. if \<exists>k \<in> fst ` set vals. x = prefixSharHeader k then map_of vals (inv prefixSharHeader x) else None)"
    unfolding toMsg_def map_of_fold_set [OF r(1) i] by (auto simp: r fun_eq_iff)
  then show "map_of (toMsg E vals []) (prefixSharHeader k) = map_of vals k"
    using i by (cases "map_of vals k") (force dest: map_of_SomeD)+
  show "\<not> HasPrefix x natsSharHeader \<Longrightarrow> map_of (toMsg E vals []) x = None"
    using m prefix_shar by auto
  show "distinct (map fst (toMsg E vals []))" unfolding toMsg_def
    by (rule fold_invariant [where P = "\<lambda>m. distinct (map fst m)" and Q = "\<lambda>_. True"]) (auto simp: distinct_update)
  show "shar_only (toMsg E vals [])" unfolding shar_only_def
  proof (intro ballI impI)
    fix k assume "k \<in> fst ` set (toMsg E vals [])"
    then have "map_of (toMsg E vals []) k \<noteq> None" by (simp add: map_of_eq_None_iff)
    then show "\<exists>k'. k = prefixSharHeader k'" using m by (auto split: if_splits)
  qed
qed

lemma shar_only_update: "shar_only hdr \<Longrightarrow> \<not> HasPrefix k natsSharHeader \<Longrightarrow> shar_only (AList.update k v hdr)"
  unfolding shar_only_def dom_update by blast

lemma hdrAdd_keeps:
  assumes "\<not> HasPrefix k natsSharHeader"
  shows "distinct (map fst hdr) \<Longrightarrow> distinct (map fst (hdrAdd k v hdr))" "shar_only hdr \<Longrightarrow> shar_only (hdrAdd k v hdr)"
    "map_of (hdrAdd k v hdr) (prefixSharHeader x) = map_of hdr (prefixSharHeader x)"
proof -
  have "k \<noteq> prefixSharHeader x" using assms prefix_shar by blast
  then show "map_of (hdrAdd k v hdr) (prefixSharHeader x) = map_of hdr (prefixSharHeader x)"
    by (simp add: hdrAdd_def split: option.splits)
qed (use assms in \<open>simp_all add: hdrAdd_def distinct_update shar_only_update split: option.splits\<close>)

end
