(* ===== verification/Listener.thy ===== *)
theory Listener
  imports Access Headers
begin

text \<open>
  How a request reaches its endpoint: \<open>server/api/listener.go\<close>.  A message is refused when the
  version of its sender is not compatible; otherwise it is decoded, its endpoint is called, and what
  that returns is sent back.  The middleware of the listener is telemetry.

  The lemmas show that a sender with another version has no effect, that with panic recovery a
  request is answered whatever its endpoint does, and that this does not hold for the endpoints
  that stream their results.
\<close>

definition APIGetVersionInfo :: string where "APIGetVersionInfo = ''WORKFLOW.API.GetVersionInfo''"

text \<open>A message as the library delivers it, with the request that its data decodes to, if it does.\<close>

record api_msg =
  am_Subject :: string
  am_Header :: "(string \<times> string) list"
  am_Request :: "api_request option"

text \<open>What is sent back: a response, an error with its code, the end of a stream, or nothing.\<close>

datatype api_reply = Answered api_response | Failed nat | Ended | Unanswered

definition codeUnknown :: nat where "codeUnknown = 2"
definition codeInvalidArgument :: nat where "codeInvalidArgument = 3"
definition codePermissionDenied :: nat where "codePermissionDenied = 7"
definition codeFailedPrecondition :: nat where "codeFailedPrecondition = 9"
definition codeInternal :: nat where "codeInternal = 13"

definition errorResponse :: "nat \<Rightarrow> api_reply act" where
  "errorResponse code = handle io (\<lambda>_. ret Unanswered) (\<lambda>_. ret (Failed code))"

definition recoverAPIpanic :: "bool \<Rightarrow> api_reply act \<Rightarrow> api_reply act" where
  "recoverAPIpanic panicRecovery m = (\<lambda>w. case m w of
       (Panic, w') \<Rightarrow> if panicRecovery then errorResponse codeInternal w' else (Panic, w')
     | r \<Rightarrow> r)"

definition callAPI :: "bool \<Rightarrow> api \<Rightarrow> env \<Rightarrow> api_msg \<Rightarrow> api_reply act" where
  "callAPI panicRecovery A E msg =
     recoverAPIpanic panicRecovery
       (case am_Request msg of
          None \<Rightarrow> errorResponse codeInvalidArgument
        | Some req \<Rightarrow>
            (case FromMsgHeaderToCtx E (am_Header msg) of
               Err e \<Rightarrow> ret Unanswered
             | Panic \<Rightarrow> panic
             | Ok (hs, cid) \<Rightarrow>
                 handle (endpoint A E \<lparr> cx_Headers = hs, cx_APIFunc = am_Subject msg \<rparr> req)
                   (\<lambda>e. errorResponse (if IsWorkflowFatal e then codeInternal else codeUnknown))
                   (\<lambda>res. handle io (\<lambda>_. errorResponse codeFailedPrecondition) (\<lambda>_. ret (Answered res)))))"

text \<open>The endpoint of a streaming call runs in its own goroutine, whose panics nobody recovers.  The
  reply holds all that the endpoint sends; the stream ends at the first error, and which of
  the results are sent before it depends on the scheduler.\<close>

definition callAPIReturnStream :: "api \<Rightarrow> env \<Rightarrow> api_msg \<Rightarrow> api_reply act" where
  "callAPIReturnStream A E msg =
     (case am_Request msg of
        None \<Rightarrow> errorResponse codeInvalidArgument
      | Some req \<Rightarrow>
          (case FromMsgHeaderToCtx E (am_Header msg) of
             Err e \<Rightarrow> ret Ended
           | Panic \<Rightarrow> panic
           | Ok (hs, cid) \<Rightarrow>
               handle (endpoint A E \<lparr> cx_Headers = hs, cx_APIFunc = am_Subject msg \<rparr> req)
                 (\<lambda>e. ret (Failed codeInternal)) (\<lambda>res. ret (Answered res))))"

fun streams :: "api_request \<Rightarrow> bool" where
  "streams (GetWorkflowVersions n) = True"
| "streams (GetInstanceStatus i) = True"
| "streams ListWorkflowsRequest = True"
| "streams (ListExecution n) = True"
| "streams (GetHistory i) = True"
| "streams ListExecutable = True"
| "streams (GetFatalErrorsRequest r) = True"
| "streams _ = False"

definition compatible :: "api \<Rightarrow> api_msg \<Rightarrow> bool" where
  "compatible A msg \<longleftrightarrow> am_Subject msg = APIGetVersionInfo \<or>
     (case ap_NewVersion A (hdrGet (am_Header msg) NatsCompatHeader) of Ok v \<Rightarrow> fst (IsCompatible A v) | _ \<Rightarrow> False)"

definition listen :: "bool \<Rightarrow> api \<Rightarrow> env \<Rightarrow> api_msg \<Rightarrow> api_reply act" where
  "listen panicRecovery A E msg =
     (if \<not> compatible A msg then errorResponse codePermissionDenied
      else if (case am_Request msg of Some req \<Rightarrow> streams req | None \<Rightarrow> False) then callAPIReturnStream A E msg
      else callAPI panicRecovery A E msg)"

section \<open>Properties\<close>

lemma errorResponse_never [simp]: "errorResponse c w \<noteq> (Err e, w')" "errorResponse c w \<noteq> (Panic, w')"
  by (auto simp: errorResponse_def handle_apply io_def split: list.splits option.splits)

lemma errorResponse_total: "\<exists>r. fst (errorResponse c w) = Ok r"
  by (cases "fst (errorResponse c w)") (metis errorResponse_never prod.collapse)+

lemma listen_incompatible:
  assumes "\<not> compatible A msg"
  shows "reads w (snd (listen b A E msg w)) \<and> fst (listen b A E msg w) \<in> {Ok (Failed codePermissionDenied), Ok Unanswered}"
proof -
  have "along reads (errorResponse codePermissionDenied)" unfolding errorResponse_def by (intro along_intros)
  then show ?thesis using assms
    by (auto simp: listen_def along_def errorResponse_def handle_apply split: prod.splits res.splits dest!: sym [of "(_, _)"])
       (auto simp: io_def split: list.splits option.splits)
qed

lemma recover_answers: "(\<And>e w'. m w \<noteq> (Err e, w')) \<Longrightarrow> \<exists>r. fst (recoverAPIpanic True m w) = Ok r"
  using errorResponse_total by (cases "m w"; cases "fst (m w)") (auto simp: recoverAPIpanic_def)

lemma callAPI_answers: "\<exists>r. fst (callAPI True A E msg w) = Ok r"
  unfolding callAPI_def
  by (rule recover_answers) (auto simp: FromMsgHeaderToCtx_def handle_apply io_def split: option.splits prod.splits res.splits list.splits)

lemma listen_never_errs: "listen b A E msg w \<noteq> (Err e, w')"
proof -
  have "callAPI b A E msg w \<noteq> (Err e, w')" unfolding callAPI_def recoverAPIpanic_def
    by (auto simp: FromMsgHeaderToCtx_def handle_apply io_def split: option.splits prod.splits res.splits list.splits)
  moreover have "callAPIReturnStream A E msg w \<noteq> (Err e, w')" unfolding callAPIReturnStream_def
    by (auto simp: FromMsgHeaderToCtx_def handle_apply split: option.splits prod.splits res.splits)
  ultimately show ?thesis by (simp add: listen_def)
qed

text \<open>A caller that is not authenticated can stop the server: no panic recovery covers a stream.\<close>

lemma stream_crashes:
  assumes "compatible A msg"
    and "am_Request msg = Some (GetFatalErrorsRequest \<lparr> fr_WfName = ''*'', fr_WfId = [], fr_ExecutionId = [], fr_ProcessInstanceId = [] \<rparr>)"
  shows "listen True A E msg w = (Panic, w)"
  using assms by (simp add: listen_def callAPIReturnStream_def FromMsgHeaderToCtx_def answer_def handle_apply bnd_apply wildcard_panics)

end
