(* ===== verification/Witness_Api.thy ===== *)
theory Witness_Api
  imports Witness_Registration Listener
begin

text \<open>
  A server whose users may only touch the workflow \<open>public\<close>, and a task specification that passes
  validation.
\<close>

definition A0 :: api where
  "A0 = \<lparr> ap_AuthN = (\<lambda>hs. case map_of hs ''user'' of None \<Rightarrow> Ok (False, []) | Some u \<Rightarrow> Ok (True, u)),
     ap_AuthZ = Some (\<lambda>hs fn name user. Ok (name = ''public'' \<or> user = ''admin'')), ap_Headers = (\<lambda>_. Ok []),
     ap_NewVersion = Ok, ap_Equal = (=), ap_GreaterThan = (\<noteq>), ap_LessThan = (\<lambda>_ _. False), ap_Version = ''v1.1.503'',
     ap_default = (\<lambda>_. ([], [])) \<rparr>"

definition cx0 :: api_ctx where
  "cx0 = \<lparr> cx_Headers = [(''user'', ''eve'')], cx_APIFunc = ''WORKFLOW.API.StoreWorkflow'' \<rparr>"

theorem denied_request_witness:
  "refused offering (endpoint A0 E0 cx0 (StoreWorkflow (Some wf_pay)) offering) \<and>
   authorize A0 (cx0\<lparr> cx_Headers := [(''user'', ''admin'')] \<rparr>) (wf_Name wf_pay) = Ok ()"
proof -
  have "\<not> permitted A0 cx0 offering (StoreWorkflow (Some wf_pay))"
    by (simp add: authorize_def authenticate_def A0_def cx0_def wf_pay_def)
  moreover have "cache_coherent offering" by (simp add: cache_coherent_def)
  ultimately show ?thesis using denied_request [of offering A0 cx0 "StoreWorkflow (Some wf_pay)" E0]
    by (simp add: authorize_def authenticate_def A0_def cx0_def)
qed

definition ship_spec :: task_spec where
  "ship_spec = \<lparr> ts_Version = ''1.0'', ts_Kind = ''ServiceTask'',
     ts_Metadata = Some \<lparr> tm_Uid = [], tm_Type = ''Ship'', tm_Version = ''1.0.0'', tm_Short = ''ships'', tm_Description = [] \<rparr>,
     ts_Behaviour = ts_Behaviour pay_spec, ts_Parameters = Some \<lparr> tp_Input = [], tp_Output = [] \<rparr>, ts_Events = None \<rparr>"

theorem validated_specs_safe_witness:
  "\<exists>uid w'. PutTaskSpec E0 ship_spec empty_world = (Ok uid, w') \<and> fst (LoadWorkflow E0 wf_pay w') \<noteq> Panic"
proof -
  have "ValidateTaskSpec E0 ship_spec = Ok ()" by code_simp
  moreover have "reliable empty_world" "specs_sound empty_world" "libraries_calm E0"
    by (simp_all add: empty_world_def specs_sound_def libraries_calm_def)
  ultimately show ?thesis using validated_specs_safe [of empty_world E0 ship_spec wf_pay] by auto
qed

end
