(* ===== verification/Job_Processing.thy ===== *)
theory Job_Processing
  imports Headers Handlers
begin

text \<open>
  How a job is executed, \<open>internal/common/client/client.go\<close>: the function that a client passes to
  the processing loop for its service tasks and message senders, and that the server passes for
  its mock services.  What it calls is given by \<open>process_params\<close>, so it is stated for any state.

  The loop that keeps a long running task from being delivered again, the counter of running
  tasks and the span of a task are not represented.  A panic of the task is a runtime error.
\<close>

section \<open>The parameters\<close>

text \<open>A service function returns variables, which may be nil, and an error, which may be nil; the others
  return an error as the error of the operation.\<close>

record ('w, 'f, 'g) process_params =
  pp_GetJob :: "string \<Rightarrow> ('w, goerr, workflow_state) op"
  pp_SvcFnExecutor :: "string \<Rightarrow> workflow_state \<Rightarrow> 'f \<Rightarrow> vmap \<Rightarrow> ('w, goerr, vmap option \<times> goerr option) op"
  pp_MsgFnExecutor :: "string \<Rightarrow> workflow_state \<Rightarrow> 'g \<Rightarrow> vmap \<Rightarrow> ('w, goerr, unit) op"
  pp_SvcFnLocator :: "workflow_state \<Rightarrow> ('w, goerr, 'f) op"
  pp_MsgFnLocator :: "workflow_state \<Rightarrow> ('w, goerr, 'g) op"
  pp_SvcTaskCompleter :: "string \<Rightarrow> vmap option \<Rightarrow> bool \<Rightarrow> ('w, goerr, unit) op"
  pp_MsgSendCompleter :: "string \<Rightarrow> vmap \<Rightarrow> ('w, goerr, unit) op"
  pp_WfErrorHandler :: "string \<Rightarrow> string \<Rightarrow> bytes \<Rightarrow> ('w, goerr, bool) op"
  pp_PiErrorCanceller :: "string \<Rightarrow> wf_error option \<Rightarrow> ('w, goerr, unit) op"

text \<open>A delivered message: its headers, the state in its data, if that can be decoded, and how often it was
  delivered, if its metadata can be read.\<close>

record work_msg =
  wm_Subject :: string
  wm_Header :: "(string \<times> string) list"
  wm_State :: "workflow_state option"
  wm_NumDelivered :: "nat option"

section \<open>Execution\<close>

text \<open>Encoding nil variables is a nil dereference.\<close>

definition encodeVars :: "env \<Rightarrow> vmap option \<Rightarrow> (goerr, bytes) res" where
  "encodeVars E vs = (case vs of None \<Rightarrow> Panic | Some m \<Rightarrow> Encode E m)"

text \<open>A message with the header of a version must be from a compatible server.\<close>

definition versionError :: "api \<Rightarrow> string \<Rightarrow> goerr option" where
  "versionError A sharCompat =
     (if sharCompat = [] then None
      else case ap_NewVersion A sharCompat of
             Ok sVer \<Rightarrow> if \<not> fst (IsCompatible A sVer) then Some (ErrOther ''compatibility issue'') else None
           | Err e \<Rightarrow> Some e
           | Panic \<Rightarrow> Some (ErrOther ''compatibility issue''))"

text \<open>The service function is called with its panics recovered, unless recovery is switched off.  The
  text of the error names what the message executes.\<close>

definition recoverTask :: "bool \<Rightarrow> workflow_state \<Rightarrow> ('w, goerr, vmap option \<times> goerr option) op \<Rightarrow>
    ('w, goerr, vmap option \<times> goerr option) op" where
  "recoverTask noRecovery ut m = (\<lambda>w. case m w of
       (Panic, w') \<Rightarrow>
         if noRecovery \<or> ws_Execute ut = None then (Panic, w')
         else (Ok (Some [], Some (ErrWorkflowFatal (ErrOther ''terminated in panic'') (Some ut))), w')
     | r \<Rightarrow> r)"

text \<open>An error of the service function.  Only a pointer to a workflow error is recognised.\<close>

definition taskError :: "env \<Rightarrow> ('w, 'f, 'g) process_params \<Rightarrow> string \<Rightarrow> vmap option \<Rightarrow> goerr \<Rightarrow> ('w, goerr, ack_err) op" where
  "taskError E P trackingID newVars err =
     (case err of
        WorkflowErrorRef code \<Rightarrow>
          (case encodeVars E newVars of
             Err e \<Rightarrow> ret (True, Some (ErrWorkflowFatal e None))
           | Panic \<Rightarrow> panic
           | Ok v \<Rightarrow>
               handle (pp_WfErrorHandler P trackingID code v)
                 (\<lambda>e. ret (True, Some (ErrWorkflowFatal e None))) (\<lambda>handled. ret (code \<noteq> [], Some err)))
      | _ \<Rightarrow> ret (False, Some err))"

text \<open>The outcome of the completion.  The name of the error is the text of the response.\<close>

definition taskCompleted :: "('w, 'f, 'g) process_params \<Rightarrow> workflow_state \<Rightarrow> goerr \<Rightarrow> ('w, goerr, ack_err) op" where
  "taskCompleted P ut err =
     (case err of
        ApiError code \<Rightarrow>
          if code = 13 then
            handle (pp_PiErrorCanceller P (ws_ProcessInstanceId ut) (Some \<lparr> er_Id = [], er_Name = [], er_Code = ''client-13'' \<rparr>))
              (\<lambda>_. ret (True, None)) (\<lambda>_. ret (True, None))
          else ret (False, Some err)
      | _ \<Rightarrow> if IsWorkflowFatal err then ret (True, Some err) else ret (False, Some err))"

definition executeService :: "env \<Rightarrow> bool \<Rightarrow> ('w, 'f, 'g) process_params \<Rightarrow> workflow_state \<Rightarrow> ('w, goerr, ack_err) op" where
  "executeService E noRecovery P ut =
     (let trackingID = TID (ws_Id ut)
      in handle (pp_GetJob P trackingID) (\<lambda>e. ret (False, Some e)) (\<lambda>job.
         handle (pp_SvcFnLocator P job) (\<lambda>_. ret (False, Some (ErrOther ''service task locator''))) (\<lambda>svcFn.
         handle (lift_res (Decode E [] (ws_Vars job)))
           (\<lambda>e. if ws_Execute job = None then panic else ret (False, Some e)) (\<lambda>dv.
         bnd (recoverTask noRecovery ut (pp_SvcFnExecutor P trackingID job svcFn dv)) (\<lambda>(newVars, err).
         case err of
           Some e \<Rightarrow> taskError E P trackingID newVars e
         | None \<Rightarrow>
             handle (pp_SvcTaskCompleter P trackingID newVars (ws_State job = compensating))
               (taskCompleted P ut) (\<lambda>_. ret (True, None)))))))"

text \<open>A fatal error of the completion of a message is logged, with what the job executes.\<close>

definition executeSender :: "env \<Rightarrow> ('w, 'f, 'g) process_params \<Rightarrow> workflow_state \<Rightarrow> ('w, goerr, ack_err) op" where
  "executeSender E P ut =
     (let trackingID = TID (ws_Id ut)
      in handle (pp_GetJob P trackingID) (\<lambda>e. ret (False, Some e)) (\<lambda>job.
         handle (pp_MsgFnLocator P job) (\<lambda>_. ret (False, Some (ErrOther ''msgFn locator''))) (\<lambda>msgFn.
         handle (lift_res (Decode E [] (ws_Vars job)))
           (\<lambda>e. if ws_Execute job = None then panic else ret (False, Some (ErrWorkflowFatal e None))) (\<lambda>dv.
         handle (pp_MsgFnExecutor P trackingID job msgFn dv) (\<lambda>e. ret (False, Some e)) (\<lambda>_.
         handle (pp_MsgSendCompleter P trackingID [])
           (\<lambda>e. if IsWorkflowFatal e then if ws_Execute job = None then panic else ret (True, None)
                else ret (False, Some e)) (\<lambda>_. ret (True, None)))))))"

text \<open>Without a context, which the middleware may lose, the call ends in a panic after the version was
  checked.  The namespace of the message is the second part of its subject.\<close>

definition ClientProcessFn :: "api \<Rightarrow> env \<Rightarrow> bool \<Rightarrow> ('w, 'f, 'g) process_params option \<Rightarrow> work_msg \<Rightarrow> ('w, goerr, ack_err) op" where
  "ClientProcessFn A E noRecovery ctx msg =
     (case versionError A (hdrGet (wm_Header msg) NatsCompatHeader) of
        Some e \<Rightarrow> ret (False, Some e)
      | None \<Rightarrow>
          (case ctx of
             None \<Rightarrow> panic
           | Some P \<Rightarrow>
               if CHR ''.'' \<notin> set (wm_Subject msg) then panic
               else case wm_State msg of
                 None \<Rightarrow> ret (False, Some (ErrOther ''service task listener''))
               | Some ut \<Rightarrow>
                   if ws_ElementType ut = ServiceTask then executeService E noRecovery P ut
                   else if ws_ElementType ut = MessageIntermediateThrowEvent then executeSender E P ut
                   else ret (True, None)))"

section \<open>Properties\<close>

text \<open>A job whose function succeeds and whose completion is accepted is acknowledged. \<close>

lemma executeService_ok:
  assumes "pp_GetJob P (TID (ws_Id ut)) w = (Ok job, w1)" "pp_SvcFnLocator P job w1 = (Ok f, w2)"
    and "Decode E [] (ws_Vars job) = Ok dv" "pp_SvcFnExecutor P (TID (ws_Id ut)) job f dv w2 = (Ok (nv, None), w3)"
    and "pp_SvcTaskCompleter P (TID (ws_Id ut)) nv (ws_State job = compensating) w3 = (Ok (), w4)"
  shows "executeService E b P ut w = (Ok (True, None), w4)"
  using assms by (simp add: executeService_def Let_def handle_apply bnd_apply recoverTask_def)

text \<open>A panic of the function never reaches the loop: the message is acknowledged, and its state is what the
  fatal error is signalled with.\<close>

lemma executeService_panic:
  assumes "pp_GetJob P (TID (ws_Id ut)) w = (Ok job, w1)" "pp_SvcFnLocator P job w1 = (Ok f, w2)"
    and "Decode E [] (ws_Vars job) = Ok dv" "pp_SvcFnExecutor P (TID (ws_Id ut)) job f dv w2 = (Panic, w3)" "ws_Execute ut = Some x"
  shows "executeService E False P ut w = (Ok (False, Some (ErrWorkflowFatal (ErrOther ''terminated in panic'') (Some ut))), w3)"
  using assms by (simp add: executeService_def Let_def handle_apply bnd_apply recoverTask_def taskError_def)

text \<open>A workflow error that was handled, so that its job is gone, does not end the message of the job: the loop
  looks for a value of the error and the function returns a pointer, so the backoff is asked.\<close>

lemma workflow_error_retried: "settle sig True (ack, Some (WorkflowErrorRef code)) w = (Ok BackedOff, w)"
  by (simp add: settle_def)

text \<open>Variables that are nil are not recovered from, with an error or without.\<close>

lemma nil_vars_crash:
  assumes "pp_GetJob P (TID (ws_Id ut)) w = (Ok job, w1)" "pp_SvcFnLocator P job w1 = (Ok f, w2)"
    and "Decode E [] (ws_Vars job) = Ok dv" "pp_SvcFnExecutor P (TID (ws_Id ut)) job f dv w2 = (Ok (None, Some (WorkflowErrorRef code)), w3)"
  shows "executeService E b P ut w = (Panic, w3)"
  using assms by (simp add: executeService_def Let_def handle_apply bnd_apply recoverTask_def taskError_def encodeVars_def)

section \<open>Completion\<close>

text \<open>A job of an active activity, with variables that pass the check of its element.\<close>

definition completes :: "env \<Rightarrow> world \<Rightarrow> workflow_state \<Rightarrow> bytes \<Rightarrow> bool" where
  "completes E w job ev \<longleftrightarrow> reliable w \<and> ws_State job \<noteq> compensating \<and>
     kv_get (kvHistory w) (historyKey (ws_ProcessInstanceId job) (ParentID (ws_Id job)) activityExecute) \<noteq> None \<and>
     (\<exists>wkf el. kv_get (kvDefinition w) (ws_WorkflowId job) = Some wkf \<and>
        map_of (ElementTable (map_order E 4) wkf) (ws_ElementId job) = Some el \<and> CheckVars E (job\<lparr> ws_Vars := ev \<rparr>) (el_data el) = Ok ())"

lemma completes_frame [simp]: "completes E (w\<lparr> sCache := k \<rparr>) job ev = completes E w job ev" "completes E (w\<lparr> nextId := n \<rparr>) job ev = completes E w job ev"
  by (simp_all add: completes_def)

lemma CompleteServiceTask_ok:
  "completes E w job ev \<Longrightarrow> ns_ok E \<Longrightarrow>
     CompleteServiceTask E job ev w = (Ok (), pubW E WorkflowJobServiceTaskComplete (job\<lparr> ws_Vars := ev \<rparr>) no_opts w)"
  by (auto simp: completes_def CompleteServiceTask_def checkedJob_def getElement_def bnd_apply handle_apply Let_def)

end
