(* ===== verification/Client.thy ===== *)
theory Client
  imports Listener Job_Processing
begin

text \<open>
  The client library: calls to the API (\<open>internal/client/api/call.go\<close>) and the functions of
  \<open>client/client.go\<close> that make them.  A call is delivered to the listener of a server, so a client
  operation acts on the state of the client and on the world of the server.  The parameters of
  every call are whether the server recovers from panics, its \<open>api\<close> and the environment; the
  namespace of the client is the one of the environment.  The middleware of a client is telemetry.

  A request that is lost, a reply that is lost and a server that stops are all a timeout for the
  caller of \<open>Call\<close>; \<open>CallReturnStream\<close> has no timeout, and its result is \<open>None\<close> when nothing ever
  comes back.
\<close>

section \<open>Clients\<close>

text \<open>What is handed to a service function: ids and, when compensating, the original variables.\<close>

record job_client =
  jc_jobID :: string
  jc_activityID :: string
  jc_processInstanceID :: string
  jc_executionID :: string
  jc_originalInputs :: "vmap option"
  jc_originalOutputs :: "vmap option"

record message_client =
  mc_jobID :: string
  mc_activityID :: string
  mc_processInstanceID :: string
  mc_executionID :: string

text \<open>A function that a client registers acts on the world.  The variables it returns may be nil.\<close>

type_synonym service_fn = "job_client \<Rightarrow> vmap \<Rightarrow> (vmap option \<times> goerr option) act"
type_synonym sender_fn = "message_client \<Rightarrow> vmap \<Rightarrow> goerr option act"
type_synonym terminate_fn = "vmap \<Rightarrow> wf_error option \<Rightarrow> cancellation_state \<Rightarrow> unit act"

text \<open>A definition is of a function over variables or of a typed one.\<close>

datatype 'f fn_def = ExecutionTypeVars 'f | ExecutionTypeTyped

record client =
  cl_id :: string
  cl_host :: string
  cl_ns :: string
  cl_SvcTasks :: "(string \<times> service_fn fn_def) list"
  cl_MsgSender :: "(string \<times> sender_fn fn_def) list"
  cl_listenTasks :: "string list"
  cl_msgListenTasks :: "string list"
  cl_proCompleteTasks :: "(string \<times> terminate_fn fn_def) list"
  cl_ExpectedCompatibleServerVersion :: "string option"
  cl_ExpectedServerVersion :: "string option"
  cl_version :: string
  cl_noRecovery :: bool
  cl_cache :: "(string \<times> workflow) list"

type_synonym 'a cact = "(client \<times> world, goerr, 'a) op"

definition on_world :: "'a act \<Rightarrow> 'a cact" where
  "on_world m = (\<lambda>(c, w). case m w of (r, w') \<Rightarrow> (r, (c, w')))"

definition on_client :: "(client \<Rightarrow> client) \<Rightarrow> unit cact" where
  "on_client f = (\<lambda>(c, w). (Ok (), (f c, w)))"

definition cl_asks :: "(client \<Rightarrow> 'a) \<Rightarrow> 'a cact" where
  "cl_asks f = (\<lambda>(c, w). (Ok (f c), (c, w)))"

section \<open>Calls\<close>

text \<open>The subject of every request.\<close>

fun api_subject :: "api_request \<Rightarrow> string" where
  "api_subject (StoreWorkflow m) = ''WORKFLOW.Api.StoreWorkflow''"
| "api_subject (CancelInstance i st err) = ''WORKFLOW.API.CancelProcessInstance''"
| "api_subject (LaunchProcess i vrs hs) = ''WORKFLOW.Api.LaunchProcess''"
| "api_subject (SendMessage n key vrs) = ''WORKFLOW.Api.SendMessage''"
| "api_subject (CompleteManual tid vrs) = ''WORKFLOW.Api.CompleteManualTask''"
| "api_subject (CompleteService tid vrs) = ''WORKFLOW.Api.CompleteServiceTask''"
| "api_subject (CompleteUser tid vrs) = ''WORKFLOW.Api.CompleteUserTask''"
| "api_subject (GetUserTask tid owner) = ''WORKFLOW.Api.GetUserTask''"
| "api_subject (GetJobRequest tid) = ''WORKFLOW.Api.GetJob''"
| "api_subject (HandleError tid code vrs) = ''WORKFLOW.Api.HandleWorkflowError''"
| "api_subject (HandleFatalError st) = ''WORKFLOW.Api.HandleWorkflowFatalError''"
| "api_subject (CompleteSendMessage tid vrs) = ''WORKFLOW.Api.CompleteSendMessageTask''"
| "api_subject (GetWorkflowRequest i) = ''WORKFLOW.Api.GetWorkflow''"
| "api_subject (GetVersionInfo v) = APIGetVersionInfo"
| "api_subject (RegisterTask td) = ''Workflow.Api.RegisterTask''"
| "api_subject (GetTaskSpec uid) = ''WORKFLOW.Api.GetTaskSpec''"
| "api_subject (DeprecateServiceTask n) = ''WORKFLOW.Api.DeprecateServiceTask''"
| "api_subject (GetSpecUsage i) = ''WORKFLOW.Api.GetTaskSpecUsage''"
| "api_subject (HeartbeatRequest r) = ''WORKFLOW.Api.Heartbeat''"
| "api_subject (LogRequest r) = ''WORKFLOW.Api.Log''"
| "api_subject (ResolveWorkflow m) = ''WORKFLOW.Api.ResolveWorkflow''"
| "api_subject (ListProcesses i) = ''WORKFLOW.Api.ListExecutionProcesses''"
| "api_subject (ListSpecUIDs d) = ''WORKFLOW.Api.ListTaskSpecUIDs''"
| "api_subject (GetSpecVersions n) = ''WORKFLOW.Api.GetTaskSpecVersions''"
| "api_subject (GetCompensationInputs i tid) = ''WORKFLOW.Api.GetCompensationInputVariables''"
| "api_subject (GetCompensationOutputs i tid) = ''WORKFLOW.Api.GetCompensationOutputVariables''"
| "api_subject (ListUserTasks owner) = ''WORKFLOW.Api.ListUserTaskIDs''"
| "api_subject (Retry st) = ''WORKFLOW.Api.Retry''"
| "api_subject (GetProcessHeaders i) = ''WORKFLOW.Api.GetProcessInstanceHeaders''"
| "api_subject (Disable n) = ''WORKFLOW.Api.APIDisableWorkflow''"
| "api_subject (Enable n) = ''WORKFLOW.Api.APIEnableWorkflow''"
| "api_subject (GetWorkflowVersions n) = ''WORKFLOW.Api.StreamWorkflowVersions''"
| "api_subject (GetInstanceStatus i) = ''WORKFLOW.Api.GetProcessInstanceStatus''"
| "api_subject ListWorkflowsRequest = ''WORKFLOW.Api.ListWorkflows''"
| "api_subject (ListExecution n) = ''WORKFLOW.Api.ListExecution''"
| "api_subject (GetHistory i) = ''WORKFLOW.Api.GetProcessHistory''"
| "api_subject ListExecutable = ''WORKFLOW.Api.APIListExecutableProcess''"
| "api_subject (GetFatalErrorsRequest r) = ''WORKFLOW.Api.GetFatalErrors''"

text \<open>The message of a call.  \<open>vals\<close> are the header values of the caller's context.\<close>

definition callMsg :: "env \<Rightarrow> client \<Rightarrow> (string \<times> string) list \<Rightarrow> string \<Rightarrow> api_request \<Rightarrow> (goerr, api_msg) res" where
  "callMsg E c vals cid req =
     bind_res (FromCtxToMsgHeader E vals (Some cid) []) (\<lambda>hdr.
     let hdr = hdrAdd SharNamespace (cl_ns c) hdr;
         hdr = hdrAdd NatsVersionHeader (cl_version c) hdr;
         hdr = hdrAdd NatsCompatHeader (case cl_ExpectedCompatibleServerVersion c of Some v \<Rightarrow> v | None \<Rightarrow> ''v0.0.0'') hdr
     in Ok \<lparr> am_Subject = api_subject req, am_Header = hdr, am_Request = Some req \<rparr>)"

definition callError :: "nat \<Rightarrow> goerr" where
  "callError code = (if code = codeInternal then ErrWorkflowFatal (ApiError code) None else ApiError code)"

definition timeout :: goerr where "timeout = ErrTransport ''API call''"

text \<open>A server that panics is gone before it answers.\<close>

definition request_reply :: "bool \<Rightarrow> api \<Rightarrow> env \<Rightarrow> api_msg \<Rightarrow> api_reply act" where
  "request_reply b A E msg = (\<lambda>w. case listen b A E msg w of (Panic, w') \<Rightarrow> (Ok Unanswered, w') | r \<Rightarrow> r)"

definition Call :: "bool \<Rightarrow> api \<Rightarrow> env \<Rightarrow> (string \<times> string) list \<Rightarrow> api_request \<Rightarrow> api_response cact" where
  "Call b A E vals req =
     bnd (on_world (newID E)) (\<lambda>cid.
     bnd (cl_asks (\<lambda>c. c)) (\<lambda>c.
     bnd (lift_res (callMsg E c vals cid req)) (\<lambda>msg.
     bnd (on_world io) (\<lambda>_.
     bnd (on_world (request_reply b A E msg)) (\<lambda>reply.
     case reply of
       Answered res \<Rightarrow> ret res
     | Failed code \<Rightarrow> fail (callError code)
     | Ended \<Rightarrow> fail timeout
     | Unanswered \<Rightarrow> fail timeout)))))"

text \<open>The results of a stream, or the error it ended with.\<close>

definition CallReturnStream :: "bool \<Rightarrow> api \<Rightarrow> env \<Rightarrow> (string \<times> string) list \<Rightarrow> api_request \<Rightarrow>
    (api_response \<Rightarrow> 'a list \<times> goerr list) \<Rightarrow> 'a list option cact" where
  "CallReturnStream b A E vals req results =
     bnd (on_world (newID E)) (\<lambda>cid.
     bnd (cl_asks (\<lambda>c. c)) (\<lambda>c.
     bnd (lift_res (callMsg E c vals cid req)) (\<lambda>msg.
     bnd (on_world io) (\<lambda>_.
     bnd (on_world (request_reply b A E msg)) (\<lambda>reply.
     case reply of
       Answered res \<Rightarrow> (case results res of (xs, []) \<Rightarrow> ret (Some xs) | (xs, e # es) \<Rightarrow> fail (ApiError codeInternal))
     | Failed code \<Rightarrow> fail (ApiError code)
     | Ended \<Rightarrow> ret (Some [])
     | Unanswered \<Rightarrow> ret None)))))"

section \<open>The functions of the client\<close>

definition undecodable :: "'a cact" where
  "undecodable = fail (ErrOther ''unmarshal proto for call API'')"

definition noResult :: "api_response \<Rightarrow> unit cact" where
  "noResult r = (case r of REmpty \<Rightarrow> ret () | _ \<Rightarrow> undecodable)"

definition aName :: "api_response \<Rightarrow> string cact" where
  "aName r = (case r of RName n \<Rightarrow> ret n | _ \<Rightarrow> undecodable)"

definition someNames :: "api_response \<Rightarrow> string list cact" where
  "someNames r = (case r of RNames ns \<Rightarrow> ret ns | _ \<Rightarrow> undecodable)"

definition someVars :: "api_response \<Rightarrow> bytes cact" where
  "someVars r = (case r of RVars vs \<Rightarrow> ret vs | _ \<Rightarrow> undecodable)"

definition c_DeprecateTaskSpec :: "bool \<Rightarrow> api \<Rightarrow> env \<Rightarrow> (string \<times> string) list \<Rightarrow> string \<Rightarrow> unit cact" where
  "c_DeprecateTaskSpec b A E vals name =
     bnd (Call b A E vals (DeprecateServiceTask name)) (\<lambda>r.
     case r of
       RDeprecated usage success \<Rightarrow> if \<not> success then fail ErrDeprecateServiceTaskInUse else ret ()
     | _ \<Rightarrow> undecodable)"

definition c_registerServiceTask :: "bool \<Rightarrow> api \<Rightarrow> env \<Rightarrow> (string \<times> string) list \<Rightarrow> task_spec \<Rightarrow> string cact" where
  "c_registerServiceTask b A E vals spec = bnd (Call b A E vals (RegisterTask (Some spec))) aName"

text \<open>The id is written to the metadata, a nil dereference when there is none.\<close>

definition c_StoreTask :: "bool \<Rightarrow> api \<Rightarrow> env \<Rightarrow> (string \<times> string) list \<Rightarrow> task_spec \<Rightarrow> task_spec cact" where
  "c_StoreTask b A E vals spec =
     bnd (c_registerServiceTask b A E vals spec) (\<lambda>uid.
     case ts_Metadata spec of
       None \<Rightarrow> panic
     | Some md \<Rightarrow> ret (spec\<lparr> ts_Metadata := Some (md\<lparr> tm_Uid := uid \<rparr>) \<rparr>))"

definition c_registerTaskFunction :: "env \<Rightarrow> task_spec \<Rightarrow> service_fn fn_def option \<Rightarrow> task_spec cact" where
  "c_registerTaskFunction E spec def =
     (case ts_Metadata spec of
        None \<Rightarrow> fail (ErrOther ''task metadata is nil'')
      | Some md \<Rightarrow>
          bnd (if tm_Uid md = [] then lift_res (CreateUID E spec) else ret (tm_Uid md)) (\<lambda>uid.
          let spec = spec\<lparr> ts_Metadata := Some (md\<lparr> tm_Uid := uid \<rparr>) \<rparr>
          in case def of
               None \<Rightarrow> ret spec
             | Some d \<Rightarrow>
                 bnd (cl_asks cl_SvcTasks) (\<lambda>ts.
                 if map_of ts uid \<noteq> None then fail ErrServiceTaskAlreadyRegistered
                 else bnd (on_client (\<lambda>c. c\<lparr> cl_SvcTasks := AList.update uid d (cl_SvcTasks c),
                                           cl_listenTasks := List.insert uid (cl_listenTasks c) \<rparr>)) (\<lambda>_. ret spec))))"

definition c_RegisterTaskFunction :: "env \<Rightarrow> task_spec \<Rightarrow> service_fn option \<Rightarrow> task_spec cact" where
  "c_RegisterTaskFunction E spec fn = c_registerTaskFunction E spec (map_option ExecutionTypeVars fn)"

definition c_RegisterMessageSender :: "string \<Rightarrow> string \<Rightarrow> sender_fn \<Rightarrow> unit cact" where
  "c_RegisterMessageSender workflowName messageName sender =
     (let k = workflowName @ ''_'' @ messageName
      in bnd (cl_asks cl_MsgSender) (\<lambda>ms.
         if map_of ms k \<noteq> None then fail (ErrOther ''message sender already registered'')
         else on_client (\<lambda>c. c\<lparr> cl_MsgSender := AList.update k (ExecutionTypeVars sender) (cl_MsgSender c),
                              cl_msgListenTasks := List.insert k (cl_msgListenTasks c) \<rparr>)))"

definition c_RegisterProcessComplete :: "string \<Rightarrow> terminate_fn \<Rightarrow> unit cact" where
  "c_RegisterProcessComplete processId fn =
     on_client (\<lambda>c. c\<lparr> cl_proCompleteTasks := AList.update processId (ExecutionTypeVars fn) (cl_proCompleteTasks c) \<rparr>)"

definition c_ListUserTaskIDs :: "bool \<Rightarrow> api \<Rightarrow> env \<Rightarrow> (string \<times> string) list \<Rightarrow> string \<Rightarrow> string list cact" where
  "c_ListUserTaskIDs b A E vals owner = bnd (Call b A E vals (ListUserTasks owner)) someNames"

definition c_GetTaskSpecVersions :: "bool \<Rightarrow> api \<Rightarrow> env \<Rightarrow> (string \<times> string) list \<Rightarrow> string \<Rightarrow> string list cact" where
  "c_GetTaskSpecVersions b A E vals name = bnd (Call b A E vals (GetSpecVersions name)) someNames"

definition c_CompleteUserTask :: "bool \<Rightarrow> api \<Rightarrow> env \<Rightarrow> (string \<times> string) list \<Rightarrow> string \<Rightarrow> string \<Rightarrow> vmap \<Rightarrow> unit cact" where
  "c_CompleteUserTask b A E vals owner trackingID newVars =
     bnd (lift_res (Encode E newVars)) (\<lambda>ev. bnd (Call b A E vals (CompleteUser trackingID ev)) noResult)"

definition c_completeServiceTask :: "bool \<Rightarrow> api \<Rightarrow> env \<Rightarrow> (string \<times> string) list \<Rightarrow> string \<Rightarrow> vmap option \<Rightarrow> bool \<Rightarrow> unit cact" where
  "c_completeServiceTask b A E vals trackingID newVars isCompensating =
     bnd (lift_res (encodeVars E newVars)) (\<lambda>ev. bnd (Call b A E vals (CompleteService trackingID ev)) noResult)"

definition c_completeSendMessage :: "bool \<Rightarrow> api \<Rightarrow> env \<Rightarrow> (string \<times> string) list \<Rightarrow> string \<Rightarrow> vmap \<Rightarrow> unit cact" where
  "c_completeSendMessage b A E vals trackingID newVars =
     bnd (lift_res (Encode E newVars)) (\<lambda>ev. bnd (Call b A E vals (CompleteSendMessage trackingID ev)) noResult)"

definition c_GetWorkflowVersions :: "bool \<Rightarrow> api \<Rightarrow> env \<Rightarrow> (string \<times> string) list \<Rightarrow> string \<Rightarrow> workflow_version list option cact" where
  "c_GetWorkflowVersions b A E vals name =
     CallReturnStream b A E vals (GetWorkflowVersions name) (\<lambda>r. case r of RVersions vs es \<Rightarrow> (vs, es) | _ \<Rightarrow> ([], [ErrOther []]))"

definition c_GetWorkflow :: "bool \<Rightarrow> api \<Rightarrow> env \<Rightarrow> (string \<times> string) list \<Rightarrow> string \<Rightarrow> workflow cact" where
  "c_GetWorkflow b A E vals i =
     bnd (cl_asks cl_cache) (\<lambda>m.
     case map_of m i of
       Some wkf \<Rightarrow> ret wkf
     | None \<Rightarrow>
         bnd (Call b A E vals (GetWorkflowRequest i)) (\<lambda>r.
         case r of
           RWorkflow wkf \<Rightarrow>
             bnd (on_client (\<lambda>c. if cache_admits E i then c\<lparr> cl_cache := AList.update i wkf (cl_cache c) \<rparr> else c)) (\<lambda>_. ret wkf)
         | _ \<Rightarrow> undecodable))"

definition c_GetTaskSpecUsage :: "bool \<Rightarrow> api \<Rightarrow> env \<Rightarrow> (string \<times> string) list \<Rightarrow> string \<Rightarrow> usage_report cact" where
  "c_GetTaskSpecUsage b A E vals i =
     bnd (Call b A E vals (GetSpecUsage i)) (\<lambda>r. case r of RUsage u \<Rightarrow> ret u | _ \<Rightarrow> undecodable)"

definition c_cancelProcessInstanceWithError :: "bool \<Rightarrow> api \<Rightarrow> env \<Rightarrow> (string \<times> string) list \<Rightarrow> string \<Rightarrow> wf_error option \<Rightarrow> unit cact" where
  "c_cancelProcessInstanceWithError b A E vals i wfe = bnd (Call b A E vals (CancelInstance i errored wfe)) noResult"

definition c_CancelProcessInstance :: "bool \<Rightarrow> api \<Rightarrow> env \<Rightarrow> (string \<times> string) list \<Rightarrow> string \<Rightarrow> unit cact" where
  "c_CancelProcessInstance b A E vals i = c_cancelProcessInstanceWithError b A E vals i None"

definition numbered :: "api_response \<Rightarrow> (string \<times> int) list \<times> goerr list" where
  "numbered r = (case r of RNumbered xs es \<Rightarrow> (xs, es) | _ \<Rightarrow> ([], [ErrOther []]))"

definition historyOf :: "api_response \<Rightarrow> history_entry list \<times> goerr list" where
  "historyOf r = (case r of RHistory xs es \<Rightarrow> (xs, es) | _ \<Rightarrow> ([], [ErrOther []]))"

definition c_ListExecution :: "bool \<Rightarrow> api \<Rightarrow> env \<Rightarrow> (string \<times> string) list \<Rightarrow> string \<Rightarrow> (string \<times> int) list option cact" where
  "c_ListExecution b A E vals name = CallReturnStream b A E vals (ListExecution name) numbered"

definition c_ListWorkflows :: "bool \<Rightarrow> api \<Rightarrow> env \<Rightarrow> (string \<times> string) list \<Rightarrow> (string \<times> int) list option cact" where
  "c_ListWorkflows b A E vals = CallReturnStream b A E vals ListWorkflowsRequest numbered"

definition c_ListExecutableProcesses :: "bool \<Rightarrow> api \<Rightarrow> env \<Rightarrow> (string \<times> string) list \<Rightarrow> executable_process list option cact" where
  "c_ListExecutableProcesses b A E vals =
     CallReturnStream b A E vals ListExecutable (\<lambda>r. case r of RExecutable xs es \<Rightarrow> (xs, es) | _ \<Rightarrow> ([], [ErrOther []]))"

definition c_GetProcessInstanceStatus :: "bool \<Rightarrow> api \<Rightarrow> env \<Rightarrow> (string \<times> string) list \<Rightarrow> string \<Rightarrow> history_entry list option cact" where
  "c_GetProcessInstanceStatus b A E vals i = CallReturnStream b A E vals (GetInstanceStatus i) historyOf"

definition c_GetProcessHistory :: "bool \<Rightarrow> api \<Rightarrow> env \<Rightarrow> (string \<times> string) list \<Rightarrow> string \<Rightarrow> history_entry list option cact" where
  "c_GetProcessHistory b A E vals i = CallReturnStream b A E vals (GetHistory i) historyOf"

definition c_GetFatalErrors :: "bool \<Rightarrow> api \<Rightarrow> env \<Rightarrow> (string \<times> string) list \<Rightarrow> string \<Rightarrow> string \<Rightarrow> string \<Rightarrow> string \<Rightarrow>
    fatal_error list option cact" where
  "c_GetFatalErrors b A E vals wfName workflowId executionId processInstanceId =
     CallReturnStream b A E vals (GetFatalErrorsRequest \<lparr> fr_WfName = wfName, fr_WfId = workflowId,
         fr_ExecutionId = executionId, fr_ProcessInstanceId = processInstanceId \<rparr>)
       (\<lambda>r. case r of RFatalErrors xs es \<Rightarrow> (xs, es) | _ \<Rightarrow> ([], [ErrOther []]))"

text \<open>\<open>marshal\<close> is the encoding of a header map by msgpack.\<close>

definition headerToBytes :: "((string \<times> string) list \<Rightarrow> (goerr, bytes) res) \<Rightarrow> (string \<times> string) list \<Rightarrow> (goerr, bytes) res" where
  "headerToBytes marshal hs = (if length hs = 0 then Ok [] else marshal hs)"

definition c_LaunchProcess :: "bool \<Rightarrow> api \<Rightarrow> env \<Rightarrow> ((string \<times> string) list \<Rightarrow> (goerr, bytes) res) \<Rightarrow> (string \<times> string) list \<Rightarrow>
    string \<Rightarrow> vmap option \<Rightarrow> (string \<times> string) list \<Rightarrow> (string \<times> string) cact" where
  "c_LaunchProcess b A E marshal vals processID vs hs =
     (if processID = [] then fail (ErrOther ''process id is required'')
      else bnd (lift_res (Encode E (case vs of None \<Rightarrow> [] | Some m \<Rightarrow> m))) (\<lambda>ev.
           bnd (lift_res (headerToBytes marshal hs)) (\<lambda>h.
           bnd (Call b A E vals (LaunchProcess processID ev h)) (\<lambda>r.
           case r of RLaunched x wid \<Rightarrow> ret (x, wid) | _ \<Rightarrow> undecodable))))"

definition c_ListExecutionProcesses :: "bool \<Rightarrow> api \<Rightarrow> env \<Rightarrow> (string \<times> string) list \<Rightarrow> string \<Rightarrow> string list cact" where
  "c_ListExecutionProcesses b A E vals i = bnd (Call b A E vals (ListProcesses i)) someNames"

definition c_GetUserTask :: "bool \<Rightarrow> api \<Rightarrow> env \<Rightarrow> (string \<times> string) list \<Rightarrow> string \<Rightarrow> string \<Rightarrow> (user_task \<times> vmap) cact" where
  "c_GetUserTask b A E vals owner trackingID =
     bnd (Call b A E vals (GetUserTask trackingID owner)) (\<lambda>r.
     case r of
       RUserTask u \<Rightarrow> bnd (lift_res (Decode E [] (ut_Vars u))) (\<lambda>v. ret (u, v))
     | _ \<Rightarrow> undecodable)"

text \<open>\<open>skey\<close> is the correlation key as \<open>fmt\<close> prints it.\<close>

definition c_SendMessage :: "bool \<Rightarrow> api \<Rightarrow> env \<Rightarrow> (string \<times> string) list \<Rightarrow> string \<Rightarrow> string \<Rightarrow> vmap \<Rightarrow> unit cact" where
  "c_SendMessage b A E vals name skey mvars =
     bnd (lift_res (Encode E mvars)) (\<lambda>ev.
     bnd (Call b A E vals (SendMessage name skey ev)) (\<lambda>r. case r of RLaunched x wid \<Rightarrow> ret () | _ \<Rightarrow> undecodable))"

definition logSourceClient :: int where "logSourceClient = 3"

text \<open>\<open>k\<close> is the payload of the tracking id.\<close>

definition c_clientLog :: "bool \<Rightarrow> api \<Rightarrow> env \<Rightarrow> (string \<times> string) list \<Rightarrow> bytes \<Rightarrow> int \<Rightarrow> string \<Rightarrow> (string \<times> string) list \<Rightarrow> unit cact" where
  "c_clientLog b A E vals k level message attrs =
     bnd (cl_asks (\<lambda>c. c)) (\<lambda>c.
     bnd (on_world (timeNow E)) (\<lambda>now.
     bnd (Call b A E vals (LogRequest \<lparr> lr_Hostname = cl_host c, lr_ClientId = cl_id c, lr_TrackingId = k, lr_Level = level,
            lr_Time = now div 1000, lr_Source = logSourceClient, lr_Message = message, lr_Attributes = attrs \<rparr>)) noResult))"

definition c_GetJob :: "bool \<Rightarrow> api \<Rightarrow> env \<Rightarrow> (string \<times> string) list \<Rightarrow> string \<Rightarrow> workflow_state cact" where
  "c_GetJob b A E vals i = bnd (Call b A E vals (GetJobRequest i)) (\<lambda>r. case r of RJob j \<Rightarrow> ret j | _ \<Rightarrow> undecodable)"

text \<open>A client that expects no version dereferences nil.\<close>

definition c_GetServerVersion :: "bool \<Rightarrow> api \<Rightarrow> env \<Rightarrow> (string \<times> string) list \<Rightarrow> string cact" where
  "c_GetServerVersion b A E vals =
     bnd (cl_asks cl_ExpectedCompatibleServerVersion) (\<lambda>v.
     case v of
       None \<Rightarrow> panic
     | Some expected \<Rightarrow>
         bnd (Call b A E vals (GetVersionInfo expected)) (\<lambda>r.
         case r of
           RVersion server minCompatible connect \<Rightarrow>
             bnd (lift_res (ap_NewVersion A server)) (\<lambda>sv.
             bnd (lift_res (ap_NewVersion A minCompatible)) (\<lambda>cv.
             bnd (on_client (\<lambda>c. c\<lparr> cl_ExpectedServerVersion := Some sv \<rparr>)) (\<lambda>_.
             if \<not> connect then fail (ErrOther ''incompatible client version'')
             else if \<not> fst (IsCompatible A cv) then fail (ErrOther ''incompatible server version'')
             else ret sv)))
         | _ \<Rightarrow> undecodable))"

definition c_GetTaskSpecByUID :: "bool \<Rightarrow> api \<Rightarrow> env \<Rightarrow> (string \<times> string) list \<Rightarrow> string \<Rightarrow> task_spec cact" where
  "c_GetTaskSpecByUID b A E vals uid =
     bnd (Call b A E vals (GetTaskSpec uid)) (\<lambda>r. case r of RSpec s \<Rightarrow> ret s | _ \<Rightarrow> undecodable)"

definition c_ListTaskSpecs :: "bool \<Rightarrow> api \<Rightarrow> env \<Rightarrow> (string \<times> string) list \<Rightarrow> bool \<Rightarrow> task_spec list cact" where
  "c_ListTaskSpecs b A E vals includeDeprecated =
     bnd (bnd (Call b A E vals (ListSpecUIDs includeDeprecated)) someNames) (\<lambda>uids.
     foldE (\<lambda>done i. bnd (c_GetTaskSpecByUID b A E vals i) (\<lambda>ts. ret (done @ [ts]))) [] uids)"

definition c_ResolveWorkflow :: "bool \<Rightarrow> api \<Rightarrow> env \<Rightarrow> (string \<times> string) list \<Rightarrow> workflow \<Rightarrow> workflow cact" where
  "c_ResolveWorkflow b A E vals m =
     bnd (Call b A E vals (ResolveWorkflow (Some m))) (\<lambda>r. case r of RWorkflow wkf \<Rightarrow> ret wkf | _ \<Rightarrow> undecodable)"

definition c_GetTaskUIDFromSpec :: "env \<Rightarrow> task_spec \<Rightarrow> string cact" where
  "c_GetTaskUIDFromSpec E spec = lift_res (CreateUID E spec)"

definition c_heartbeat :: "bool \<Rightarrow> api \<Rightarrow> env \<Rightarrow> (string \<times> string) list \<Rightarrow> unit cact" where
  "c_heartbeat b A E vals =
     bnd (cl_asks (\<lambda>c. c)) (\<lambda>c.
     bnd (on_world (timeNow E)) (\<lambda>now.
     bnd (Call b A E vals (HeartbeatRequest \<lparr> hb_Host = cl_host c, hb_Id = cl_id c, hb_Time = now div 1000000 \<rparr>)) noResult))"

definition c_getCompensationVariables :: "bool \<Rightarrow> api \<Rightarrow> env \<Rightarrow> (string \<times> string) list \<Rightarrow> string \<Rightarrow> string \<Rightarrow> (vmap \<times> vmap) cact" where
  "c_getCompensationVariables b A E vals processInstanceId trackingId =
     bnd (bnd (Call b A E vals (GetCompensationInputs processInstanceId trackingId)) someVars) (\<lambda>v1.
     bnd (bnd (Call b A E vals (GetCompensationOutputs processInstanceId trackingId)) someVars) (\<lambda>v2.
     bnd (lift_res (Decode E [] v1)) (\<lambda>input.
     bnd (lift_res (Decode E [] v2)) (\<lambda>output. ret (input, output)))))"

definition c_GetProcessInstanceHeaders :: "bool \<Rightarrow> api \<Rightarrow> env \<Rightarrow> (string \<times> string) list \<Rightarrow> string \<Rightarrow> (string \<times> string) list cact" where
  "c_GetProcessInstanceHeaders b A E vals i =
     bnd (Call b A E vals (GetProcessHeaders i)) (\<lambda>r. case r of RHeaders hs \<Rightarrow> ret hs | _ \<Rightarrow> undecodable)"

definition c_Retry :: "bool \<Rightarrow> api \<Rightarrow> env \<Rightarrow> (string \<times> string) list \<Rightarrow> workflow_state \<Rightarrow> unit cact" where
  "c_Retry b A E vals state = bnd (Call b A E vals (Retry (Some state))) noResult"

definition c_EnableWorkflowExecution :: "bool \<Rightarrow> api \<Rightarrow> env \<Rightarrow> (string \<times> string) list \<Rightarrow> string \<Rightarrow> unit cact" where
  "c_EnableWorkflowExecution b A E vals name = bnd (Call b A E vals (Enable name)) noResult"

definition c_DisableWorkflowExecution :: "bool \<Rightarrow> api \<Rightarrow> env \<Rightarrow> (string \<times> string) list \<Rightarrow> string \<Rightarrow> unit cact" where
  "c_DisableWorkflowExecution b A E vals name = bnd (Call b A E vals (Disable name)) noResult"

text \<open>A call that fails is only logged.\<close>

definition c_signalFatalErr :: "bool \<Rightarrow> api \<Rightarrow> env \<Rightarrow> (string \<times> string) list \<Rightarrow> workflow_state \<Rightarrow> unit cact" where
  "c_signalFatalErr b A E vals state =
     handle (Call b A E vals (HandleFatalError (Some state))) (\<lambda>_. ret ()) (\<lambda>_. ret ())"

end
