(* ===== verification/Backoff.thy ===== *)
theory Backoff
  imports Client Job_Processing
begin

text \<open>
  What a client does with a task that failed: \<open>client/backoff.go\<close>.  Until its retries are used up
  the message is put off by \<open>getOffset\<close>; then the action of the retry settings is taken, the
  message is terminated and a notification is published.

  \<open>getOffset\<close> computes in nanoseconds with 64 bits.  The lemmas give its value and its bounds as
  long as nothing overflows, the overflow that happens to long delays, and that a message whose
  retries are used up is always terminated and announced.
\<close>

section \<open>The delay\<close>

text \<open>\<open>li_int64 n\<close> is the conversion of the floating point number \<open>2\<^sup>n\<close> to an \<open>int64\<close> that cannot
  represent it; Go leaves it to the processor.\<close>

record client_lib =
  li_int64 :: "nat \<Rightarrow> int"
  li_ParseFloat :: "string \<Rightarrow> (goerr, 64 word) res"

definition millisecond :: int where "millisecond = 1000000"

definition pow2 :: "client_lib \<Rightarrow> int \<Rightarrow> int" where
  "pow2 L n = (if n < 63 then 2 ^ nat n else li_int64 L (nat n))"

text \<open>\<open>time.Since\<close> is bounded by the range of a duration.\<close>

definition since :: "int \<Rightarrow> int \<Rightarrow> int" where
  "since now t = max min_int64 (min max_int64 (now - t))"

definition rawOffset :: "client_lib \<Rightarrow> retry_strategy \<Rightarrow> int \<Rightarrow> int \<Rightarrow> int \<Rightarrow> int \<Rightarrow> int" where
  "rawOffset L strategy initial interval deliveryCount ceiling =
     (if deliveryCount > 1 then
        let offset = (if strategy = Linear
              then int64 (initial + int64 (interval * int64 (deliveryCount - 1)))
              else int64 (initial + int64 (interval * pow2 L (deliveryCount - 1))))
        in if offset > ceiling then ceiling else offset
      else 0)"

definition getOffset :: "client_lib \<Rightarrow> retry_strategy \<Rightarrow> int \<Rightarrow> int \<Rightarrow> int \<Rightarrow> int \<Rightarrow> int \<Rightarrow> int" where
  "getOffset L strategy initial interval deliveryCount ceiling elapsed =
     (let initial = int64 (initial * millisecond);
          interval = int64 (interval * millisecond);
          ceiling = int64 (ceiling * millisecond);
          interval = (if interval = 0 then 1000 * millisecond else interval);
          ceiling = (if ceiling < interval then interval else ceiling);
          offset = rawOffset L strategy initial interval deliveryCount ceiling
      in if elapsed > int64 (offset * millisecond) then 0 else offset)"

section \<open>Retries\<close>

fun replaceFirst :: "string \<Rightarrow> string \<Rightarrow> string \<Rightarrow> string" where
  "replaceFirst [] old new = (if old = [] then new else [])"
| "replaceFirst (x # xs) old new =
     (if HasPrefix (x # xs) old then new @ drop (length old) (x # xs) else x # replaceFirst xs old new)"

definition notifyRetryExceeded :: "work_msg \<Rightarrow> workflow_state \<Rightarrow> unit cact" where
  "notifyRetryExceeded msg state =
     handle (on_world (ConnPublish (replaceFirst (wm_Subject msg) StateJobExecute ''.State.Job.RetryExceeded.'') [] (PState state)))
       (\<lambda>_. ret ()) ret"

definition ParseBool :: "string \<Rightarrow> bool option" where
  "ParseBool s =
     (if s \<in> {''1'', ''t'', ''T'', ''true'', ''TRUE'', ''True''} then Some True
      else if s \<in> {''0'', ''f'', ''F'', ''false'', ''FALSE'', ''False''} then Some False
      else None)"

definition retryVars :: "client_lib \<Rightarrow> retry_exceeded \<Rightarrow> (goerr, vmap) res" where
  "retryVars L x =
     (if rx_VariableType x = ''int'' then
        (case Atoi (rx_VariableValue x) of
           None \<Rightarrow> Err (ErrOther ''parse retry variable as integer'')
         | Some n \<Rightarrow> Ok [(rx_Variable x, VInt KInt64 n)])
      else if rx_VariableType x = ''float'' then
        bind_res (li_ParseFloat L (rx_VariableValue x)) (\<lambda>f. Ok [(rx_Variable x, VFloat f)])
      else if rx_VariableType x = ''bool'' then
        (case ParseBool (rx_VariableValue x) of
           None \<Rightarrow> Err (ErrOther ''parse retry variable as boolean'')
         | Some v \<Rightarrow> Ok [(rx_Variable x, VBool v)])
      else Ok [(rx_Variable x, VString (rx_VariableValue x))])"

definition exceededAction :: "bool \<Rightarrow> api \<Rightarrow> env \<Rightarrow> client_lib \<Rightarrow> (string \<times> string) list \<Rightarrow> workflow_state \<Rightarrow> retry_exceeded \<Rightarrow> unit cact" where
  "exceededAction b A E L vals state x =
     (case rx_Action x of
        FailWorkflow \<Rightarrow> c_CancelProcessInstance b A E vals (ws_ProcessInstanceId state)
      | ThrowWorkflowError \<Rightarrow>
          bnd (Call b A E vals (HandleError (TID (ws_Id state)) (rx_ErrorCode x) [])) (\<lambda>r.
          case r of
            RHandled handled \<Rightarrow> if \<not> handled then fail (ErrOther ''handle workflow error'') else ret ()
          | _ \<Rightarrow> undecodable)
      | PauseWorkflow \<Rightarrow> c_signalFatalErr b A E vals state
      | SetVariableValue \<Rightarrow>
          bnd (lift_res (retryVars L x)) (\<lambda>retVars.
          c_completeServiceTask b A E vals (TID (ws_Id state)) (Some retVars) (ws_State state = compensating)))"

text \<open>The deferred calls run whether the action returns, fails or panics: the message is terminated,
  and then the notification is published.\<close>

definition exhausted :: "work_msg \<Rightarrow> workflow_state \<Rightarrow> unit cact \<Rightarrow> disposition cact" where
  "exhausted msg state action = (\<lambda>s.
     case action s of (r, s') \<Rightarrow>
       (case notifyRetryExceeded msg state s' of (r', s'') \<Rightarrow>
          (if r = Panic then Panic else Ok Terminated, s'')))"

text \<open>A message whose backoff returns an error is not settled; it is delivered again when the time
  for its acknowledgement is over.\<close>

definition c_backoff :: "bool \<Rightarrow> api \<Rightarrow> env \<Rightarrow> client_lib \<Rightarrow> (string \<times> string) list \<Rightarrow> work_msg \<Rightarrow> disposition cact" where
  "c_backoff b A E L vals msg =
     (case (wm_State msg, wm_NumDelivered msg) of
        (Some state, Some n) \<Rightarrow>
          handle (c_GetWorkflow b A E vals (ws_WorkflowId state))
            (\<lambda>e. ret (if e = ErrWorkflowNotFound then Terminated else Unsettled)) (\<lambda>wkf.
          case Option.bind (map_of (ElementTable (map_order E 24) wkf) (ws_ElementId state)) (\<lambda>el. el_RetryBehaviour (el_data el)) of
            None \<Rightarrow> panic
          | Some retry \<Rightarrow>
              if n \<ge> rt_Number retry then
                exhausted msg state
                  (case rt_DefaultExceeded retry of None \<Rightarrow> panic | Some x \<Rightarrow> exceededAction b A E L vals state x)
              else
                bnd (on_world (timeNow E)) (\<lambda>now.
                ret (NakDelayed (getOffset L (rt_Strategy retry) (rt_InitMilli retry) (rt_IntervalMilli retry) (int n)
                       (rt_MaxMilli retry) (since now (ws_UnixTimeNano state))))))
      | _ \<Rightarrow> ret Unsettled)"

section \<open>Bounds of the delay\<close>

lemma int64_small: "0 \<le> n \<Longrightarrow> n < 2 ^ 63 \<Longrightarrow> int64 n = n"
  by (simp add: int64_def)

text \<open>What the settings ask for, without bounds on the numbers.\<close>

definition delay_of :: "retry_strategy \<Rightarrow> int \<Rightarrow> int \<Rightarrow> nat \<Rightarrow> int" where
  "delay_of strategy initial interval n =
     initial + interval * (if strategy = Linear then int n - 1 else 2 ^ (n - 1))"

lemma pow2_small:
  assumes "0 < k" "0 \<le> i" "(i + k * 2 ^ n) * millisecond < 2 ^ 63"
  shows "pow2 L (int n) = 2 ^ n"
proof -
  have "(1::int) * 2 ^ n \<le> k * 2 ^ n" using assms(1) by (intro mult_right_mono) auto
  moreover have "k * 2 ^ n \<le> (i + k * 2 ^ n) * millisecond" using assms(1,2) by (simp add: millisecond_def)
  ultimately have "(2::int) ^ n < 2 ^ 63" using assms(3) by linarith
  then have "n < 63" by (rule power_less_imp_less_exp [rotated]) simp
  then show ?thesis by (simp add: pow2_def)
qed


text \<open>After the first delivery there is no delay: the initial delay of the settings is not used.\<close>

lemma initial_ignored: "getOffset L strategy initial interval 1 ceiling elapsed = 0"
  by (simp add: getOffset_def rawOffset_def Let_def)

text \<open>The comparison with the age of the message takes the offset, in nanoseconds, times a million once more:
  a delay of three hours overflows and is lost.\<close>

lemma long_delay_lost: "getOffset L Linear 0 10800000 2 10800000 0 = 0"
  by code_simp

text \<open>The exponential delay overflows after some tens of deliveries: with an interval of a second it is
  gone at the 35th, below a ceiling of an hour.\<close>

lemma exponential_overflows:
  "getOffset L Exponential 0 1000 34 3600000 0 = 3600000 * millisecond" "getOffset L Exponential 0 1000 35 3600000 0 = 0"
  by code_simp+

section \<open>Calls of a client never panic\<close>

lemma calm_on_world [calm_intros]: "calm (\<lambda>_. True) m \<Longrightarrow> calm (\<lambda>_. True) (on_world m)"
  by (auto simp: calm_def on_world_def split: prod.splits) (metis fst_conv)

lemma calm_simple [calm_intros]: "calm (\<lambda>_. True) (cl_asks f)" "calm (\<lambda>_. True) (on_client g)" "calm (\<lambda>_. True) (newID E)"
  "calm (\<lambda>_. True) io" "calm (\<lambda>_. True) undecodable"
  by (auto simp: calm_def cl_asks_def on_client_def newID_def io_def undecodable_def split: list.splits option.splits)

lemma calm_request_reply [calm_intros]: "calm (\<lambda>_. True) (request_reply b A E msg)"
  by (auto simp: calm_def request_reply_def split: prod.splits res.splits)

lemma callMsg_calm: "callMsg E c vals cid req \<noteq> Panic"
  by (simp add: callMsg_def FromCtxToMsgHeader_def bind_res_def Let_def)

lemma calm_Call [calm_intros]: "calm (\<lambda>_. True) (Call b A E vals req)"
  unfolding Call_def by (intro calm_intros callMsg_calm) (auto intro!: calm_intros split: api_reply.splits)

lemma calm_noResult [calm_intros]: "calm (\<lambda>_. True) (noResult r)"
  by (auto simp: noResult_def intro!: calm_intros split: api_response.splits)

lemma calm_exceededAction:
  assumes "\<And>m. mp_marshal E m \<noteq> Panic" "\<And>s. li_ParseFloat L s \<noteq> Panic"
  shows "calm (\<lambda>_. True) (exceededAction b A E L vals state x)"
proof -
  have "retryVars L x \<noteq> Panic" using assms(2) [of "rx_VariableValue x"]
    by (auto simp: retryVars_def bind_res_def split: option.splits res.splits)
  moreover have "encodeVars E (Some m) \<noteq> Panic" for m using assms(1) by (simp add: encodeVars_def Encode_def)
  ultimately show ?thesis
    unfolding exceededAction_def c_CancelProcessInstance_def c_cancelProcessInstanceWithError_def c_signalFatalErr_def c_completeServiceTask_def
    by (auto intro!: calm_intros split: retry_error_action.splits api_response.splits)
qed

lemma notify_client: "\<exists>w''. snd (notifyRetryExceeded msg state (c, w)) = (c, w'')"
proof -
  obtain r w1 where "ConnPublish (replaceFirst (wm_Subject msg) StateJobExecute ''.State.Job.RetryExceeded.'') [] (PState state) w = (r, w1)"
    by (meson surj_pair)
  then show ?thesis by (cases r) (simp_all add: notifyRetryExceeded_def on_world_def handle_apply)
qed

text \<open>C15. When the retries of a task whose workflow the client has cached are used up, the configured
  action is carried out and the message is terminated, so that it is never delivered again,
  whatever the action is and whichever calls to the server fail; while NATS takes messages the
  end of the retries is announced, once and after the action.\<close>

theorem retries_exhausted:
  assumes "wm_State msg = Some state" "wm_NumDelivered msg = Some n" "map_of (cl_cache c) (ws_WorkflowId state) = Some wkf"
    and "map_of (ElementTable (map_order E 24) wkf) (ws_ElementId state) = Some el" "el_RetryBehaviour (el_data el) = Some retry"
    and "rt_DefaultExceeded retry = Some x" "rt_Number retry \<le> n"
    and "\<And>m. mp_marshal E m \<noteq> Panic" "\<And>s. li_ParseFloat L s \<noteq> Panic"
  shows "\<exists>c' w' w''. snd (exceededAction b A E L vals state x (c, w)) = (c', w') \<and>
     c_backoff b A E L vals msg (c, w) = (Ok Terminated, (c', w'')) \<and>
     (reliable w' \<longrightarrow> w'' = w'\<lparr> published := published w' @
        [\<lparr> pm_Subject = replaceFirst (wm_Subject msg) StateJobExecute ''.State.Job.RetryExceeded.'', pm_ID = [], pm_Embargo = 0,
           pm_Headers = [], pm_Payload = PState state \<rparr>] \<rparr>)"
proof -
  obtain r c' w' where a: "exceededAction b A E L vals state x (c, w) = (r, (c', w'))" by (metis prod.collapse)
  then have r: "r \<noteq> Panic" using calm_exceededAction [OF assms(8,9), of b A vals state x] by (metis calm_def fst_conv)
  obtain w'' where n: "snd (notifyRetryExceeded msg state (c', w')) = (c', w'')"
    using notify_client by blast
  have "c_backoff b A E L vals msg (c, w) = (Ok Terminated, (c', w''))"
    using assms(1-7) a r n by (auto simp: c_backoff_def c_GetWorkflow_def cl_asks_def handle_apply bnd_apply exhausted_def split: prod.splits)
  moreover have "reliable w' \<longrightarrow> w'' = w'\<lparr> published := published w' @
        [\<lparr> pm_Subject = replaceFirst (wm_Subject msg) StateJobExecute ''.State.Job.RetryExceeded.'', pm_ID = [], pm_Embargo = 0,
           pm_Headers = [], pm_Payload = PState state \<rparr>] \<rparr>"
    using n by (auto simp: notifyRetryExceeded_def on_world_def handle_apply ConnPublish_def bnd_apply)
  ultimately show ?thesis using a by auto
qed

text \<open>The workflow of a client comes over the API, whose errors are not the ones of the server: the test for
  a missing workflow never succeeds, so the message of a task whose workflow is gone is never terminated.\<close>

lemma Call_errors:
  assumes "Call b A E vals req s = (Err e, s')"
  shows "e \<noteq> ErrWorkflowNotFound"
  using assms listen_never_errs
  by (auto simp: Call_def bnd_apply callError_def timeout_def on_world_def cl_asks_def callMsg_def bind_res_def FromCtxToMsgHeader_def Let_def
        newID_def io_def request_reply_def split: prod.splits res.splits api_reply.splits list.splits option.splits if_splits)

end
