(* ===== verification/Worker.thy ===== *)
theory Worker
  imports Backoff
begin

text \<open>
  The tasks of a client, \<open>listen\<close> of \<open>client/client.go\<close>: what executes a job, the notification of
  retries, the functions for processes that end, and one turn of the processing loop.

  The lemmas follow a service task through the client and the server: the worker asks the server
  for the job, calls the function that is registered for it, and completes the task over the API;
  the server checks and publishes the completion.
\<close>

section \<open>What a worker calls\<close>

definition svcFnLocator :: "workflow_state \<Rightarrow> service_fn fn_def cact" where
  "svcFnLocator job =
     bnd (cl_asks cl_SvcTasks) (\<lambda>ts.
     case map_of ts (ws_ExecuteVersion job) of
       None \<Rightarrow> if ws_Execute job = None then panic else fail (ErrOther ''find service task function'')
     | Some fnDef \<Rightarrow> ret fnDef)"

definition msgFnLocator :: "workflow_state \<Rightarrow> sender_fn fn_def cact" where
  "msgFnLocator job =
     (case ws_Execute job of
        None \<Rightarrow> panic
      | Some x \<Rightarrow>
          bnd (cl_asks cl_MsgSender) (\<lambda>ms.
          case map_of ms (ws_WorkflowName job @ ''_'' @ x) of
            None \<Rightarrow> fail (ErrOther ''msg send task not found'')
          | Some sendFn \<Rightarrow> ret sendFn))"

definition jobClient :: "workflow_state \<Rightarrow> job_client" where
  "jobClient job = \<lparr> jc_jobID = TID (ws_Id job), jc_activityID = ParentID (ws_Id job),
     jc_processInstanceID = ws_ProcessInstanceId job, jc_executionID = ws_ExecutionId job,
     jc_originalInputs = None, jc_originalOutputs = None \<rparr>"

text \<open>A function that is registered with types is never called.\<close>

definition svcFnExecutor :: "bool \<Rightarrow> api \<Rightarrow> env \<Rightarrow> (string \<times> string) list \<Rightarrow> string \<Rightarrow> workflow_state \<Rightarrow> service_fn fn_def \<Rightarrow> vmap \<Rightarrow>
    (vmap option \<times> goerr option) cact" where
  "svcFnExecutor b A E vals trackingID job def inVars =
     (case def of
        ExecutionTypeTyped \<Rightarrow> ret (Some [], Some (ErrOther ''bad execution type''))
      | ExecutionTypeVars svcFn \<Rightarrow>
          let call = (\<lambda>jc. handle (on_world (svcFn jc inVars)) (\<lambda>e. ret (None, Some e)) ret)
          in if ws_State job = compensating then
               case ws_Compensation job of
                 None \<Rightarrow> panic
               | Some cp \<Rightarrow>
                   handle (c_getCompensationVariables b A E vals (ws_ProcessInstanceId job) (cp_ForTrackingId cp))
                     (\<lambda>e. ret (Some [], Some e))
                     (\<lambda>(i, out). call ((jobClient job)\<lparr> jc_originalInputs := Some i, jc_originalOutputs := Some out \<rparr>))
             else call (jobClient job))"

definition msgFnExecutor :: "string \<Rightarrow> workflow_state \<Rightarrow> sender_fn fn_def \<Rightarrow> vmap \<Rightarrow> unit cact" where
  "msgFnExecutor trackingID job def inVars =
     (case def of
        ExecutionTypeTyped \<Rightarrow> fail (ErrOther ''bad execution type'')
      | ExecutionTypeVars fn \<Rightarrow>
          bnd (on_world (fn \<lparr> mc_jobID = trackingID, mc_activityID = ParentID (ws_Id job),
                 mc_processInstanceID = ws_ProcessInstanceId job, mc_executionID = ws_ExecutionId job \<rparr> inVars)) (\<lambda>err.
          case err of None \<Rightarrow> ret () | Some e \<Rightarrow> fail e))"

definition workflowErrorHandler :: "bool \<Rightarrow> api \<Rightarrow> env \<Rightarrow> (string \<times> string) list \<Rightarrow> string \<Rightarrow> string \<Rightarrow> bytes \<Rightarrow> bool cact" where
  "workflowErrorHandler b A E vals trackingID errorCode binVars =
     bnd (Call b A E vals (HandleError trackingID errorCode binVars)) (\<lambda>r.
     case r of RHandled h \<Rightarrow> ret h | _ \<Rightarrow> undecodable)"

definition workerParams :: "bool \<Rightarrow> api \<Rightarrow> env \<Rightarrow> (string \<times> string) list \<Rightarrow>
    (client \<times> world, service_fn fn_def, sender_fn fn_def) process_params" where
  "workerParams b A E vals = \<lparr> pp_GetJob = c_GetJob b A E vals, pp_SvcFnExecutor = svcFnExecutor b A E vals,
     pp_MsgFnExecutor = msgFnExecutor, pp_SvcFnLocator = svcFnLocator, pp_MsgFnLocator = msgFnLocator,
     pp_SvcTaskCompleter = c_completeServiceTask b A E vals, pp_MsgSendCompleter = c_completeSendMessage b A E vals,
     pp_WfErrorHandler = workflowErrorHandler b A E vals, pp_PiErrorCanceller = c_cancelProcessInstanceWithError b A E vals \<rparr>"

section \<open>The loop of a worker\<close>

fun seekIn :: "string \<Rightarrow> element list \<Rightarrow> elem_data option" where
  "seekIn i [] = None"
| "seekIn i (e # es) = (if el_Id (el_data e) = i then Some (el_data e) else seekIn i es)"

fun seekAll :: "string \<Rightarrow> process list \<Rightarrow> elem_data option" where
  "seekAll i [] = None"
| "seekAll i (p # ps) = (case seekIn i (pr_Elements p) of Some d \<Rightarrow> Some d | None \<Rightarrow> seekAll i ps)"

definition SeekElement :: "(string list \<Rightarrow> string list) \<Rightarrow> workflow \<Rightarrow> string \<Rightarrow> elem_data option" where
  "SeekElement ord wkf i = seekAll i (map snd (rangeMap ord (wf_Process wkf)))"

text \<open>A repeated delivery is announced.  An element that is not found, or that has no retry settings, is a
  nil dereference.\<close>

definition c_retryNotifier :: "bool \<Rightarrow> api \<Rightarrow> env \<Rightarrow> (string \<times> string) list \<Rightarrow> work_msg \<Rightarrow> unit cact" where
  "c_retryNotifier b A E vals msg =
     (case wm_NumDelivered msg of
        None \<Rightarrow> fail (ErrOther ''retryNotifier get metadata'')
      | Some n \<Rightarrow>
          if ContainsS (wm_Subject msg) StateJobExecute \<and> n > 1 then
            case wm_State msg of
              None \<Rightarrow> fail (ErrOther ''retry notifier'')
            | Some state \<Rightarrow>
                bnd (c_GetWorkflow b A E vals (ws_WorkflowId state)) (\<lambda>wkf.
                case Option.bind (SeekElement (map_order E 25) wkf (ws_ElementId state)) el_RetryBehaviour of
                  None \<Rightarrow> panic
                | Some retry \<Rightarrow>
                    on_world (ConnPublish (replaceFirst (wm_Subject msg) ''.Job.Execute.'' ''.Job.Retry.'')
                      [(''RetryCount'', show_nat n), (''RetryMax'', show_nat (rt_Number retry))] (PState state)))
          else ret ())"

text \<open>One message; the messages of jobs have no embargo.  Middleware that fails leaves a nil context and the message is processed all the same;
  the first use of that context is a panic.\<close>

definition workMessage :: "bool \<Rightarrow> api \<Rightarrow> env \<Rightarrow> client_lib \<Rightarrow> work_msg \<Rightarrow> disposition cact" where
  "workMessage b A E L msg =
     (if hdrGet (wm_Header msg) SharNamespace = [] then ret Acked
      else case FromMsgHeaderToCtx E (wm_Header msg) of
        Err e \<Rightarrow> ret Acked
      | Panic \<Rightarrow> panic
      | Ok (vals, cid) \<Rightarrow>
          bnd (cl_asks cl_noRecovery) (\<lambda>noRecovery.
          bnd (handle (c_retryNotifier b A E vals msg) (\<lambda>_. ret None) (\<lambda>_. ret (Some (workerParams b A E vals)))) (\<lambda>ctx.
          bnd (ClientProcessFn A E noRecovery ctx msg) (\<lambda>r.
          bnd (settle (Some (c_signalFatalErr b A E vals)) True r) (\<lambda>d.
          if d = BackedOff then (case ctx of None \<Rightarrow> panic | Some _ \<Rightarrow> c_backoff b A E L vals msg) else ret d)))))"

text \<open>A process that ends, for the functions that are registered for it.\<close>

definition processTerminated :: "env \<Rightarrow> work_msg \<Rightarrow> ack_err cact" where
  "processTerminated E msg =
     (case wm_State msg of
        None \<Rightarrow> ret (True, Some (ErrOther ''listenProcessTerminate unmarshalling proto''))
      | Some st \<Rightarrow>
          handle (lift_res (Decode E [] (ws_Vars st))) (\<lambda>e. ret (True, Some e)) (\<lambda>v.
          bnd (cl_asks cl_proCompleteTasks) (\<lambda>ps.
          case map_of ps (ws_ProcessId st) of
            None \<Rightarrow> ret (True, None)
          | Some ExecutionTypeTyped \<Rightarrow> ret (True, Some (ErrOther ''unknown processterminate function type''))
          | Some (ExecutionTypeVars fn) \<Rightarrow> bnd (on_world (fn v (ws_Error st) (ws_State st))) (\<lambda>_. ret (True, None)))))"

section \<open>A call that is answered\<close>

lemma on_world_apply [simp]: "on_world m (c, w) = (case m w of (r, w') \<Rightarrow> (r, (c, w')))"
  by (simp add: on_world_def)

lemma cl_asks_apply [simp]: "cl_asks f (c, w) = (Ok (f c), (c, w))"
  by (simp add: cl_asks_def)

lemma map_of_hdrAdd:
  "map_of (hdrAdd k v hdr) x = (if x = k \<and> map_of hdr k = None then Some v else map_of hdr x)"
  by (auto simp: hdrAdd_def split: option.splits)

lemma header_names [simp]:
  "\<not> HasPrefix NatsCompatHeader natsSharHeader" "\<not> HasPrefix NatsVersionHeader natsSharHeader"
  "\<not> HasPrefix SharNamespace natsSharHeader" "\<not> HasPrefix CorrelationHeader natsSharHeader"
  "NatsCompatHeader \<noteq> NatsVersionHeader" "NatsCompatHeader \<noteq> SharNamespace" "NatsCompatHeader \<noteq> CorrelationHeader"
  by code_simp+

text \<open>The values of the caller's context arrive in the context of the endpoint.\<close>

lemma callMsg_ok:
  assumes "ranges_ok E" "distinct (map fst vals)"
  shows "\<exists>hdr. callMsg E c vals cid req = Ok \<lparr> am_Subject = api_subject req, am_Header = hdr, am_Request = Some req \<rparr> \<and>
    hdrGet hdr NatsCompatHeader = (case cl_ExpectedCompatibleServerVersion c of Some v \<Rightarrow> v | None \<Rightarrow> ''v0.0.0'') \<and>
    map_of (fromMsg E hdr) = map_of vals"
proof -
  note t = toMsg_spec [OF assms]
  let ?h1 = "hdrAdd CorrelationHeader cid (toMsg E vals [])"
  let ?h2 = "hdrAdd SharNamespace (cl_ns c) ?h1"
  let ?h3 = "hdrAdd NatsVersionHeader (cl_version c) ?h2"
  let ?h4 = "hdrAdd NatsCompatHeader (case cl_ExpectedCompatibleServerVersion c of Some v \<Rightarrow> v | None \<Rightarrow> ''v0.0.0'') ?h3"
  have "map_of (fromMsg E ?h4) k = map_of vals k" for k
    by (subst map_of_fromMsg [OF assms(1)]) (simp_all add: hdrAdd_keeps t)
  then have "map_of (fromMsg E ?h4) = map_of vals" by blast
  moreover have "hdrGet ?h4 NatsCompatHeader = (case cl_ExpectedCompatibleServerVersion c of Some v \<Rightarrow> v | None \<Rightarrow> ''v0.0.0'')"
    by (simp add: hdrGet_def alist_get_def map_of_hdrAdd t(2))
  ultimately show ?thesis by (auto simp: callMsg_def FromCtxToMsgHeader_def bind_res_def Let_def)
qed

text \<open>What a client may do: its version is compatible, and its header values authorise the functions it calls.\<close>

definition connects :: "api \<Rightarrow> client \<Rightarrow> bool" where
  "connects A c \<longleftrightarrow> (\<exists>v u. cl_ExpectedCompatibleServerVersion c = Some v \<and> ap_NewVersion A v = Ok u \<and> fst (IsCompatible A u))"

definition may_call :: "api \<Rightarrow> (string \<times> string) list \<Rightarrow> string \<Rightarrow> string set \<Rightarrow> bool" where
  "may_call A vals name fs \<longleftrightarrow>
     (\<forall>cx. map_of (cx_Headers cx) = map_of vals \<longrightarrow> cx_APIFunc cx \<in> fs \<longrightarrow> authorize A cx name = Ok ())"

lemma Call_ok:
  assumes "reliable w" "ranges_ok E" "distinct (map fst vals)" "connects A c" "\<not> streams req" "reliable w'"
    and "\<And>cx. map_of (cx_Headers cx) = map_of vals \<Longrightarrow> cx_APIFunc cx = api_subject req \<Longrightarrow>
           endpoint A E cx req (w\<lparr> nextId := Suc (nextId w) \<rparr>) = (Ok r, w')"
  shows "Call b A E vals req (c, w) = (Ok r, (c, w'))"
proof -
  obtain hdr where h: "callMsg E c vals (ksuid E (nextId w)) req = Ok \<lparr> am_Subject = api_subject req, am_Header = hdr, am_Request = Some req \<rparr>"
      "hdrGet hdr NatsCompatHeader = (case cl_ExpectedCompatibleServerVersion c of Some v \<Rightarrow> v | None \<Rightarrow> ''v0.0.0'')"
      "map_of (fromMsg E hdr) = map_of vals"
    using callMsg_ok [OF assms(2,3)] by blast
  let ?m = "\<lparr> am_Subject = api_subject req, am_Header = hdr, am_Request = Some req \<rparr>"
  have "compatible A ?m" using assms(4) h(2) by (auto simp: compatible_def connects_def)
  then have "listen b A E ?m (w\<lparr> nextId := Suc (nextId w) \<rparr>) = (Ok (Answered r), w')"
    using assms(5,6) assms(7) [of "\<lparr> cx_Headers = fromMsg E hdr, cx_APIFunc = api_subject req \<rparr>"] h(3)
    by (simp add: listen_def callAPI_def recoverAPIpanic_def FromMsgHeaderToCtx_def handle_apply)
  then show ?thesis using h(1) assms(1) by (simp add: Call_def bnd_apply request_reply_def)
qed

section \<open>A task from its message to its completion\<close>

lemma distinct_fromMsg: "distinct (map fst (fromMsg E hdr))" unfolding fromMsg_def
  by (rule fold_invariant [where P = "\<lambda>m. distinct (map fst m)" and Q = "\<lambda>_. True"]) (auto simp: distinct_update)

text \<open>A job in the server that a client with the given header values may complete with these variables.\<close>

definition completable :: "api \<Rightarrow> env \<Rightarrow> (string \<times> string) list \<Rightarrow> world \<Rightarrow> string \<Rightarrow> workflow_state \<Rightarrow> bytes \<Rightarrow> bool" where
  "completable A E vals w tid job ev \<longleftrightarrow> completes E w job ev \<and> cache_coherent w \<and> ranges_ok E \<and> kv_get (kvJob w) tid = Some job \<and>
     (\<forall>wkf. kv_get (kvDefinition w) (ws_WorkflowId job) = Some wkf \<longrightarrow>
        may_call A vals (wf_Name wkf) {''WORKFLOW.Api.GetJob'', ''WORKFLOW.Api.CompleteServiceTask''})"

lemma completable_frame:
  "completable A E vals w tid job ev \<Longrightarrow> cache_coherent (w\<lparr> nextId := n, sCache := k \<rparr>) \<Longrightarrow>
     completable A E vals (w\<lparr> nextId := n, sCache := k \<rparr>) tid job ev"
  by (simp add: completable_def)

text \<open>Both endpoints authorise the caller by the workflow of the job.\<close>

lemma completable_auth:
  assumes "completable A E vals w tid job ev"
  shows "\<exists>k. cache_coherent (w\<lparr> nextId := n, sCache := k \<rparr>) \<and> (\<forall>cx. map_of (cx_Headers cx) = map_of vals \<longrightarrow>
     cx_APIFunc cx \<in> {''WORKFLOW.Api.GetJob'', ''WORKFLOW.Api.CompleteServiceTask''} \<longrightarrow>
     authFromJobID A E cx tid (w\<lparr> nextId := n \<rparr>) = (Ok job, w\<lparr> nextId := n, sCache := k \<rparr>))"
proof -
  let ?w = "w\<lparr> nextId := n \<rparr>"
  obtain wkf where h: "reliable ?w" "cache_coherent ?w" "kv_get (kvJob ?w) tid = Some job" "kv_get (kvDefinition ?w) (ws_WorkflowId job) = Some wkf"
      "may_call A vals (wf_Name wkf) {''WORKFLOW.Api.GetJob'', ''WORKFLOW.Api.CompleteServiceTask''}"
    using assms by (auto simp: completable_def completes_def cache_coherent_def)
  obtain k where "GetWorkflow E (ws_WorkflowId job) ?w = (Ok wkf, ?w\<lparr> sCache := k \<rparr>)" "cache_coherent (?w\<lparr> sCache := k \<rparr>)"
    using GetWorkflow_reliable [OF h(1,2,4)] by blast
  then show ?thesis using h by (intro exI [of _ k]) (auto simp: may_call_def authFromJobID_def authorized_def bnd_apply handle_apply)
qed

lemma c_GetJob_ok:
  assumes "completable A E vals w tid job ev" "connects A c" "distinct (map fst vals)"
  shows "\<exists>k. c_GetJob b A E vals tid (c, w) = (Ok job, (c, w\<lparr> nextId := Suc (nextId w), sCache := k \<rparr>)) \<and>
     completable A E vals (w\<lparr> nextId := Suc (nextId w), sCache := k \<rparr>) tid job ev"
proof -
  let ?w = "w\<lparr> nextId := Suc (nextId w) \<rparr>"
  have h: "reliable w" "ranges_ok E" using assms(1) by (auto simp: completable_def completes_def)
  obtain k where k: "cache_coherent (?w\<lparr> sCache := k \<rparr>)" "\<And>cx. map_of (cx_Headers cx) = map_of vals \<Longrightarrow>
     cx_APIFunc cx = ''WORKFLOW.Api.GetJob'' \<Longrightarrow> authFromJobID A E cx tid ?w = (Ok job, ?w\<lparr> sCache := k \<rparr>)"
    using completable_auth [OF assms(1)] by blast
  have "Call b A E vals (GetJobRequest tid) (c, w) = (Ok (RJob job), (c, ?w\<lparr> sCache := k \<rparr>))"
    by (rule Call_ok [OF h assms(3,2)]) (use h(1) k(2) in \<open>simp_all add: answer_def ep_getJob_def bnd_apply\<close>)
  then show ?thesis using completable_frame [OF assms(1) k(1)] by (intro exI [of _ k]) (simp add: c_GetJob_def bnd_apply)
qed

lemma c_completeServiceTask_ok:
  assumes "completable A E vals w tid job ev" "connects A c" "distinct (map fst vals)" "Encode E vout = Ok ev" "ns_ok E"
  shows "\<exists>k. c_completeServiceTask b A E vals tid (Some vout) x (c, w) = (Ok (), (c,
     pubW E WorkflowJobServiceTaskComplete (job\<lparr> ws_Vars := ev \<rparr>) no_opts (w\<lparr> nextId := Suc (nextId w), sCache := k \<rparr>)))"
proof -
  let ?w = "w\<lparr> nextId := Suc (nextId w) \<rparr>"
  have h: "reliable w" "ranges_ok E" "completes E w job ev" using assms(1) by (auto simp: completable_def completes_def)
  obtain k where k: "\<And>cx. map_of (cx_Headers cx) = map_of vals \<Longrightarrow>
     cx_APIFunc cx = ''WORKFLOW.Api.CompleteServiceTask'' \<Longrightarrow> authFromJobID A E cx tid ?w = (Ok job, ?w\<lparr> sCache := k \<rparr>)"
    using completable_auth [OF assms(1)] by blast
  have "Call b A E vals (CompleteService tid ev) (c, w) =
      (Ok REmpty, (c, pubW E WorkflowJobServiceTaskComplete (job\<lparr> ws_Vars := ev \<rparr>) no_opts (?w\<lparr> sCache := k \<rparr>)))"
    by (rule Call_ok [OF h(1,2) assms(3,2)])
       (use h(1,3) k assms(5) in \<open>simp_all add: answer_def ep_completeServiceTask_def bnd_apply CompleteServiceTask_ok\<close>)
  then show ?thesis using assms(4)
    by (intro exI [of _ k]) (simp add: c_completeServiceTask_def encodeVars_def noResult_def bnd_apply)
qed

text \<open>A message for a worker, at its first delivery.\<close>

definition for_worker :: "work_msg \<Rightarrow> workflow_state \<Rightarrow> bool" where
  "for_worker msg ut \<longleftrightarrow> wm_State msg = Some ut \<and> ws_ElementType ut = ServiceTask \<and> wm_NumDelivered msg = Some 1 \<and>
     CHR ''.'' \<in> set (wm_Subject msg) \<and> hdrGet (wm_Header msg) SharNamespace \<noteq> [] \<and> hdrGet (wm_Header msg) NatsCompatHeader = []"

text \<open>C14. A service task runs from its message to its completion across the client and the server:
  for a registered function that only computes variables, the worker reads the job over the API,
  calls the function for the version of the job with the variables of the job, and completes the
  task over the API; the server authorises both calls by the header values of the message and
  publishes exactly one message, the completion of the job with the variables that the function
  returned; and the message of the task is acknowledged.\<close>

theorem worker_completes:
  assumes "for_worker msg ut" "connects A c" "completable A E (fromMsg E (wm_Header msg)) w (TID (ws_Id ut)) job ev" "ns_ok E"
    and "map_of (cl_SvcTasks c) (ws_ExecuteVersion job) = Some (ExecutionTypeVars f)"
    and "Decode E [] (ws_Vars job) = Ok vin" "\<And>w. f (jobClient job) vin w = (Ok (Some vout, None), w)" "Encode E vout = Ok ev"
  shows "\<exists>w' m. workMessage b A E L msg (c, w) = (Ok Acked, (c, w')) \<and> published w' = published w @ [m] \<and>
     pm_Subject m = NS WorkflowJobServiceTaskComplete (e_ns E) \<and>
     (\<exists>t. state_of m = Some (job\<lparr> ws_Vars := ev, ws_UnixTimeNano := t \<rparr>))"
proof -
  let ?vals = "fromMsg E (wm_Header msg)" and ?P = "workerParams b A E (fromMsg E (wm_Header msg))"
  obtain k where g: "c_GetJob b A E ?vals (TID (ws_Id ut)) (c, w) = (Ok job, (c, w\<lparr> nextId := Suc (nextId w), sCache := k \<rparr>))"
      "completable A E ?vals (w\<lparr> nextId := Suc (nextId w), sCache := k \<rparr>) (TID (ws_Id ut)) job ev" (is "completable _ _ _ ?w1 _ _ _")
    using c_GetJob_ok [OF assms(3,2) distinct_fromMsg] by blast
  obtain k2 where d: "c_completeServiceTask b A E ?vals (TID (ws_Id ut)) (Some vout) (ws_State job = compensating) (c, ?w1) = (Ok (), (c,
      pubW E WorkflowJobServiceTaskComplete (job\<lparr> ws_Vars := ev \<rparr>) no_opts (?w1\<lparr> nextId := Suc (nextId ?w1), sCache := k2 \<rparr>)))" (is "_ = (_, (_, ?w2))")
    using c_completeServiceTask_ok [OF g(2) assms(2) distinct_fromMsg assms(8,4)] by blast
  have s: "ws_State job \<noteq> compensating" using assms(3) by (simp add: completable_def completes_def)
  have "executeService E (cl_noRecovery c) ?P ut (c, w) = (Ok (True, None), (c, ?w2))"
    using g(1) d s assms(5-7)
    by (intro executeService_ok [of _ _ _ job "(c, ?w1)" "ExecutionTypeVars f" "(c, ?w1)" _ vin "Some vout" "(c, ?w1)"])
       (simp_all add: workerParams_def svcFnLocator_def svcFnExecutor_def bnd_apply handle_apply Let_def)
  then have "workMessage b A E L msg (c, w) = (Ok Acked, (c, ?w2))"
    using assms(1) by (simp add: workMessage_def for_worker_def FromMsgHeaderToCtx_def c_retryNotifier_def ClientProcessFn_def versionError_def
        bnd_apply handle_apply settle_def)
  then show ?thesis by (intro exI [of _ ?w2]) (auto simp: state_of_def state_msg_def)
qed

text \<open>The message of a sender that fails asks for retry settings, which only service tasks have.\<close>

lemma backoff_without_settings:
  assumes "wm_State msg = Some state" "wm_NumDelivered msg = Some n" "map_of (cl_cache c) (ws_WorkflowId state) = Some wkf"
    and "map_of (ElementTable (map_order E 24) wkf) (ws_ElementId state) = Some el" "el_RetryBehaviour (el_data el) = None"
  shows "c_backoff b A E L vals msg (c, w) = (Panic, (c, w))"
  using assms by (simp add: c_backoff_def c_GetWorkflow_def bnd_apply handle_apply)

text \<open>A second delivery while the workflow cannot be read ends the worker.\<close>

lemma notifier_failure_crashes:
  assumes "c_retryNotifier b A E (fromMsg E (wm_Header msg)) msg (c, w) = (Err e, s)"
    and "hdrGet (wm_Header msg) SharNamespace \<noteq> []" "hdrGet (wm_Header msg) NatsCompatHeader = []"
  shows "workMessage b A E L msg (c, w) = (Panic, s)"
  using assms by (simp add: workMessage_def FromMsgHeaderToCtx_def ClientProcessFn_def versionError_def bnd_apply handle_apply)

text \<open>A function that was registered with its types is never called.\<close>

lemma typed_never_called:
  "svcFnExecutor b A E vals tid job ExecutionTypeTyped vin s = (Ok (Some [], Some (ErrOther ''bad execution type'')), s)"
  by (simp add: svcFnExecutor_def)

text \<open>The completion of a task never fails with the error that would cancel the process instance: the call wraps
  it as fatal, and nothing looks inside.\<close>

lemma callError_hidden: "callError code \<noteq> ApiError codeInternal"
  by (simp add: callError_def)

end
