(* ===== verification/Mock.thy ===== *)
theory Mock
  imports Job_Processing Registration
begin

text \<open>
  The mock services of the server, \<open>internal/server/workflow/mock.go\<close>: a task whose specification
  is a mock is executed by the server itself, which answers with the examples of its output
  parameters.  The execution is the one of a client, with the operations of the server in place of
  calls to the API.
\<close>

section \<open>The mock function\<close>

definition mockErrors :: "env \<Rightarrow> task_spec \<Rightarrow> vmap \<Rightarrow> (goerr, string \<times> bool) res" where
  "mockErrors E ts vrs =
     (case Option.bind (ts_Behaviour ts) tb_MockBehaviour of
        None \<Rightarrow> Ok ([], False)
      | Some (errorCodeExpr, fatalErrorExpr) \<Rightarrow>
          bind_res (if errorCodeExpr \<noteq> [] then Eval_string E errorCodeExpr vrs else Ok []) (\<lambda>wfError.
          bind_res (if fatalErrorExpr \<noteq> [] then Eval_bool E fatalErrorExpr vrs else Ok False) (\<lambda>fatalError.
          Ok (wfError, fatalError))))"

definition zeroValue :: "string \<Rightarrow> val" where
  "zeroValue ty =
     (if ty = ''string'' then VString []
      else if ty = ''bool'' then VBool False
      else if ty = ''float'' then VFloat 0
      else if ty = ''int'' then VInt KInt 0
      else VNil)"

text \<open>The variables made so far are returned with the error.\<close>

fun mockOutputs :: "env \<Rightarrow> vmap \<Rightarrow> parameter list \<Rightarrow> vmap \<Rightarrow> vmap \<times> goerr option" where
  "mockOutputs E vrs [] newVars = (newVars, None)"
| "mockOutputs E vrs (p # ps) newVars =
     (if pa_Example p \<noteq> [] then
        case EvalAny E (pa_Example p) vrs of
          Ok v \<Rightarrow> mockOutputs E vrs ps (AList.update (pa_Name p) v newVars)
        | Err e \<Rightarrow> (newVars, Some (ErrWorkflowFatal e None))
        | Panic \<Rightarrow> (newVars, Some (ErrWorkflowFatal (ErrOther ''eval example expression'') None))
      else mockOutputs E vrs ps (AList.update (pa_Name p) (zeroValue (pa_Type p)) newVars))"

definition mockServiceFunction :: "env \<Rightarrow> string \<Rightarrow> vmap \<Rightarrow> (vmap option \<times> goerr option) act" where
  "mockServiceFunction E taskDef vrs =
     handle (bnd (lift_res (Encode E vrs)) (\<lambda>b. lift_res (Decode E [] b))) (\<lambda>e. ret (None, Some e)) (\<lambda>vrs.
     handle (GetTaskSpecByUID taskDef) (\<lambda>e. ret (Some [], Some e)) (\<lambda>ts.
     handle (lift_res (mockErrors E ts vrs)) (\<lambda>e. ret (Some [], Some e)) (\<lambda>(wfError, fatalError).
     if fatalError then ret (Some [], Some (ErrWorkflowFatal (ErrOther ''mock fatal error'') None))
     else case ts_Parameters ts of
       None \<Rightarrow> panic
     | Some ps \<Rightarrow>
         (case mockOutputs E vrs (tp_Output ps) [] of
            (newVars, Some e) \<Rightarrow> ret (Some newVars, Some e)
          | (newVars, None) \<Rightarrow> ret (Some newVars, if wfError \<noteq> [] then Some (WorkflowErrorRef wfError) else None)))))"

definition mockMessageFunction :: "vmap \<Rightarrow> unit act" where
  "mockMessageFunction vrs = ret ()"

section \<open>The consumer\<close>

text \<open>When compensating, the variables of the job that is being executed are read.\<close>

definition mockSvcFnExecutor :: "env \<Rightarrow> string \<Rightarrow> workflow_state \<Rightarrow> unit \<Rightarrow> vmap \<Rightarrow> (vmap option \<times> goerr option) act" where
  "mockSvcFnExecutor E trackingID job svcFn inVars =
     handle (if ws_State job = compensating then
               bnd (GetCompensationInputVariables (ws_ProcessInstanceId job) trackingID) (\<lambda>ins.
               bnd (GetCompensationOutputVariables (ws_ProcessInstanceId job) trackingID) (\<lambda>outs.
               bnd (lift_res (Decode E [] ins)) (\<lambda>_. bnd (lift_res (Decode E [] outs)) (\<lambda>_. ret ()))))
             else ret ())
       (\<lambda>e. ret (None, Some e)) (\<lambda>_. mockServiceFunction E (ws_ExecuteVersion job) inVars)"

definition mockSvcTaskCompleter :: "env \<Rightarrow> string \<Rightarrow> vmap option \<Rightarrow> bool \<Rightarrow> unit act" where
  "mockSvcTaskCompleter E trackingID newVars isCompensating =
     bnd (GetJob trackingID) (\<lambda>job.
     bnd (lift_res (encodeVars E newVars)) (\<lambda>b. CompleteServiceTask E job b))"

definition mockWfErrHandler :: "env \<Rightarrow> string \<Rightarrow> string \<Rightarrow> bytes \<Rightarrow> bool act" where
  "mockWfErrHandler E trackingID errorCode binVars =
     bnd (GetJob trackingID) (\<lambda>state.
     handle (HandleWorkflowError E errorCode binVars state)
       (\<lambda>e. if e = ErrUnhandledWorkflowError then ret False else fail e) (\<lambda>_. ret True))"

definition mockPiErrHandler :: "env \<Rightarrow> string \<Rightarrow> wf_error option \<Rightarrow> unit act" where
  "mockPiErrHandler E processInstanceID wfe =
     bnd (GetProcessInstance processInstanceID) (\<lambda>pi.
     CancelProcessInstance E (empty_state\<lparr> ws_ExecutionId := pi_ExecutionId pi,
       ws_ProcessInstanceId := pi_ProcessInstanceId pi, ws_State := errored, ws_Error := wfe \<rparr>))"

definition mockParams :: "env \<Rightarrow> (world, unit, unit) process_params" where
  "mockParams E = \<lparr> pp_GetJob = GetJob, pp_SvcFnExecutor = mockSvcFnExecutor E, pp_MsgFnExecutor = (\<lambda>tid job fn vs. ret ()),
     pp_SvcFnLocator = (\<lambda>job. ret ()), pp_MsgFnLocator = (\<lambda>job. ret ()), pp_SvcTaskCompleter = mockSvcTaskCompleter E,
     pp_MsgSendCompleter = (\<lambda>tid vs. ret ()), pp_WfErrorHandler = mockWfErrHandler E, pp_PiErrorCanceller = mockPiErrHandler E \<rparr>"

definition processMockServices :: "api \<Rightarrow> env \<Rightarrow> int \<Rightarrow> work_msg \<Rightarrow> disposition act" where
  "processMockServices A E embargo msg =
     processMsg E (Some (SignalFatalErrorTeardown E)) False embargo (ClientProcessFn A E False (Some (mockParams E)) msg)"

section \<open>Properties\<close>

text \<open>The mock answers with a value for every output parameter and with nothing else: its example, when it has one, or
  the zero of its type.\<close>

definition mocked :: "env \<Rightarrow> vmap \<Rightarrow> parameter \<Rightarrow> val" where
  "mocked E vrs p = (if pa_Example p = [] then zeroValue (pa_Type p) else (case EvalAny E (pa_Example p) vrs of Ok v \<Rightarrow> v | _ \<Rightarrow> VNil))"

lemma mockOutputs_spec:
  assumes "\<forall>p \<in> set ps. pa_Example p \<noteq> [] \<longrightarrow> (\<exists>v. EvalAny E (pa_Example p) vrs = Ok v)" "distinct (map pa_Name ps)"
  shows "\<exists>nv. mockOutputs E vrs ps acc = (nv, None) \<and>
    map_of nv = (\<lambda>k. case find (\<lambda>p. pa_Name p = k) ps of Some p \<Rightarrow> Some (mocked E vrs p) | None \<Rightarrow> map_of acc k)"
  using assms
proof (induction ps arbitrary: acc)
  case (Cons p ps)
  have n: "find (\<lambda>q. pa_Name q = pa_Name p) ps = None" using Cons.prems(2) unfolding find_None_iff by (metis distinct.simps(2) image_eqI list.map(2) set_map)
  from Cons.IH [of "AList.update (pa_Name p) (mocked E vrs p) acc"] Cons.prems
  obtain nv where "mockOutputs E vrs ps (AList.update (pa_Name p) (mocked E vrs p) acc) = (nv, None)"
    "map_of nv = (\<lambda>k. case find (\<lambda>p. pa_Name p = k) ps of Some p \<Rightarrow> Some (mocked E vrs p)
       | None \<Rightarrow> map_of (AList.update (pa_Name p) (mocked E vrs p) acc) k)" by auto
  moreover have "mockOutputs E vrs (p # ps) acc = mockOutputs E vrs ps (AList.update (pa_Name p) (mocked E vrs p) acc)"
    using Cons.prems(1) by (auto simp: mocked_def)
  ultimately show ?case using n by (auto simp: fun_eq_iff split: option.splits)
qed simp

text \<open>A specification without a section for parameters makes the mock panic; the panic is recovered, and the workflow
  torn down.\<close>

lemma mock_without_parameters:
  assumes "reliable w" "kv_get (kvTaskSpec w) u = Some ts" "ts_Parameters ts = None" "mockErrors E ts vs = Ok (c, False)"
    and "Encode E vrs = Ok b" "Decode E [] b = Ok vs"
  shows "mockServiceFunction E u vrs w = (Panic, w)"
  using assms by (simp add: mockServiceFunction_def GetTaskSpecByUID_def handle_apply bnd_apply)

text \<open>C17. A mocked service task completes by itself: every declared output gets the value of its
  example, or the zero value of its type, and the completion that is published carries exactly
  these variables.\<close>

theorem mock_completes:
  assumes "wm_State msg = Some ut" "ws_ElementType ut = ServiceTask" "CHR ''.'' \<in> set (wm_Subject msg)" "hdrGet (wm_Header msg) NatsCompatHeader = []"
    and "kv_get (kvJob w) (TID (ws_Id ut)) = Some job" "kv_get (kvTaskSpec w) (ws_ExecuteVersion job) = Some ts"
    and "Decode E [] (ws_Vars job) = Ok vin" "Encode E vin = Ok b" "Decode E [] b = Ok vs"
    and "mockErrors E ts vs = Ok ([], False)" "ts_Parameters ts = Some ps" "distinct (map pa_Name (tp_Output ps))"
    and "\<forall>p \<in> set (tp_Output ps). pa_Example p \<noteq> [] \<longrightarrow> (\<exists>v. EvalAny E (pa_Example p) vs = Ok v)"
    and "Encode E (fst (mockOutputs E vs (tp_Output ps) [])) = Ok ev" "completes E w job ev" "ns_ok E"
  shows "\<exists>nv. processMockServices A E 0 msg w = (Ok Acked, pubW E WorkflowJobServiceTaskComplete (job\<lparr> ws_Vars := ev \<rparr>) no_opts w) \<and>
     Encode E nv = Ok ev \<and> map_of nv = (\<lambda>k. map_option (mocked E vs) (find (\<lambda>p. pa_Name p = k) (tp_Output ps)))"
proof -
  obtain nv where nv: "mockOutputs E vs (tp_Output ps) [] = (nv, None)"
    "map_of nv = (\<lambda>k. case find (\<lambda>p. pa_Name p = k) (tp_Output ps) of Some p \<Rightarrow> Some (mocked E vs p) | None \<Rightarrow> map_of [] k)"
    using mockOutputs_spec [OF assms(13,12), of "[]"] by blast
  have w: "reliable w" "ws_State job \<noteq> compensating" using assms(15) by (simp_all add: completes_def)
  have "executeService E False (mockParams E) ut w =
      (Ok (True, None), pubW E WorkflowJobServiceTaskComplete (job\<lparr> ws_Vars := ev \<rparr>) no_opts w)"
    by (rule executeService_ok [where job = job and ?w1.0 = w and ?w2.0 = w and ?w3.0 = w and dv = vin and nv = "Some nv"])
       (use assms nv(1) w in \<open>simp_all add: mockParams_def mockSvcFnExecutor_def mockServiceFunction_def GetTaskSpecByUID_def
          mockSvcTaskCompleter_def encodeVars_def handle_apply bnd_apply CompleteServiceTask_ok\<close>)
  then have "processMockServices A E 0 msg w = (Ok Acked, pubW E WorkflowJobServiceTaskComplete (job\<lparr> ws_Vars := ev \<rparr>) no_opts w)"
    using assms(1-4) by (simp add: processMockServices_def processMsg_def ClientProcessFn_def versionError_def settle_def bnd_apply)
  moreover have "map_of nv = (\<lambda>k. map_option (mocked E vs) (find (\<lambda>p. pa_Name p = k) (tp_Output ps)))"
    using nv(2) by (simp add: fun_eq_iff split: option.splits)
  ultimately show ?thesis using nv(1) assms(14) by auto
qed

end
