(* ===== verification/Witness_Client.thy ===== *)
theory Witness_Client
  imports Witness_Api Worker Mock
begin

text \<open>
  A client of the server that ships goods: a running job of a service task, the function that the
  client registered for it, and the same job executed by the server as a mock.
\<close>

section \<open>The world\<close>

definition ship_retry :: task_retry where
  "ship_retry = \<lparr> rt_Number = 3, rt_Strategy = Exponential, rt_InitMilli = 0, rt_IntervalMilli = 1000, rt_MaxMilli = 512000,
     rt_DefaultExceeded = Some \<lparr> rx_Action = SetVariableValue, rx_Variable = ''sent'', rx_VariableType = ''bool'',
       rx_VariableValue = ''false'', rx_ErrorCode = [] \<rparr> \<rparr>"

definition ship :: elem_data where
  "ship = (node ''ship'' ServiceTask [])\<lparr> el_Execute := ''Ship'', el_Version := Some ''u3'', el_OutputTransform := [(''sent'', ''=sent'')],
     el_RetryBehaviour := Some ship_retry \<rparr>"

definition wf_ship :: workflow where
  "wf_ship = empty_workflow\<lparr> wf_Name := ''public'', wf_Process := [(''s'', Proc [Elem ship None] ''s'' None)], wf_Collaboration := Some [] \<rparr>"

definition ship_job :: workflow_state where
  "ship_job = empty_state\<lparr> ws_WorkflowId := ''ws'', ws_WorkflowName := ''public'', ws_ExecutionId := ''e'', ws_ProcessInstanceId := ''i'',
     ws_ProcessId := ''s'', ws_ElementId := ''ship'', ws_ElementType := ServiceTask, ws_Id := [''i'', ''a'', ''j''],
     ws_Execute := Some ''Ship'', ws_ExecuteVersion := ''u3'', ws_Vars := ''0'' \<rparr>"

definition mock_spec :: task_spec where
  "mock_spec = ship_spec\<lparr> ts_Parameters := Some \<lparr> tp_Input = [],
     tp_Output = [\<lparr> pa_Name = ''sent'', pa_Type = ''string'', pa_Collection = False, pa_Mandatory = True, pa_ValidateExpr = [], pa_Example = [] \<rparr>] \<rparr> \<rparr>"

definition shipping :: world where
  "shipping = empty_world\<lparr> kvDefinition := kv_put ''ws'' wf_ship empty_bucket, kvJob := kv_put ''j'' ship_job empty_bucket,
     kvHistory := kv_put (historyKey ''i'' ''a'' activityExecute) (history_of ship_job activityExecute) empty_bucket,
     kvTaskSpec := kv_put ''u3'' mock_spec empty_bucket \<rparr>"

definition dispatch_fn :: service_fn where
  "dispatch_fn jc vs = ret (Some [(''sent'', VString ''today'')], None)"

definition cl0 :: client where
  "cl0 = \<lparr> cl_id = ''c'', cl_host = ''h'', cl_ns = ''default'', cl_SvcTasks = [(''u3'', ExecutionTypeVars dispatch_fn)], cl_MsgSender = [],
     cl_listenTasks = [''u3''], cl_msgListenTasks = [], cl_proCompleteTasks = [], cl_ExpectedCompatibleServerVersion = Some ''v1.1.503'',
     cl_ExpectedServerVersion = None, cl_version = ''v1.1.503'', cl_noRecovery = False, cl_cache = [(''ws'', wf_ship)] \<rparr>"

definition ship_msg :: work_msg where
  "ship_msg = \<lparr> wm_Subject = ''WORKFLOW.default.State.Job.Execute.ServiceTask.u3'',
     wm_Header = [(''Shar-Namespace'', ''default''), (''Shar-Header_user'', ''eve'')], wm_State = Some ship_job, wm_NumDelivered = Some 1 \<rparr>"

definition L0 :: client_lib where
  "L0 = \<lparr> li_int64 = (\<lambda>_. - (2 ^ 63)), li_ParseFloat = (\<lambda>_. Ok 0) \<rparr>"

section \<open>Witnesses\<close>


lemma ship_table: "map_of (ElementTable (map_order E0 i) wf_ship) ''ship'' = Some (Elem ship None)"
  by (simp add: ElementTable_def wf_ship_def rangeMap_def ship_def node_def)

lemma ship_sel [simp]: "ws_Id ship_job = [''i'', ''a'', ''j'']" "ws_State ship_job = executing" "ws_WorkflowId ship_job = ''ws''"
  "ws_ElementId ship_job = ''ship''" "ws_ElementType ship_job = ServiceTask" "ws_ProcessInstanceId ship_job = ''i''"
  "ws_ExecuteVersion ship_job = ''u3''" "ws_Vars ship_job = ''0''"
  by (simp_all add: ship_job_def empty_state_def)

lemma shipping_sel [simp]: "reliable shipping" "cache_coherent shipping" "published shipping = []"
  "kv_get (kvDefinition shipping) k = (if k = ''ws'' then Some wf_ship else None)"
  "kv_get (kvJob shipping) k = (if k = ''j'' then Some ship_job else None)"
  "kv_get (kvTaskSpec shipping) k = (if k = ''u3'' then Some mock_spec else None)"
  "kv_get (kvHistory shipping) k = (if k = historyKey ''i'' ''a'' activityExecute then Some (history_of ship_job activityExecute) else None)"
  by (simp_all add: shipping_def cache_coherent_def) (simp_all add: empty_world_def)

lemma ship_ids [simp]: "TID [''i'', ''a'', ''j''] = ''j''" "ParentID [''i'', ''a'', ''j''] = ''a''"
  by (simp_all add: TID_def ParentID_def Ancestor_def)

lemma shipping_completes:
  assumes "marshal_text [(''sent'', VString s)] = Ok ev"
  shows "completes E0 shipping ship_job ev"
proof -
  have "ev \<noteq> []" "unmarshal_text ev = Ok [(''sent'', VString s)]" using unmarshal_marshal [OF assms] by simp_all
  then have "CheckVars E0 (ship_job\<lparr> ws_Vars := ev \<rparr>) ship = Ok ()"
    by (simp add: CheckVars_def ship_def Decode_def rangeMap_def GetVariables_def TrimSpace_def is_space_def)
  then show ?thesis using ship_table [of 4] by (simp add: completes_def)
qed

lemma eve_may: "may_call A0 (fromMsg E0 (wm_Header ship_msg)) ''public'' fs"
proof -
  have "fromMsg E0 (wm_Header ship_msg) = [(''user'', ''eve'')]" by code_simp
  then show ?thesis by (auto simp: may_call_def authorize_def authenticate_def A0_def)
qed

lemma cl0_connects: "connects A0 cl0"
  by (simp add: connects_def cl0_def IsCompatible_def GetCompatibleVersion_def versions_def A0_def map_filter_simps)

theorem worker_completes_witness:
  "\<exists>w' m. workMessage True A0 E0 L0 ship_msg (cl0, shipping) = (Ok Acked, (cl0, w')) \<and> published w' = [m] \<and>
     pm_Subject m = NS WorkflowJobServiceTaskComplete ''default'' \<and> map_option ws_Id (state_of m) = Some [''i'', ''a'', ''j'']"
proof -
  obtain ev where ev: "marshal_text [(''sent'', VString ''today'')] = Ok ev" by (simp add: marshal_text_def)
  have f: "for_worker ship_msg ship_job" by (simp add: for_worker_def ship_msg_def hdrGet_def alist_get_def SharNamespace_def NatsCompatHeader_def)
  have c: "completable A0 E0 (fromMsg E0 (wm_Header ship_msg)) shipping (TID (ws_Id ship_job)) ship_job ev"
    using shipping_completes [OF ev] eve_may by (simp add: completable_def wf_ship_def)
  have t: "map_of (cl_SvcTasks cl0) (ws_ExecuteVersion ship_job) = Some (ExecutionTypeVars dispatch_fn)" by (simp add: cl0_def)
  have d: "Decode E0 [] (ws_Vars ship_job) = Ok []" by (simp add: Decode_def unmarshal_text_def)
  have e: "Encode E0 [(''sent'', VString ''today'')] = Ok ev" using ev by (simp add: Encode_def)
  show ?thesis
    using worker_completes [OF f cl0_connects c E0_ok(4) t d _ e, of True L0] by (auto simp: dispatch_fn_def)
qed

theorem retries_exhausted_witness:
  "\<exists>s. c_backoff True A0 E0 L0 [] (ship_msg\<lparr> wm_NumDelivered := Some 3 \<rparr>) (cl0, shipping) = (Ok Terminated, s)"
proof -
  have h: "map_of (cl_cache cl0) (ws_WorkflowId ship_job) = Some wf_ship" "el_RetryBehaviour (el_data (Elem ship None)) = Some ship_retry"
    by (simp_all add: cl0_def ship_def)
  obtain x where x: "rt_DefaultExceeded ship_retry = Some x" "rt_Number ship_retry \<le> 3" by (simp add: ship_retry_def)
  have t: "map_of (ElementTable (map_order E0 24) wf_ship) (ws_ElementId ship_job) = Some (Elem ship None)" using ship_table by simp
  have c: "mp_marshal E0 m \<noteq> Panic" "li_ParseFloat L0 s \<noteq> Panic" for m s
    by (simp_all add: marshal_text_def L0_def split: option.splits list.splits)
  have m: "wm_State (ship_msg\<lparr> wm_NumDelivered := Some 3 \<rparr>) = Some ship_job" "wm_NumDelivered (ship_msg\<lparr> wm_NumDelivered := Some 3 \<rparr>) = Some 3"
    by (simp_all add: ship_msg_def)
  show ?thesis using retries_exhausted [OF m h(1) t h(2) x c, of True A0 "[]" shipping] by blast
qed

theorem mock_completes_witness:
  "\<exists>ev nv. processMockServices A0 E0 0 ship_msg shipping =
       (Ok Acked, pubW E0 WorkflowJobServiceTaskComplete (ship_job\<lparr> ws_Vars := ev \<rparr>) no_opts shipping) \<and>
     Encode E0 nv = Ok ev \<and> map_of nv ''sent'' = Some (VString [])"
proof -
  let ?ps = "the (ts_Parameters mock_spec)"
  obtain ev where ev: "marshal_text [(''sent'', VString [])] = Ok ev" by (simp add: marshal_text_def)
  have s: "ts_Parameters mock_spec = Some ?ps" "tp_Output ?ps = [\<lparr> pa_Name = ''sent'', pa_Type = ''string'', pa_Collection = False,
      pa_Mandatory = True, pa_ValidateExpr = [], pa_Example = [] \<rparr>]" "mockErrors E0 mock_spec [] = Ok ([], False)"
    by (simp_all add: mock_spec_def mockErrors_def ship_spec_def pay_spec_def)
  have m: "wm_State ship_msg = Some ship_job" "CHR ''.'' \<in> set (wm_Subject ship_msg)" "hdrGet (wm_Header ship_msg) NatsCompatHeader = []"
    by (simp_all add: ship_msg_def hdrGet_def alist_get_def NatsCompatHeader_def)
  have d: "Decode E0 [] (ws_Vars ship_job) = Ok []" "Encode E0 [] = Ok ''0''" "Decode E0 [] ''0'' = Ok []"
    by (simp_all add: Decode_def Encode_def unmarshal_text_def marshal_text_def)
  have o: "Encode E0 (fst (mockOutputs E0 [] (tp_Output ?ps) [])) = Ok ev"
    using ev by (simp add: s(2) zeroValue_def Encode_def)
  obtain nv where "processMockServices A0 E0 0 ship_msg shipping =
       (Ok Acked, pubW E0 WorkflowJobServiceTaskComplete (ship_job\<lparr> ws_Vars := ev \<rparr>) no_opts shipping)" "Encode E0 nv = Ok ev"
     "map_of nv = (\<lambda>k. map_option (mocked E0 []) (find (\<lambda>p. pa_Name p = k) (tp_Output ?ps)))"
    using mock_completes [OF m(1) _ m(2,3) _ _ d s(3,1) _ _ o shipping_completes [OF ev] E0_ok(4), of A0] by (auto simp: s(2))
  then show ?thesis by (intro exI [of _ ev] exI [of _ nv]) (simp add: s(2) mocked_def zeroValue_def)
qed

end
