(* ===== verification/Linter.thy ===== *)
theory Linter
  imports Engine
begin

text \<open>
  The linter that a client runs on a parsed workflow, \<open>common/linter/linter.go\<close> and
  \<open>directed_scan.go\<close>: the rules for link events, and the directed scan from the start events.

  The scan recurses along the connections; the model gives it fuel, and the number of indexed
  elements is enough.  \<open>index\<close> is keyed by the ids of the elements, and an element is told from
  another by its id.
\<close>

section \<open>The directed scan\<close>

record directedTraversalInstruction =
  di_EndOfProcess :: "(elem_data \<Rightarrow> (goerr, unit) res) option"
  di_Cyclic :: "(elem_data \<Rightarrow> elem_data \<Rightarrow> elem_data \<Rightarrow> (goerr, unit) res) option"

text \<open>The target of a link is the throw event itself.\<close>

definition scanTargets :: "(string \<times> element) list \<Rightarrow> elem_data \<Rightarrow> (goerr, string list) res" where
  "scanTargets index el =
     (if el_Type el = LinkIntermediateThrowEvent then
        if list_ex (\<lambda>(_, srch). el_Id (el_data srch) \<noteq> el_Id el \<and> el_Execute (el_data srch) = el_Execute el) index
        then Ok [el_Id el]
        else Err (ErrOther ''link references non-existent target'')
      else case el_Outbound el of
        None \<Rightarrow> Ok []
      | Some ob \<Rightarrow> Ok (map tg_Target (tgs_Target ob)))"

text \<open>An element that was visited ends the scan of the targets.  A target that is not indexed is a nil dereference.\<close>

fun directedColouredTraverse :: "nat \<Rightarrow> directedTraversalInstruction \<Rightarrow> (string \<times> element) list \<Rightarrow> elem_data \<Rightarrow>
      (string \<times> elem_data) list \<Rightarrow> ((goerr, unit) res \<times> (string \<times> elem_data) list) option"
  and traverseTargets :: "nat \<Rightarrow> directedTraversalInstruction \<Rightarrow> (string \<times> element) list \<Rightarrow> elem_data \<Rightarrow> string list \<Rightarrow>
      (string \<times> elem_data) list \<Rightarrow> ((goerr, unit) res \<times> (string \<times> elem_data) list) option" where
  "directedColouredTraverse 0 I index el visited = None"
| "directedColouredTraverse (Suc n) I index el visited =
     (case scanTargets index el of
        Ok [] \<Rightarrow> Some (case di_EndOfProcess I of None \<Rightarrow> Ok () | Some f \<Rightarrow> f el, visited)
      | Ok (t # ts) \<Rightarrow> traverseTargets n I index el (t # ts) visited
      | Err e \<Rightarrow> Some (Err e, visited)
      | Panic \<Rightarrow> Some (Panic, visited))"
| "traverseTargets n I index el [] visited = Some (Ok (), visited)"
| "traverseTargets n I index el (t # ts) visited =
     (case map_of index t of
        None \<Rightarrow> Some (Panic, visited)
      | Some target \<Rightarrow>
          (case map_of visited (el_Id (el_data target)) of
             Some otherTarget \<Rightarrow>
               Some (case di_Cyclic I of None \<Rightarrow> Ok () | Some f \<Rightarrow> f el (el_data target) otherTarget, visited)
           | None \<Rightarrow>
               (case directedColouredTraverse n I index (el_data target) (AList.update (el_Id (el_data target)) el visited) of
                  Some (Ok _, visited') \<Rightarrow> traverseTargets n I index el ts visited'
                | stopped \<Rightarrow> stopped)))"

definition findProcessStarts :: "process \<Rightarrow> elem_data list" where
  "findProcessStarts p = filter (\<lambda>d. el_Type d \<in> {StartEvent, TimedStartEvent}) (map el_data (pr_Elements p))"

fun scanStarts :: "nat \<Rightarrow> directedTraversalInstruction \<Rightarrow> (string \<times> element) list \<Rightarrow> elem_data list \<Rightarrow>
    (string \<times> elem_data) list \<Rightarrow> (goerr, unit) res option" where
  "scanStarts n I index [] visited = Some (Ok ())"
| "scanStarts n I index (start # starts) visited =
     (case directedColouredTraverse n I index start (AList.update (el_Id start) start visited) of
        Some (Ok _, visited') \<Rightarrow> scanStarts n I index starts visited'
      | Some (r, _) \<Rightarrow> Some r
      | None \<Rightarrow> None)"

definition startDirectedScan :: "process \<Rightarrow> directedTraversalInstruction \<Rightarrow> (goerr, unit) res option" where
  "startDirectedScan p I =
     (let index = IndexProcessElements (pr_Elements p) []
      in scanStarts (Suc (length index)) I index (findProcessStarts p) [])"

section \<open>The rules for link events\<close>

datatype lint_type = MessageTypeError | MessageTypeWarning | MessageTypeInfo

fun lint_level :: "lint_type \<Rightarrow> nat" where
  "lint_level MessageTypeError = 0"
| "lint_level MessageTypeWarning = 1"
| "lint_level MessageTypeInfo = 2"

record lint_message =
  lm_Type :: lint_type
  lm_Text :: string

definition linkEvent :: "string \<Rightarrow> elem_data \<Rightarrow> (string \<times> string) list \<times> (string \<times> string) list \<times> lint_message list \<Rightarrow>
    (string \<times> string) list \<times> (string \<times> string) list \<times> lint_message list" where
  "linkEvent pid e = (\<lambda>(catch, throw, msgs).
     let (catch', msgs') =
           (if el_Type e = LinkIntermediateCatchEvent then
              case map_of catch (el_Execute e) of
                None \<Rightarrow> (AList.update (el_Execute e) (el_Id e) catch, msgs)
              | Some x \<Rightarrow> (catch, msgs @ [\<lparr> lm_Type = MessageTypeError, lm_Text = ''Duplicate link catch: '' @ x @ '' in '' @ pid \<rparr>])
            else (catch, msgs))
     in (catch', if el_Type e = LinkIntermediateThrowEvent then AList.update (el_Execute e) (el_Id e) throw else throw, msgs'))"

definition linkEventRules :: "env \<Rightarrow> lint_message list \<Rightarrow> process \<Rightarrow> lint_message list" where
  "linkEventRules E msgs p =
     (case fold (linkEvent (pr_Id p)) (map el_data (pr_Elements p)) ([], [], msgs) of
        (catch, throw, msgs) \<Rightarrow>
          msgs
          @ List.map_filter (\<lambda>(k, v). if map_of catch k = None
              then Some \<lparr> lm_Type = MessageTypeError, lm_Text = ''No link catch for throw '' @ k @ '' in '' @ v @ '' in '' @ pr_Id p \<rparr> else None)
              (rangeMap (map_order E 27) throw)
          @ List.map_filter (\<lambda>(k, v). if map_of throw k = None
              then Some \<lparr> lm_Type = MessageTypeWarning, lm_Text = ''No link throw for catch '' @ k @ '' in '' @ v @ '' in '' @ pr_Id p \<rparr> else None)
              (rangeMap (map_order E 28) catch))"

section \<open>The linter\<close>

definition ErrMissingEndEvent :: goerr where "ErrMissingEndEvent = ErrOther ''missing end event''"

definition ErrLint :: goerr where "ErrLint = ErrOther ''linter returned errors''"

definition endEventRule :: "elem_data \<Rightarrow> (goerr, unit) res" where
  "endEventRule d = (if el_Type d \<in> {EndEvent, CompensateEndEvent} then Ok () else Err ErrMissingEndEvent)"

definition lintInstruction :: directedTraversalInstruction where
  "lintInstruction = \<lparr> di_EndOfProcess = Some endEventRule, di_Cyclic = None \<rparr>"

fun lintProcesses :: "env \<Rightarrow> process list \<Rightarrow> lint_message list \<Rightarrow> (goerr, lint_message list) res option" where
  "lintProcesses E [] m = Some (Ok m)"
| "lintProcesses E (p # ps) m =
     (case startDirectedScan p lintInstruction of
        None \<Rightarrow> None
      | Some (Ok _) \<Rightarrow> lintProcesses E ps (linkEventRules E m p)
      | Some (Err e) \<Rightarrow> Some (Err e)
      | Some Panic \<Rightarrow> Some Panic)"

text \<open>The messages and the error; when a scan fails there are no messages.\<close>

definition Lint :: "env \<Rightarrow> workflow \<Rightarrow> bool \<Rightarrow> (goerr, lint_message list \<times> goerr option) res option" where
  "Lint E wkf warningsAsErrors =
     (case lintProcesses E (map snd (rangeMap (map_order E 26) (wf_Process wkf))) [] of
        None \<Rightarrow> None
      | Some (Ok m) \<Rightarrow>
          Some (Ok (m, if list_ex (\<lambda>x. lint_level (lm_Type x) \<le> (if warningsAsErrors then 1 else 0)) m then Some ErrLint else None))
      | Some (Err e) \<Rightarrow> Some (Err e)
      | Some Panic \<Rightarrow> Some Panic)"

section \<open>The scan returns\<close>

text \<open>What is visited stays visited, and every visit that recurses takes an indexed element that was not.\<close>

definition by_id :: "(string \<times> element) list \<Rightarrow> bool" where
  "by_id index \<longleftrightarrow> (\<forall>t e. map_of index t = Some e \<longrightarrow> el_Id (el_data e) = t)"

lemma traverse_returns:
  shows "by_id index \<Longrightarrow> card (fst ` set index - fst ` set visited) < n \<Longrightarrow>
      \<exists>r v. directedColouredTraverse n I index el visited = Some (r, v) \<and> fst ` set visited \<subseteq> fst ` set v"
    and "by_id index \<Longrightarrow> card (fst ` set index - fst ` set visited) \<le> n \<Longrightarrow>
      \<exists>r v. traverseTargets n I index el ts visited = Some (r, v) \<and> fst ` set visited \<subseteq> fst ` set v"
proof (induction n I index el visited and n I index el ts visited rule: directedColouredTraverse_traverseTargets.induct)
  case (2 n I index el visited)
  then show ?case by (cases "scanTargets index el") (auto split: list.splits)
next
  case (4 n I index el t ts visited)
  show ?case
  proof (cases "map_of index t")
    case (Some target)
    then have t: "el_Id (el_data target) = t" "t \<in> fst ` set index" using "4.prems"(1) unfolding by_id_def by (auto dest: map_of_SomeD intro: rev_image_eqI)
    show ?thesis
    proof (cases "map_of visited t")
      case None
      then have f: "t \<notin> fst ` set visited" by (simp add: map_of_eq_None_iff)
      let ?v = "AList.update t el visited"
      have v: "fst ` set ?v = insert t (fst ` set visited)" by (simp add: dom_update)
      have "fst ` set index - fst ` set ?v \<subset> fst ` set index - fst ` set visited" using t(2) f v by auto
      then have "card (fst ` set index - fst ` set ?v) < card (fst ` set index - fst ` set visited)" by (intro psubset_card_mono) simp_all
      then have c: "card (fst ` set index - fst ` set ?v) < n" using "4.prems"(2) by linarith
      obtain r v' where d: "directedColouredTraverse n I index (el_data target) ?v = Some (r, v')" "fst ` set ?v \<subseteq> fst ` set v'"
        using "4.IH"(1) [of target] Some None t(1) c "4.prems"(1) by auto
      then have s: "fst ` set visited \<subseteq> fst ` set v'" using v by auto
      then have "card (fst ` set index - fst ` set v') \<le> card (fst ` set index - fst ` set visited)" by (intro card_mono) auto
      then have "card (fst ` set index - fst ` set v') \<le> n" using "4.prems"(2) by linarith
      then have "r = Ok () \<Longrightarrow> \<exists>r v. traverseTargets n I index el ts v' = Some (r, v) \<and> fst ` set v' \<subseteq> fst ` set v"
        using "4.IH"(2) [of target] d(1) Some None t(1) "4.prems"(1) by auto
      then show ?thesis using d(1) s Some None t(1) by (cases r) auto
    qed (use Some t in auto)
  qed simp
qed auto

lemma by_id_Index: "by_id (IndexProcessElements es [])"
  unfolding by_id_def map_of_Index by (auto simp: element_id_def dest!: map_of_SomeD)

lemma scanStarts_returns:
  assumes "by_id index" "length index < n" shows "\<exists>r. scanStarts n I index starts visited = Some r"
proof (induction starts arbitrary: visited)
  case (Cons s starts)
  let ?v = "AList.update (el_Id s) s visited"
  have "card (fst ` set index - fst ` set ?v) \<le> card (fst ` set index)" by (intro card_mono) auto
  also have "\<dots> \<le> length index" by (metis card_image_le card_length finite_set le_trans)
  finally obtain r v where "directedColouredTraverse n I index s ?v = Some (r, v)"
    using traverse_returns(1) [OF assms(1), of ?v n I s] assms(2) by auto
  then show ?case using Cons by (cases r) auto
qed simp

lemma startDirectedScan_returns: "\<exists>r. startDirectedScan p I = Some r"
  unfolding startDirectedScan_def Let_def by (rule scanStarts_returns) (simp_all add: by_id_Index)

section \<open>What a verdict means\<close>

text \<open>The elements that the scan goes to from an element, and those that give its errors: an element without connections that
  is no end event, a link throw event whose name no other element has, and a connection to nowhere.\<close>

definition leads :: "(string \<times> element) list \<Rightarrow> elem_data \<Rightarrow> elem_data \<Rightarrow> bool" where
  "leads index a b \<longleftrightarrow> (\<exists>ts t e. scanTargets index a = Ok ts \<and> t \<in> set ts \<and> map_of index t = Some e \<and> b = el_data e)"

definition dead_end :: "(string \<times> element) list \<Rightarrow> elem_data \<Rightarrow> bool" where
  "dead_end index x \<longleftrightarrow> scanTargets index x = Ok [] \<and> el_Type x \<notin> {EndEvent, CompensateEndEvent} \<or> (\<exists>e. scanTargets index x = Err e)"

definition dangling :: "(string \<times> element) list \<Rightarrow> elem_data \<Rightarrow> bool" where
  "dangling index x \<longleftrightarrow> (\<exists>ts t. scanTargets index x = Ok ts \<and> t \<in> set ts \<and> map_of index t = None)"

definition at_fault :: "(goerr, unit) res \<Rightarrow> (string \<times> element) list \<Rightarrow> elem_data \<Rightarrow> bool" where
  "at_fault r index x \<longleftrightarrow> (case r of Ok _ \<Rightarrow> True | Err _ \<Rightarrow> dead_end index x | Panic \<Rightarrow> dangling index x)"

lemma traverse_fault:
  shows "directedColouredTraverse n lintInstruction index el visited = Some (r, v) \<Longrightarrow> \<exists>x. (leads index)\<^sup>*\<^sup>* el x \<and> at_fault r index x"
    and "traverseTargets n lintInstruction index el ts visited = Some (r, v) \<Longrightarrow>
      scanTargets index el = Ok ts0 \<Longrightarrow> set ts \<subseteq> set ts0 \<Longrightarrow> \<exists>x. (leads index)\<^sup>*\<^sup>* el x \<and> at_fault r index x"
proof (induction n lintInstruction index el visited and n lintInstruction index el ts visited arbitrary: r v and r v ts0
    rule: directedColouredTraverse_traverseTargets.induct)
  case (2 n index el visited)
  then show ?case
    by (cases "scanTargets index el")
       (auto simp: at_fault_def dead_end_def lintInstruction_def endEventRule_def scanTargets_def split: list.splits if_splits option.splits)
next
  case (3 n index el visited)
  then show ?case by (auto simp: at_fault_def)
next
  case (4 n index el t ts visited)
  show ?case
  proof (cases "map_of index t")
    case None
    then show ?thesis using 4 by (auto simp: at_fault_def dangling_def)
  next
    case (Some target)
    then have l: "leads index el (el_data target)" using "4.prems" by (auto simp: leads_def)
    show ?thesis
    proof (cases "map_of visited (el_Id (el_data target))")
      case None
      let ?d = "directedColouredTraverse n lintInstruction index (el_data target) (AList.update (el_Id (el_data target)) el visited)"
      obtain r' v' where d: "?d = Some (r', v')" using "4.prems"(1) Some None by (auto split: option.splits)
      obtain x where "(leads index)\<^sup>*\<^sup>* (el_data target) x" "at_fault r' index x" using "4.hyps"(1) [OF Some None d] by blast
      then have x: "(leads index)\<^sup>*\<^sup>* el x" "at_fault r' index x" using l by (auto intro: converse_rtranclp_into_rtranclp)
      show ?thesis using "4.prems" "4.hyps"(2) [OF Some None d] d x Some None by (cases r') auto
    qed (use "4.prems"(1) Some in \<open>auto simp: lintInstruction_def at_fault_def\<close>)
  qed
qed simp

lemma scan_fault:
  "scanStarts n lintInstruction index starts visited = Some r \<Longrightarrow> r \<noteq> Ok () \<Longrightarrow>
     \<exists>s \<in> set starts. \<exists>x. (leads index)\<^sup>*\<^sup>* s x \<and> at_fault r index x"
proof (induction starts arbitrary: visited)
  case (Cons s starts)
  then obtain r' v where d: "directedColouredTraverse n lintInstruction index s (AList.update (el_Id s) s visited) = Some (r', v)"
    by (auto split: option.splits)
  then show ?case using Cons traverse_fault(1) [OF d] by (cases r') auto
qed simp

text \<open>The names of the link events of a process, and the processes in which they pair up: every name is caught once, and
  it is thrown exactly when it is caught.\<close>

definition link_names :: "string \<Rightarrow> elem_data list \<Rightarrow> string list" where
  "link_names ty ds = map el_Execute (filter (\<lambda>d. el_Type d = ty) ds)"

definition links_paired :: "process \<Rightarrow> bool" where
  "links_paired p \<longleftrightarrow> (let ds = map el_data (pr_Elements p) in
     distinct (link_names LinkIntermediateCatchEvent ds) \<and>
     set (link_names LinkIntermediateThrowEvent ds) = set (link_names LinkIntermediateCatchEvent ds))"

lemma linkEvent_cases:
  "el_Type d = LinkIntermediateCatchEvent \<Longrightarrow> el_Execute d \<notin> fst ` set c \<Longrightarrow>
     linkEvent pid d (c, t, m) = (AList.update (el_Execute d) (el_Id d) c, t, m)"
  "el_Type d = LinkIntermediateCatchEvent \<Longrightarrow> el_Execute d \<in> fst ` set c \<Longrightarrow>
     \<exists>y. lint_level (lm_Type y) \<le> 1 \<and> linkEvent pid d (c, t, m) = (c, t, m @ [y])"
  "el_Type d = LinkIntermediateThrowEvent \<Longrightarrow> linkEvent pid d (c, t, m) = (c, AList.update (el_Execute d) (el_Id d) t, m)"
  "el_Type d \<noteq> LinkIntermediateCatchEvent \<Longrightarrow> el_Type d \<noteq> LinkIntermediateThrowEvent \<Longrightarrow> linkEvent pid d (c, t, m) = (c, t, m)"
proof -
  have n: "LinkIntermediateCatchEvent \<noteq> LinkIntermediateThrowEvent" by (simp add: LinkIntermediateCatchEvent_def LinkIntermediateThrowEvent_def)
  have k: "k \<in> fst ` set c \<longleftrightarrow> (\<exists>x. map_of c k = Some x)" for k by (metis map_of_eq_None_iff not_None_eq)
  show "el_Type d = LinkIntermediateCatchEvent \<Longrightarrow> el_Execute d \<notin> fst ` set c \<Longrightarrow>
     linkEvent pid d (c, t, m) = (AList.update (el_Execute d) (el_Id d) c, t, m)" using n by (simp add: linkEvent_def k)
  show "el_Type d = LinkIntermediateCatchEvent \<Longrightarrow> el_Execute d \<in> fst ` set c \<Longrightarrow>
     \<exists>y. lint_level (lm_Type y) \<le> 1 \<and> linkEvent pid d (c, t, m) = (c, t, m @ [y])" using n by (auto simp: linkEvent_def k)
qed (simp_all add: linkEvent_def LinkIntermediateCatchEvent_def LinkIntermediateThrowEvent_def)

lemma link_names_simps:
  "link_names ty [] = []" "link_names ty (d # ds) = (if el_Type d = ty then el_Execute d # link_names ty ds else link_names ty ds)"
  by (simp_all add: link_names_def)

lemma linkEvents_spec:
  assumes "fold (linkEvent pid) ds (c, t, m) = (c', t', m')"
  shows "fst ` set c' = fst ` set c \<union> set (link_names LinkIntermediateCatchEvent ds) \<and>
    fst ` set t' = fst ` set t \<union> set (link_names LinkIntermediateThrowEvent ds) \<and>
    (distinct (map fst c) \<longrightarrow> distinct (map fst c')) \<and> (distinct (map fst t) \<longrightarrow> distinct (map fst t')) \<and>
    (\<exists>x. m' = m @ x \<and> (\<forall>y \<in> set x. lint_level (lm_Type y) \<le> 1) \<and>
       (x = [] \<longleftrightarrow> distinct (link_names LinkIntermediateCatchEvent ds) \<and> set (link_names LinkIntermediateCatchEvent ds) \<inter> fst ` set c = {}))"
  using assms
proof (induction ds arbitrary: c t m)
  case (Cons d ds)
  have n: "LinkIntermediateCatchEvent \<noteq> LinkIntermediateThrowEvent" by (simp add: LinkIntermediateCatchEvent_def LinkIntermediateThrowEvent_def)
  consider (new) "el_Type d = LinkIntermediateCatchEvent" "el_Execute d \<notin> fst ` set c"
    | (dup) "el_Type d = LinkIntermediateCatchEvent" "el_Execute d \<in> fst ` set c"
    | (throw) "el_Type d = LinkIntermediateThrowEvent"
    | (other) "el_Type d \<noteq> LinkIntermediateCatchEvent" "el_Type d \<noteq> LinkIntermediateThrowEvent" by blast
  then show ?case
  proof cases
    case new
    with Cons.prems have "fold (linkEvent pid) ds (AList.update (el_Execute d) (el_Id d) c, t, m) = (c', t', m')" by (simp add: linkEvent_cases)
    note h = Cons.IH [OF this]
    define K where "K = fst ` set c"
    have u: "fst ` set (AList.update (el_Execute d) (el_Id d) c) = insert (el_Execute d) K" by (simp add: dom_update K_def)
    show ?thesis using h [unfolded u] new n unfolding K_def [symmetric] by (auto simp: link_names_simps distinct_update)
  next
    case dup
    then obtain y where y: "lint_level (lm_Type y) \<le> 1" "linkEvent pid d (c, t, m) = (c, t, m @ [y])" using linkEvent_cases(2) by blast
    with Cons.prems have "fold (linkEvent pid) ds (c, t, m @ [y]) = (c', t', m')" by simp
    from Cons.IH [OF this] show ?thesis using dup n y(1) by (auto simp: link_names_simps)
  next
    case throw
    with Cons.prems have "fold (linkEvent pid) ds (c, AList.update (el_Execute d) (el_Id d) t, m) = (c', t', m')" by (simp add: linkEvent_cases)
    from Cons.IH [OF this] show ?thesis using throw n by (auto simp: link_names_simps dom_update distinct_update)
  next
    case other
    with Cons.prems have "fold (linkEvent pid) ds (c, t, m) = (c', t', m')" by (simp add: linkEvent_cases)
    from Cons.IH [OF this] show ?thesis using other by (simp add: link_names_simps)
  qed
qed (simp add: link_names_simps)

lemma map_filter_missing:
  "List.map_filter (\<lambda>(k, v). if map_of c k = None then Some (f k v) else None) xs = [] \<longleftrightarrow> fst ` set xs \<subseteq> fst ` set c"
  by (induction xs) (simp_all add: map_filter_simps map_of_eq_None_iff split: prod.splits)

lemma linkEventRules_spec:
  assumes "ranges_ok E"
  shows "\<exists>x. linkEventRules E m p = m @ x \<and> (\<forall>y \<in> set x. lint_level (lm_Type y) \<le> 1) \<and> (x = [] \<longleftrightarrow> links_paired p)"
proof -
  obtain c t m' where f: "fold (linkEvent (pr_Id p)) (map el_data (pr_Elements p)) ([], [], m) = (c, t, m')"
    by (cases "fold (linkEvent (pr_Id p)) (map el_data (pr_Elements p)) ([], [], m)")
  let ?C = "link_names LinkIntermediateCatchEvent (map el_data (pr_Elements p))" and ?T = "link_names LinkIntermediateThrowEvent (map el_data (pr_Elements p))"
  from linkEvents_spec [OF f] obtain x where h: "fst ` set c = set ?C" "fst ` set t = set ?T" "distinct (map fst c)" "distinct (map fst t)"
    "m' = m @ x" "\<forall>y \<in> set x. lint_level (lm_Type y) \<le> 1" "x = [] \<longleftrightarrow> distinct ?C" by auto
  have r: "set (rangeMap (map_order E i) c) = set c" "set (rangeMap (map_order E i) t) = set t" for i
    using set_rangeMap ranges_okD [OF assms] h(3,4) by blast+
  define a where "a = List.map_filter (\<lambda>(k, v). if map_of c k = None then Some \<lparr> lm_Type = MessageTypeError,
      lm_Text = ''No link catch for throw '' @ k @ '' in '' @ v @ '' in '' @ pr_Id p \<rparr> else None) (rangeMap (map_order E 27) t)"
  define b where "b = List.map_filter (\<lambda>(k, v). if map_of t k = None then Some \<lparr> lm_Type = MessageTypeWarning,
      lm_Text = ''No link throw for catch '' @ k @ '' in '' @ v @ '' in '' @ pr_Id p \<rparr> else None) (rangeMap (map_order E 28) c)"
  have a: "a = [] \<longleftrightarrow> set ?T \<subseteq> set ?C" "b = [] \<longleftrightarrow> set ?C \<subseteq> set ?T"
    unfolding a_def b_def map_filter_missing r h(1,2) by simp_all
  have l: "\<forall>y \<in> set (a @ b). lint_level (lm_Type y) \<le> 1" by (auto simp: a_def b_def map_filter_def split: if_splits)
  have "linkEventRules E m p = m @ (x @ a @ b)" by (simp add: linkEventRules_def f h(5) a_def b_def)
  moreover have "x @ a @ b = [] \<longleftrightarrow> links_paired p" using h(7) a by (auto simp: links_paired_def Let_def)
  ultimately show ?thesis using l h(6) by (intro exI [of _ "x @ a @ b"]) auto
qed

lemma lintProcesses_spec:
  assumes "ranges_ok E" "lintProcesses E ps m = Some (Ok m')"
  shows "\<exists>x. m' = m @ x \<and> (\<forall>y \<in> set x. lint_level (lm_Type y) \<le> 1) \<and> (x = [] \<longleftrightarrow> (\<forall>p \<in> set ps. links_paired p))"
  using assms(2)
proof (induction ps arbitrary: m)
  case (Cons p ps)
  obtain x where x: "linkEventRules E m p = m @ x" "\<forall>y \<in> set x. lint_level (lm_Type y) \<le> 1" "x = [] \<longleftrightarrow> links_paired p"
    using linkEventRules_spec [OF assms(1)] by blast
  from Cons.prems have "lintProcesses E ps (m @ x) = Some (Ok m')" by (auto simp: x(1) split: option.splits res.splits)
  from Cons.IH [OF this] show ?case using x(2,3) by auto
qed simp

lemma lintProcesses_fault:
  assumes "lintProcesses E ps m = Some r" "\<And>m'. r \<noteq> Ok m'"
  shows "\<exists>p \<in> set ps. \<exists>s \<in> set (findProcessStarts p). \<exists>x. (leads (IndexProcessElements (pr_Elements p) []))\<^sup>*\<^sup>* s x \<and>
       (case r of Err _ \<Rightarrow> dead_end (IndexProcessElements (pr_Elements p) []) x | _ \<Rightarrow> dangling (IndexProcessElements (pr_Elements p) []) x)"
  using assms(1)
proof (induction ps arbitrary: m)
  case (Cons p ps)
  obtain q where q: "startDirectedScan p lintInstruction = Some q" using startDirectedScan_returns by blast
  show ?case
  proof (cases q)
    case (Ok u)
    then show ?thesis using Cons q by auto
  next
    case (Err e)
    then show ?thesis using Cons.prems assms(2) q scan_fault [OF q [unfolded startDirectedScan_def Let_def]] by (auto simp: at_fault_def)
  next
    case Panic
    then show ?thesis using Cons.prems assms(2) q scan_fault [OF q [unfolded startDirectedScan_def Let_def]] by (auto simp: at_fault_def)
  qed
qed (use assms in auto)

lemma lintProcesses_returns: "\<exists>r. lintProcesses E ps m = Some r"
proof (induction ps arbitrary: m)
  case (Cons p ps)
  obtain q where "startDirectedScan p lintInstruction = Some q" using startDirectedScan_returns by blast
  then show ?case using Cons by (cases q) auto
qed simp

text \<open>C13. The linter gives a verdict on every workflow. It accepts the link events, warnings
  included, exactly when in each process every link name is caught once and thrown if and only
  if it is caught; it reports a failed scan only when an element without connections that is no
  end event, or a link to nowhere, can be reached from a start event; and it panics only on a
  connection to an element that does not exist.\<close>

theorem Lint_verdict:
  assumes "ranges_ok E" "distinct (map fst (wf_Process wkf))"
  shows "\<exists>r. Lint E wkf True = Some r \<and>
    (case r of
       Ok (m, err) \<Rightarrow> err = None \<longleftrightarrow> (\<forall>(k, p) \<in> set (wf_Process wkf). links_paired p)
     | Err e \<Rightarrow> \<exists>(k, p) \<in> set (wf_Process wkf). \<exists>s \<in> set (findProcessStarts p). \<exists>x.
         (leads (IndexProcessElements (pr_Elements p) []))\<^sup>*\<^sup>* s x \<and> dead_end (IndexProcessElements (pr_Elements p) []) x
     | Panic \<Rightarrow> \<exists>(k, p) \<in> set (wf_Process wkf). \<exists>s \<in> set (findProcessStarts p). \<exists>x.
         (leads (IndexProcessElements (pr_Elements p) []))\<^sup>*\<^sup>* s x \<and> dangling (IndexProcessElements (pr_Elements p) []) x)"
proof -
  let ?ps = "map snd (rangeMap (map_order E 26) (wf_Process wkf))"
  have s: "set ?ps = snd ` set (wf_Process wkf)" using set_rangeMap [of "map_order E 26" "wf_Process wkf"] ranges_okD [OF assms(1)] assms(2) by simp
  obtain r where r: "lintProcesses E ?ps [] = Some r" using lintProcesses_returns by blast
  show ?thesis
  proof (cases r)
    case (Ok m)
    then have l: "\<forall>y \<in> set m. lint_level (lm_Type y) \<le> 1" "m = [] \<longleftrightarrow> (\<forall>p \<in> set ?ps. links_paired p)"
      using lintProcesses_spec [OF assms(1) r [unfolded Ok]] by auto
    then have "list_ex (\<lambda>x. lint_level (lm_Type x) \<le> 1) m \<longleftrightarrow> m \<noteq> []" by (cases m) auto
    then show ?thesis using r Ok l(2) unfolding s by (auto simp: Lint_def)
  next
    case (Err e)
    then show ?thesis using lintProcesses_fault [OF r] r unfolding s by (auto simp: Lint_def) force
  next
    case Panic
    then show ?thesis using lintProcesses_fault [OF r] r unfolding s by (auto simp: Lint_def) force
  qed
qed

section \<open>What the engine gets\<close>

text \<open>In a workflow whose links pair up the engine finds a catch event for every link throw event of a process, and goes to it.\<close>

lemma links_paired_catch:
  assumes "links_paired p" "d \<in> set (map el_data (pr_Elements p))" "el_Type d = LinkIntermediateThrowEvent"
  shows "\<exists>e \<in> set (pr_Elements p). el_Type (el_data e) = LinkIntermediateCatchEvent \<and> el_Execute (el_data e) = el_Execute d"
proof -
  have "el_Execute d \<in> set (link_names LinkIntermediateThrowEvent (map el_data (pr_Elements p)))"
    using assms(2,3) by (auto simp: link_names_def)
  then have "el_Execute d \<in> set (link_names LinkIntermediateCatchEvent (map el_data (pr_Elements p)))"
    using assms(1) by (simp add: links_paired_def Let_def)
  then show ?thesis by (auto simp: link_names_def)
qed

lemma set_flatten: "e \<in> set es \<Longrightarrow> e \<in> set (flatten_elements es)"
  by (induction es rule: flatten_elements.induct) auto

lemma in_rangeMap:
  assumes "set (ord (map fst m)) = fst ` set m" shows "(k, v) \<in> set (rangeMap ord m) \<longleftrightarrow> map_of m k = Some v"
proof -
  have "map_of m k = Some v \<Longrightarrow> k \<in> set (ord (map fst m))" using assms by (force dest: map_of_SomeD)
  then show ?thesis by (force simp: rangeMap_def map_filter_def)
qed

lemma linted_link:
  assumes "ranges_ok E" "links_paired p" "(k, p) \<in> set (wf_Process wkf)" "distinct (map fst (wf_Process wkf))"
    and "\<And>a b. a \<in> set (workflow_elements wkf) \<Longrightarrow> b \<in> set (workflow_elements wkf) \<Longrightarrow> element_id a = element_id b \<Longrightarrow> a = b"
    and "d \<in> set (map el_data (pr_Elements p))" "el_Type d = LinkIntermediateThrowEvent"
  shows "\<exists>ob c i t. linkTargets E wid (ElementTable (map_order E 12) wkf) d w = (Ok (Some ob), w\<lparr> sCache := c \<rparr>) \<and>
     t \<in> set (workflow_elements wkf) \<and> el_Type (el_data t) = LinkIntermediateCatchEvent \<and> el_Execute (el_data t) = el_Execute d \<and>
     chooseTargets E vrs ob = Ok [(i, el_Id (el_data t))]"
proof -
  let ?els = "ElementTable (map_order E 12) wkf"
  obtain e where e: "e \<in> set (pr_Elements p)" "el_Type (el_data e) = LinkIntermediateCatchEvent" "el_Execute (el_data e) = el_Execute d"
    using links_paired_catch [OF assms(2,6,7)] by blast
  have w: "e \<in> set (workflow_elements wkf)" using set_flatten [OF e(1)] assms(3) by (auto simp: workflow_elements_def)
  have tab: "map_of ?els i = Some x \<longleftrightarrow> x \<in> set (workflow_elements wkf) \<and> element_id x = i" for i x
    by (rule map_of_ElementTable) (use ranges_okD [OF assms(1)] assms(4,5) in blast)+
  have s: "(i, x) \<in> set (rangeMap (map_order E 13) ?els) \<longleftrightarrow> map_of ?els i = Some x" for i x
    by (rule in_rangeMap) (metis ranges_okD [OF assms(1)] list.set_map set_mset_mset)
  have "(element_id e, e) \<in> set (rangeMap (map_order E 13) ?els)" using s tab w by simp
  from linkTargets_catch [OF assms(7) this e(2,3), of wid w vrs] show ?thesis using s tab by blast
qed

section \<open>What the scan misses\<close>

text \<open>A scan that refuses to meet an element twice reaches everything: then no dead end can be reached.\<close>

lemma traverse_tree:
  assumes "di_EndOfProcess I = Some endEventRule" "di_Cyclic I = Some (\<lambda>_ _ _. Err e)"
  shows "directedColouredTraverse n I index el visited = Some (Ok (), v) \<Longrightarrow> (leads index)\<^sup>*\<^sup>* el x \<Longrightarrow> \<not> dead_end index x"
    and "traverseTargets n I index el ts visited = Some (Ok (), v) \<Longrightarrow> t \<in> set ts \<Longrightarrow> map_of index t = Some target \<Longrightarrow>
      (leads index)\<^sup>*\<^sup>* (el_data target) x \<Longrightarrow> \<not> dead_end index x"
  using assms
proof (induction n I index el visited and n I index el ts visited arbitrary: v x and v x t target rule: directedColouredTraverse_traverseTargets.induct)
  case (2 n I index el visited)
  from "2.prems"(2) show ?case
  proof (cases rule: converse_rtranclpE)
    case base
    then show ?thesis using "2.prems" by (auto simp: dead_end_def endEventRule_def split: res.splits list.splits if_splits)
  next
    case (step y)
    then obtain ts t e' where "scanTargets index el = Ok ts" "t \<in> set ts" "map_of index t = Some e'" "y = el_data e'" by (auto simp: leads_def)
    then show ?thesis using "2.IH" "2.prems" step(2) by (cases ts) auto
  qed
next
  case (4 n I index el t' ts visited)
  then show ?case by (auto split: option.splits res.splits)
qed auto

text \<open>The linter does meet elements twice, and then leaves the other targets of the connecting element alone: a start
  event with two connections to the end event and one to a task that leads nowhere is accepted.\<close>

definition lint_el :: "string \<Rightarrow> string \<Rightarrow> string list \<Rightarrow> element" where
  "lint_el i ty ts = Elem \<lparr> el_Id = i, el_Name = [], el_Type = ty, el_Documentation = [], el_Execute = [],
     el_Outbound = (if ts = [] then None else Some \<lparr> tgs_Target = map (\<lambda>t. \<lparr> tg_Id = [], tg_Conditions = [], tg_Target = t \<rparr>) ts, tgs_DefaultTarget = -1 \<rparr>),
     el_CompensateWith = None, el_Msg = [], el_Candidates = [], el_CandidateGroups = [], el_Errors = [], el_Error = None,
     el_InputTransform = [], el_OutputTransform = [], el_Timer = None, el_BoundaryTimer = [], el_Gateway = None, el_Iteration = None,
     el_Version = None, el_RetryBehaviour = None, el_IsForCompensation = False \<rparr> None"

lemma scan_misses:
  fixes p :: process
  defines "p \<equiv> Proc [lint_el ''s'' StartEvent [''e'', ''e'', ''t''], lint_el ''t'' ServiceTask [], lint_el ''e'' EndEvent []] ''p'' None"
  shows "startDirectedScan p lintInstruction = Some (Ok ())"
    and "leads (IndexProcessElements (pr_Elements p) []) (el_data (lint_el ''s'' StartEvent [''e'', ''e'', ''t''])) (el_data (lint_el ''t'' ServiceTask []))"
    and "dead_end (IndexProcessElements (pr_Elements p) []) (el_data (lint_el ''t'' ServiceTask []))"
proof -
  note d = p_def lint_el_def scanTargets_def StartEvent_def TimedStartEvent_def ServiceTask_def EndEvent_def CompensateEndEvent_def LinkIntermediateThrowEvent_def
  show "startDirectedScan p lintInstruction = Some (Ok ())"
    by (simp add: d startDirectedScan_def findProcessStarts_def lintInstruction_def endEventRule_def Let_def)
  show "leads (IndexProcessElements (pr_Elements p) []) (el_data (lint_el ''s'' StartEvent [''e'', ''e'', ''t''])) (el_data (lint_el ''t'' ServiceTask []))"
    unfolding leads_def by (intro exI [of _ "[''e'', ''e'', ''t'']"] exI [of _ "''t''"] exI [of _ "lint_el ''t'' ServiceTask []"]) (simp add: d)
  show "dead_end (IndexProcessElements (pr_Elements p) []) (el_data (lint_el ''t'' ServiceTask []))" by (simp add: dead_end_def d)
qed

end
