(* ===== verification/Tagger.thy ===== *)
theory Tagger
  imports Linter Task_Validation
begin

text \<open>
  The gateway tagger of the BPMN parser, \<open>client/parser/tagger.go\<close>: it tells opening from closing
  gateways by their connections, and looks for the opening gateway of each closing one.

  The search follows the connections backwards.  It keeps no record of where it was, so it may not
  return; the model gives it fuel, the number of nested calls, and \<open>None\<close> is the search that needs
  more.  An element is changed in place and told from another by its id.
\<close>

section \<open>References\<close>

definition outTargets :: "elem_data \<Rightarrow> string list" where
  "outTargets d = (case el_Outbound d of None \<Rightarrow> [] | Some ob \<Rightarrow> map tg_Target (tgs_Target ob))"

definition getElementIdReferences :: "element list \<Rightarrow> (string \<times> string list) list" where
  "getElementIdReferences es =
     fold (\<lambda>el refs. fold (\<lambda>t refs. AList.update t (alist_get refs [] t @ [el_Id (el_data el)]) refs) (outTargets (el_data el)) refs) es []"

section \<open>Directions\<close>

definition tagDirection :: "(string \<times> string list) list \<Rightarrow> element \<Rightarrow> (goerr, element) res" where
  "tagDirection refs e =
     (let d = el_data e;
          numIn = length (alist_get refs [] (el_Id d));
          numOut = length (outTargets d);
          tag = (\<lambda>dir. case el_Gateway d of
                   None \<Rightarrow> Panic
                 | Some g \<Rightarrow> Ok (Elem (d\<lparr> el_Gateway := Some (g\<lparr> gw_Direction := dir \<rparr>) \<rparr>) (el_Process e)))
      in if el_Type d \<noteq> Gateway then Ok e
         else if numIn = 1 \<and> numOut > 1 then tag divergent
         else if numIn > 1 \<and> numOut = 1 then tag convergent
         else Err (ErrOther ''unsupported gateway type''))"

fun tagDirections :: "(string \<times> string list) list \<Rightarrow> element list \<Rightarrow> (goerr, element list) res" where
  "tagDirections refs [] = Ok []"
| "tagDirections refs (e # es) = bind_res (tagDirection refs e) (\<lambda>e'. bind_res (tagDirections refs es) (\<lambda>es'. Ok (e' # es')))"

section \<open>The opening gateway\<close>

definition null_gateway :: string where "null_gateway = ''[<<null>>]''"

text \<open>What an element does to the search: it is what is looked for, or the search goes on with a number of closing gateways
  to match.\<close>

datatype recip_step = Found | Continue nat | Crash

definition recipStep :: "elem_data \<Rightarrow> elem_data \<Rightarrow> nat \<Rightarrow> recip_step" where
  "recipStep gw el stack =
     (if el_Id gw \<noteq> el_Id el \<and> el_Type el = Gateway then
        (case (el_Gateway gw, el_Gateway el) of
           (Some g, Some h) \<Rightarrow>
             if gw_Type g = gw_Type h then
               if gw_Direction h = convergent then Continue (Suc stack)
               else if stack = 0 then Found
               else Continue (stack - 1)
             else Continue stack
         | _ \<Rightarrow> Crash)
      else Continue stack)"

fun recurseRecip :: "nat \<Rightarrow> elem_data \<Rightarrow> elem_data \<Rightarrow> (string \<times> string list) list \<Rightarrow> string list \<Rightarrow> nat \<Rightarrow> (string \<times> element) list \<Rightarrow>
      (goerr, string list) res option"
  and recurseRefs :: "nat \<Rightarrow> elem_data \<Rightarrow> string list \<Rightarrow> (string \<times> string list) list \<Rightarrow> string list \<Rightarrow> nat \<Rightarrow> (string \<times> element) list \<Rightarrow>
      (goerr, string list) res option" where
  "recurseRecip 0 gw el refs result stack index = None"
| "recurseRecip (Suc n) gw el refs result stack index =
     (case recipStep gw el stack of
        Found \<Rightarrow> Some (Ok (List.insert (el_Id el) result))
      | Crash \<Rightarrow> Some Panic
      | Continue stack' \<Rightarrow>
          (case map_of refs (el_Id el) of
             None \<Rightarrow> Some (Ok (List.insert null_gateway result))
           | Some rs \<Rightarrow> recurseRefs n gw rs refs result stack' index))"
| "recurseRefs n gw [] refs result stack index = Some (Ok result)"
| "recurseRefs n gw (r # rs) refs result stack index =
     (case map_of index r of
        None \<Rightarrow> Some Panic
      | Some el \<Rightarrow>
          (case recurseRecip n gw (el_data el) refs result stack index of
             Some (Ok result') \<Rightarrow> recurseRefs n gw rs refs result' stack index
           | stopped \<Rightarrow> stopped))"

definition setGateway :: "string \<Rightarrow> (gateway_spec \<Rightarrow> gateway_spec) \<Rightarrow> element list \<Rightarrow> element list" where
  "setGateway i f es = map (\<lambda>e. if el_Id (el_data e) = i
     then Elem ((el_data e)\<lparr> el_Gateway := map_option f (el_Gateway (el_data e)) \<rparr>) (el_Process e) else e) es"

text \<open>A gateway with paths that lead to no opening gateway, or to several, expects the elements that connect to it.\<close>

definition tagReciprocal :: "nat \<Rightarrow> elem_data \<Rightarrow> (string \<times> string list) list \<Rightarrow> element list \<Rightarrow> (goerr, element list) res option" where
  "tagReciprocal n gw refs es =
     (let index = IndexProcessElements es []
      in case recurseRecip n gw gw refs [] 0 index of
           None \<Rightarrow> None
         | Some (Ok result) \<Rightarrow>
             Some (if null_gateway \<in> set result \<or> length result > 1 then
                     Ok (case map_of refs (el_Id gw) of
                           None \<Rightarrow> es
                         | Some expectations \<Rightarrow> setGateway (el_Id gw) (\<lambda>g. g\<lparr> gw_FixedExpectations := expectations \<rparr>) es)
                   else case result of
                     [] \<Rightarrow> Panic
                   | i # _ \<Rightarrow>
                       (case map_of index i of
                          None \<Rightarrow> Panic
                        | Some only \<Rightarrow>
                            Ok (setGateway (el_Id (el_data only)) (\<lambda>g. g\<lparr> gw_ReciprocalId := el_Id gw \<rparr>)
                                 (setGateway (el_Id gw) (\<lambda>g. g\<lparr> gw_ReciprocalId := el_Id (el_data only) \<rparr>) es))))
         | Some (Err e) \<Rightarrow> Some (Err e)
         | Some Panic \<Rightarrow> Some Panic)"

text \<open>The second loop, over the ids of the elements.  The elements in the loop are the tagged ones.\<close>

fun tagReciprocals :: "nat \<Rightarrow> (string \<times> string list) list \<Rightarrow> string list \<Rightarrow> element list \<Rightarrow> (goerr, element list) res option" where
  "tagReciprocals n refs [] es = Some (Ok es)"
| "tagReciprocals n refs (i # is) es =
     (case find (\<lambda>e. el_Id (el_data e) = i) es of
        None \<Rightarrow> tagReciprocals n refs is es
      | Some e \<Rightarrow>
          if el_Type (el_data e) = Gateway then
            (case el_Gateway (el_data e) of
               None \<Rightarrow> Some Panic
             | Some g \<Rightarrow>
                 if gw_Direction g = convergent then
                   (case tagReciprocal n (el_data e) refs es of
                      Some (Ok es') \<Rightarrow> tagReciprocals n refs is es'
                    | stopped \<Rightarrow> stopped)
                 else tagReciprocals n refs is es)
          else tagReciprocals n refs is es)"

definition tagGateways :: "nat \<Rightarrow> element list \<Rightarrow> (goerr, element list) res option" where
  "tagGateways n es =
     (let refs = getElementIdReferences es
      in case tagDirections refs es of
           Ok es' \<Rightarrow> tagReciprocals n refs (map (\<lambda>e. el_Id (el_data e)) es') es'
         | Err e \<Rightarrow> Some (Err e)
         | Panic \<Rightarrow> Some Panic)"

fun tagProcesses :: "nat \<Rightarrow> (string \<times> process) list \<Rightarrow> (string \<times> process) list \<Rightarrow> (goerr, (string \<times> process) list) res option" where
  "tagProcesses n [] tagged = Some (Ok tagged)"
| "tagProcesses n ((k, p) # ps) tagged =
     (case tagGateways n (pr_Elements p) of
        Some (Ok es) \<Rightarrow> tagProcesses n ps (AList.update k (Proc es (pr_Id p) (pr_TimedStart p)) tagged)
      | Some (Err e) \<Rightarrow> Some (Err e)
      | Some Panic \<Rightarrow> Some Panic
      | None \<Rightarrow> None)"

definition tagWorkflow :: "env \<Rightarrow> nat \<Rightarrow> workflow \<Rightarrow> (goerr, workflow) res option" where
  "tagWorkflow E n wkf =
     (case tagProcesses n (rangeMap (map_order E 29) (wf_Process wkf)) (wf_Process wkf) of
        Some (Ok ps) \<Rightarrow> Some (Ok (wkf\<lparr> wf_Process := ps \<rparr>))
      | Some (Err e) \<Rightarrow> Some (Err e)
      | Some Panic \<Rightarrow> Some Panic
      | None \<Rightarrow> None)"

section \<open>What the search finds\<close>

text \<open>The results of the search, as the ends of the backward paths: the first opening gateway of the same type for which
  every closing one on the way was matched, or no gateway.\<close>

inductive found :: "elem_data \<Rightarrow> (string \<times> string list) list \<Rightarrow> (string \<times> element) list \<Rightarrow> elem_data \<Rightarrow> nat \<Rightarrow> string \<Rightarrow> bool"
  for gw refs index where
  hit: "recipStep gw el s = Found \<Longrightarrow> found gw refs index el s (el_Id el)"
| source: "recipStep gw el s = Continue s' \<Longrightarrow> map_of refs (el_Id el) = None \<Longrightarrow> found gw refs index el s null_gateway"
| onward: "recipStep gw el s = Continue s' \<Longrightarrow> map_of refs (el_Id el) = Some rs \<Longrightarrow> r \<in> set rs \<Longrightarrow> map_of index r = Some e \<Longrightarrow>
    found gw refs index (el_data e) s' x \<Longrightarrow> found gw refs index el s x"

inductive_simps found_iff: "found gw refs index el s x"

lemma recurse_finds:
  shows "recurseRecip n gw el refs result stack index = Some (Ok res) \<Longrightarrow> set res = set result \<union> {x. found gw refs index el stack x} \<and> (distinct result \<longrightarrow> distinct res)"
    and "recurseRefs n gw rs refs result stack index = Some (Ok res) \<Longrightarrow>
      set res = set result \<union> {x. \<exists>r \<in> set rs. \<exists>e. map_of index r = Some e \<and> found gw refs index (el_data e) stack x} \<and> (distinct result \<longrightarrow> distinct res)"
proof (induction n gw el refs result stack index and n gw rs refs result stack index arbitrary: res and res rule: recurseRecip_recurseRefs.induct)
  case (2 n gw el refs result stack index)
  show ?case
  proof (cases "recipStep gw el stack")
    case (Continue s)
    then have f: "found gw refs index el stack x \<longleftrightarrow> (case map_of refs (el_Id el) of None \<Rightarrow> x = null_gateway
        | Some rs \<Rightarrow> \<exists>r \<in> set rs. \<exists>e. map_of index r = Some e \<and> found gw refs index (el_data e) s x)" for x
      by (simp add: found_iff [of _ _ _ _ stack] Bex_def split: option.split)
    show ?thesis
    proof (cases "map_of refs (el_Id el)")
      case None
      then show ?thesis using "2.prems" Continue by (auto simp: f)
    next
      case (Some rs)
      then show ?thesis using "2.IH" [OF Continue Some] "2.prems" Continue by (simp add: f)
    qed
  qed (use "2.prems" in \<open>auto simp: found_iff [of _ _ _ _ stack]\<close>)
next
  case (4 n gw r rs refs result stack index)
  from "4.prems" obtain e where e: "map_of index r = Some e" by (cases "map_of index r") auto
  then obtain q where q: "recurseRecip n gw (el_data e) refs result stack index = Some q"
    using "4.prems" by (cases "recurseRecip n gw (el_data e) refs result stack index") auto
  then obtain res' where q': "q = Ok res'" using "4.prems" e by (cases q) auto
  then have r: "recurseRefs n gw rs refs res' stack index = Some (Ok res)" using "4.prems" e q by simp
  note a = "4.IH"(1) [OF e q [unfolded q']] and b = "4.IH"(2) [OF e q q' r]
  show ?case using a b e by auto
qed auto

text \<open>Connections without a cycle: a rank grows along them, and every reference leads to an element.  The search then returns, with
  something found; the depth of its recursion is at most the length of a path.\<close>

definition wired :: "(string \<Rightarrow> nat) \<Rightarrow> (string \<times> string list) list \<Rightarrow> (string \<times> element) list \<Rightarrow> bool" where
  "wired rank refs index \<longleftrightarrow> (\<forall>i rs. map_of refs i = Some rs \<longrightarrow> rs \<noteq> [] \<and> (\<forall>r \<in> set rs. rank r < rank i \<and>
     (\<exists>e. map_of index r = Some e \<and> el_Id (el_data e) = r \<and> (el_Type (el_data e) = Gateway \<longrightarrow> el_Gateway (el_data e) \<noteq> None))))"

lemma wiredD:
  assumes "wired rank refs index" "map_of refs i = Some rs" "r \<in> set rs"
  obtains e where "map_of index r = Some e" "el_Id (el_data e) = r" "rank r < rank i" "el_Type (el_data e) = Gateway \<longrightarrow> el_Gateway (el_data e) \<noteq> None"
  using assms unfolding wired_def by blast

lemma no_crash: "el_Gateway gw \<noteq> None \<Longrightarrow> el_Type el = Gateway \<longrightarrow> el_Gateway el \<noteq> None \<Longrightarrow> recipStep gw el s \<noteq> Crash"
  by (auto simp: recipStep_def split: if_splits)

lemma recurse_ok:
  assumes w: "wired rank refs index" and g: "el_Gateway gw \<noteq> None"
  shows "rank (el_Id el) < n \<Longrightarrow> el_Type el = Gateway \<longrightarrow> el_Gateway el \<noteq> None \<Longrightarrow>
    \<exists>res. recurseRecip n gw el refs result stack index = Some (Ok res)"
proof (induction n arbitrary: el result stack)
  case (Suc n)
  have refs: "\<exists>res. recurseRefs n gw rs' refs result s index = Some (Ok res)"
    if m: "map_of refs (el_Id el) = Some rs" and sub: "set rs' \<subseteq> set rs" for rs rs' result s
    using sub
  proof (induction rs' arbitrary: result)
    case (Cons r rs')
    then obtain e where e: "map_of index r = Some e" "el_Id (el_data e) = r" "rank r < rank (el_Id el)"
      "el_Type (el_data e) = Gateway \<longrightarrow> el_Gateway (el_data e) \<noteq> None" using wiredD [OF w m, of r] by auto
    then obtain res where "recurseRecip n gw (el_data e) refs result s index = Some (Ok res)" using Suc.IH [of "el_data e"] Suc.prems(1) by fastforce
    then show ?case using Cons e(1) by simp
  qed simp
  show ?case
  proof (cases "recipStep gw el stack")
    case (Continue s)
    then show ?thesis using refs [OF _ order_refl] by (cases "map_of refs (el_Id el)") auto
  qed (use no_crash [OF g Suc.prems(2)] in auto)
qed simp

lemma something_found:
  assumes w: "wired rank refs index" and g: "el_Gateway gw \<noteq> None"
  shows "el_Type el = Gateway \<longrightarrow> el_Gateway el \<noteq> None \<Longrightarrow> \<exists>x. found gw refs index el s x"
proof (induction "rank (el_Id el)" arbitrary: el s rule: less_induct)
  case less
  show ?case
  proof (cases "recipStep gw el s")
    case (Continue s')
    show ?thesis
    proof (cases "map_of refs (el_Id el)")
      case (Some rs)
      then obtain r where r: "r \<in> set rs" using w unfolding wired_def by (metis list.set_intros(1) neq_Nil_conv)
      obtain e where e: "map_of index r = Some e" "el_Id (el_data e) = r" "rank r < rank (el_Id el)"
        "el_Type (el_data e) = Gateway \<longrightarrow> el_Gateway (el_data e) \<noteq> None" using wiredD [OF w Some r] by blast
      then show ?thesis using less(1) [of "el_data e" s'] found.onward [OF Continue Some r e(1)] by blast
    qed (use found.source [OF Continue] in blast)
  qed (use found.hit no_crash [OF g less(2)] in blast)+
qed

text \<open>What is found is an opening gateway other than the one that closes.\<close>

lemma found_opens:
  "found gw refs index el s x \<Longrightarrow> x \<noteq> null_gateway \<Longrightarrow> x \<noteq> el_Id gw \<and>
     (\<exists>e. (e = el \<or> (\<exists>k rs i a. map_of refs k = Some rs \<and> i \<in> set rs \<and> map_of index i = Some a \<and> e = el_data a)) \<and> el_Id e = x \<and> el_Type e = Gateway \<and>
       (\<exists>g. el_Gateway e = Some g \<and> gw_Direction g = divergent))"
proof (induction rule: found.induct)
  case (hit el s)
  then show ?case by (auto simp: recipStep_def split: if_splits option.splits) (metis gateway_direction.exhaust)+
qed blast+

section \<open>The references of an element\<close>

definition sources :: "element list \<Rightarrow> string \<Rightarrow> string list" where
  "sources es i = concat (map (\<lambda>e. replicate (count_list (outTargets (el_data e)) i) (element_id e)) es)"

lemma in_sources: "r \<in> set (sources es i) \<longleftrightarrow> (\<exists>e \<in> set es. element_id e = r \<and> i \<in> set (outTargets (el_data e)))"
  by (auto simp: sources_def set_replicate_conv_if count_list_0_iff)

lemma references_of_one:
  "map_of (fold (\<lambda>t refs. AList.update t (alist_get refs [] t @ [x]) refs) ts R) i =
     (if i \<in> set ts then Some (alist_get R [] i @ replicate (count_list ts i) x) else map_of R i)"
proof (induction ts arbitrary: R)
  case (Cons t ts)
  show ?case
  proof (cases "i = t")
    case True
    then show ?thesis unfolding fold_Cons comp_apply Cons.IH by (simp add: alist_get_def count_list_0_iff replicate_append_same)
  next
    case False
    then show ?thesis unfolding fold_Cons comp_apply Cons.IH by (simp add: alist_get_def)
  qed
qed simp

lemma map_of_references:
  "map_of (getElementIdReferences es) i = (if sources es i = [] then None else Some (sources es i))"
proof -
  have "map_of (fold (\<lambda>el refs. fold (\<lambda>t refs. AList.update t (alist_get refs [] t @ [el_Id (el_data el)]) refs) (outTargets (el_data el)) refs) es R) i =
      (if sources es i = [] then map_of R i else Some (alist_get R [] i @ sources es i))" for R
  proof (induction es arbitrary: R)
    case (Cons e es)
    let ?o = "fold (\<lambda>t refs. AList.update t (alist_get refs [] t @ [el_Id (el_data e)]) refs) (outTargets (el_data e)) R"
    have "alist_get ?o [] i = alist_get R [] i @ replicate (count_list (outTargets (el_data e)) i) (element_id e)"
      unfolding alist_get_def [of ?o] references_of_one by (simp add: alist_get_def element_id_def count_list_0_iff)
    then show ?case unfolding fold_Cons comp_apply Cons.IH references_of_one
      by (simp add: sources_def element_id_def count_list_0_iff)
  qed (simp add: sources_def)
  then show ?thesis by (simp add: getElementIdReferences_def alist_get_def)
qed

lemma get_references: "alist_get (getElementIdReferences es) [] i = sources es i"
  by (simp add: alist_get_def map_of_references)

section \<open>What the search depends on\<close>

text \<open>Setting the reciprocal or the expectations of a gateway keeps what the search looks at.\<close>

definition shape :: "elem_data \<Rightarrow> string \<times> string \<times> (gateway_type \<times> gateway_direction) option \<times> string list" where
  "shape d = (el_Id d, el_Type d, map_option (\<lambda>g. (gw_Type g, gw_Direction g)) (el_Gateway d), outTargets d)"

definition alike :: "element \<Rightarrow> element \<Rightarrow> bool" where
  "alike e e' \<longleftrightarrow> shape (el_data e) = shape (el_data e') \<and> el_Process e = el_Process e'"

lemma recipStep_shape: "shape gw = shape gw' \<Longrightarrow> shape el = shape el' \<Longrightarrow> recipStep gw el s = recipStep gw' el' s"
  by (auto simp: shape_def recipStep_def map_option_case split: option.splits)

definition index_alike :: "(string \<times> element) list \<Rightarrow> (string \<times> element) list \<Rightarrow> bool" where
  "index_alike a b \<longleftrightarrow> (\<forall>i. rel_option alike (map_of a i) (map_of b i))"

lemma index_alikeD: "index_alike a b \<Longrightarrow> map_of a i = Some e \<Longrightarrow> \<exists>e'. map_of b i = Some e' \<and> alike e e'"
  unfolding index_alike_def by (metis option_rel_Some1)

lemma found_shape:
  assumes "found gw refs index el s x" "shape gw = shape gw'" "shape el = shape el'" "index_alike index index'"
  shows "found gw' refs index' el' s x"
  using assms
proof (induction arbitrary: el')
  case (hit el s)
  have "recipStep gw' el' s = Found" using hit(1) recipStep_shape [OF hit(2,3), of s] by simp
  moreover have "el_Id el = el_Id el'" using hit(3) by (simp add: shape_def)
  ultimately show ?case using found.hit [of gw' el' s] by simp
next
  case (source el s s')
  have "recipStep gw' el' s = Continue s'" using source(1) recipStep_shape [OF source(3,4), of s] by simp
  moreover have "el_Id el = el_Id el'" using source(4) by (simp add: shape_def)
  ultimately show ?case using found.source [of gw' el' s s'] source(2) by simp
next
  case (onward el s s' rs r e x)
  have "recipStep gw' el' s = Continue s'" using onward(1) recipStep_shape [OF onward(7,8), of s] by simp
  moreover have "el_Id el = el_Id el'" using onward(8) by (simp add: shape_def)
  moreover obtain e' where e': "map_of index' r = Some e'" "alike e e'" using index_alikeD [OF onward(9,4)] by blast
  moreover have "found gw' refs index' (el_data e') s' x" using onward.IH onward(7,9) e'(2) by (simp add: alike_def)
  ultimately show ?case using found.onward [of gw' el' s s' refs rs r index' e' x] onward(2,3) by simp
qed

lemma alike_refl [simp]: "alike e e" by (simp add: alike_def)

lemma alike_sym: "alike a b \<Longrightarrow> alike b a" by (simp add: alike_def)

lemma alike_trans: "alike a b \<Longrightarrow> alike b c \<Longrightarrow> alike a c" by (simp add: alike_def)

lemma alike_id: "alike a b \<Longrightarrow> element_id a = element_id b" by (simp add: alike_def shape_def element_id_def)

lemma flatten_all2:
  assumes "\<And>e. R e e" "\<And>e e'. R e e' \<Longrightarrow> el_Process e = el_Process e'"
  shows "list_all2 R es es' \<Longrightarrow> list_all2 R (flatten_elements es) (flatten_elements es')"
proof (induction es arbitrary: es')
  case (Cons e es)
  then obtain e' es'' where es': "es' = e' # es''" "R e e'" "list_all2 R es es''" by (auto simp: list_all2_Cons1)
  have r: "list_all2 R xs xs" for xs by (simp add: list.rel_refl assms(1))
  obtain d q d' q' where c: "e = Elem d q" "e' = Elem d' q'" by (metis element.exhaust)
  then have q: "q = q'" using assms(2) [OF es'(2)] by simp
  show ?case
  proof (cases q)
    case (Some pr)
    obtain ps i t where "pr = Proc ps i t" by (metis process.exhaust)
    then show ?thesis using Some Cons.IH [OF es'(3)] es'(1,2) c q r [of "flatten_elements ps"] by (auto intro: list_all2_appendI)
  qed (use Cons.IH [OF es'(3)] es'(1,2) c q in auto)
qed simp

lemma alike_flatten: "list_all2 alike es es' \<Longrightarrow> list_all2 alike (flatten_elements es) (flatten_elements es')"
  by (rule flatten_all2) (auto simp: alike_def)

lemma alike_lookup: "list_all2 alike es es' \<Longrightarrow> rel_option alike (map_of (keyed es) i) (map_of (keyed es') i)"
  by (induction es es' rule: list_all2_induct) (auto dest: alike_id)

lemma alike_index: "list_all2 alike es es' \<Longrightarrow> index_alike (IndexProcessElements es []) (IndexProcessElements es' [])"
  unfolding index_alike_def map_of_Index append_Nil2 rev_map
  by (intro allI alike_lookup) (simp add: alike_flatten)

lemma shape_setGateway:
  assumes "\<And>g. gw_Type (f g) = gw_Type g \<and> gw_Direction (f g) = gw_Direction g"
  shows "list_all2 alike es (setGateway i f es)"
  unfolding setGateway_def list_all2_map2
  by (rule list.rel_refl) (auto simp: alike_def shape_def outTargets_def option.map_comp comp_def assms)

section \<open>Tagging one gateway\<close>

text \<open>A process that can be tagged: the ids are unique and proper, gateways have their settings, and a rank below the fuel
  grows along the connections.\<close>

definition taggable :: "(string \<Rightarrow> nat) \<Rightarrow> nat \<Rightarrow> element list \<Rightarrow> bool" where
  "taggable rank n es \<longleftrightarrow> distinct (map element_id (flatten_elements es)) \<and> null_gateway \<notin> element_id ` set (flatten_elements es) \<and>
     (\<forall>e \<in> set es. (el_Type (el_data e) = Gateway \<longrightarrow> el_Gateway (el_data e) \<noteq> None) \<and> rank (element_id e) < n \<and>
        (\<forall>t \<in> set (outTargets (el_data e)). rank (element_id e) < rank t))"

definition opens :: "element list \<Rightarrow> elem_data \<Rightarrow> string set" where
  "opens es gw = {x. found gw (getElementIdReferences es) (IndexProcessElements es []) gw 0 x}"

definition opened_by :: "element list \<Rightarrow> elem_data \<Rightarrow> string \<Rightarrow> bool" where
  "opened_by es gw i \<longleftrightarrow> opens es gw = {i} \<and> i \<noteq> null_gateway"

text \<open>The element with its connections, whatever happened to the settings of its gateway.\<close>

definition moved :: "element \<Rightarrow> element \<Rightarrow> bool" where
  "moved e e' \<longleftrightarrow> element_id e' = element_id e \<and> el_Type (el_data e') = el_Type (el_data e) \<and> outTargets (el_data e') = outTargets (el_data e) \<and>
     el_Process e = el_Process e' \<and> (el_Gateway (el_data e') = None \<longleftrightarrow> el_Gateway (el_data e) = None)"

lemma alike_moved: "alike e e' \<Longrightarrow> moved e e'"
  by (cases "el_Gateway (el_data e)"; cases "el_Gateway (el_data e')"; simp add: alike_def shape_def element_id_def moved_def)

lemma all2_alike_moved: "list_all2 alike es es' \<Longrightarrow> list_all2 moved es es'"
  by (erule list_all2_mono) (rule alike_moved)

lemma moved_sources: "list_all2 moved es es' \<Longrightarrow> sources es = sources es'"
  by (induction rule: list_all2_induct) (auto simp: sources_def fun_eq_iff moved_def)

lemma all2_member: "list_all2 R xs ys \<Longrightarrow> y \<in> set ys \<Longrightarrow> \<exists>x \<in> set xs. R x y"
  by (induction rule: list_all2_induct) auto

lemma found_refs:
  assumes "found gw refs index el s x" "map_of refs = map_of refs'" shows "found gw refs' index el s x"
  using assms by (induction rule: found.induct) (auto intro: found.intros)

lemma opens_alike:
  assumes a: "list_all2 alike es es'" and g: "shape gw = shape gw'" shows "opens es gw = opens es' gw'"
proof -
  have r: "map_of (getElementIdReferences es) = map_of (getElementIdReferences es')"
    using moved_sources [OF all2_alike_moved [OF a]] by (simp add: map_of_references fun_eq_iff)
  have b: "list_all2 alike es' es" using a by (auto simp: list_all2_conv_all_nth alike_sym)
  show ?thesis unfolding opens_def
    using found_refs [OF found_shape [OF _ g g alike_index [OF a]] r] found_refs [OF found_shape [OF _ g [symmetric] g [symmetric] alike_index [OF b]] r [symmetric]]
    by blast
qed

lemma taggable_moved: "list_all2 moved es es' \<Longrightarrow> taggable rank n es \<Longrightarrow> taggable rank n es'"
proof -
  assume a: "list_all2 moved es es'" and t: "taggable rank n es"
  have "list_all2 moved (flatten_elements es) (flatten_elements es')" by (rule flatten_all2 [OF _ _ a]) (auto simp: moved_def)
  then have m: "map element_id (flatten_elements es) = map element_id (flatten_elements es')"
    by (induction rule: list_all2_induct) (auto simp: moved_def)
  have "(el_Type (el_data e') = Gateway \<longrightarrow> el_Gateway (el_data e') \<noteq> None) \<and> rank (element_id e') < n \<and>
      (\<forall>t \<in> set (outTargets (el_data e')). rank (element_id e') < rank t)" if m': "e' \<in> set es'" for e'
  proof -
    obtain e where e: "e \<in> set es" "moved e e'" using all2_member [OF a m'] by blast
    then show ?thesis using t by (simp add: taggable_def moved_def)
  qed
  moreover have "element_id ` set (flatten_elements es) = element_id ` set (flatten_elements es')" by (metis m list.set_map)
  ultimately show ?thesis using t m by (simp add: taggable_def)
qed

lemma index_lookup:
  assumes "taggable rank n es" "e \<in> set es" shows "map_of (IndexProcessElements es []) (element_id e) = Some e"
proof -
  have "map_of (rev (keyed (flatten_elements es))) (element_id e) = Some e"
    using assms
    by (subst map_of_keyed_rev) (auto simp: taggable_def distinct_map inj_on_def set_flatten)
  then show ?thesis by (simp add: map_of_Index)
qed

lemma taggable_wired: "taggable rank n es \<Longrightarrow> wired rank (getElementIdReferences es) (IndexProcessElements es [])"
proof -
  assume t: "taggable rank n es"
  show ?thesis unfolding wired_def map_of_references
  proof (intro allI impI conjI ballI)
    fix i rs r assume rs: "(if sources es i = [] then None else Some (sources es i)) = Some rs"
    then show "rs \<noteq> []" by (auto split: if_splits)
    assume "r \<in> set rs"
    with rs obtain e where e: "e \<in> set es" "element_id e = r" "i \<in> set (outTargets (el_data e))" by (auto simp: in_sources split: if_splits)
    then show "rank r < rank i" using t by (auto simp: taggable_def)
    show "\<exists>e. map_of (IndexProcessElements es []) r = Some e \<and> el_Id (el_data e) = r \<and> (el_Type (el_data e) = Gateway \<longrightarrow> el_Gateway (el_data e) \<noteq> None)"
      using index_lookup [OF t e(1)] e t by (auto simp: taggable_def element_id_def)
  qed
qed

definition gatewayOf :: "element list \<Rightarrow> string \<Rightarrow> gateway_spec option" where
  "gatewayOf es i = Option.bind (find (\<lambda>e. element_id e = i) es) (\<lambda>e. el_Gateway (el_data e))"

lemma gatewayOf_set: "gatewayOf (setGateway i f es) j = (if j = i then map_option f (gatewayOf es j) else gatewayOf es j)"
  by (induction es) (auto simp: gatewayOf_def setGateway_def element_id_def)

lemma tagReciprocal_step:
  assumes t: "taggable rank n es" and e: "e \<in> set es" "el_Type (el_data e) = Gateway" and r: "map_of refs = map_of (getElementIdReferences es)"
  shows "\<exists>es'. tagReciprocal n (el_data e) refs es = Some (Ok es') \<and>
    (\<forall>i. opened_by es (el_data e) i \<longrightarrow>
       es' = setGateway i (\<lambda>g. g\<lparr> gw_ReciprocalId := element_id e \<rparr>) (setGateway (element_id e) (\<lambda>g. g\<lparr> gw_ReciprocalId := i \<rparr>) es)) \<and>
    ((\<nexists>i. opened_by es (el_data e) i) \<longrightarrow> sources es (element_id e) \<noteq> [] \<longrightarrow>
       es' = setGateway (element_id e) (\<lambda>g. g\<lparr> gw_FixedExpectations := sources es (element_id e) \<rparr>) es)"
proof -
  let ?ix = "IndexProcessElements es []" and ?gw = "el_data e"
  have w: "wired rank refs ?ix" using taggable_wired [OF t] unfolding wired_def r .
  have g: "el_Gateway ?gw \<noteq> None" and n: "rank (el_Id ?gw) < n" using t e by (auto simp: taggable_def element_id_def)
  obtain res where res: "recurseRecip n ?gw ?gw refs [] 0 ?ix = Some (Ok res)" using recurse_ok [OF w g n] g by blast
  have o: "set res = opens es ?gw" "distinct res"
    using recurse_finds(1) [OF res] found_refs [OF _ r] found_refs [OF _ r [symmetric]] by (auto simp: opens_def)
  have ne: "res \<noteq> []" using something_found [OF w g, of ?gw 0] g recurse_finds(1) [OF res] by auto
  show ?thesis
  proof (cases "\<exists>i. opened_by es ?gw i")
    case True
    then obtain i where i: "opens es ?gw = {i}" "i \<noteq> null_gateway" by (auto simp: opened_by_def)
    then have ri: "res = [i]" using o by (metis distinct_singleton set_ConsD list.set_intros(1) list.set_intros(2) neq_Nil_conv ne singletonD distinct.simps(2))
    have f: "found ?gw (getElementIdReferences es) ?ix ?gw 0 i" using i(1) by (auto simp: opens_def)
    then obtain a k where "map_of ?ix k = Some a" "el_Id (el_data a) = i" using found_opens [OF f i(2)] by auto
    then have a: "map_of ?ix i = Some a" "el_Id (el_data a) = i" using by_id_Index [of es] by (auto simp: by_id_def)
    show ?thesis using res ri i a by (auto simp: tagReciprocal_def opened_by_def element_id_def)
  next
    case False
    have "null_gateway \<in> set res \<or> length res > 1"
    proof (rule ccontr)
      assume c: "\<not> ?thesis"
      then obtain x where "res = [x]" using ne by (cases res) auto
      then show False using False c o(1) by (auto simp: opened_by_def)
    qed
    then show ?thesis using res False by (auto simp: tagReciprocal_def r map_of_references element_id_def split: option.splits)
  qed
qed

section \<open>Tagging the gateways of a process\<close>

definition is_closing :: "elem_data \<Rightarrow> bool" where
  "is_closing d \<longleftrightarrow> el_Type d = Gateway \<and> (\<exists>g. el_Gateway d = Some g \<and> gw_Direction g = convergent)"

definition closing :: "element list \<Rightarrow> string \<Rightarrow> bool" where
  "closing es i \<longleftrightarrow> (\<exists>e \<in> set es. element_id e = i \<and> is_closing (el_data e))"

definition pairs :: "element list \<Rightarrow> string \<Rightarrow> string \<Rightarrow> bool" where
  "pairs es i j \<longleftrightarrow> (\<exists>e \<in> set es. element_id e = i \<and> is_closing (el_data e) \<and> opened_by es (el_data e) j)"

lemma is_closing_alike: "alike e e' \<Longrightarrow> is_closing (el_data e) = is_closing (el_data e')"
  by (cases "el_Gateway (el_data e)"; cases "el_Gateway (el_data e')"; auto simp: alike_def shape_def is_closing_def)

lemma all2_sym: "list_all2 alike es es' \<Longrightarrow> list_all2 alike es' es"
  by (auto simp: list_all2_conv_all_nth alike_sym)

lemma opened_alike: "list_all2 alike es es' \<Longrightarrow> alike e e' \<Longrightarrow> opened_by es (el_data e) i = opened_by es' (el_data e') i"
  using opens_alike [of es es' "el_data e" "el_data e'"] by (simp add: opened_by_def alike_def)

lemma pairs_alike:
  assumes a: "list_all2 alike es es'" shows "closing es = closing es'" "pairs es = pairs es'"
proof -
  have c: "closing es i \<Longrightarrow> closing es' i" if "list_all2 alike es es'" for es es' i
    using all2_member [OF all2_sym [OF that]] unfolding closing_def by (metis alike_id is_closing_alike)
  have p: "pairs es i j \<Longrightarrow> pairs es' i j" if a: "list_all2 alike es es'" for es es' i j
    using all2_member [OF all2_sym [OF a]] unfolding pairs_def by (metis alike_id is_closing_alike opened_alike [OF all2_sym [OF a]])
  show "closing es = closing es'" "pairs es = pairs es'" using c p a all2_sym [OF a] by blast+
qed

lemma unique_id: "taggable rank n es \<Longrightarrow> e \<in> set es \<Longrightarrow> e' \<in> set es \<Longrightarrow> element_id e = element_id e' \<Longrightarrow> e = e'"
  using index_lookup by (metis option.inject)

lemma found_id: "taggable rank n es \<Longrightarrow> e \<in> set es \<Longrightarrow> find (\<lambda>a. element_id a = element_id e) es = Some e"
proof -
  assume t: "taggable rank n es" and e: "e \<in> set es"
  then obtain a where a: "find (\<lambda>a. element_id a = element_id e) es = Some a" by (metis (mono_tags, lifting) find_None_iff not_None_eq)
  then have "a \<in> set es" "element_id a = element_id e" by (auto simp: find_Some_iff)
  then show ?thesis using a unique_id [OF t] e by metis
qed

lemma paired_element:
  assumes t: "taggable rank n es" and p: "pairs es i j"
  obtains a where "a \<in> set es" "element_id a = j" "j \<noteq> i" "\<exists>g. el_Gateway (el_data a) = Some g \<and> gw_Direction g = divergent"
proof -
  obtain e where e: "e \<in> set es" "element_id e = i" "opened_by es (el_data e) j" using p by (auto simp: pairs_def)
  have "found (el_data e) (getElementIdReferences es) (IndexProcessElements es []) (el_data e) 0 j" "j \<noteq> null_gateway"
    using e(3) by (auto simp: opened_by_def opens_def)
  from found_opens [OF this] obtain k rs r a where a: "j \<noteq> el_Id (el_data e)" "map_of (getElementIdReferences es) k = Some rs" "r \<in> set rs"
    "map_of (IndexProcessElements es []) r = Some a" "el_Id (el_data a) = j" "\<exists>g. el_Gateway (el_data a) = Some g \<and> gw_Direction g = divergent" by blast
  obtain b where b: "b \<in> set es" "element_id b = r" using a(2,3) by (auto simp: map_of_references in_sources split: if_splits)
  then have "a = b" using index_lookup [OF t b(1)] a(4) by simp
  then show ?thesis using that [of a] a b e(2) by (simp add: element_id_def)
qed

lemma pairs_opening:
  assumes t: "taggable rank n es" and p: "pairs es i j"
  shows "\<not> closing es j" "j \<noteq> i" "closing es i" "gatewayOf es j \<noteq> None"
proof -
  obtain a where a: "a \<in> set es" "element_id a = j" "j \<noteq> i" "\<exists>g. el_Gateway (el_data a) = Some g \<and> gw_Direction g = divergent"
    using paired_element [OF t p] by blast
  show "closing es i" using p by (auto simp: pairs_def closing_def)
  show "j \<noteq> i" by (rule a(3))
  have "c = a" if "c \<in> set es" "element_id c = j" for c using unique_id [OF t that(1) a(1)] that(2) a(2) by simp
  then show "\<not> closing es j" using a(4) by (auto simp: closing_def is_closing_def)
  show "gatewayOf es j \<noteq> None" using found_id [OF t a(1)] a(2,4) by (auto simp: gatewayOf_def)
qed

lemma pairs_unique: "taggable rank n es \<Longrightarrow> pairs es i j \<Longrightarrow> pairs es i j' \<Longrightarrow> j = j'"
  unfolding pairs_def opened_by_def by (metis unique_id singleton_inject)

lemma reciprocals_step:
  assumes t: "taggable rank n es" and r: "map_of refs = map_of (getElementIdReferences es)" and c: "closing es i \<longrightarrow> sources es i \<noteq> []"
  shows "\<exists>es1. tagReciprocals n refs (i # is) es = tagReciprocals n refs is es1 \<and> list_all2 alike es es1 \<and> (\<not> closing es i \<longrightarrow> es1 = es) \<and>
    (\<forall>j. pairs es i j \<longrightarrow> es1 = setGateway j (\<lambda>g. g\<lparr> gw_ReciprocalId := i \<rparr>) (setGateway i (\<lambda>g. g\<lparr> gw_ReciprocalId := j \<rparr>) es)) \<and>
    (closing es i \<longrightarrow> (\<nexists>j. pairs es i j) \<longrightarrow> es1 = setGateway i (\<lambda>g. g\<lparr> gw_FixedExpectations := sources es i \<rparr>) es)"
proof (cases "closing es i")
  case True
  then obtain e where e: "e \<in> set es" "element_id e = i" "is_closing (el_data e)" by (auto simp: closing_def)
  have f: "find (\<lambda>e. el_Id (el_data e) = i) es = Some e" using found_id [OF t e(1)] e(2) by (simp add: element_id_def)
  have p: "pairs es i j \<longleftrightarrow> opened_by es (el_data e) j" for j using e unique_id [OF t] unfolding pairs_def by metis
  obtain g where g: "el_Type (el_data e) = Gateway" "el_Gateway (el_data e) = Some g" "gw_Direction g = convergent" using e(3) by (auto simp: is_closing_def)
  obtain es1 where s: "tagReciprocal n (el_data e) refs es = Some (Ok es1)"
    "\<And>j. opened_by es (el_data e) j \<Longrightarrow> es1 = setGateway j (\<lambda>g. g\<lparr> gw_ReciprocalId := i \<rparr>) (setGateway i (\<lambda>g. g\<lparr> gw_ReciprocalId := j \<rparr>) es)"
    "(\<nexists>j. opened_by es (el_data e) j) \<Longrightarrow> es1 = setGateway i (\<lambda>g. g\<lparr> gw_FixedExpectations := sources es i \<rparr>) es"
    using tagReciprocal_step [OF t e(1) g(1) r] e(2) c True by blast
  have "list_all2 alike es es1"
  proof (cases "\<exists>j. opened_by es (el_data e) j")
    case True
    then obtain j where j: "es1 = setGateway j (\<lambda>g. g\<lparr> gw_ReciprocalId := i \<rparr>) (setGateway i (\<lambda>g. g\<lparr> gw_ReciprocalId := j \<rparr>) es)" using s(2) by blast
    have "list_all2 alike es (setGateway i (\<lambda>g. g\<lparr> gw_ReciprocalId := j \<rparr>) es)" by (rule shape_setGateway) simp
    moreover have "list_all2 alike (setGateway i (\<lambda>g. g\<lparr> gw_ReciprocalId := j \<rparr>) es) es1" unfolding j by (rule shape_setGateway) simp
    ultimately show ?thesis using list_all2_trans [of alike alike alike] alike_trans by blast
  next
    case False
    then show ?thesis using s(3) by (simp add: shape_setGateway)
  qed
  then show ?thesis using f g s p True by (intro exI [of _ es1]) auto
next
  case False
  have "tagReciprocals n refs (i # is) es = tagReciprocals n refs is es"
  proof (cases "find (\<lambda>e. el_Id (el_data e) = i) es")
    case (Some e)
    then have "e \<in> set es" "element_id e = i" by (auto simp: find_Some_iff element_id_def)
    then show ?thesis using Some False t by (auto simp: closing_def is_closing_def taggable_def split: option.splits)
  qed simp
  moreover have "\<nexists>j. pairs es i j" using False pairs_opening(3) [OF t] by blast
  ultimately show ?thesis using False by (intro exI [of _ es]) (auto simp: list.rel_refl)
qed

definition linked :: "element list \<Rightarrow> string set \<Rightarrow> element list \<Rightarrow> bool" where
  "linked es I es' \<longleftrightarrow>
     (\<forall>i j. i \<in> I \<longrightarrow> pairs es i j \<longrightarrow> map_option gw_ReciprocalId (gatewayOf es' i) = Some j) \<and>
     (\<forall>i. i \<in> I \<longrightarrow> closing es i \<longrightarrow> (\<nexists>j. pairs es i j) \<longrightarrow> map_option gw_FixedExpectations (gatewayOf es' i) = Some (sources es i)) \<and>
     (\<forall>j. (\<exists>i \<in> I. pairs es i j) \<longrightarrow> (\<exists>i \<in> I. pairs es i j \<and> map_option gw_ReciprocalId (gatewayOf es' j) = Some i)) \<and>
     (\<forall>j. (closing es j \<longrightarrow> j \<notin> I) \<longrightarrow> (\<nexists>i. i \<in> I \<and> pairs es i j) \<longrightarrow> gatewayOf es' j = gatewayOf es j)"

lemma gatewayOf_closing: "taggable rank n es \<Longrightarrow> closing es i \<Longrightarrow> gatewayOf es i \<noteq> None"
  by (auto simp: closing_def gatewayOf_def is_closing_def found_id)

lemma linked_step:
  assumes t: "taggable rank n es" and l: "linked es1 I es'" and same: "closing es1 = closing es" "pairs es1 = pairs es" "sources es1 = sources es"
    and none: "\<not> closing es i \<longrightarrow> es1 = es"
    and pair: "\<And>j. pairs es i j \<Longrightarrow> es1 = setGateway j (\<lambda>g. g\<lparr> gw_ReciprocalId := i \<rparr>) (setGateway i (\<lambda>g. g\<lparr> gw_ReciprocalId := j \<rparr>) es)"
    and alone: "closing es i \<Longrightarrow> (\<nexists>j. pairs es i j) \<Longrightarrow> es1 = setGateway i (\<lambda>g. g\<lparr> gw_FixedExpectations := sources es i \<rparr>) es"
  shows "linked es (insert i I) es'"
proof -
  note po = pairs_opening [OF t]
  have frame: "gatewayOf es' j = gatewayOf es1 j" if "closing es j \<longrightarrow> j \<notin> I" "\<nexists>k. k \<in> I \<and> pairs es k j" for j
    using l that by (simp add: linked_def same)
  have fi: "gatewayOf es' i = gatewayOf es1 i" if "closing es i" "i \<notin> I" using frame [of i] that po(1) by blast
  have 1: "map_option gw_ReciprocalId (gatewayOf es' k) = Some j" if k: "k \<in> insert i I" "pairs es k j" for k j
  proof (cases "k \<in> I")
    case False
    then have k: "k = i" "pairs es i j" using k by auto
    have "gatewayOf es' i = map_option (\<lambda>g. g\<lparr> gw_ReciprocalId := j \<rparr>) (gatewayOf es i)"
      using fi [OF po(3) [OF k(2)]] False k po(2) [OF k(2)] by (simp add: pair gatewayOf_set)
    then show ?thesis using gatewayOf_closing [OF t po(3) [OF k(2)]] k(1) by auto
  qed (use l k in \<open>simp add: linked_def same\<close>)
  have 2: "map_option gw_FixedExpectations (gatewayOf es' k) = Some (sources es k)" if k: "k \<in> insert i I" "closing es k" "\<nexists>j. pairs es k j" for k
  proof (cases "k \<in> I")
    case False
    then have k: "k = i" "closing es i" "\<nexists>j. pairs es i j" using k by auto
    have "gatewayOf es' i = map_option (\<lambda>g. g\<lparr> gw_FixedExpectations := sources es i \<rparr>) (gatewayOf es i)"
      using fi [OF k(2)] False k by (simp add: alone gatewayOf_set)
    then show ?thesis using gatewayOf_closing [OF t k(2)] k(1) by auto
  qed (use l k in \<open>simp add: linked_def same\<close>)
  have 3: "\<exists>k \<in> insert i I. pairs es k j \<and> map_option gw_ReciprocalId (gatewayOf es' j) = Some k" if "\<exists>k \<in> insert i I. pairs es k j" for j
  proof (cases "\<exists>k \<in> I. pairs es k j")
    case True
    then have "\<exists>k \<in> I. pairs es k j \<and> map_option gw_ReciprocalId (gatewayOf es' j) = Some k" using l by (simp add: linked_def same)
    then show ?thesis by blast
  next
    case False
    then have p: "pairs es i j" using that by blast
    have "gatewayOf es' j = map_option (\<lambda>g. g\<lparr> gw_ReciprocalId := i \<rparr>) (gatewayOf es j)"
      using frame [of j] False po(1,2) [OF p] by (auto simp: pair [OF p] gatewayOf_set)
    then show ?thesis using po(4) [OF p] p by auto
  qed
  have 4: "gatewayOf es' j = gatewayOf es j" if j: "closing es j \<longrightarrow> j \<notin> insert i I" "\<nexists>k. k \<in> insert i I \<and> pairs es k j" for j
  proof -
    have "gatewayOf es' j = gatewayOf es1 j" using frame [of j] j by blast
    moreover have "gatewayOf es1 j = gatewayOf es j"
    proof (cases "closing es i")
      case True
      then have "j \<noteq> i" using j(1) by auto
      moreover have "j \<noteq> k" if "pairs es i k" for k using that j(2) by auto
      ultimately show ?thesis using alone [OF True] pair by (metis gatewayOf_set)
    qed (use none in simp)
    ultimately show ?thesis by simp
  qed
  show ?thesis unfolding linked_def using 1 2 3 4 by blast
qed

lemma reciprocals_linked:
  assumes "taggable rank n es" "map_of refs = map_of (getElementIdReferences es)" "\<forall>i. closing es i \<longrightarrow> sources es i \<noteq> []"
  shows "\<exists>es'. tagReciprocals n refs is es = Some (Ok es') \<and> list_all2 alike es es' \<and> linked es (set is) es'"
  using assms
proof (induction "is" arbitrary: es)
  case Nil
  then show ?case by (auto simp: linked_def list.rel_refl)
next
  case (Cons i "is")
  note t = Cons.prems(1)
  obtain es1 where s: "tagReciprocals n refs (i # is) es = tagReciprocals n refs is es1" "list_all2 alike es es1" "\<not> closing es i \<longrightarrow> es1 = es"
    "\<And>j. pairs es i j \<Longrightarrow> es1 = setGateway j (\<lambda>g. g\<lparr> gw_ReciprocalId := i \<rparr>) (setGateway i (\<lambda>g. g\<lparr> gw_ReciprocalId := j \<rparr>) es)"
    "closing es i \<Longrightarrow> (\<nexists>j. pairs es i j) \<Longrightarrow> es1 = setGateway i (\<lambda>g. g\<lparr> gw_FixedExpectations := sources es i \<rparr>) es"
    using reciprocals_step [OF t Cons.prems(2), of i "is"] Cons.prems(3) by blast
  have src: "sources es1 = sources es" using moved_sources [OF all2_alike_moved [OF s(2)]] by simp
  have t1: "taggable rank n es1" using taggable_moved [OF all2_alike_moved [OF s(2)] t] .
  have pc: "closing es1 = closing es" "pairs es1 = pairs es" using pairs_alike [OF s(2)] by simp_all
  have r1: "map_of refs = map_of (getElementIdReferences es1)" using Cons.prems(2) by (rule trans) (rule ext, simp add: map_of_references src)
  obtain es' where e': "tagReciprocals n refs is es1 = Some (Ok es')" "list_all2 alike es1 es'" "linked es1 (set is) es'"
    using Cons.IH [OF t1 r1] Cons.prems(3) pc(1) src by auto
  have l: "list_all2 alike es es'" using list_all2_trans [of alike alike alike] alike_trans s(2) e'(2) by blast
  have "linked es (set (i # is)) es'" using linked_step [OF t e'(3) pc src s(3,4,5)] by simp
  then show ?case using s(1) e'(1) l by auto
qed

text \<open>What the parser makes of the gateways: a gateway opens when one connection comes in and several go out, and closes in the
  opposite case; a closing gateway knows the only opening one that its paths come from, or else the elements that connect to it;
  and an opening gateway knows one of the closing ones that know it.\<close>

definition well_tagged :: "element list \<Rightarrow> bool" where
  "well_tagged es \<longleftrightarrow> (\<forall>e \<in> set es. el_Type (el_data e) = Gateway \<longrightarrow> (\<exists>g. el_Gateway (el_data e) = Some g \<and>
     (let ins = sources es (element_id e); outs = outTargets (el_data e) in
       (gw_Direction g = convergent \<and> length ins > 1 \<and> length outs = 1 \<or> gw_Direction g = divergent \<and> length ins = 1 \<and> length outs > 1) \<and>
       (gw_Direction g = convergent \<longrightarrow> (\<forall>i. opened_by es (el_data e) i \<longrightarrow> gw_ReciprocalId g = i) \<and>
          ((\<nexists>i. opened_by es (el_data e) i) \<longrightarrow> gw_FixedExpectations g = ins)) \<and>
       ((\<exists>i. pairs es i (element_id e)) \<longrightarrow> pairs es (gw_ReciprocalId g) (element_id e)))))"

definition ambiguous :: "element list \<Rightarrow> element \<Rightarrow> bool" where
  "ambiguous es e \<longleftrightarrow> el_Type (el_data e) = Gateway \<and> (let ins = length (sources es (element_id e)); outs = length (outTargets (el_data e)) in
     \<not> (ins > 1 \<and> outs = 1) \<and> \<not> (ins = 1 \<and> outs > 1))"

definition directed :: "element list \<Rightarrow> element \<Rightarrow> bool" where
  "directed es e \<longleftrightarrow> (el_Type (el_data e) = Gateway \<longrightarrow> (\<exists>g. el_Gateway (el_data e) = Some g \<and>
     (let ins = length (sources es (element_id e)); outs = length (outTargets (el_data e)) in
        gw_Direction g = convergent \<and> ins > 1 \<and> outs = 1 \<or> gw_Direction g = divergent \<and> ins = 1 \<and> outs > 1)))"

lemma tagDirection_cases:
  assumes "el_Type (el_data e) = Gateway \<longrightarrow> el_Gateway (el_data e) \<noteq> None"
  shows "(\<exists>x. tagDirection (getElementIdReferences es) e = Err x) \<and> ambiguous es e \<or>
    (\<exists>e'. tagDirection (getElementIdReferences es) e = Ok e' \<and> moved e e' \<and> directed es e' \<and> \<not> ambiguous es e)"
  using assms
  by (cases "el_Gateway (el_data e)")
     (auto simp: tagDirection_def get_references Let_def ambiguous_def directed_def moved_def element_id_def outTargets_def)

lemma tagDirections_cases:
  assumes "\<forall>e \<in> set as. el_Type (el_data e) = Gateway \<longrightarrow> el_Gateway (el_data e) \<noteq> None"
  shows "(\<exists>x. tagDirections (getElementIdReferences es) as = Err x) \<and> (\<exists>e \<in> set as. ambiguous es e) \<or>
    (\<exists>as'. tagDirections (getElementIdReferences es) as = Ok as' \<and> list_all2 moved as as' \<and> (\<forall>e \<in> set as'. directed es e) \<and> (\<forall>e \<in> set as. \<not> ambiguous es e))"
  using assms
proof (induction as)
  case (Cons e as)
  from tagDirection_cases [of e es] Cons.prems consider
      (bad) x where "tagDirection (getElementIdReferences es) e = Err x" "ambiguous es e"
    | (good) e' where "tagDirection (getElementIdReferences es) e = Ok e'" "moved e e'" "directed es e'" "\<not> ambiguous es e" by auto
  then show ?case
  proof cases
    case bad
    then show ?thesis by (simp add: bind_res_def)
  next
    case good
    then show ?thesis using Cons by (auto simp: bind_res_def)
  qed
qed simp

lemma linked_tagged:
  assumes t: "taggable rank n es" and a: "list_all2 alike es es'" and l: "linked es (element_id ` set es) es'" and d: "\<forall>e \<in> set es. directed es e"
  shows "well_tagged es'"
  unfolding well_tagged_def
proof (intro ballI impI)
  fix e' assume e': "e' \<in> set es'" "el_Type (el_data e') = Gateway"
  have src: "sources es' = sources es" using moved_sources [OF all2_alike_moved [OF a]] by simp
  have t': "taggable rank n es'" using taggable_moved [OF all2_alike_moved [OF a] t] .
  obtain e where e: "e \<in> set es" "alike e e'" using all2_member [OF a e'(1)] by blast
  note m = alike_moved [OF e(2), unfolded moved_def]
  obtain g where g: "el_Gateway (el_data e') = Some g" using t' e' by (auto simp: taggable_def)
  then have go: "gatewayOf es' (element_id e') = Some g" using found_id [OF t' e'(1)] by (simp add: gatewayOf_def)
  obtain g0 where g0: "el_Gateway (el_data e) = Some g0" "gw_Direction g0 = gw_Direction g" using e(2) g by (auto simp: alike_def shape_def)
  have dir: "directed es e" using d e(1) by blast
  have I: "i \<in> element_id ` set es" if "closing es i" for i using that by (auto simp: closing_def)
  have c: "gw_Direction g = convergent \<Longrightarrow> closing es (element_id e')" using e(1) g0 m e'(2) by (auto simp: closing_def is_closing_def)
  have p: "gw_Direction g = convergent \<Longrightarrow> pairs es (element_id e') i \<longleftrightarrow> opened_by es' (el_data e') i" for i
    using e(1) g0 m e'(2) opened_alike [OF a e(2)] unique_id [OF t] unfolding pairs_def is_closing_def by (metis option.inject)
  have "gw_Direction g = convergent \<Longrightarrow> opened_by es' (el_data e') i \<Longrightarrow> gw_ReciprocalId g = i" for i
    using l go p [of i] I c unfolding linked_def by fastforce
  moreover have "gw_Direction g = convergent \<Longrightarrow> (\<nexists>i. opened_by es' (el_data e') i) \<Longrightarrow> gw_FixedExpectations g = sources es' (element_id e')"
    using l go p I c src unfolding linked_def by fastforce
  moreover have "(\<exists>i. pairs es' i (element_id e')) \<Longrightarrow> pairs es' (gw_ReciprocalId g) (element_id e')"
    using l go I pairs_opening(3) [OF t] pairs_alike(2) [OF a] unfolding linked_def by fastforce
  ultimately show "\<exists>g. el_Gateway (el_data e') = Some g \<and>
     (let ins = sources es' (element_id e'); outs = outTargets (el_data e') in
       (gw_Direction g = convergent \<and> length ins > 1 \<and> length outs = 1 \<or> gw_Direction g = divergent \<and> length ins = 1 \<and> length outs > 1) \<and>
       (gw_Direction g = convergent \<longrightarrow> (\<forall>i. opened_by es' (el_data e') i \<longrightarrow> gw_ReciprocalId g = i) \<and>
          ((\<nexists>i. opened_by es' (el_data e') i) \<longrightarrow> gw_FixedExpectations g = ins)) \<and>
       ((\<exists>i. pairs es' i (element_id e')) \<longrightarrow> pairs es' (gw_ReciprocalId g) (element_id e')))"
    using g g0 dir m e'(2) src by (auto simp: directed_def Let_def)
qed


end
