(* ===== verification/Model_Validation.thy ===== *)
theory Model_Validation
  imports Tagger
begin

text \<open>
  The validation of a parsed workflow, \<open>client/parser/validation.go\<close>, and the part of \<open>parser.go\<close> that gathers the
  output transformations of the branches between an opening and a closing gateway.

  \<open>checkVariables\<close> follows every way through a process from its start events and notes the variables that an
  element uses before any element on the way has put them out.  The maps of a branch context are shared between
  the context and its holder, so a change of the one is a change of the other: the model writes them back.
  The walk is given fuel, and one more than the number of elements is enough; the search through the branches of
  gateways has fuel of its own, since it keeps no record of where it was.
\<close>

section \<open>Names\<close>

text \<open>The character class of \<open>validKeyRe\<close>, as the ranges it lists.\<close>

definition keyRanges :: "(char \<times> char) list" where
  "keyRanges = map (\<lambda>c. (c, c)) ''-/_=.'' @ [(CHR ''a'', CHR ''z''), (CHR ''A'', CHR ''Z''), (CHR ''0'', CHR ''9'')]"

definition key_char :: "char \<Rightarrow> bool" where
  "key_char c = list_ex (\<lambda>(lo, hi). lo \<le> c \<and> c \<le> hi) keyRanges"

definition validName :: "string \<Rightarrow> (goerr, unit) res" where
  "validName name =
     (if length name = 0 \<or> name ! 0 = CHR ''.'' \<or> last name = CHR ''.'' then Err (ErrOther ''contains invalid characters when used with SHAR'')
      else if \<not> list_all key_char name then Err (ErrOther ''contains invalid characters when used with SHAR'')
      else Ok ())"

definition validServiceTask :: "elem_data \<Rightarrow> (goerr, unit) res" where
  "validServiceTask j = (if el_Execute j = [] then Err ErrMissingServiceTaskDefinition else Ok ())"

section \<open>The branches of a gateway\<close>

text \<open>The targets after the one that is the closing gateway are left out.  An element without outbound connections is a
  nil dereference.\<close>

fun findGatewayBranchOutputTransforms :: "nat \<Rightarrow> (string \<times> string) list \<Rightarrow> elem_data \<Rightarrow> string \<Rightarrow> (string \<times> element) list \<Rightarrow>
      (goerr, (string \<times> string) list) res option"
  and branchTargets :: "nat \<Rightarrow> (string \<times> string) list \<Rightarrow> target list \<Rightarrow> string \<Rightarrow> (string \<times> element) list \<Rightarrow>
      (goerr, (string \<times> string) list) res option" where
  "findGatewayBranchOutputTransforms 0 tr el cid eles = None"
| "findGatewayBranchOutputTransforms (Suc n) tr el cid eles =
     (case el_Outbound el of None \<Rightarrow> Some Panic | Some ob \<Rightarrow> branchTargets n tr (tgs_Target ob) cid eles)"
| "branchTargets n tr [] cid eles = Some (Ok tr)"
| "branchTargets n tr (t # ts) cid eles =
     (case map_of eles (tg_Target t) of
        None \<Rightarrow> Some Panic
      | Some targetEle \<Rightarrow>
          (let tr' = fold (\<lambda>(k, v). AList.update k v) (el_OutputTransform (el_data targetEle)) tr
           in if el_Id (el_data targetEle) = cid then Some (Ok tr')
              else case findGatewayBranchOutputTransforms n tr' (el_data targetEle) cid eles of
                     Some (Ok tr'') \<Rightarrow> branchTargets n tr'' ts cid eles
                   | stopped \<Rightarrow> stopped))"

definition convergentPairs :: "env \<Rightarrow> (string \<times> element) list \<Rightarrow> (goerr, (string \<times> string) list) res" where
  "convergentPairs E eles =
     fold (\<lambda>(_, e) acc. bind_res acc (\<lambda>m.
         if el_Type (el_data e) = Gateway then
           (case el_Gateway (el_data e) of
              None \<Rightarrow> Panic
            | Some g \<Rightarrow> Ok (if gw_Direction g = convergent then AList.update (gw_ReciprocalId g) (el_Id (el_data e)) m else m))
         else Ok m))
       (rangeMap (map_order E 30) eles) (Ok [])"

text \<open>The handler is called with the transformations, the closing gateway and the state, from which the elements are read.\<close>

fun eachConvergent :: "nat \<Rightarrow> (string \<times> string) list \<Rightarrow> ('s \<Rightarrow> (string \<times> element) list) \<Rightarrow> ((string \<times> string) list \<Rightarrow> string \<Rightarrow> 's \<Rightarrow> 's) \<Rightarrow> 's \<Rightarrow>
    (goerr, 's) res option" where
  "eachConvergent n [] elesOf handler s = Some (Ok s)"
| "eachConvergent n ((d, c) # ps) elesOf handler s =
     (case map_of (elesOf s) d of
        None \<Rightarrow> Some Panic
      | Some dg \<Rightarrow>
          (case findGatewayBranchOutputTransforms n [] (el_data dg) c (elesOf s) of
             Some (Ok tr) \<Rightarrow> eachConvergent n ps elesOf handler (handler tr c s)
           | Some (Err e) \<Rightarrow> Some (Err e)
           | Some Panic \<Rightarrow> Some Panic
           | None \<Rightarrow> None))"

definition findConvergentGatewayOutputTransforms :: "nat \<Rightarrow> env \<Rightarrow> ('s \<Rightarrow> (string \<times> element) list) \<Rightarrow>
    ((string \<times> string) list \<Rightarrow> string \<Rightarrow> 's \<Rightarrow> 's) \<Rightarrow> 's \<Rightarrow> (goerr, 's) res option" where
  "findConvergentGatewayOutputTransforms n E elesOf handler s =
     (case convergentPairs E (elesOf s) of
        Ok ps \<Rightarrow> eachConvergent n (rangeMap (map_order E 31) ps) elesOf handler s
      | Err e \<Rightarrow> Some (Err e)
      | Panic \<Rightarrow> Some Panic)"

section \<open>What an element puts out, uses and leads to\<close>

definition putOut :: "string list \<Rightarrow> string list \<Rightarrow> string list" where
  "putOut vs outputVars = fold List.insert vs outputVars"

definition elementOutputs :: "nat \<Rightarrow> env \<Rightarrow> (string \<times> element) list \<Rightarrow> elem_data \<Rightarrow> string list \<Rightarrow> (goerr, string list) res option" where
  "elementOutputs n E eles ele outputVars =
     (let own = putOut (map fst (el_OutputTransform ele)) outputVars;
          joins = (el_Type ele = Gateway \<and> (case el_Gateway ele of Some g \<Rightarrow> gw_Direction g = convergent \<and> gw_Type g = parallel | None \<Rightarrow> False))
      in if el_Type ele = Gateway \<and> el_Gateway ele = None then Some Panic
         else case (if joins then findConvergentGatewayOutputTransforms n E (\<lambda>_. eles) (\<lambda>tr _. putOut (map fst tr)) own else Some (Ok own)) of
                Some (Ok joined) \<Rightarrow> Some (Ok (fold (\<lambda>ce. putOut (map fst (ce_OutputTransform ce))) (el_Errors ele) joined))
              | stopped \<Rightarrow> stopped)"

definition checkUndefinedVarReference :: "env \<Rightarrow> string \<Rightarrow> string \<Rightarrow> string list \<Rightarrow> (string \<times> string list) list \<Rightarrow> (goerr, (string \<times> string list) list) res" where
  "checkUndefinedVarReference E eleId expr outputVars und =
     (case GetVariables E expr of
        Err e \<Rightarrow> Err e
      | Panic \<Rightarrow> Panic
      | Ok vs \<Rightarrow> Ok (fold (\<lambda>v und. if v \<in> set outputVars then und
                             else AList.update eleId (List.insert v (alist_get und [] eleId)) und) vs und))"

fun checkReferences :: "env \<Rightarrow> string \<Rightarrow> string list \<Rightarrow> string list \<Rightarrow> (string \<times> string list) list \<Rightarrow> (goerr, (string \<times> string list) list) res" where
  "checkReferences E eleId [] outputVars und = Ok und"
| "checkReferences E eleId (x # xs) outputVars und =
     bind_res (checkUndefinedVarReference E eleId x outputVars und) (checkReferences E eleId xs outputVars)"

definition elementExprs :: "env \<Rightarrow> elem_data \<Rightarrow> string list" where
  "elementExprs E ele =
     map snd (rangeMap (map_order E 32) (el_InputTransform ele)) @
     (case el_Outbound ele of None \<Rightarrow> [] | Some ob \<Rightarrow> concat (map tg_Conditions (tgs_Target ob)))"

text \<open>The last catch event with the name in the order of the map.\<close>

definition elementOutbounds :: "env \<Rightarrow> (string \<times> element) list \<Rightarrow> elem_data \<Rightarrow> (goerr, string list) res" where
  "elementOutbounds E eles ele =
     (let next = map ce_Target (el_Errors ele) @ outTargets ele
      in if el_Type ele = LinkIntermediateThrowEvent then
           (case filter (\<lambda>(_, e). el_Type (el_data e) = LinkIntermediateCatchEvent \<and> el_Execute ele = el_Execute (el_data e)) (rangeMap (map_order E 33) eles) of
              [] \<Rightarrow> Err (ErrOther ''failed to find link intermediate catch element for link intermediate throw element'')
            | cs \<Rightarrow> Ok (next @ [el_Id (el_data (snd (last cs)))]))
         else Ok next)"

section \<open>The walk\<close>

record branchContext =
  bc_branchOutputVars :: "string list"
  bc_visited :: "string list"

type_synonym walk_state = "(string \<times> string list) list \<times> (string \<times> branchContext) list"

text \<open>What happens at one element: the undefined variables and the variables put out after it, and where it leads.  Nothing
  happens at an end event.\<close>

definition atElement :: "nat \<Rightarrow> env \<Rightarrow> (string \<times> element) list \<Rightarrow> string \<Rightarrow> (string \<times> string list) list \<Rightarrow> string list \<Rightarrow>
    (goerr, (string \<times> string list) list \<times> string list \<times> string list) res option" where
  "atElement m E eles eleId und outputVars =
     (case map_of eles eleId of
        None \<Rightarrow> Some Panic
      | Some e \<Rightarrow>
          if el_Type (el_data e) = ''endEvent'' then Some (Ok (und, outputVars, []))
          else case elementOutputs m E eles (el_data e) outputVars of
                 None \<Rightarrow> None
               | Some r \<Rightarrow> Some (bind_res r (\<lambda>outputVars'.
                   bind_res (checkReferences E eleId (elementExprs E (el_data e)) outputVars' und) (\<lambda>und'.
                   bind_res (elementOutbounds E eles (el_data e)) (\<lambda>ts. Ok (und', outputVars', ts))))))"

text \<open>The context of the branch, and for more than one connection that of the new branch, before a target is looked at.\<close>

definition enterBranch :: "string \<Rightarrow> bool \<Rightarrow> nat \<Rightarrow> string \<Rightarrow> branchContext \<Rightarrow> (string \<times> branchContext) list \<Rightarrow> string \<times> branchContext \<times> (string \<times> branchContext) list" where
  "enterBranch eleId isNewBranch idx branchId bCon bctx =
     (let bCon' = bCon\<lparr> bc_visited := List.insert eleId (bc_visited bCon) \<rparr>;
          newBranchId = (if isNewBranch then branchId @ ''-'' @ show_nat idx else branchId)
      in (newBranchId, bCon', AList.update newBranchId bCon' (AList.update branchId bCon' bctx)))"

function findElementsReferencingUndefinedVars :: "nat \<Rightarrow> nat \<Rightarrow> env \<Rightarrow> string \<Rightarrow> (string \<times> element) list \<Rightarrow> string \<Rightarrow> walk_state \<Rightarrow> (goerr, walk_state) res option"
  and visitOutbounds :: "nat \<Rightarrow> nat \<Rightarrow> env \<Rightarrow> string \<Rightarrow> (string \<times> element) list \<Rightarrow> bool \<Rightarrow> nat \<Rightarrow> string list \<Rightarrow> string \<Rightarrow> walk_state \<Rightarrow>
      (goerr, walk_state) res option" where
  "findElementsReferencingUndefinedVars 0 m E eleId eles branchId st = None"
| "findElementsReferencingUndefinedVars (Suc n) m E eleId eles branchId st =
     (case map_of (snd st) branchId of
        None \<Rightarrow> Some Panic
      | Some bContext \<Rightarrow>
          (case atElement m E eles eleId (fst st) (bc_branchOutputVars bContext) of
             None \<Rightarrow> None
           | Some Panic \<Rightarrow> Some Panic
           | Some (Err x) \<Rightarrow> Some (Err x)
           | Some (Ok (und, outputVars, ts)) \<Rightarrow>
               visitOutbounds n m E eleId eles (length ts > 1) 0 ts branchId
                 (und, AList.update branchId (bContext\<lparr> bc_branchOutputVars := outputVars \<rparr>) (snd st))))"
| "visitOutbounds n m E eleId eles isNewBranch idx [] branchId st = Some (Ok st)"
| "visitOutbounds n m E eleId eles isNewBranch idx (t # ts) branchId st =
     (case map_of (snd st) branchId of
        None \<Rightarrow> Some Panic
      | Some bCon \<Rightarrow>
          (case enterBranch eleId isNewBranch idx branchId bCon (snd st) of
             (newBranchId, bCon', bctx) \<Rightarrow>
               if t \<in> set (bc_visited bCon') then visitOutbounds n m E eleId eles isNewBranch (Suc idx) ts branchId (fst st, bctx)
               else case findElementsReferencingUndefinedVars n m E t eles newBranchId (fst st, bctx) of
                      Some (Ok st') \<Rightarrow> visitOutbounds n m E eleId eles isNewBranch (Suc idx) ts branchId st'
                    | stopped \<Rightarrow> stopped))"
  by pat_completeness auto
termination
  by (relation "measures [case_sum (\<lambda>(n, _). n) (\<lambda>(n, _). n), case_sum (\<lambda>_. 0) (\<lambda>(_, _, _, _, _, _, _, ts, _). Suc (length ts))]") auto

fun findElementIdsWithType :: "string list \<Rightarrow> string \<Rightarrow> elem_data list \<Rightarrow> string list" where
  "findElementIdsWithType eleIds typ [] = eleIds"
| "findElementIdsWithType eleIds typ (d # ds) =
     (if el_Type d = typ then findElementIdsWithType (eleIds @ [el_Id d]) typ ds else findElementIdsWithType eleIds typ ds)"

fun checkStarts :: "nat \<Rightarrow> nat \<Rightarrow> env \<Rightarrow> (string \<times> element) list \<Rightarrow> nat \<Rightarrow> string list \<Rightarrow> walk_state \<Rightarrow> (goerr, walk_state) res option" where
  "checkStarts n m E eles idx [] st = Some (Ok st)"
| "checkStarts n m E eles idx (s # ss) (und, bctx) =
     (case findElementsReferencingUndefinedVars n m E s eles (show_nat idx)
             (und, AList.update (show_nat idx) \<lparr> bc_branchOutputVars = [], bc_visited = [] \<rparr> bctx) of
        Some (Ok st') \<Rightarrow> checkStarts n m E eles (Suc idx) ss st'
      | stopped \<Rightarrow> stopped)"

definition checkVariables :: "nat \<Rightarrow> env \<Rightarrow> process \<Rightarrow> (goerr, unit) res option" where
  "checkVariables m E p =
     (let eles = IndexProcessElements (pr_Elements p) []
      in case checkStarts (Suc (length eles)) m E eles 0 (findElementIdsWithType [] StartEvent (map el_data (pr_Elements p))) ([], []) of
           Some (Ok (und, _)) \<Rightarrow> Some (if length und > 0 then Err ErrUndefinedVariable else Ok ())
         | Some (Err e) \<Rightarrow> Some (Err e)
         | Some Panic \<Rightarrow> Some Panic
         | None \<Rightarrow> None)"

section \<open>The model\<close>

definition ErrMissingOpeningGateway :: goerr where "ErrMissingOpeningGateway = ErrOther ''missing opening gateway''"

definition validElement :: "elem_data \<Rightarrow> (goerr, unit) res" where
  "validElement ele =
     (if el_Id ele = [] then Err ErrMissingID
      else if el_Type ele = ServiceTask then validServiceTask ele
      else if el_Type ele = Gateway then
        (case el_Gateway ele of
           None \<Rightarrow> Panic
         | Some g \<Rightarrow> if gw_Direction g = convergent \<and> gw_ReciprocalId g = [] then Err ErrMissingOpeningGateway else Ok ())
      else Ok ())"

fun allValid :: "('a \<Rightarrow> (goerr, unit) res) \<Rightarrow> 'a list \<Rightarrow> (goerr, unit) res" where
  "allValid f [] = Ok ()"
| "allValid f (x # xs) = bind_res (f x) (\<lambda>_. allValid f xs)"

fun validProcesses :: "nat \<Rightarrow> env \<Rightarrow> process list \<Rightarrow> (goerr, unit) res option" where
  "validProcesses m E [] = Some (Ok ())"
| "validProcesses m E (p # ps) =
     (case bind_res (validName (pr_Id p)) (\<lambda>_. allValid validElement (map el_data (pr_Elements p))) of
        Err e \<Rightarrow> Some (Err e)
      | Panic \<Rightarrow> Some Panic
      | Ok _ \<Rightarrow>
          (case checkVariables m E p of
             Some (Ok _) \<Rightarrow> validProcesses m E ps
           | stopped \<Rightarrow> stopped))"

definition validModel :: "nat \<Rightarrow> env \<Rightarrow> workflow \<Rightarrow> (goerr, unit) res option" where
  "validModel m E wkf =
     (case validProcesses m E (map snd (rangeMap (map_order E 34) (wf_Process wkf))) of
        Some (Ok _) \<Rightarrow> Some (allValid (\<lambda>i. validName (el_Name i)) (wf_Messages wkf))
      | stopped \<Rightarrow> stopped)"

section \<open>The ways through a process\<close>

text \<open>An element that the walk gets past: the variables put out after it, those that it uses, and where it leads.\<close>

definition passes :: "nat \<Rightarrow> env \<Rightarrow> (string \<times> element) list \<Rightarrow> string \<Rightarrow> string list \<Rightarrow> string list \<Rightarrow> string set \<Rightarrow> string list \<Rightarrow> bool" where
  "passes m E eles i B B' U ts \<longleftrightarrow> (\<exists>e. map_of eles i = Some e \<and> el_Type (el_data e) \<noteq> ''endEvent'' \<and>
     elementOutputs m E eles (el_data e) B = Some (Ok B') \<and> elementOutbounds E eles (el_data e) = Ok ts \<and>
     (\<forall>x \<in> set (elementExprs E (el_data e)). \<exists>vs. GetVariables E x = Ok vs) \<and>
     U = {v. \<exists>x \<in> set (elementExprs E (el_data e)). \<exists>vs. GetVariables E x = Ok vs \<and> v \<in> set vs})"

text \<open>From an element, with the elements visited and the variables put out so far, there is a way, on which no element
  repeats, to an element that uses a variable that nothing on the way has put out.\<close>

inductive misses :: "nat \<Rightarrow> env \<Rightarrow> (string \<times> element) list \<Rightarrow> string \<Rightarrow> string set \<Rightarrow> string list \<Rightarrow> string \<Rightarrow> string \<Rightarrow> bool" for m E eles where
  here: "passes m E eles i B B' U ts \<Longrightarrow> v \<in> U \<Longrightarrow> v \<notin> set B' \<Longrightarrow> misses m E eles i V B i v"
| onward: "passes m E eles i B B' U ts \<Longrightarrow> t \<in> set ts \<Longrightarrow> t \<notin> insert i V \<Longrightarrow> misses m E eles t (insert i V) B' j v \<Longrightarrow> misses m E eles i V B j v"

inductive_simps misses_iff: "misses m E eles i V B j v"

lemma passes_unique:
  "passes m E eles i B B' U ts \<Longrightarrow> passes m E eles i B P W us \<Longrightarrow> P = B' \<and> W = U \<and> us = ts"
  by (auto simp: passes_def)

lemma misses_passes:
  assumes p: "passes m E eles i B B' U ts"
  shows "misses m E eles i V B j v \<longleftrightarrow> j = i \<and> v \<in> U \<and> v \<notin> set B' \<or> (\<exists>t \<in> set ts. t \<notin> insert i V \<and> misses m E eles t (insert i V) B' j v)"
proof
  assume "misses m E eles i V B j v"
  then show "j = i \<and> v \<in> U \<and> v \<notin> set B' \<or> (\<exists>t \<in> set ts. t \<notin> insert i V \<and> misses m E eles t (insert i V) B' j v)"
    by cases (use passes_unique [OF p] in blast)+
qed (use misses.here [OF p] misses.onward [OF p] in auto)

definition noted :: "(string \<times> string list) list \<Rightarrow> string \<Rightarrow> string \<Rightarrow> bool" where
  "noted und j v \<longleftrightarrow> v \<in> set (alist_get und [] j)"

definition nonempty :: "(string \<times> string list) list \<Rightarrow> bool" where
  "nonempty und \<longleftrightarrow> (\<forall>k l. map_of und k = Some l \<longrightarrow> l \<noteq> [])"

lemma nonempty_update: "nonempty und \<Longrightarrow> nonempty (AList.update k (List.insert v l) und)"
  by (auto simp: nonempty_def List.insert_def)

lemma nonempty_noted:
  assumes "nonempty und" shows "und \<noteq> [] \<longleftrightarrow> (\<exists>j v. noted und j v)"
proof (cases und)
  case (Cons a as)
  obtain k l where a: "a = (k, l)" by (cases a)
  then have "map_of und k = Some l" using Cons by simp
  then have "l \<noteq> []" using assms unfolding nonempty_def by blast
  then have "noted und k (hd l)" using Cons a by (simp add: noted_def alist_get_def)
  then show ?thesis using Cons by auto
qed (simp add: noted_def alist_get_def)

lemma note_vars:
  assumes "nonempty und"
  shows "nonempty (fold (\<lambda>v und. if v \<in> set B then und else AList.update i (List.insert v (alist_get und [] i)) und) vs und) \<and>
    (\<forall>j v. noted (fold (\<lambda>v und. if v \<in> set B then und else AList.update i (List.insert v (alist_get und [] i)) und) vs und) j v \<longleftrightarrow>
       noted und j v \<or> j = i \<and> v \<in> set vs \<and> v \<notin> set B)"
  using assms
proof (induction vs arbitrary: und)
  case (Cons x vs)
  have "nonempty (if x \<in> set B then und else AList.update i (List.insert x (alist_get und [] i)) und)" using Cons.prems nonempty_update by simp
  from Cons.IH [OF this] show ?case by (auto simp: noted_def)
qed simp

lemma checkReferences_notes:
  assumes "checkReferences E i xs B und = Ok und'" "nonempty und"
  shows "nonempty und' \<and> (\<forall>x \<in> set xs. \<exists>vs. GetVariables E x = Ok vs) \<and>
    (\<forall>j v. noted und' j v \<longleftrightarrow> noted und j v \<or> j = i \<and> v \<notin> set B \<and> (\<exists>x \<in> set xs. \<exists>vs. GetVariables E x = Ok vs \<and> v \<in> set vs))"
  using assms
proof (induction xs arbitrary: und)
  case (Cons x xs)
  then obtain vs where v: "GetVariables E x = Ok vs" by (cases "GetVariables E x") (auto simp: checkUndefinedVarReference_def bind_res_def)
  note n = note_vars [OF Cons.prems(2), of B i vs]
  have "checkReferences E i xs B (fold (\<lambda>v und. if v \<in> set B then und else AList.update i (List.insert v (alist_get und [] i)) und) vs und) = Ok und'"
    using Cons.prems(1) v by (simp add: checkUndefinedVarReference_def bind_res_def)
  from Cons.IH [OF this] n v show ?case by auto
qed simp

lemma atElement_cases:
  assumes "atElement m E eles i und B = Some (Ok (und', B', ts))" "nonempty und"
  shows "nonempty und' \<and> (und' = und \<and> ts = [] \<and> (\<nexists>P U us. passes m E eles i B P U us) \<or>
    (\<exists>U. passes m E eles i B B' U ts \<and> (\<forall>j v. noted und' j v \<longleftrightarrow> noted und j v \<or> j = i \<and> v \<in> U \<and> v \<notin> set B')))"
proof (cases "map_of eles i")
  case (Some e)
  show ?thesis
  proof (cases "el_Type (el_data e) = ''endEvent''")
    case True
    then show ?thesis using assms Some by (auto simp: atElement_def passes_def)
  next
    case False
    with assms(1) Some have o: "elementOutputs m E eles (el_data e) B = Some (Ok B')" "checkReferences E i (elementExprs E (el_data e)) B' und = Ok und'"
      "elementOutbounds E eles (el_data e) = Ok ts" by (auto simp: atElement_def bind_res_def split: option.splits res.splits)
    then show ?thesis using checkReferences_notes [OF o(2) assms(2)] Some False by (auto simp: passes_def)
  qed
qed (use assms in \<open>simp add: atElement_def\<close>)

section \<open>The walk and the ways\<close>

text \<open>A walk only changes the contexts of its branch and of the branches that start from it.\<close>

lemma enter_frame:
  "enterBranch i new idx b c bctx = (nb, c', bctx') \<Longrightarrow>
     prefix b nb \<and> map_of bctx' nb = Some c' \<and> bc_branchOutputVars c' = bc_branchOutputVars c \<and> set (bc_visited c') = insert i (set (bc_visited c)) \<and>
     map_of bctx' b = Some c' \<and> (\<forall>k. \<not> prefix b k \<longrightarrow> map_of bctx' k = map_of bctx k) \<and> (new \<longrightarrow> \<not> prefix nb b) \<and> (\<not> new \<longrightarrow> nb = b)"
  by (auto simp: enterBranch_def Let_def split: if_splits)

lemma walk_frame:
  shows "findElementsReferencingUndefinedVars n m E i eles b st = Some (Ok st') \<Longrightarrow> \<not> prefix b k \<Longrightarrow> map_of (snd st') k = map_of (snd st) k"
    and "visitOutbounds n m E i eles new idx ts b st = Some (Ok st') \<Longrightarrow> \<not> prefix b k \<Longrightarrow> map_of (snd st') k = map_of (snd st) k"
proof (induction n m E i eles b st and n m E i eles new idx ts b st arbitrary: st' and st' rule: findElementsReferencingUndefinedVars_visitOutbounds.induct)
  case (2 n m E i eles b st)
  have "k \<noteq> b" using "2.prems"(2) by auto
  then show ?case using 2 by (cases st') (fastforce split: option.splits res.splits)
next
  case (4 n m E i eles new idx t ts b st)
  then obtain c nb c' bctx where c: "map_of (snd st) b = Some c" and e: "enterBranch i new idx b c (snd st) = (nb, c', bctx)"
    by (auto split: option.splits) (metis prod_cases3)
  note f = enter_frame [OF e]
  have k: "map_of bctx k = map_of (snd st) k" "\<not> prefix nb k" using f "4.prems"(2) by (auto dest: prefix_order.trans)
  show ?case
  proof (cases "t \<in> set (bc_visited c')")
    case True
    then show ?thesis using "4.IH"(1) [OF c e [symmetric] refl True] "4.prems" c e k(1) by simp
  next
    case False
    then obtain st1 where d: "findElementsReferencingUndefinedVars n m E t eles nb (fst st, bctx) = Some (Ok st1)"
      using "4.prems"(1) c e by (auto split: option.splits res.splits)
    have "map_of (snd st1) k = map_of bctx k" using "4.IH"(2) [OF c e [symmetric] refl False d k(2)] by simp
    moreover have "visitOutbounds n m E i eles new (Suc idx) ts b st1 = Some (Ok st')" using "4.prems"(1) c e False d by simp
    ultimately show ?thesis using "4.IH"(3) [OF c e [symmetric] refl False d refl] "4.prems"(2) k(1) by simp
  qed
qed auto

lemma walk_notes:
  shows "findElementsReferencingUndefinedVars n m E i eles b st = Some (Ok st') \<Longrightarrow> map_of (snd st) b = Some c \<Longrightarrow> nonempty (fst st) \<Longrightarrow>
      nonempty (fst st') \<and> (\<forall>j v. noted (fst st') j v \<longleftrightarrow> noted (fst st) j v \<or> misses m E eles i (set (bc_visited c)) (bc_branchOutputVars c) j v)"
    and "visitOutbounds n m E i eles new idx ts b st = Some (Ok st') \<Longrightarrow> map_of (snd st) b = Some c \<Longrightarrow> nonempty (fst st) \<Longrightarrow> new \<or> length ts \<le> 1 \<Longrightarrow>
      nonempty (fst st') \<and> (\<forall>j v. noted (fst st') j v \<longleftrightarrow> noted (fst st) j v \<or>
        (\<exists>t \<in> set ts. t \<notin> insert i (set (bc_visited c)) \<and> misses m E eles t (insert i (set (bc_visited c))) (bc_branchOutputVars c) j v))"
proof (induction n m E i eles b st and n m E i eles new idx ts b st arbitrary: st' c and st' c rule: findElementsReferencingUndefinedVars_visitOutbounds.induct)
  case (2 n m E i eles b st)
  obtain und B' ts where a: "atElement m E eles i (fst st) (bc_branchOutputVars c) = Some (Ok (und, B', ts))"
    using "2.prems"(1,2) by (auto split: option.splits res.splits)
  let ?c = "c\<lparr> bc_branchOutputVars := B' \<rparr>"
  have v: "visitOutbounds n m E i eles (length ts > 1) 0 ts b (und, AList.update b ?c (snd st)) = Some (Ok st')" using "2.prems"(1,2) a by simp
  note A = atElement_cases [OF a "2.prems"(3)]
  have w: "nonempty (fst st') \<and> (\<forall>j v. noted (fst st') j v \<longleftrightarrow> noted und j v \<or>
        (\<exists>t \<in> set ts. t \<notin> insert i (set (bc_visited c)) \<and> misses m E eles t (insert i (set (bc_visited c))) B' j v))"
    using "2.IH" [OF "2.prems"(2) a refl refl refl v, of ?c] A linorder_not_less [of 1 "length ts"] by auto
  from A consider (stop) "und = fst st" "ts = []" "\<nexists>P U us. passes m E eles i (bc_branchOutputVars c) P U us"
    | (go) U where "passes m E eles i (bc_branchOutputVars c) B' U ts" "\<forall>j v. noted und j v \<longleftrightarrow> noted (fst st) j v \<or> j = i \<and> v \<in> U \<and> v \<notin> set B'" by blast
  then show ?case
  proof cases
    case stop
    then have "\<not> misses m E eles i (set (bc_visited c)) (bc_branchOutputVars c) j v" for j v by (auto simp: misses_iff [of _ _ _ i])
    then show ?thesis using w stop by simp
  next
    case go
    then show ?thesis using w unfolding misses_passes [OF go(1)] by blast
  qed
next
  case (4 n m E i eles new idx t ts b st)
  obtain nb c' bctx where e: "enterBranch i new idx b c (snd st) = (nb, c', bctx)" by (metis prod_cases3)
  note f = enter_frame [OF e] and p = "4.prems"
  show ?case
  proof (cases "t \<in> set (bc_visited c')")
    case True
    have "visitOutbounds n m E i eles new (Suc idx) ts b (fst st, bctx) = Some (Ok st')" using p(1,2) e True by simp
    then show ?thesis using "4.IH"(1) [OF p(2) e [symmetric] refl True, of st' c'] p(3,4) f True by auto
  next
    case False
    then obtain st1 where d: "findElementsReferencingUndefinedVars n m E t eles nb (fst st, bctx) = Some (Ok st1)"
      using p(1,2) e by (auto split: option.splits res.splits)
    have v: "visitOutbounds n m E i eles new (Suc idx) ts b st1 = Some (Ok st')" using p(1,2) e False d by simp
    have 1: "nonempty (fst st1) \<and> (\<forall>j v. noted (fst st1) j v \<longleftrightarrow> noted (fst st) j v \<or>
        misses m E eles t (insert i (set (bc_visited c))) (bc_branchOutputVars c) j v)"
      using "4.IH"(2) [OF p(2) e [symmetric] refl False d, of c'] p(3) f by simp
    show ?thesis
    proof (cases "ts = []")
      case True
      then show ?thesis using 1 v f False by simp
    next
      case ne: False
      then have new: "new" using p(4) by (cases ts) auto
      have "map_of (snd st1) b = Some c'" using walk_frame(1) [OF d, of b] f new by simp
      from "4.IH"(3) [OF p(2) e [symmetric] refl False d refl v this] show ?thesis using 1 new f False by auto
    qed
  qed
qed auto

section \<open>The walk returns\<close>

text \<open>A process that the walk gets through: every element but an end event is passed, whatever was put out before, and leads to elements of
  the process.\<close>

definition passable :: "nat \<Rightarrow> env \<Rightarrow> (string \<times> element) list \<Rightarrow> bool" where
  "passable m E eles \<longleftrightarrow> (\<forall>i e B. map_of eles i = Some e \<longrightarrow> el_Type (el_data e) \<noteq> ''endEvent'' \<longrightarrow>
     (\<exists>B' U ts. passes m E eles i B B' U ts \<and> set ts \<subseteq> fst ` set eles))"

lemma checkReferences_ok: "\<forall>x \<in> set xs. \<exists>vs. GetVariables E x = Ok vs \<Longrightarrow> \<exists>und'. checkReferences E i xs B und = Ok und'"
  by (induction xs arbitrary: und) (auto simp: checkUndefinedVarReference_def bind_res_def)

lemma atElement_ok:
  assumes "passable m E eles" "i \<in> fst ` set eles"
  shows "\<exists>und' B' ts. atElement m E eles i und B = Some (Ok (und', B', ts)) \<and> set ts \<subseteq> fst ` set eles"
proof -
  obtain e where e: "map_of eles i = Some e" using assms(2) by (metis map_of_eq_None_iff not_None_eq)
  show ?thesis
  proof (cases "el_Type (el_data e) = ''endEvent''")
    case True
    then show ?thesis using e by (simp add: atElement_def)
  next
    case False
    then obtain B' U ts where p: "passes m E eles i B B' U ts" "set ts \<subseteq> fst ` set eles" using assms(1) e unfolding passable_def by blast
    then obtain und' where "checkReferences E i (elementExprs E (el_data e)) B' und = Ok und'"
      using checkReferences_ok [of "elementExprs E (el_data e)" E i B' und] e by (auto simp: passes_def)
    then show ?thesis using p e False by (simp add: passes_def atElement_def bind_res_def)
  qed
qed

lemma walk_returns:
  shows "passable m E eles \<Longrightarrow> map_of (snd st) b = Some c \<Longrightarrow> i \<in> fst ` set eles \<Longrightarrow> i \<notin> set (bc_visited c) \<Longrightarrow>
      card (fst ` set eles - set (bc_visited c)) \<le> n \<Longrightarrow> \<exists>st'. findElementsReferencingUndefinedVars n m E i eles b st = Some (Ok st')"
    and "passable m E eles \<Longrightarrow> map_of (snd st) b = Some c \<Longrightarrow> new \<or> length ts \<le> 1 \<Longrightarrow> set ts \<subseteq> fst ` set eles \<Longrightarrow>
      card (fst ` set eles - insert i (set (bc_visited c))) \<le> n \<Longrightarrow> \<exists>st'. visitOutbounds n m E i eles new idx ts b st = Some (Ok st')"
proof (induction n m E i eles b st and n m E i eles new idx ts b st arbitrary: c and c rule: findElementsReferencingUndefinedVars_visitOutbounds.induct)
  case (1 m E i eles b st)
  then have "fst ` set eles - set (bc_visited c) = {}" by simp
  then show ?case using "1.prems"(3,4) by blast
next
  case (2 n m E i eles b st)
  note p = "2.prems"
  obtain und B' ts where a: "atElement m E eles i (fst st) (bc_branchOutputVars c) = Some (Ok (und, B', ts))" "set ts \<subseteq> fst ` set eles"
    using atElement_ok [OF p(1,3)] by blast
  have "fst ` set eles - insert i (set (bc_visited c)) \<subset> fst ` set eles - set (bc_visited c)" using p(3,4) by blast
  then have "card (fst ` set eles - insert i (set (bc_visited c))) < card (fst ` set eles - set (bc_visited c))" by (intro psubset_card_mono) auto
  then have n: "card (fst ` set eles - insert i (set (bc_visited c))) \<le> n" using p(5) by linarith
  have "1 < length ts \<or> length ts \<le> 1" by linarith
  from "2.IH" [OF p(2) a(1) refl refl refl p(1), of "c\<lparr> bc_branchOutputVars := B' \<rparr>"] this n a(2)
  show ?case using p(2) a(1) by simp
next
  case (4 n m E i eles new idx t ts b st)
  obtain nb c' bctx where e: "enterBranch i new idx b c (snd st) = (nb, c', bctx)" by (metis prod_cases3)
  note f = enter_frame [OF e] and p = "4.prems"
  have ts: "new \<or> length ts \<le> 1" "set ts \<subseteq> fst ` set eles" using p(3,4) by auto
  have n: "card (fst ` set eles - insert i (set (bc_visited c'))) \<le> n" "card (fst ` set eles - set (bc_visited c')) \<le> n" using p(5) f by simp_all
  show ?case
  proof (cases "t \<in> set (bc_visited c')")
    case True
    then show ?thesis using "4.IH"(1) [OF p(2) e [symmetric] refl True p(1), of c'] p(2) e f ts n by simp
  next
    case False
    obtain st1 where d: "findElementsReferencingUndefinedVars n m E t eles nb (fst st, bctx) = Some (Ok st1)"
      using "4.IH"(2) [OF p(2) e [symmetric] refl False p(1), of c'] f False p(4) n by auto
    show ?thesis
    proof (cases "ts = []")
      case True
      then show ?thesis using p(2) e False d by simp
    next
      case ne: False
      then have new: "new" using p(3) by (cases ts) auto
      have "map_of (snd st1) b = Some c'" using walk_frame(1) [OF d, of b] f new by simp
      from "4.IH"(3) [OF p(2) e [symmetric] refl False d refl p(1) this ts n(1)] show ?thesis using p(2) e False d by simp
    qed
  qed
qed auto

lemma startIds: "findElementIdsWithType xs typ ds = xs @ map el_Id (filter (\<lambda>d. el_Type d = typ) ds)"
  by (induction ds arbitrary: xs) auto

lemma checkStarts_notes:
  assumes "checkStarts n m E eles idx ss st = Some (Ok st')" "nonempty (fst st)"
  shows "nonempty (fst st') \<and> (\<forall>j v. noted (fst st') j v \<longleftrightarrow> noted (fst st) j v \<or> (\<exists>s \<in> set ss. misses m E eles s {} [] j v))"
  using assms
proof (induction n m E eles idx ss st rule: checkStarts.induct)
  case (2 n m E eles idx s ss und bctx)
  let ?st = "(und, AList.update (show_nat idx) \<lparr> bc_branchOutputVars = [], bc_visited = [] \<rparr> bctx)"
  obtain st1 where d: "findElementsReferencingUndefinedVars n m E s eles (show_nat idx) ?st = Some (Ok st1)"
    using "2.prems"(1) by (auto split: option.splits res.splits)
  have 1: "nonempty (fst st1) \<and> (\<forall>j v. noted (fst st1) j v \<longleftrightarrow> noted und j v \<or> misses m E eles s {} [] j v)"
    using walk_notes(1) [OF d, of "\<lparr> bc_branchOutputVars = [], bc_visited = [] \<rparr>"] "2.prems"(2) by simp
  have "checkStarts n m E eles (Suc idx) ss st1 = Some (Ok st')" using "2.prems"(1) d by simp
  from "2.IH" [OF d refl this] 1 show ?case by auto
qed auto

lemma checkStarts_returns:
  assumes "passable m E eles" "set ss \<subseteq> fst ` set eles" "length eles \<le> n"
  shows "\<exists>st'. checkStarts n m E eles idx ss st = Some (Ok st')"
  using assms
proof (induction n m E eles idx ss st rule: checkStarts.induct)
  case (2 n m E eles idx s ss und bctx)
  have "card (fst ` set eles) \<le> n" using "2.prems"(3) by (metis card_image_le card_length finite_set le_trans)
  then obtain st1 where d: "findElementsReferencingUndefinedVars n m E s eles (show_nat idx)
      (und, AList.update (show_nat idx) \<lparr> bc_branchOutputVars = [], bc_visited = [] \<rparr> bctx) = Some (Ok st1)"
    using walk_returns(1) [OF "2.prems"(1), of _ "show_nat idx" "\<lparr> bc_branchOutputVars = [], bc_visited = [] \<rparr>" s] "2.prems"(2) by fastforce
  then show ?case using "2.IH" [OF d refl] "2.prems" by simp
qed auto

definition start_ids :: "process \<Rightarrow> string set" where
  "start_ids p = element_id ` {e \<in> set (pr_Elements p). el_Type (el_data e) = StartEvent}"

lemma set_startIds: "set (findElementIdsWithType [] StartEvent (map el_data (pr_Elements p))) = start_ids p"
  by (auto simp: startIds start_ids_def element_id_def)

text \<open>An accepted process misses no variable.\<close>

lemma checkVariables_sound:
  assumes "checkVariables m E p = Some (Ok ())" "s \<in> start_ids p"
  shows "\<not> misses m E (IndexProcessElements (pr_Elements p) []) s {} [] j v"
proof -
  let ?eles = "IndexProcessElements (pr_Elements p) []" and ?ss = "findElementIdsWithType [] StartEvent (map el_data (pr_Elements p))"
  obtain bctx where c: "checkStarts (Suc (length ?eles)) m E ?eles 0 ?ss ([], []) = Some (Ok ([], bctx))"
    using assms(1) by (auto simp: checkVariables_def Let_def split: option.splits res.splits if_splits)
  show ?thesis using checkStarts_notes [OF c] assms(2) by (auto simp: nonempty_def noted_def alist_get_def set_startIds)
qed


end
