(* ===== verification/BPMN_Parser.thy ===== *)
theory BPMN_Parser
  imports Model_Validation Durations
begin

text \<open>
  The BPMN parser of the client, \<open>client/parser/parser.go\<close> and \<open>zeebe.go\<close>.

  The XML document belongs to a library: a node is of any type, and the record \<open>xml_lib\<close> has what the parser asks
  of it, with a node that may be nil.  An operation of the parser works on the workflow that is being made and the
  names of its messages and errors.  Sub-processes nest; the model gives the depth of the nesting as fuel, and
  the error \<open>None\<close> is a document that needs more.
\<close>

section \<open>The document\<close>

record 'x xml_lib =
  xl_Parse :: "bytes \<Rightarrow> (goerr, 'x) res"
  xl_SelectElements :: "'x option \<Rightarrow> string \<Rightarrow> (goerr, 'x list) res"
  xl_SelectAttr :: "'x option \<Rightarrow> string \<Rightarrow> (goerr, string) res"
  xl_InnerText :: "'x option \<Rightarrow> (goerr, string) res"
  xl_Data :: "'x \<Rightarrow> string"
  xl_NamespaceURI :: "'x \<Rightarrow> string"
  xl_UnixNano :: "string \<Rightarrow> (goerr, int) res"

record parse_state =
  ps_wf :: workflow
  ps_msgs :: "(string \<times> string) list"
  ps_errs :: "(string \<times> string) list"

type_synonym 'a pact = "(parse_state, goerr option, 'a) op"

definition from_res :: "(goerr, 'a) res \<Rightarrow> 'a pact" where
  "from_res r = (\<lambda>s. (case r of Ok x \<Rightarrow> Ok x | Err e \<Rightarrow> Err (Some e) | Panic \<Rightarrow> Panic, s))"

definition select_all :: "'x xml_lib \<Rightarrow> 'x option \<Rightarrow> string \<Rightarrow> 'x list pact" where
  "select_all L n path = from_res (xl_SelectElements L n path)"

definition select_one :: "'x xml_lib \<Rightarrow> 'x option \<Rightarrow> string \<Rightarrow> 'x option pact" where
  "select_one L n path = bnd (select_all L n path) (\<lambda>xs. ret (case xs of [] \<Rightarrow> None | x # _ \<Rightarrow> Some x))"

definition inner :: "'x xml_lib \<Rightarrow> 'x option \<Rightarrow> string pact" where
  "inner L n = from_res (xl_InnerText L n)"

definition attr :: "'x xml_lib \<Rightarrow> 'x option \<Rightarrow> string \<Rightarrow> string pact" where
  "attr L n a = from_res (xl_SelectAttr L n a)"

definition text_at :: "'x xml_lib \<Rightarrow> 'x option \<Rightarrow> string \<Rightarrow> string pact" where
  "text_at L n path = bnd (select_one L n path) (inner L)"

text \<open>The update of an element by the text of a node, when there is such a node.\<close>

definition with_text :: "'x xml_lib \<Rightarrow> 'x option \<Rightarrow> string \<Rightarrow> (string \<Rightarrow> 'e \<Rightarrow> 'e) \<Rightarrow> 'e \<Rightarrow> 'e pact" where
  "with_text L n path f el =
     bnd (select_one L n path) (\<lambda>e. case e of None \<Rightarrow> ret el | Some _ \<Rightarrow> bnd (inner L e) (\<lambda>t. ret (f t el)))"

section \<open>Extensions\<close>

definition ParseUint32 :: "string \<Rightarrow> nat option" where
  "ParseUint32 s = (if s = [] then None else case read_digits 0 s of Some n \<Rightarrow> if n < 2 ^ 32 then Some n else None | None \<Rightarrow> None)"

text \<open>The mappings of one direction; without any the old value stays.\<close>

definition ioMappings :: "'x xml_lib \<Rightarrow> 'x option \<Rightarrow> string \<Rightarrow> (string \<times> string) list \<Rightarrow> (string \<times> string) list pact" where
  "ioMappings L e path old =
     bnd (select_all L e path) (\<lambda>os.
     if os = [] then ret old
     else foldE (\<lambda>m j. bnd (attr L (Some j) ''target'') (\<lambda>t. bnd (attr L (Some j) ''source'') (\<lambda>src. ret (AList.update t src m)))) [] os)"

definition zeebeRetries :: "'x xml_lib \<Rightarrow> 'x option \<Rightarrow> elem_data \<Rightarrow> elem_data pact" where
  "zeebeRetries L x el =
     bnd (select_one L x ''zeebe:taskDefinition/@retries'') (\<lambda>e.
     case e of
       None \<Rightarrow> ret el
     | Some _ \<Rightarrow>
         bnd (inner L e) (\<lambda>t.
         case ParseUint32 t of
           None \<Rightarrow> fail (Some (ErrOther ''retries parse uint32 conversion error''))
         | Some n \<Rightarrow> ret (el\<lparr> el_RetryBehaviour := Some \<lparr> rt_Number = n, rt_Strategy = Linear, rt_InitMilli = 0, rt_IntervalMilli = 0, rt_MaxMilli = 0,
                        rt_DefaultExceeded = None \<rparr> \<rparr>)))"

definition zeebeForm :: "'x xml_lib \<Rightarrow> 'x \<Rightarrow> 'x option \<Rightarrow> elem_data \<Rightarrow> elem_data pact" where
  "zeebeForm L doc x el =
     bnd (select_one L x ''zeebe:formDefinition/@formKey'') (\<lambda>fk.
     case fk of
       None \<Rightarrow> ret el
     | Some _ \<Rightarrow>
         bnd (inner L fk) (\<lambda>t.
         bnd (text_at L (Some doc) (''//zeebe:userTaskForm[@id='' @ [CHR 0x22] @ last (SplitChar (CHR '':'') t) @ [CHR 0x22] @ '']'')) (\<lambda>f.
         ret (el\<lparr> el_Execute := f \<rparr>))))"

definition zeebeMapping :: "'x xml_lib \<Rightarrow> 'x option \<Rightarrow> elem_data \<Rightarrow> elem_data pact" where
  "zeebeMapping L x el =
     bnd (select_one L x ''zeebe:ioMapping'') (\<lambda>e.
     case e of
       None \<Rightarrow> ret el
     | Some _ \<Rightarrow>
         bnd (ioMappings L e ''zeebe:output'' (el_OutputTransform el)) (\<lambda>out.
         bnd (ioMappings L e ''zeebe:input'' (el_InputTransform el)) (\<lambda>inp.
         ret (el\<lparr> el_OutputTransform := out, el_InputTransform := inp \<rparr>))))"

text \<open>The completion condition is stored where the collated variable is.\<close>

definition zeebeLoop :: "'x xml_lib \<Rightarrow> 'x option \<Rightarrow> elem_data \<Rightarrow> elem_data pact" where
  "zeebeLoop L x el =
     bnd (select_one L x ''zeebe:loopCharacteristics'') (\<lambda>e.
     case e of
       None \<Rightarrow> ret el
     | Some _ \<Rightarrow>
         bnd (with_text L x ''zeebe:loopCharacteristics/@inputCollection'' (\<lambda>t it. it\<lparr> it_Collection := t \<rparr>)
                \<lparr> it_Collection = [], it_Iterator = [], it_CollateAs = [], it_CollateFrom = [], it_Until = None, it_Execute = Sequential \<rparr>) (\<lambda>it.
         bnd (with_text L x ''zeebe:loopCharacteristics/@inputElement'' (\<lambda>t it. it\<lparr> it_Iterator := t \<rparr>) it) (\<lambda>it.
         bnd (with_text L x ''zeebe:loopCharacteristics/@outputCollection'' (\<lambda>t it. it\<lparr> it_CollateAs := t \<rparr>) it) (\<lambda>it.
         bnd (with_text L x ''zeebe:loopCharacteristics/@outputElement'' (\<lambda>t it. it\<lparr> it_CollateFrom := t \<rparr>) it) (\<lambda>it.
         bnd (with_text L x ''../bpmn:completionCondition'' (\<lambda>t it. it\<lparr> it_CollateFrom := t \<rparr>) it) (\<lambda>it.
         ret (el\<lparr> el_Iteration := Some it \<rparr>)))))))"

definition parseZeebeExtensions :: "'x xml_lib \<Rightarrow> 'x \<Rightarrow> elem_data \<Rightarrow> 'x \<Rightarrow> elem_data pact" where
  "parseZeebeExtensions L doc el i =
     bnd (select_one L (Some i) ''bpmn:extensionElements'') (\<lambda>x.
     if x = None then ret el
     else
       bnd (with_text L x ''zeebe:taskDefinition/@type'' (\<lambda>t el. el\<lparr> el_Execute := t \<rparr>) el) (\<lambda>el.
       bnd (zeebeRetries L x el) (\<lambda>el.
       bnd (with_text L x ''zeebe:calledElement/@processId'' (\<lambda>t el. el\<lparr> el_Execute := t \<rparr>) el) (\<lambda>el.
       bnd (zeebeForm L doc x el) (\<lambda>el.
       bnd (with_text L x ''zeebe:assignmentDefinition/@assignee'' (\<lambda>t el. el\<lparr> el_Candidates := t \<rparr>) el) (\<lambda>el.
       bnd (with_text L x ''zeebe:assignmentDefinition/@candidateGroups'' (\<lambda>t el. el\<lparr> el_CandidateGroups := t \<rparr>) el) (\<lambda>el.
       bnd (with_text L x ''zeebe:subscription/@correlationKey'' (\<lambda>t el. el\<lparr> el_Execute := t \<rparr>) el) (\<lambda>el.
       bnd (zeebeMapping L x el) (zeebeLoop L x)))))))))"

text \<open>The output mappings of a caught error or of a timer.\<close>

definition parseZeebeOutputs :: "'x xml_lib \<Rightarrow> 'x \<Rightarrow> (string \<times> string) list pact" where
  "parseZeebeOutputs L i =
     bnd (select_one L (Some i) ''bpmn:extensionElements'') (\<lambda>x.
     if x = None then ret []
     else bnd (select_one L x ''zeebe:ioMapping'') (\<lambda>e. if e = None then ret [] else ioMappings L e ''zeebe:output'' []))"

section \<open>The parts of an element\<close>

definition bpmnNS :: string where "bpmnNS = ''http://www.omg.org/spec/BPMN/20100524/MODEL''"

definition new_element :: "string \<Rightarrow> elem_data" where
  "new_element ty = \<lparr> el_Id = [], el_Name = [], el_Type = ty, el_Documentation = [], el_Execute = [], el_Outbound = None,
     el_CompensateWith = None, el_Msg = [], el_Candidates = [], el_CandidateGroups = [], el_Errors = [], el_Error = None,
     el_InputTransform = [], el_OutputTransform = [], el_Timer = None, el_BoundaryTimer = [], el_Gateway = None, el_Iteration = None,
     el_Version = None, el_RetryBehaviour = None, el_IsForCompensation = False \<rparr>"

definition new_gateway :: "gateway_type \<Rightarrow> gateway_spec" where
  "new_gateway ty = \<lparr> gw_Type = ty, gw_Direction = divergent, gw_ReciprocalId = [], gw_FixedExpectations = [] \<rparr>"

definition addReceiverForMessage :: "(string \<times> message_receivers) list \<Rightarrow> string \<Rightarrow> string \<Rightarrow> message_receiver \<Rightarrow> (string \<times> message_receivers) list" where
  "addReceiverForMessage mrs workflowName messageName mr =
     (case map_of mrs messageName of
        None \<Rightarrow> AList.update messageName \<lparr> mrs_MessageReceiver = [mr], mrs_AssociatedWorkflowName = workflowName \<rparr> mrs
      | Some rs \<Rightarrow> AList.update messageName (rs\<lparr> mrs_MessageReceiver := mrs_MessageReceiver rs @ [mr] \<rparr>) mrs)"

definition receive :: "string \<Rightarrow> message_receiver \<Rightarrow> unit pact" where
  "receive messageName mr =
     modify (\<lambda>s. s\<lparr> ps_wf := (ps_wf s)\<lparr> wf_MessageReceivers := addReceiverForMessage (wf_MessageReceivers (ps_wf s)) (wf_Name (ps_wf s)) messageName mr \<rparr> \<rparr>)"

definition messageNamed :: "string \<Rightarrow> string pact" where
  "messageNamed ref = asks (\<lambda>s. alist_get (ps_msgs s) [] ref)"

definition parseTimeCycle :: "string \<Rightarrow> (goerr, workflow_timer_definition) res" where
  "parseTimeCycle text =
     (let parts = SplitChar (CHR ''/'') text
      in if length text = 0 \<or> length parts > 2 \<or> text ! 0 \<noteq> CHR ''R'' \<or> CHR ''/'' \<notin> set text then Err ErrBadTimeCycle
         else case Atoi (drop 1 (parts ! 0)) of
           None \<Rightarrow> Err ErrBadTimeCycle
         | Some rep \<Rightarrow>
             bind_res (ParseISO8601 (parts ! 1)) (\<lambda>dur.
             Ok \<lparr> wtd_Type = timer_duration, wtd_Value = int64 (timeDuration dur), wtd_Repeat = rep, wtd_DropEvents = False \<rparr>))"

definition parseStartTimer :: "'x xml_lib \<Rightarrow> 'x option \<Rightarrow> elem_data \<Rightarrow> elem_data pact" where
  "parseStartTimer L def el =
     bnd (select_one L def ''bpmn:timeCycle/text()'') (\<lambda>timeCycle.
     bnd (select_one L def ''bpmn:timeDate/text()'') (\<lambda>timeDate.
     bnd (case (timeDate, timeCycle) of
            (Some d, _) \<Rightarrow>
              bnd (from_res (xl_UnixNano L (xl_Data L d))) (\<lambda>v. ret \<lparr> wtd_Type = timer_fixed, wtd_Value = v, wtd_Repeat = 0, wtd_DropEvents = False \<rparr>)
          | (None, Some c) \<Rightarrow> from_res (parseTimeCycle (xl_Data L c))
          | (None, None) \<Rightarrow> fail (Some ErrBadTimerEventDefinition)) (\<lambda>t.
     ret (el\<lparr> el_Timer := Some t, el_Type := TimedStartEvent \<rparr>))))"

definition parseStartEvent :: "'x xml_lib \<Rightarrow> string \<Rightarrow> 'x \<Rightarrow> elem_data \<Rightarrow> elem_data pact" where
  "parseStartEvent L processId n el =
     bnd (select_one L (Some n) ''bpmn:timerEventDefinition'') (\<lambda>def.
     bnd (if def = None then ret el else parseStartTimer L def el) (\<lambda>el.
     bnd (select_one L (Some n) ''bpmn:messageEventDefinition'') (\<lambda>def.
     if def = None then ret el
     else
       bnd (attr L def ''messageRef'') (\<lambda>ref.
       bnd (messageNamed ref) (\<lambda>messageName.
       bnd (attr L (Some n) ''id'') (\<lambda>i.
       bnd (receive messageName \<lparr> mr_Id = i, mr_ProcessIdToStart = processId \<rparr>) (\<lambda>_.
       ret (el\<lparr> el_Msg := messageName, el_Type := StartEvent \<rparr>))))))))"

definition parseEndEvent :: "'x xml_lib \<Rightarrow> 'x \<Rightarrow> elem_data \<Rightarrow> elem_data pact" where
  "parseEndEvent L i el =
     bnd (select_one L (Some i) ''//bpmn:compensateEventDefinition/@id'') (\<lambda>compRef.
     ret (el\<lparr> el_Type := if compRef = None then EndEvent else CompensateEndEvent \<rparr>))"

definition parseIntermediateThrowEvent :: "'x xml_lib \<Rightarrow> 'x \<Rightarrow> elem_data \<Rightarrow> elem_data pact" where
  "parseIntermediateThrowEvent L i el =
     bnd (with_text L (Some i) ''bpmn:linkEventDefinition/@name'' (\<lambda>t el. el\<lparr> el_Type := LinkIntermediateThrowEvent, el_Execute := t \<rparr>) el) (\<lambda>el.
     bnd (select_one L (Some i) ''bpmn:messageEventDefinition'') (\<lambda>def.
     ret (if def = None then el else el\<lparr> el_Type := MessageIntermediateThrowEvent \<rparr>)))"

definition parseCoreValues :: "'x xml_lib \<Rightarrow> 'x \<Rightarrow> elem_data \<Rightarrow> elem_data pact" where
  "parseCoreValues L i el =
     bnd (with_text L (Some i) ''@id'' (\<lambda>t el. el\<lparr> el_Id := t \<rparr>) el) (with_text L (Some i) ''@name'' (\<lambda>t el. el\<lparr> el_Name := t \<rparr>))"

definition parseDocumentation :: "'x xml_lib \<Rightarrow> 'x \<Rightarrow> elem_data \<Rightarrow> elem_data pact" where
  "parseDocumentation L i = with_text L (Some i) ''bpmn:documentation'' (\<lambda>t el. el\<lparr> el_Documentation := t \<rparr>)"

definition with_id :: "string \<Rightarrow> string" where
  "with_id i = ''[@id='' @ [CHR 0x22] @ i @ [CHR 0x22] @ '']''"

definition parseConditions :: "'x xml_lib \<Rightarrow> 'x option \<Rightarrow> string list pact" where
  "parseConditions L i =
     bnd (select_all L i ''bpmn:conditionExpression'') (foldE (\<lambda>cds j. bnd (inner L (Some j)) (\<lambda>t. ret (cds @ [t]))) [])"

definition parseFlow :: "'x xml_lib \<Rightarrow> 'x \<Rightarrow> 'x \<Rightarrow> target pact" where
  "parseFlow L doc c =
     bnd (inner L (Some c)) (\<lambda>fid.
     bnd (select_one L (Some doc) (''//bpmn:sequenceFlow'' @ with_id fid)) (\<lambda>sf.
     bnd (text_at L sf ''@targetRef'') (\<lambda>ref.
     bnd (select_one L (Some doc) (''//*'' @ with_id ref)) (\<lambda>tg.
     bnd (text_at L sf ''@id'') (\<lambda>i.
     bnd (text_at L tg ''@id'') (\<lambda>t.
     bnd (parseConditions L sf) (\<lambda>cs. ret \<lparr> tg_Id = i, tg_Conditions = cs, tg_Target = t \<rparr>)))))))"

definition parseFlowInOut :: "'x xml_lib \<Rightarrow> 'x \<Rightarrow> 'x \<Rightarrow> elem_data \<Rightarrow> elem_data pact" where
  "parseFlowInOut L doc i el =
     bnd (if xl_Data L i = ''exclusiveGateway'' then attr L (Some i) ''default'' else ret []) (\<lambda>def.
     bnd (select_all L (Some i) ''bpmn:outgoing'') (\<lambda>c2.
     bnd (foldE (\<lambda>elo c. bnd (parseFlow L doc c) (\<lambda>t. ret (elo @ [t]))) [] c2) (\<lambda>elo.
     ret (if elo = [] then el
          else el\<lparr> el_Outbound := Some \<lparr> tgs_Target = elo,
                 tgs_DefaultTarget = fold (\<lambda>(ord, t) d. if def = tg_Id t then int ord else d) (enumerate 0 elo) (-1) \<rparr> \<rparr>))))"

definition parseElementErrors :: "'x xml_lib \<Rightarrow> 'x \<Rightarrow> 'x \<Rightarrow> elem_data \<Rightarrow> elem_data pact" where
  "parseElementErrors L doc i el =
     bnd (select_one L (Some i) ''//bpmn:errorEventDefinition/@errorRef'') (\<lambda>errorRef.
     if errorRef = None then ret el
     else
       bnd (inner L errorRef) (\<lambda>ref.
       bnd (select_one L (Some doc) (''//*'' @ with_id ref)) (\<lambda>tg.
       bnd (attr L tg ''id'') (\<lambda>i.
       bnd (attr L tg ''errorCode'') (\<lambda>code.
       bnd (attr L tg ''name'') (\<lambda>name. ret (el\<lparr> el_Error := Some \<lparr> er_Id = i, er_Name = name, er_Code = code \<rparr> \<rparr>)))))))"

text \<open>A text that is no duration is taken for an expression when its second character is an equals sign.\<close>

definition parseDuration :: "string \<Rightarrow> (goerr, string) res" where
  "parseDuration ref =
     (let ref = TrimSpace ref
      in if length ref = 0 then Err (ErrOther ''empty Duration found'')
         else case ParseISO8601 ref of
                Ok d \<Rightarrow> Ok (Itoa (int64 (timeDuration d)))
              | Err e \<Rightarrow> if length ref < 2 then Panic else if ref ! 1 = CHR ''='' then Ok ref else Err e
              | Panic \<Rightarrow> Panic)"

definition getCorrelation :: "elem_data list \<Rightarrow> string \<Rightarrow> (goerr, string) res" where
  "getCorrelation messages msg =
     (case find (\<lambda>v. el_Name v = msg) messages of Some v \<Rightarrow> Ok (el_Execute v) | None \<Rightarrow> Err ErrCorrelationFail)"

definition parseSubscription :: "'x xml_lib \<Rightarrow> 'x \<Rightarrow> elem_data \<Rightarrow> elem_data pact" where
  "parseSubscription L i el =
     (if xl_Data L i \<noteq> ''intermediateCatchEvent'' then ret el
      else
        bnd (select_one L (Some i) ''bpmn:messageEventDefinition/@messageRef'') (\<lambda>x.
        if x \<noteq> None then
          bnd (inner L x) (\<lambda>ref.
          bnd (messageNamed ref) (\<lambda>messageName.
          bnd (receive messageName \<lparr> mr_Id = el_Id el, mr_ProcessIdToStart = [] \<rparr>) (\<lambda>_.
          bnd (asks (\<lambda>s. wf_Messages (ps_wf s))) (\<lambda>ms.
          bnd (from_res (getCorrelation ms messageName)) (\<lambda>c.
          ret (el\<lparr> el_Type := MessageIntermediateCatchEvent, el_Msg := messageName, el_Execute := c \<rparr>))))))
        else
          bnd (select_one L (Some i) ''bpmn:timerEventDefinition/bpmn:timeDuration'') (\<lambda>x.
          if x \<noteq> None then
            bnd (inner L x) (\<lambda>ref.
            bnd (from_res (parseDuration ref)) (\<lambda>dur. ret (el\<lparr> el_Type := TimerIntermediateCatchEvent, el_Execute := dur \<rparr>)))
          else with_text L (Some i) ''bpmn:linkEventDefinition/@name'' (\<lambda>t el. el\<lparr> el_Type := LinkIntermediateCatchEvent, el_Execute := t \<rparr>) el)))"

section \<open>Elements that are changed in place\<close>

text \<open>The first element of a process with an id.\<close>

fun onFirst :: "string \<Rightarrow> (elem_data \<Rightarrow> elem_data) \<Rightarrow> element list \<Rightarrow> element list option" where
  "onFirst i f [] = None"
| "onFirst i f (e # es) =
     (if el_Id (el_data e) = i then Some (Elem (f (el_data e)) (el_Process e) # es) else map_option ((#) e) (onFirst i f es))"

text \<open>The element that the index of a process has for an id: the last one in the order of the index, which has an element
  before those of its sub-process.\<close>

fun onIndexed :: "string \<Rightarrow> (elem_data \<Rightarrow> elem_data) \<Rightarrow> element list \<Rightarrow> element list option" where
  "onIndexed i f [] = None"
| "onIndexed i f (Elem d None # es) =
     (case onIndexed i f es of
        Some es' \<Rightarrow> Some (Elem d None # es')
      | None \<Rightarrow> if el_Id d = i then Some (Elem (f d) None # es) else None)"
| "onIndexed i f (Elem d (Some (Proc ns k t)) # es) =
     (case onIndexed i f es of
        Some es' \<Rightarrow> Some (Elem d (Some (Proc ns k t)) # es')
      | None \<Rightarrow>
          (case onIndexed i f ns of
             Some ns' \<Rightarrow> Some (Elem d (Some (Proc ns' k t)) # es)
           | None \<Rightarrow> if el_Id d = i then Some (Elem (f d) (Some (Proc ns k t)) # es) else None))"

definition from_nil :: "'a option \<Rightarrow> 'a pact" where
  "from_nil x = (case x of None \<Rightarrow> panic | Some y \<Rightarrow> ret y)"

section \<open>Boundary events\<close>

definition parseCompensationEventData :: "'x xml_lib \<Rightarrow> 'x \<Rightarrow> 'x \<Rightarrow> string \<Rightarrow> (string \<Rightarrow> 'r \<Rightarrow> 'r pact) \<Rightarrow> 'r \<Rightarrow> 'r pact" where
  "parseCompensationEventData L doc node selector fn els =
     bnd (select_one L (Some node) selector) (\<lambda>ref.
     if ref = None then ret els
     else
       bnd (attr L (Some node) ''id'') (\<lambda>eventId.
       bnd (select_all L (Some doc) ''//bpmn:association'') (\<lambda>associations.
       foldE (\<lambda>els v. bnd (attr L (Some v) ''sourceRef'') (\<lambda>src.
           if src = eventId then bnd (attr L (Some v) ''targetRef'') (\<lambda>target. fn target els) else ret els)) els associations)))"

definition parseBoundaryEventData :: "'x xml_lib \<Rightarrow> 'x \<Rightarrow> string \<Rightarrow> ('x option \<Rightarrow> string \<Rightarrow> 'r \<Rightarrow> 'r pact) \<Rightarrow> 'r \<Rightarrow> 'r pact" where
  "parseBoundaryEventData L node selector fn els =
     bnd (select_one L (Some node) selector) (\<lambda>ref.
     if ref = None then ret els
     else
       bnd (select_all L (Some node) ''..//bpmn:sequenceFlow'') (\<lambda>allFlow.
       bnd (text_at L (Some node) ''//bpmn:outgoing'') (\<lambda>flowID.
       bnd (foldE (\<lambda>target v. bnd (attr L (Some v) ''id'') (\<lambda>i.
           if i = flowID then attr L (Some v) ''targetRef'' else ret target)) [] allFlow) (\<lambda>target.
       fn ref target els))))"

definition catchCompensation :: "string \<Rightarrow> string \<Rightarrow> element list \<Rightarrow> element list pact" where
  "catchCompensation attach target es =
     bnd (from_nil (onFirst attach (\<lambda>d. d\<lparr> el_CompensateWith := Some target \<rparr>) es)) (\<lambda>es.
     from_nil (onIndexed target (\<lambda>d. d\<lparr> el_IsForCompensation := True \<rparr>) es))"

text \<open>The new error or timer is in the element before its output mappings are parsed.\<close>

definition catchError :: "'x xml_lib \<Rightarrow> 'x \<Rightarrow> string \<Rightarrow> 'x option \<Rightarrow> string \<Rightarrow> element list \<Rightarrow> element list pact" where
  "catchError L i attach ref target es =
     bnd (text_at L (Some i) ''//bpmn:errorEventDefinition/@id'') (\<lambda>cid.
     bnd (inner L ref) (\<lambda>err.
     bnd (from_nil (onFirst attach id es)) (\<lambda>es.
     bnd (parseZeebeOutputs L i) (\<lambda>out.
     from_nil (onFirst attach (\<lambda>d. d\<lparr> el_Errors := el_Errors d @
        [\<lparr> ce_Id = cid, ce_ErrorId = err, ce_Target = target, ce_OutputTransform = out \<rparr>] \<rparr>) es)))))"

definition catchTimer :: "'x xml_lib \<Rightarrow> 'x \<Rightarrow> string \<Rightarrow> 'x option \<Rightarrow> string \<Rightarrow> element list \<Rightarrow> element list pact" where
  "catchTimer L i attach ref target es =
     bnd (text_at L (Some i) ''//bpmn:timeDuration'') (\<lambda>durationExpr.
     bnd (text_at L (Some i) ''//bpmn:timerEventDefinition/@id'') (\<lambda>tid.
     bnd (from_nil (onFirst attach id es)) (\<lambda>es.
     bnd (parseZeebeOutputs L i) (\<lambda>out.
     from_nil (onFirst attach (\<lambda>d. d\<lparr> el_BoundaryTimer := el_BoundaryTimer d @
        [\<lparr> bt_Id = tid, bt_Duration = durationExpr, bt_Target = target, bt_OutputTransform = out \<rparr>] \<rparr>) es)))))"

definition parseBoundaryEvent :: "'x xml_lib \<Rightarrow> 'x \<Rightarrow> element list \<Rightarrow> 'x \<Rightarrow> element list pact" where
  "parseBoundaryEvent L doc es i =
     bnd (attr L (Some i) ''attachedToRef'') (\<lambda>attach.
     bnd (parseCompensationEventData L doc i ''//bpmn:compensateEventDefinition/@id'' (catchCompensation attach) es) (\<lambda>es.
     bnd (parseBoundaryEventData L i ''//bpmn:errorEventDefinition/@errorRef'' (catchError L i attach) es) (\<lambda>es.
     parseBoundaryEventData L i ''//bpmn:timerEventDefinition'' (catchTimer L i attach) es)))"

section \<open>Processes\<close>

definition parseMessages :: "'x xml_lib \<Rightarrow> 'x \<Rightarrow> 'x list \<Rightarrow> unit pact" where
  "parseMessages L doc msgNodes =
     bnd (foldE (\<lambda>m x.
         bnd (text_at L (Some x) ''@id'') (\<lambda>i.
         bnd (text_at L (Some x) ''@name'') (\<lambda>name.
         bnd (modify (\<lambda>s. s\<lparr> ps_msgs := AList.update i name (ps_msgs s) \<rparr>)) (\<lambda>_.
         bnd (parseZeebeExtensions L doc ((new_element [])\<lparr> el_Id := i, el_Name := name \<rparr>) x) (\<lambda>el. ret (m @ [el])))))) [] msgNodes) (\<lambda>m.
     modify (\<lambda>s. s\<lparr> ps_wf := (ps_wf s)\<lparr> wf_Messages := m \<rparr> \<rparr>))"

definition parseErrors :: "'x xml_lib \<Rightarrow> 'x list \<Rightarrow> unit pact" where
  "parseErrors L errNodes =
     bnd (foldE (\<lambda>m x.
         bnd (text_at L (Some x) ''@id'') (\<lambda>i.
         bnd (text_at L (Some x) ''@name'') (\<lambda>name.
         bnd (text_at L (Some x) ''@errorCode'') (\<lambda>code.
         bnd (modify (\<lambda>s. s\<lparr> ps_errs := AList.update i name (ps_errs s) \<rparr>)) (\<lambda>_.
         ret (m @ [\<lparr> er_Id = i, er_Name = name, er_Code = code \<rparr>])))))) [] errNodes) (\<lambda>m.
     modify (\<lambda>s. s\<lparr> ps_wf := (ps_wf s)\<lparr> wf_Errors := m \<rparr> \<rparr>))"

definition skippedElements :: "string list" where
  "skippedElements = [''sequenceFlow'', ''incoming'', ''outgoing'', ''extensionElements'', ''boundaryEvent'', ''documentation'', ''association'']"

definition elementKind :: "'x xml_lib \<Rightarrow> string \<Rightarrow> 'x \<Rightarrow> elem_data \<Rightarrow> elem_data pact" where
  "elementKind L processId i el =
     (let k = xl_Data L i
      in if k = ''intermediateThrowEvent'' then parseIntermediateThrowEvent L i el
         else if k = ''startEvent'' then parseStartEvent L processId i el
         else if k = ''endEvent'' then parseEndEvent L i el
         else if k = ''exclusiveGateway'' then ret (el\<lparr> el_Type := Gateway, el_Gateway := Some (new_gateway exclusive) \<rparr>)
         else if k = ''parallelGateway'' then ret (el\<lparr> el_Type := Gateway, el_Gateway := Some (new_gateway parallel) \<rparr>)
         else if k = ''inclusiveGateway'' then ret (el\<lparr> el_Type := Gateway, el_Gateway := Some (new_gateway inclusive) \<rparr>)
         else ret el)"

text \<open>A sub-process has no id of its own.  \<open>pp\<close> parses its elements.\<close>

definition parseSubprocess :: "'x xml_lib \<Rightarrow> ('x \<Rightarrow> element list pact) \<Rightarrow> 'x \<Rightarrow> process option pact" where
  "parseSubprocess L pp i =
     (if xl_Data L i = ''subProcess'' then bnd (pp i) (\<lambda>es. ret (Some (Proc es [] None))) else ret None)"

definition parseElements :: "'x xml_lib \<Rightarrow> 'x \<Rightarrow> ('x \<Rightarrow> element list pact) \<Rightarrow> string \<Rightarrow> element list \<Rightarrow> 'x \<Rightarrow> element list pact" where
  "parseElements L doc pp processId es i =
     (if xl_NamespaceURI L i \<noteq> bpmnNS \<or> xl_Data L i \<in> set skippedElements then ret es
      else
        bnd (elementKind L processId i (new_element (xl_Data L i))) (\<lambda>el.
        bnd (parseCoreValues L i el) (\<lambda>el.
        bnd (parseFlowInOut L doc i el) (\<lambda>el.
        bnd (parseDocumentation L i el) (\<lambda>el.
        bnd (parseElementErrors L doc i el) (\<lambda>el.
        bnd (parseZeebeExtensions L doc el i) (\<lambda>el.
        bnd (parseSubprocess L pp i) (\<lambda>p.
        bnd (parseSubscription L i el) (\<lambda>el.
        ret (es @ [Elem el p]))))))))))"

primrec parseProcess :: "nat \<Rightarrow> 'x xml_lib \<Rightarrow> 'x \<Rightarrow> string \<Rightarrow> 'x list \<Rightarrow> 'x list \<Rightarrow> 'x \<Rightarrow> element list pact" where
  "parseProcess 0 L doc processId msgXML errXML prXML = fail None"
| "parseProcess (Suc n) L doc processId msgXML errXML prXML =
     bnd (whenE (msgXML \<noteq> []) (parseMessages L doc msgXML)) (\<lambda>_.
     bnd (select_all L (Some prXML) ''*'') (\<lambda>xs.
     bnd (foldE (parseElements L doc (parseProcess n L doc [] [] []) processId) [] xs) (\<lambda>es.
     bnd (whenE (errXML \<noteq> []) (parseErrors L errXML)) (\<lambda>_.
     bnd (select_all L (Some prXML) ''//bpmn:boundaryEvent'') (\<lambda>bs.
     foldE (parseBoundaryEvent L doc) es bs)))))"

section \<open>The workflow\<close>

text \<open>The message flows are read, but the engine does not use them and the model does not keep them.\<close>

definition parseCollaboration :: "'x xml_lib \<Rightarrow> 'x \<Rightarrow> unit pact" where
  "parseCollaboration L collaboration =
     bnd (select_all L (Some collaboration) ''bpmn:participant'') (\<lambda>ps.
     bnd (foldE (\<lambda>c i.
         bnd (text_at L (Some i) ''@id'') (\<lambda>a.
         bnd (text_at L (Some i) ''@processRef'') (\<lambda>b. ret (c @ [\<lparr> pt_Id = a, pt_ProcessId = b \<rparr>])))) [] ps) (\<lambda>c.
     bnd (select_all L (Some collaboration) ''bpmn:messageFlow'') (\<lambda>fs.
     bnd (forE (\<lambda>i.
         bnd (text_at L (Some i) ''@id'') (\<lambda>_.
         bnd (text_at L (Some i) ''@sourceRef'') (\<lambda>_.
         bnd (text_at L (Some i) ''@targetRef'') (\<lambda>_. ret ())))) fs) (\<lambda>_.
     modify (\<lambda>s. s\<lparr> ps_wf := (ps_wf s)\<lparr> wf_Collaboration := Some c \<rparr> \<rparr>)))))"

definition parseProcesses :: "nat \<Rightarrow> 'x xml_lib \<Rightarrow> 'x \<Rightarrow> 'x list \<Rightarrow> unit pact" where
  "parseProcesses n L doc prXmls =
     forE (\<lambda>prXML.
       bnd (select_all L (Some doc) ''//bpmn:message'') (\<lambda>msgXML.
       bnd (select_all L (Some doc) ''//bpmn:error'') (\<lambda>errXML.
       bnd (attr L (Some prXML) ''id'') (\<lambda>processId.
       bnd (parseProcess n L doc processId msgXML errXML prXML) (\<lambda>es.
       modify (\<lambda>s. s\<lparr> ps_wf := (ps_wf s)\<lparr> wf_Process := AList.update processId (Proc es processId None) (wf_Process (ps_wf s)) \<rparr> \<rparr>)))))) prXmls"

definition new_workflow :: "string \<Rightarrow> workflow" where
  "new_workflow name = \<lparr> wf_Name = name, wf_Process = [], wf_Messages = [], wf_Errors = [], wf_GzipSource = [],
     wf_Collaboration = Some [], wf_MessageReceivers = [], wf_AutoLaunchHeaders = [] \<rparr>"

definition parseDocument :: "nat \<Rightarrow> 'x xml_lib \<Rightarrow> 'x \<Rightarrow> unit pact" where
  "parseDocument n L doc =
     bnd (select_all L (Some doc) ''//bpmn:process'') (\<lambda>prXmls.
     bnd (select_all L (Some doc) ''//bpmn:collaboration'') (\<lambda>cs.
     bnd (case cs of [] \<Rightarrow> ret () | c # _ \<Rightarrow> parseCollaboration L c) (\<lambda>_.
     parseProcesses n L doc prXmls)))"

definition populateConvergentGatewayOutputTransforms :: "(string \<times> string) list \<Rightarrow> string \<Rightarrow> element list \<Rightarrow> element list" where
  "populateConvergentGatewayOutputTransforms tr c es =
     (case onIndexed c (\<lambda>d. d\<lparr> el_OutputTransform := tr \<rparr>) es of Some es' \<Rightarrow> es' | None \<Rightarrow> es)"

text \<open>The closing gateway is in the index that its id comes from.\<close>

fun populateProcesses :: "nat \<Rightarrow> env \<Rightarrow> (string \<times> process) list \<Rightarrow> (string \<times> process) list \<Rightarrow> (goerr, (string \<times> process) list) res option" where
  "populateProcesses m E [] acc = Some (Ok acc)"
| "populateProcesses m E ((k, p) # ps) acc =
     (case findConvergentGatewayOutputTransforms m E (\<lambda>es. IndexProcessElements es []) populateConvergentGatewayOutputTransforms (pr_Elements p) of
        Some (Ok es) \<Rightarrow> populateProcesses m E ps (AList.update k (Proc es (pr_Id p) (pr_TimedStart p)) acc)
      | Some (Err e) \<Rightarrow> Some (Err e)
      | Some Panic \<Rightarrow> Some Panic
      | None \<Rightarrow> None)"

definition and_then :: "(goerr, 'a) res option \<Rightarrow> ('a \<Rightarrow> (goerr, 'b) res option) \<Rightarrow> (goerr, 'b) res option" where
  "and_then r f = (case r of None \<Rightarrow> None | Some (Ok x) \<Rightarrow> f x | Some (Err e) \<Rightarrow> Some (Err e) | Some Panic \<Rightarrow> Some Panic)"

definition checkParsed :: "nat \<Rightarrow> nat \<Rightarrow> env \<Rightarrow> workflow \<Rightarrow> (goerr, workflow) res option" where
  "checkParsed n m E wkf =
     and_then (tagWorkflow E n wkf) (\<lambda>wkf.
     and_then (Lint E wkf True) (\<lambda>(_, err).
     case err of
       Some e \<Rightarrow> Some (Err e)
     | None \<Rightarrow>
         and_then (validModel m E wkf) (\<lambda>_.
         and_then (populateProcesses m E (rangeMap (map_order E 35) (wf_Process wkf)) (wf_Process wkf)) (\<lambda>ps.
         Some (Ok (wkf\<lparr> wf_Process := ps \<rparr>))))))"

definition Parse :: "nat \<Rightarrow> nat \<Rightarrow> nat \<Rightarrow> env \<Rightarrow> 'x xml_lib \<Rightarrow> string \<Rightarrow> bytes \<Rightarrow> (goerr, workflow) res option" where
  "Parse depth n m E L name rdr =
     and_then (Some (xl_Parse L rdr)) (\<lambda>doc.
     case parseDocument depth L doc \<lparr> ps_wf = new_workflow name, ps_msgs = [], ps_errs = [] \<rparr> of
       (Ok _, s) \<Rightarrow> checkParsed n m E (ps_wf s)
     | (Err None, _) \<Rightarrow> None
     | (Err (Some e), _) \<Rightarrow> Some (Err e)
     | (Panic, _) \<Rightarrow> Some Panic)"

section \<open>The depth of the document is enough\<close>

text \<open>An operation that leaves the processes of the workflow alone and, when \<open>D\<close>, does not run out of depth.\<close>

definition tame :: "bool \<Rightarrow> 'a pact \<Rightarrow> bool" where
  "tame D a \<longleftrightarrow> (\<forall>s. (D \<longrightarrow> fst (a s) \<noteq> Err None) \<and> wf_Process (ps_wf (snd (a s))) = wf_Process (ps_wf s))"

named_theorems tame_intros "compositional rules for tame"

lemma tame_basic [tame_intros]: "tame D (ret x)" "tame D (fail (Some e))" "tame D panic" "tame D (asks f)" "tame D (from_res r)"
  by (auto simp: tame_def from_res_def split: res.splits)

lemma tame_modify [tame_intros]: "(\<And>s. wf_Process (ps_wf (f s)) = wf_Process (ps_wf s)) \<Longrightarrow> tame D (modify f)"
  by (simp add: tame_def)

lemma tame_bnd [tame_intros]: "tame D a \<Longrightarrow> (\<And>x. tame D (f x)) \<Longrightarrow> tame D (bnd a f)"
  unfolding tame_def
proof (intro allI)
  fix s assume "\<forall>s. (D \<longrightarrow> fst (a s) \<noteq> Err None) \<and> wf_Process (ps_wf (snd (a s))) = wf_Process (ps_wf s)"
    and f: "\<And>x. \<forall>s. (D \<longrightarrow> fst (f x s) \<noteq> Err None) \<and> wf_Process (ps_wf (snd (f x s))) = wf_Process (ps_wf s)"
  then have "(D \<longrightarrow> fst (a s) \<noteq> Err None) \<and> wf_Process (ps_wf (snd (a s))) = wf_Process (ps_wf s)" by blast
  then show "(D \<longrightarrow> fst (bnd a f s) \<noteq> Err None) \<and> wf_Process (ps_wf (snd (bnd a f s))) = wf_Process (ps_wf s)"
    using f by (cases "a s"; cases "fst (a s)") (simp_all add: bnd_apply)
qed

lemma tame_whenE [tame_intros]: "(b \<Longrightarrow> tame D a) \<Longrightarrow> tame D (whenE b a)" by (cases b) (simp_all add: tame_basic)

lemma tame_if [tame_intros]: "(b \<Longrightarrow> tame D x) \<Longrightarrow> (\<not> b \<Longrightarrow> tame D y) \<Longrightarrow> tame D (if b then x else y)" by simp

lemma tame_option [tame_intros]: "tame D x \<Longrightarrow> (\<And>y. tame D (f y)) \<Longrightarrow> tame D (case u of None \<Rightarrow> x | Some y \<Rightarrow> f y)"
  by (cases u) simp_all

lemma tame_foldE_on: "(\<And>acc x. x \<in> set xs \<Longrightarrow> tame D (f acc x)) \<Longrightarrow> tame D (foldE f acc xs)"
  by (induction xs arbitrary: acc) (simp_all add: tame_intros)

lemma tame_foldE [tame_intros]: "(\<And>acc x. tame D (f acc x)) \<Longrightarrow> tame D (foldE f acc xs)" by (rule tame_foldE_on)

lemma tame_forE [tame_intros]: "(\<And>x. tame D (f x)) \<Longrightarrow> tame D (forE f xs)"
  by (induction xs) (simp_all add: tame_intros)

lemma tame_select_bnd:
  assumes "\<And>xs. xl_SelectElements L x path = Ok xs \<Longrightarrow> tame D (f xs)"
  shows "tame D (bnd (select_all L x path) f)"
  using assms by (cases "xl_SelectElements L x path") (auto simp: tame_def select_all_def from_res_def bnd_apply)

lemma tame_document [tame_intros]:
  "tame D (select_all L x path)" "tame D (select_one L x path)" "tame D (inner L x)" "tame D (attr L x path)"
  "tame D (text_at L x path)" "tame D (with_text L x path g el)" "tame D (from_nil u)"
  unfolding select_all_def select_one_def inner_def attr_def text_at_def with_text_def from_nil_def
  by (intro tame_intros)+

lemma tame_extensions [tame_intros]:
  "tame D (parseZeebeExtensions L doc el i)" "tame D (parseZeebeOutputs L i)"
  unfolding parseZeebeExtensions_def parseZeebeOutputs_def ioMappings_def zeebeRetries_def zeebeForm_def zeebeMapping_def zeebeLoop_def
  by (intro tame_intros)+

lemma tame_receive [tame_intros]: "tame D (receive m r)" "tame D (messageNamed ref)"
  unfolding receive_def messageNamed_def by (intro tame_intros; simp)+

lemma tame_parts [tame_intros]:
  "tame D (parseCoreValues L i el)" "tame D (parseDocumentation L i el)" "tame D (parseFlowInOut L doc i el)"
  "tame D (parseElementErrors L doc i el)" "tame D (parseSubscription L i el)"
  unfolding parseCoreValues_def parseDocumentation_def parseFlowInOut_def parseFlow_def parseConditions_def parseElementErrors_def parseSubscription_def
  by (intro tame_intros)+

lemma tame_startTimer [tame_intros]: "tame D (parseStartTimer L def el)"
  unfolding parseStartTimer_def prod.case by (intro tame_intros)

lemma tame_kind [tame_intros]: "tame D (elementKind L k i el)"
  unfolding elementKind_def parseIntermediateThrowEvent_def parseStartEvent_def parseEndEvent_def Let_def by (intro tame_intros)

lemma tame_boundary [tame_intros]: "tame D (parseBoundaryEvent L doc es i)"
  unfolding parseBoundaryEvent_def parseCompensationEventData_def parseBoundaryEventData_def catchCompensation_def catchError_def catchTimer_def
  by (intro tame_intros)

lemma tame_definitions [tame_intros]:
  "tame D (parseMessages L doc ms)" "tame D (parseErrors L xs)" "tame D (parseCollaboration L c)"
  unfolding parseMessages_def parseErrors_def parseCollaboration_def by (intro tame_intros; simp)+

lemma tame_elements:
  assumes "xl_Data L i = ''subProcess'' \<Longrightarrow> tame D (pp i)"
  shows "tame D (parseElements L doc pp k es i)"
  unfolding parseElements_def parseSubprocess_def using assms by (intro tame_intros) simp

text \<open>The elements below a node of the document are not as deep as the node: documents are finite trees.\<close>

definition nested :: "'x xml_lib \<Rightarrow> ('x \<Rightarrow> nat) \<Rightarrow> bool" where
  "nested L height \<longleftrightarrow> (\<forall>x ys. xl_SelectElements L (Some x) ''*'' = Ok ys \<longrightarrow> (\<forall>y \<in> set ys. height y < height x))"

lemma tame_process:
  assumes "D \<Longrightarrow> nested L height" "D \<Longrightarrow> height x < n"
  shows "tame D (parseProcess n L doc k ms es x)"
  using assms(2)
proof (induction n arbitrary: k ms es x)
  case 0
  then show ?case by (auto simp: tame_def)
next
  case (Suc n)
  have "tame D (parseElements L doc (parseProcess n L doc [] [] []) k acc i)" if "xl_SelectElements L (Some x) ''*'' = Ok xs" "i \<in> set xs" for acc i xs
  proof (rule tame_elements, rule Suc.IH)
    assume "D"
    then show "height i < n" using assms(1) Suc.prems that unfolding nested_def by fastforce
  qed
  then show ?case
    unfolding parseProcess.simps by (intro tame_intros tame_select_bnd tame_foldE_on) blast+
qed

section \<open>The processes of the workflow\<close>

definition keyed_processes :: "(string \<times> process) list \<Rightarrow> bool" where
  "keyed_processes ps \<longleftrightarrow> distinct (map fst ps) \<and> (\<forall>(k, p) \<in> set ps. pr_Id p = k)"

lemma set_update_sub: "set (AList.update k v m) \<subseteq> insert (k, v) (set m)"
  by (induction m) auto

lemma keyed_update: "keyed_processes ps \<Longrightarrow> pr_Id p = k \<Longrightarrow> keyed_processes (AList.update k p ps)"
  using set_update_sub [of k p ps] by (fastforce simp: keyed_processes_def distinct_update)

text \<open>The operations on documents that keep the processes keyed by their ids, and do not run out of depth when \<open>D\<close>.\<close>

definition orderly :: "bool \<Rightarrow> 'a pact \<Rightarrow> bool" where
  "orderly D a \<longleftrightarrow> (\<forall>s. (D \<longrightarrow> fst (a s) \<noteq> Err None) \<and> (keyed_processes (wf_Process (ps_wf s)) \<longrightarrow> keyed_processes (wf_Process (ps_wf (snd (a s))))))"

lemma tame_orderly: "tame D a \<Longrightarrow> orderly D a" by (simp add: tame_def orderly_def)

lemma orderly_bnd:
  assumes "orderly D a" "\<And>x. orderly D (f x)"
  shows "orderly D (bnd a f)"
  unfolding orderly_def
proof
  fix s
  show "(D \<longrightarrow> fst (bnd a f s) \<noteq> Err None) \<and> (keyed_processes (wf_Process (ps_wf s)) \<longrightarrow> keyed_processes (wf_Process (ps_wf (snd (bnd a f s)))))"
    using assms(1) [unfolded orderly_def, rule_format, of s] assms(2) [unfolded orderly_def]
    by (cases "a s"; cases "fst (a s)") (simp_all add: bnd_apply)
qed

lemma orderly_forE: "(\<And>x. x \<in> set xs \<Longrightarrow> orderly D (f x)) \<Longrightarrow> orderly D (forE f xs)"
  by (induction xs) (simp_all add: orderly_bnd tame_orderly tame_basic)

lemma orderly_select_bnd:
  assumes "\<And>xs. xl_SelectElements L x path = Ok xs \<Longrightarrow> orderly D (f xs)"
  shows "orderly D (bnd (select_all L x path) f)"
  using assms by (cases "xl_SelectElements L x path") (auto simp: orderly_def select_all_def from_res_def bnd_apply)

lemma orderly_processes:
  assumes "D \<Longrightarrow> nested L height" "D \<Longrightarrow> \<forall>x \<in> set xs. height x < n"
  shows "orderly D (parseProcesses n L doc xs)"
  unfolding parseProcesses_def
proof (rule orderly_forE, intro orderly_bnd)
  fix x k ms es i assume "x \<in> set xs"
  then show "orderly D (parseProcess n L doc k ms es x)" using tame_process [OF assms(1)] assms(2) by (blast intro: tame_orderly)
next
  fix k es
  show "orderly D (modify (\<lambda>s. s\<lparr> ps_wf := (ps_wf s)\<lparr> wf_Process := AList.update k (Proc es k None) (wf_Process (ps_wf s)) \<rparr> \<rparr>))"
    by (simp add: orderly_def keyed_update)
qed (intro tame_orderly tame_intros)+

lemma orderly_document:
  assumes "D \<Longrightarrow> nested L height" "D \<Longrightarrow> \<forall>xs. xl_SelectElements L (Some doc) ''//bpmn:process'' = Ok xs \<longrightarrow> (\<forall>x \<in> set xs. height x < n)"
  shows "orderly D (parseDocument n L doc)"
  unfolding parseDocument_def
proof (rule orderly_select_bnd, intro orderly_bnd)
  fix xs assume "xl_SelectElements L (Some doc) ''//bpmn:process'' = Ok xs"
  then show "orderly D (parseProcesses n L doc xs)" using assms by (intro orderly_processes) auto
qed (auto intro!: tame_orderly tame_intros split: list.split)

section \<open>What is put into closing gateways\<close>

definition no_outputs :: "elem_data \<Rightarrow> elem_data" where
  "no_outputs d = d\<lparr> el_OutputTransform := [] \<rparr>"

lemma onIndexed_outline:
  assumes "onIndexed i f es = Some es'" "\<And>d. no_outputs (f d) = no_outputs d"
  shows "map (mapElement no_outputs) es' = map (mapElement no_outputs) es"
  using assms by (induction i f es arbitrary: es' rule: onIndexed.induct) (auto split: option.splits if_splits)

lemma populate_outline: "map (mapElement no_outputs) (populateConvergentGatewayOutputTransforms tr c es) = map (mapElement no_outputs) es"
  by (auto simp: populateConvergentGatewayOutputTransforms_def no_outputs_def dest: onIndexed_outline split: option.split)

lemma eachConvergent_outline:
  "eachConvergent m ps elesOf populateConvergentGatewayOutputTransforms es = Some (Ok es') \<Longrightarrow> map (mapElement no_outputs) es' = map (mapElement no_outputs) es"
proof (induction ps arbitrary: es)
  case (Cons x ps)
  then show ?case using populate_outline by (cases x) (auto split: option.splits res.splits)
qed simp

definition outline :: "(string \<times> process) list \<Rightarrow> (string \<times> process) list" where
  "outline ps = map (\<lambda>(k, p). (k, mapProcess no_outputs p)) ps"

lemma outline_update: "outline (AList.update k p ps) = AList.update k (mapProcess no_outputs p) (outline ps)"
  by (induction ps) (auto simp: outline_def)

lemma update_same: "distinct (map fst m) \<Longrightarrow> (k, v) \<in> set m \<Longrightarrow> AList.update k v m = m"
  by (induction m) (auto simp: rev_image_eqI)

lemma populateProcesses_outline:
  assumes "populateProcesses m E ps acc = Some (Ok acc')" "distinct (map fst acc)"
    "\<forall>(k, p) \<in> set ps. (k, mapProcess no_outputs p) \<in> set (outline acc)"
  shows "outline acc' = outline acc"
  using assms
proof (induction ps arbitrary: acc)
  case (Cons x ps)
  obtain k p where x: "x = (k, p)" by (cases x)
  obtain es where es: "findConvergentGatewayOutputTransforms m E (\<lambda>es. IndexProcessElements es []) populateConvergentGatewayOutputTransforms (pr_Elements p) = Some (Ok es)"
      "populateProcesses m E ps (AList.update k (Proc es (pr_Id p) (pr_TimedStart p)) acc) = Some (Ok acc')"
    using Cons.prems(1) by (auto simp: x split: option.splits res.splits)
  have "map (mapElement no_outputs) es = map (mapElement no_outputs) (pr_Elements p)"
    using es(1) eachConvergent_outline by (auto simp: findConvergentGatewayOutputTransforms_def split: res.splits)
  then have q: "mapProcess no_outputs (Proc es (pr_Id p) (pr_TimedStart p)) = mapProcess no_outputs p" by (cases p) simp
  have "distinct (map fst (outline acc))" using Cons.prems(2) by (simp add: outline_def case_prod_unfold comp_def)
  then have o: "outline (AList.update k (Proc es (pr_Id p) (pr_TimedStart p)) acc) = outline acc"
    using Cons.prems(3) unfolding outline_update q by (auto simp: x intro: update_same)
  show ?case using Cons.IH [OF es(2)] Cons.prems(2,3) o by (simp add: distinct_update)
qed simp

section \<open>Durations of timers\<close>

lemma duration_expression: "parseDuration ''=x'' = Err ErrFailedToParseISO8601" "parseDuration ''x'' = Panic"
  by code_simp+

section \<open>What the parser accepts\<close>

text \<open>The checks on a process that the outputs of its gateways have no part in.\<close>

definition sound_process :: "process \<Rightarrow> bool" where
  "sound_process p \<longleftrightarrow> validName (pr_Id p) = Ok () \<and> links_paired p \<and>
     (\<forall>e \<in> set (pr_Elements p). el_Id (el_data e) \<noteq> [] \<and> (el_Type (el_data e) = ServiceTask \<longrightarrow> el_Execute (el_data e) \<noteq> []) \<and>
        (el_Type (el_data e) = Gateway \<longrightarrow> (\<exists>g. el_Gateway (el_data e) = Some g \<and> (gw_Direction g = convergent \<longrightarrow> gw_ReciprocalId g \<noteq> []))))"

lemma no_outputs_keeps [simp]:
  "el_Id (no_outputs d) = el_Id d" "el_Type (no_outputs d) = el_Type d" "el_Execute (no_outputs d) = el_Execute d" "el_Gateway (no_outputs d) = el_Gateway d"
  by (simp_all add: no_outputs_def)

lemma el_data_map: "el_data (mapElement f e) = f (el_data e)" by (cases e) simp

lemma outline_process [simp]: "pr_Id (mapProcess f p) = pr_Id p" "pr_Elements (mapProcess f p) = map (mapElement f) (pr_Elements p)"
  by (cases p; simp)+

lemma link_names_outline: "link_names ty (map (\<lambda>e. no_outputs (el_data e)) es) = link_names ty (map el_data es)"
  by (induction es) (simp_all add: link_names_def)

lemma sound_outline: "sound_process (mapProcess no_outputs p) = sound_process p"
  by (simp add: sound_process_def links_paired_def el_data_map comp_def link_names_outline Let_def)

lemma allValid_iff: "allValid f xs = Ok () \<longleftrightarrow> (\<forall>x \<in> set xs. f x = Ok ())"
  by (induction xs) (auto simp: bind_res_def split: res.splits)

lemma validProcesses_all:
  "validProcesses m E ps = Some (Ok ()) \<Longrightarrow> p \<in> set ps \<Longrightarrow>
     validName (pr_Id p) = Ok () \<and> (\<forall>e \<in> set (pr_Elements p). validElement (el_data e) = Ok ()) \<and> checkVariables m E p = Some (Ok ())"
  by (induction ps) (auto simp: bind_res_def allValid_iff split: res.splits option.splits)

lemma validElement_Ok:
  "validElement d = Ok () \<Longrightarrow> el_Id d \<noteq> [] \<and> (el_Type d = ServiceTask \<longrightarrow> el_Execute d \<noteq> []) \<and>
     (el_Type d = Gateway \<longrightarrow> (\<exists>g. el_Gateway d = Some g \<and> (gw_Direction g = convergent \<longrightarrow> gw_ReciprocalId g \<noteq> [])))"
  by (auto simp: validElement_def validServiceTask_def ServiceTask_def Gateway_def split: if_splits option.splits)

lemma tagProcesses_keyed:
  "tagProcesses n ps acc = Some (Ok acc') \<Longrightarrow> keyed_processes acc \<Longrightarrow> \<forall>(k, p) \<in> set ps. pr_Id p = k \<Longrightarrow> keyed_processes acc'"
  by (induction n ps acc rule: tagProcesses.induct) (auto simp: keyed_update split: option.splits res.splits)

lemma and_then_Ok: "and_then r f = Some (Ok y) \<longleftrightarrow> (\<exists>x. r = Some (Ok x) \<and> f x = Some (Ok y))"
  by (auto simp: and_then_def split: option.splits res.splits)

lemma checkParsed_Ok:
  assumes "ranges_ok E" "checkParsed n m E wf0 = Some (Ok wkf)" "keyed_processes (wf_Process wf0)"
  obtains wf1 where "keyed_processes (wf_Process wf1)" "\<exists>x. Lint E wf1 True = Some (Ok (x, None))"
    "validModel m E wf1 = Some (Ok ())" "outline (wf_Process wkf) = outline (wf_Process wf1)" "wf_Messages wkf = wf_Messages wf1"
proof -
  obtain wf1 x ps where w: "tagWorkflow E n wf0 = Some (Ok wf1)" "Lint E wf1 True = Some (Ok (x, None))" "validModel m E wf1 = Some (Ok ())"
      "populateProcesses m E (rangeMap (map_order E 35) (wf_Process wf1)) (wf_Process wf1) = Some (Ok ps)" "wkf = wf1\<lparr> wf_Process := ps \<rparr>"
    using assms(2) by (auto simp: checkParsed_def and_then_Ok split: option.splits prod.splits)
  have r: "set (rangeMap (map_order E i) (wf_Process w)) = set (wf_Process w)" if "keyed_processes (wf_Process w)" for i w
    using that ranges_okD [OF assms(1)] by (intro set_rangeMap) (auto simp: keyed_processes_def)
  obtain ts where t: "tagProcesses n (rangeMap (map_order E 29) (wf_Process wf0)) (wf_Process wf0) = Some (Ok ts)" "wf1 = wf0\<lparr> wf_Process := ts \<rparr>"
    using w(1) by (auto simp: tagWorkflow_def split: option.splits res.splits)
  have "\<forall>(k, p) \<in> set (rangeMap (map_order E 29) (wf_Process wf0)). pr_Id p = k" unfolding r [OF assms(3)] using assms(3) by (simp add: keyed_processes_def)
  then have k: "keyed_processes (wf_Process wf1)" using tagProcesses_keyed [OF t(1) assms(3)] t(2) by simp
  have "outline ps = outline (wf_Process wf1)"
    using k r [OF k] by (intro populateProcesses_outline [OF w(4)]) (auto simp: keyed_processes_def outline_def)
  then show thesis using that k w(2,3,5) by auto
qed

lemma outline_sub: "outline ps = outline qs \<Longrightarrow> (k, p) \<in> set ps \<Longrightarrow> \<exists>q. (k, q) \<in> set qs \<and> mapProcess no_outputs q = mapProcess no_outputs p"
proof -
  assume o: "outline ps = outline qs" and p: "(k, p) \<in> set ps"
  have "(k, mapProcess no_outputs p) \<in> set (outline ps)" unfolding outline_def using p by (auto intro!: rev_image_eqI)
  then show ?thesis unfolding o by (auto simp: outline_def)
qed

lemma outline_fst: "map fst (outline ps) = map fst ps" by (simp add: outline_def comp_def case_prod_unfold)

lemma linted_links:
  assumes "ranges_ok E" "distinct (map fst (wf_Process wkf))" "Lint E wkf True = Some (Ok (x, None))" "(k, p) \<in> set (wf_Process wkf)"
  shows "links_paired p"
proof -
  let ?ps = "map snd (rangeMap (map_order E 26) (wf_Process wkf))"
  obtain y where y: "lintProcesses E ?ps [] = Some (Ok y)" "\<not> list_ex (\<lambda>x. lint_level (lm_Type x) \<le> 1) y"
    using assms(3) by (auto simp: Lint_def split: option.splits res.splits if_splits)
  have "y = []" using lintProcesses_spec [OF assms(1) y(1)] y(2) by (cases y) auto
  then have "\<forall>p \<in> set ?ps. links_paired p" using lintProcesses_spec [OF assms(1) y(1)] by simp
  moreover have "p \<in> set ?ps" using set_rangeMap [OF _ assms(2), of "map_order E 26"] ranges_okD [OF assms(1)] assms(4) by force
  ultimately show ?thesis by blast
qed

lemma checked_processes:
  assumes "ranges_ok E" "keyed_processes (wf_Process wkf)" "Lint E wkf True = Some (Ok (x, None))" "validModel m E wkf = Some (Ok ())" "(k, p) \<in> set (wf_Process wkf)"
  shows "pr_Id p = k \<and> sound_process p \<and> (\<forall>s \<in> start_ids p. \<forall>j v. \<not> misses m E (IndexProcessElements (pr_Elements p) []) s {} [] j v)"
proof -
  have d: "distinct (map fst (wf_Process wkf))" using assms(2) by (simp add: keyed_processes_def)
  have "(k, p) \<in> set (rangeMap (map_order E 34) (wf_Process wkf))" using set_rangeMap [OF _ d] ranges_okD [OF assms(1)] assms(5) by simp
  then have "p \<in> set (map snd (rangeMap (map_order E 34) (wf_Process wkf)))" by force
  moreover have "validProcesses m E (map snd (rangeMap (map_order E 34) (wf_Process wkf))) = Some (Ok ())"
    using assms(4) by (auto simp: validModel_def split: option.splits res.splits)
  ultimately have v: "validName (pr_Id p) = Ok ()" "\<forall>e \<in> set (pr_Elements p). validElement (el_data e) = Ok ()" "checkVariables m E p = Some (Ok ())"
    using validProcesses_all by blast+
  have l: "links_paired p" using linted_links [OF assms(1) d assms(3)] assms(5) by auto
  show ?thesis using v l assms(2,5) validElement_Ok checkVariables_sound [OF v(3)] by (auto simp: sound_process_def keyed_processes_def)
qed

text \<open>C31. The recursion of the parser into sub-processes ends: a document, which is a finite tree, is
  parsed to a workflow, an error or a panic without running out of the depth it has, and the
  processes are in the workflow under their own ids, one for each id.\<close>

theorem parseDocument_returns:
  assumes "nested L height" "\<forall>xs. xl_SelectElements L (Some doc) ''//bpmn:process'' = Ok xs \<longrightarrow> (\<forall>x \<in> set xs. height x < depth)"
    "parseDocument depth L doc \<lparr> ps_wf = new_workflow name, ps_msgs = [], ps_errs = [] \<rparr> = (r, s)"
  shows "r \<noteq> Err None \<and> distinct (map fst (wf_Process (ps_wf s))) \<and> (\<forall>(k, p) \<in> set (wf_Process (ps_wf s)). pr_Id p = k)"
proof -
  have "orderly True (parseDocument depth L doc)" using assms(1,2) by (intro orderly_document) auto
  from this [unfolded orderly_def, rule_format, of "\<lparr> ps_wf = new_workflow name, ps_msgs = [], ps_errs = [] \<rparr>"]
  show ?thesis using assms(3) by (simp add: new_workflow_def keyed_processes_def)
qed

lemma Parse_OkE:
  assumes "Parse depth n m E L name rdr = Some (Ok wkf)"
  obtains doc s where "parseDocument depth L doc \<lparr> ps_wf = new_workflow name, ps_msgs = [], ps_errs = [] \<rparr> = (Ok (), s)"
    "checkParsed n m E (ps_wf s) = Some (Ok wkf)"
proof -
  let ?s = "\<lparr> ps_wf = new_workflow name, ps_msgs = [], ps_errs = [] \<rparr>"
  obtain doc where doc: "(case parseDocument depth L doc ?s of (Ok _, s) \<Rightarrow> checkParsed n m E (ps_wf s)
     | (Err None, _) \<Rightarrow> None | (Err (Some e), _) \<Rightarrow> Some (Err e) | (Panic, _) \<Rightarrow> Some Panic) = Some (Ok wkf)"
    using assms by (auto simp: Parse_def and_then_Ok)
  obtain r s where r: "parseDocument depth L doc ?s = (r, s)" by (cases "parseDocument depth L doc ?s")
  show thesis using doc that [of doc s] unfolding r by (cases r) (auto split: option.splits)
qed


end
