(* ===== verification/Witness_Parser.thy ===== *)
theory Witness_Parser
  imports Witness_Client BPMN_Parser
begin

text \<open>
  The sample workflow before the linter, the tagger and the check of variables, and a small document with a service
  task before the parser.
\<close>

section \<open>The sample workflow\<close>

definition rank0 :: "string \<Rightarrow> nat" where
  "rank0 i = (if i = ''start'' then 0 else if i = ''fork'' then 1 else if i = ''join'' then 3 else if i = ''end'' then 4 else 2)"

lemmas sample_elements = els0_def node_def edge_def pgate_def StartEvent_def Gateway_def ManualTask_def EndEvent_def

theorem Lint_verdict_witness:
  "ranges_ok E0 \<and> distinct (map fst (wf_Process wf0)) \<and> (\<exists>r. Lint E0 wf0 True = Some r \<and>
    (case r of
       Ok (m, err) \<Rightarrow> err = None \<longleftrightarrow> (\<forall>(k, p) \<in> set (wf_Process wf0). links_paired p)
     | Err e \<Rightarrow> \<exists>(k, p) \<in> set (wf_Process wf0). \<exists>s \<in> set (findProcessStarts p). \<exists>x.
         (leads (IndexProcessElements (pr_Elements p) []))\<^sup>*\<^sup>* s x \<and> dead_end (IndexProcessElements (pr_Elements p) []) x
     | Panic \<Rightarrow> \<exists>(k, p) \<in> set (wf_Process wf0). \<exists>s \<in> set (findProcessStarts p). \<exists>x.
         (leads (IndexProcessElements (pr_Elements p) []))\<^sup>*\<^sup>* s x \<and> dangling (IndexProcessElements (pr_Elements p) []) x))"
proof -
  have "distinct (map fst (wf_Process wf0))" by (simp add: wf0_def)
  then show ?thesis using Lint_verdict [of E0 wf0] by simp
qed

lemma taggable0: "taggable rank0 5 els0"
  by (simp add: taggable_def sample_elements rank0_def null_gateway_def outTargets_def element_id_def)


section \<open>The document\<close>

text \<open>A node is named by its text.  Attributes are nodes, as they are in paths.\<close>

definition children0 :: "string \<Rightarrow> string \<Rightarrow> string list" where
  "children0 n path = (case map_of
     [((''doc'', ''//bpmn:process''), [''P'']),
      ((''doc'', ''//bpmn:sequenceFlow'' @ with_id ''f1''), [''f1'']), ((''doc'', ''//bpmn:sequenceFlow'' @ with_id ''f2''), [''f2'']),
      ((''doc'', ''//*'' @ with_id ''t''), [''t'']), ((''doc'', ''//*'' @ with_id ''e''), [''e'']),
      ((''P'', ''*''), [''s'', ''f1'', ''t'', ''f2'', ''e'']),
      ((''s'', ''@id''), [''s'']), ((''t'', ''@id''), [''t'']), ((''e'', ''@id''), [''e'']),
      ((''s'', ''bpmn:outgoing''), [''f1'']), ((''t'', ''bpmn:outgoing''), [''f2'']),
      ((''f1'', ''@id''), [''f1'']), ((''f1'', ''@targetRef''), [''t'']), ((''f2'', ''@id''), [''f2'']), ((''f2'', ''@targetRef''), [''e'']),
      ((''t'', ''bpmn:extensionElements''), [''x'']), ((''x'', ''zeebe:taskDefinition/@type''), [''ship''])] (n, path)
    of Some xs \<Rightarrow> xs | None \<Rightarrow> [])"

definition kind0 :: "string \<Rightarrow> string" where
  "kind0 n = (if n = ''P'' then ''process'' else if n = ''s'' then ''startEvent'' else if n = ''t'' then ''serviceTask''
     else if n = ''e'' then ''endEvent'' else ''sequenceFlow'')"

definition xml0 :: "string xml_lib" where
  "xml0 = \<lparr> xl_Parse = (\<lambda>_. Ok ''doc''),
     xl_SelectElements = (\<lambda>n path. case n of None \<Rightarrow> Panic | Some x \<Rightarrow> Ok (children0 x path)),
     xl_SelectAttr = (\<lambda>n a. case n of None \<Rightarrow> Panic | Some x \<Rightarrow> Ok (if a = ''id'' then x else [])),
     xl_InnerText = (\<lambda>n. case n of None \<Rightarrow> Panic | Some x \<Rightarrow> Ok x),
     xl_Data = kind0, xl_NamespaceURI = (\<lambda>_. bpmnNS), xl_UnixNano = (\<lambda>_. Err ErrBadTimerEventDefinition) \<rparr>"

definition height0 :: "string \<Rightarrow> nat" where "height0 n = (if n = ''P'' then 1 else 0)"

lemma nested0: "nested xml0 height0"
  by (auto simp: nested_def xml0_def children0_def height0_def with_id_def split: if_splits)

lemma processes0: "\<forall>xs. xl_SelectElements xml0 (Some ''doc'') ''//bpmn:process'' = Ok xs \<longrightarrow> (\<forall>x \<in> set xs. height0 x < 2)"
  by (simp add: xml0_def children0_def height0_def with_id_def)

theorem parseDocument_returns_witness:
  "\<exists>r s. parseDocument 2 xml0 ''doc'' \<lparr> ps_wf = new_workflow ''flow'', ps_msgs = [], ps_errs = [] \<rparr> = (r, s) \<and>
     r \<noteq> Err None \<and> distinct (map fst (wf_Process (ps_wf s))) \<and> (\<forall>(k, p) \<in> set (wf_Process (ps_wf s)). pr_Id p = k)"
  using parseDocument_returns [OF nested0 processes0, of "''flow''"] by (meson surj_pair)

lemma parsed0: "case Parse 2 1 1 E0 xml0 ''flow'' [] of Some (Ok w) \<Rightarrow> map fst (wf_Process w) = [''P''] | _ \<Rightarrow> False"
  by code_simp


section \<open>The variables of the sample workflow\<close>

lemma index0: "IndexProcessElements els0 [] = map (\<lambda>e. (el_Id (el_data e), e)) els0"
  by (simp add: sample_elements)

lemma passes0:
  assumes "e \<in> set els0" "el_Type (el_data e) \<noteq> ''endEvent''"
  shows "\<exists>B' U ts. passes 5 E0 (IndexProcessElements els0 []) (el_Id (el_data e)) B B' U ts \<and> set ts \<subseteq> fst ` set (IndexProcessElements els0 [])"
  using assms unfolding index0 passes_def
  by (auto simp: sample_elements elementOutputs_def elementOutbounds_def elementExprs_def outTargets_def findConvergentGatewayOutputTransforms_def
      convergentPairs_def rangeMap_def putOut_def LinkIntermediateThrowEvent_def bind_res_def numeral_eq_Suc Let_def)

lemma passable0: "passable 5 E0 (IndexProcessElements (pr_Elements pr0) [])"
  unfolding passable_def
proof (intro allI impI)
  fix i e B assume "map_of (IndexProcessElements (pr_Elements pr0) []) i = Some e" and t: "el_Type (el_data e) \<noteq> ''endEvent''"
  then have "e \<in> set els0" "i = el_Id (el_data e)" by (auto simp: pr0_def index0 dest: map_of_SomeD)
  then show "\<exists>B' U ts. passes 5 E0 (IndexProcessElements (pr_Elements pr0) []) i B B' U ts \<and> set ts \<subseteq> fst ` set (IndexProcessElements (pr_Elements pr0) [])"
    using passes0 [OF _ t] by (simp add: pr0_def)
qed


section \<open>A process that the tagger does not leave\<close>

text \<open>The closing gateway is the head of a loop that an opening gateway of another type leads back to.\<close>

definition loop_gate :: "gateway_type \<Rightarrow> string \<Rightarrow> target list \<Rightarrow> element" where
  "loop_gate ty i ts = Elem ((node i Gateway ts)\<lparr> el_Gateway := Some (new_gateway ty) \<rparr>) None"

definition loop0 :: "element list" where
  "loop0 = [Elem (node ''s'' StartEvent [edge ''1'' ''g'']) None, loop_gate exclusive ''g'' [edge ''2'' ''x''],
     loop_gate inclusive ''x'' [edge ''3'' ''g'', edge ''4'' ''e''], Elem (node ''e'' EndEvent []) None]"

lemmas loop_defs = loop0_def loop_gate_def new_gateway_def node_def edge_def Gateway_def StartEvent_def EndEvent_def

definition loop1 :: "element list" where
  "loop1 = loop0[1 := Elem ((el_data (loop_gate exclusive ''g'' [edge ''2'' ''x'']))\<lparr> el_Gateway := Some ((new_gateway exclusive)\<lparr> gw_Direction := convergent \<rparr>) \<rparr>) None]"

lemma loop_search:
  defines "refs \<equiv> [(''g'', [''s'', ''x'']), (''x'', [''g'']), (''e'', [''x''])]"
  shows "recurseRecip n (el_data (loop1 ! 1)) (el_data (loop1 ! 1)) refs result 0 (IndexProcessElements loop1 []) = None \<and>
    recurseRecip n (el_data (loop1 ! 1)) (el_data (loop1 ! 2)) refs result 0 (IndexProcessElements loop1 []) = None"
proof (induction n arbitrary: result)
  case (Suc n)
  then show ?case
    by (cases n) (simp_all add: loop1_def loop_defs recipStep_def refs_def null_gateway_def)
qed simp

lemma tag_never_returns: "tagGateways n loop0 = None"
proof -
  have r: "getElementIdReferences loop0 = [(''g'', [''s'', ''x'']), (''x'', [''g'']), (''e'', [''x''])]"
    by (simp add: loop_defs getElementIdReferences_def outTargets_def alist_get_def)
  have d: "tagDirections (getElementIdReferences loop0) loop0 = Ok loop1"
    unfolding r by (simp add: loop1_def loop_defs tagDirection_def outTargets_def alist_get_def bind_res_def Let_def)
  have "tagReciprocal n (el_data (loop1 ! 1)) (getElementIdReferences loop0) loop1 = None"
    unfolding r tagReciprocal_def Let_def loop_search [THEN conjunct1] by simp
  then show ?thesis unfolding tagGateways_def Let_def d by (simp add: loop1_def loop_defs)
qed
end
