(* ===== verification/Spec2Isabelle.thy ===== *)
theory Spec2Isabelle
  imports Witness_Saga Witness_Parser
begin

text \<open>
  A verification development of the SHAR workflow engine, a Go server that runs BPMN workflows over
  NATS JetStream: key-value buckets hold its state, and a message stream drives it.

  \<^bold>\<open>The program.\<close>  A workflow is registered once and launched many times.  Launching
  (\<open>internal/server/workflow/operations.go\<close>) stores an execution and its process instances and
  publishes a traversal for every start event.  The engine (\<open>engine.go\<close>) consumes its own messages:
  a traversal starts an activity, an activity starts a job or completes, a completed job completes
  its activity, and a completed activity is traversed to the next ones.  Gateways (\<open>gateway.go\<close>)
  split and join the flow, messages (\<open>messages.go\<close>) meet the jobs that wait for them, compensation
  (\<open>compensation.go\<close>) undoes completed jobs, timers (\<open>timers.go\<close>) fire later, and the history
  (\<open>history.go\<close>) records what happened.

  \<^bold>\<open>How it is modelled.\<close>  An operation is a function from a world to a result and a world
  (\<open>Prelude\<close>): \<open>Ok\<close> a value, \<open>Err\<close> an error, or \<open>Panic\<close>.  The world (\<open>World\<close>) is a record with one
  field per bucket, the log of published messages, the consumers, the workflow cache, a counter
  of generated ids, a counter of clock readings, and a list that decides which of the next calls to
  NATS fail.  What the code calls and this repository does not contain is a field of the
  environment record: unique ids, the clock, the expression language, msgpack, SHA-256, JSON, the
  admission of the cache, and the order in which Go ranges over a map.  The theorems name what they
  need of it: \<open>fresh_ids\<close>, \<open>ranges_ok\<close>, \<open>codec_ok\<close>, and \<open>ns_ok\<close> for the name of the namespace.
  \<open>reliable\<close> says that no further call fails.

  \<^item> \<open>Prelude\<close>: results, operations, relations that operations respect (the locale \<open>step_rel\<close>),
    strings.
  \<^item> \<open>Model_Types\<close>: the records of \<open>proto/shar-workflow/models.proto\<close>, tracking ids (\<open>common/id.go\<close>),
    element tables (\<open>common/elementutil.go\<close>), errors (\<open>server/errors/errors.go\<close>).
  \<^item> \<open>KV_Store\<close>, \<open>World\<close>: a bucket with its revisions, the optimistic update loop and the locks of
    \<open>common/natsutil.go\<close>, with their contracts as locales; saving, loading, updating and searching.
  \<^item> \<open>Vars\<close>: \<open>server/vars/vars.go\<close>, \<open>internal/model/servervars.go\<close>, \<open>common/expression\<close>.
  \<^item> \<open>Entities\<close>, \<open>History\<close>, \<open>Task_Specs\<close>, \<open>Jobs\<close>, \<open>Launch\<close>: \<open>operations.go\<close>, \<open>history.go\<close> and
    \<open>taskspec.go\<close>; \<open>Base62\<close>: \<open>common/base62\<close>; \<open>Durations\<close>: \<open>client/parser/duration.go\<close>.
  \<^item> \<open>Traversal\<close>, \<open>Gateways\<close>, \<open>Compensation\<close>, \<open>Messages\<close>, \<open>Engine\<close>, \<open>Handlers\<close>: \<open>engine.go\<close>,
    \<open>gateway.go\<close>, \<open>compensation.go\<close>, \<open>messages.go\<close>, \<open>timers.go\<close>.
  \<^item> \<open>Registration\<close>: \<open>LoadWorkflow\<close> of \<open>operations.go\<close>, with everything that storing a workflow
    checks and writes, and the listings; \<open>Task_Validation\<close>: \<open>common/validation\<close>.
  \<^item> \<open>Api\<close>: \<open>server/api/functions.go\<close> and \<open>auth.go\<close>; \<open>Access\<close>: what the authorisation prevents;
    \<open>Listener\<close>: \<open>listener.go\<close> and the version check of \<open>common/setup/upgrader/patch.go\<close>.
  \<^item> \<open>Headers\<close>: \<open>common/header/header.go\<close>; \<open>Job_Processing\<close>: what executes a job, \<open>ClientProcessFn\<close> of
    \<open>internal/common/client/client.go\<close>; \<open>Client\<close>: the calls of \<open>client/client.go\<close> over
    \<open>internal/client/api/call.go\<close>, each named \<open>c_\<close> and its Go name; \<open>Backoff\<close>: \<open>client/backoff.go\<close>; \<open>Worker\<close>: the
    workers that \<open>listen\<close> starts; \<open>Mock\<close>: \<open>mock.go\<close>, which executes jobs in the server.
  \<^item> \<open>Linter\<close>: \<open>common/linter\<close>; \<open>Tagger\<close>: \<open>client/parser/tagger.go\<close>; \<open>Model_Validation\<close>: \<open>validation.go\<close> and the
    search for the outputs of gateway branches in \<open>parser.go\<close>; \<open>BPMN_Parser\<close>: \<open>zeebe.go\<close> and \<open>parser.go\<close>, from the
    document to the workflow that \<open>Parse\<close> returns.  The XML document is a parameter, the record \<open>xml_lib\<close>.
  \<^item> \<open>Dispatch\<close>: the consumers that \<open>StartProcessing\<close> sets up, and the step relation of a server that
    delivers any published message to any consumer that receives it, any number of times.
  \<^item> \<open>Saga\<close>: the whole of a compensation; \<open>Evolution\<close>: what no step of the server ever does.
  \<^item> \<open>Samples\<close>, \<open>Witnesses\<close>, \<open>Witness_Saga\<close>, \<open>Witness_Registration\<close>, \<open>Witness_Api\<close>, \<open>Witness_Client\<close>, \<open>Witness_Parser\<close>: a concrete environment and worlds, on which the theorems
    are applied.

  \<^bold>\<open>What is shown.\<close>  Each operation is followed on the branches that matter: what is published,
  on which subject and with which tracking id and variables, and what is stored or deleted.  Above
  that: the abstract exchange of messages is refined by the handlers, arrivals at a gateway and at
  an exchange commute, a compensation runs to its end, the optimistic update loop is atomic under
  any interference and returns once an attempt is undisturbed, and every run of the server keeps
  what \<open>Evolution\<close> states.  Registering a workflow stores it once and makes it launchable, validated
  task specifications never make a registration panic, and a request whose caller is not permitted
  changes nothing and returns nothing.  A task that a client executes runs through both programs:
  from its message, over two calls of the API, to the completion that the server publishes; when its
  retries are used up its message is gone for good, and the delay between two of them is the
  configured one within its bounds.  On the side of the parser: the linter gives a verdict on every workflow,
  and \<open>Lint_verdict\<close> says what each verdict means; the tagger finds the opening gateway of each closing one;
  the check of variables is the same as the absence of a way that uses a variable before it is put out; and a
  workflow that \<open>Parse\<close> returns has passed all of these.

  \<^bold>\<open>Bounds.\<close>  \<open>updateKV\<close> takes the number of attempts as fuel; the theorem on its return says
  how much is enough.  The scan of the linter and the walk of the check of variables have the number
  of elements and one as fuel, which is shown to be enough.  The search for an opening gateway has none of its own: it
  returns when the elements can be ranked along their connections and the fuel is above the ranks, and
  \<open>tag_never_returns\<close> is a process with a cycle where no fuel is enough.  The parser has the nesting depth of
  sub-processes, which the height of the document bounds.  The search for the outputs of branches has fuel that
  the theorems leave open: \<open>None\<close> is a search that needs more.  Other loops are recursions over finite data.  64-bit values that the code
  computes with are reduced by \<open>int64\<close> or bounded where a theorem needs it.

  \<^bold>\<open>What is left out.\<close>  JetStream is taken by its documentation: a bucket keeps the last value and
  the revision of a key, \<open>Create\<close> and \<open>Update\<close> are conditional, a call that fails has no effect.
  Messages are not deduplicated by their id.  The history is read completely before a compensation
  plan is made, and its consumer delivers in the order of publication.  Protocol buffers decode to
  what was encoded, and an absent map is an empty one.  Calendar arithmetic is in UTC, ties in a
  sort keep their order.  Handlers run one at a time: interference of several servers is modelled in
  the update loop and by redelivery, not inside a handler.  A write to an element of a cached
  workflow is modelled; the ids of its elements are taken to be unique, as they are while gateways are tagged and a process is scanned,
  where the code compares pointers and the model ids.  Of a parsed document message flows are not kept, and the
  text that lists undefined variables is not made.  Telemetry, logging,
  telemetry middleware and the command line tools are not modelled.  A client connects with the
  namespace of the environment and its acknowledgements reach NATS; the goroutine that extends their
  deadline, the heartbeat and functions registered with Go types are not represented, and the values
  of panics are errors.  A request is answered before the next one is made.  The functions
  that authenticate and authorise a caller belong to whoever runs the server and are parameters.
\<close>

section \<open>Pausing and retrying\<close>

text \<open>C23. A fatal error that pauses an activity can be retried: the error is stored and nothing is
  published; a retry with new variables publishes the stored state with them; handling it aborts
  the old job, starts the activity again below its parent, and deletes the stored error.\<close>

theorem pause_then_retry:
  assumes "reliable w" "ns_ok E" "fe_HandlingStrategy fe = Pause"
    and "state_fatal_key st = state_fatal_key (fe_WorkflowState fe)"
  shows "\<exists>w1 w2 w3 retry m abort again. processFatalError E fe w = (Ok (True, None), w1) \<and> published w1 = published w \<and>
     kv_get (kvFatalError w1) (state_fatal_key st) = Some fe \<and>
     RetryActivity E st w1 = (Ok (), w2) \<and> published w2 = published w @ [m] \<and>
     pm_Subject m = NS WorkflowJobRetry (e_ns E) \<and> state_of m = Some retry \<and>
     processJobRetry E retry w2 = (Ok (True, None), w3) \<and> published w3 = published w2 @ [abort, again] \<and>
     pm_Subject abort = NS WorkflowJobServiceTaskAbort (e_ns E) \<and>
     pm_Subject again = NS WorkflowTraversalExecute (e_ns E) \<and>
     (\<exists>s. state_of again = Some s \<and> ws_Id s = Pop (ws_Id (fe_WorkflowState fe)) \<and> ws_Vars s = ws_Vars st \<and>
          ws_ElementId s = ws_ElementId (fe_WorkflowState fe)) \<and>
     kv_get (kvFatalError w3) (state_fatal_key st) = None"
proof -
  let ?k = "state_fatal_key (fe_WorkflowState fe)"
  let ?w1 = "kvFatalError_update (kv_put ?k fe) w"
  let ?r = "(fe_WorkflowState fe)\<lparr> ws_Vars := ws_Vars st \<rparr>"
  let ?w2 = "pubW E (NS WorkflowJobRetry (e_ns E)) ?r no_opts ?w1"
  have 1: "processFatalError E fe w = (Ok (True, None), ?w1)"
    using assms by (simp add: processFatalError_def PersistFatalError_def bnd_apply handle_apply)
  have 2: "RetryActivity E st ?w1 = (Ok (), ?w2)"
    using assms by (simp add: RetryActivity_def bnd_apply handle_apply)
  have k: "state_fatal_key (s\<lparr> ws_Vars := v \<rparr>) = state_fatal_key s" "state_fatal_key (s\<lparr> ws_UnixTimeNano := t \<rparr>) = state_fatal_key s" for s v t
    by (simp_all add: state_fatal_key_def)
  let ?s1 = "?r\<lparr> ws_UnixTimeNano := clock E (ticks ?w1) \<rparr>"
  let ?w3 = "pubW E (NS WorkflowJobServiceTaskAbort (e_ns E)) ?s1 no_opts ?w2"
  let ?s2 = "?s1\<lparr> ws_UnixTimeNano := clock E (ticks ?w2) \<rparr>"
  let ?w4 = "pubW E (NS WorkflowTraversalExecute (e_ns E)) (?s2\<lparr> ws_Id := Pop (ws_Id ?s2) \<rparr>) no_opts ?w3"
  have 3: "processJobRetry E ?s1 ?w2 = (Ok (True, None), kvFatalError_update (kv_delete ?k) ?w4)"
    using assms by (simp add: processJobRetry_def orNak_def DeleteFatalError_def bnd_apply handle_apply k)
  show ?thesis
    using assms 1 2 3
    by (intro exI [of _ ?w1] exI [of _ ?w2] exI [of _ "kvFatalError_update (kv_delete ?k) ?w4"] exI [of _ ?s1])
       (simp add: state_of_def state_msg_def NS_subjects_idem)
qed

theorem pause_then_retry_witness:
  "\<exists>w1 w2 w3 retry. processFatalError E0 torn running = (Ok (True, None), w1) \<and> RetryActivity E0 (act0\<lparr> ws_Vars := order_key \<rparr>) w1 = (Ok (), w2) \<and>
     processJobRetry E0 retry w2 = (Ok (True, None), w3) \<and> length (published w3) = length (published running) + 3"
proof -
  have h: "fe_HandlingStrategy torn = Pause" "state_fatal_key (act0\<lparr> ws_Vars := order_key \<rparr>) = state_fatal_key (fe_WorkflowState torn)"
    by (simp_all add: torn_def state_fatal_key_def)
  obtain w1 w2 w3 retry m a b where "processFatalError E0 torn running = (Ok (True, None), w1)"
    "RetryActivity E0 (act0\<lparr> ws_Vars := order_key \<rparr>) w1 = (Ok (), w2)" "published w2 = published running @ [m]"
    "processJobRetry E0 retry w2 = (Ok (True, None), w3)" "published w3 = published w2 @ [a, b]"
    using pause_then_retry [OF registered_reliable(2) E0_ok(4) h] by blast
  then show ?thesis by (intro exI [of _ w1] exI [of _ w2] exI [of _ w3] exI [of _ retry]) simp
qed

end
